(* ===== verification/Go_Prelude.thy ===== *)
theory Go_Prelude
  imports Complex_Main "HOL-Library.Word"
begin

text \<open>
  What the components share: the part of the Go language and of its standard library that the
  engine uses. Strings are byte sequences (\<^typ>\<open>string\<close>); \<open>time.Time\<close> and
  \<open>time.Duration\<close> are nanosecond counts; an \<open>error\<close> value is a message together with
  the sentinel errors that \<open>errors.Is\<close> finds in its chain; a nil error is \<^term>\<open>None\<close>.
  The rendering functions (\<open>strconv.Itoa\<close>, \<open>%q\<close>, \<open>Duration.String\<close>,
  \<open>Time.Format\<close>) are defined so that messages are the strings the code builds.
\<close>

named_theorems go_defs \<open>definitions of the model's plain operations\<close>
named_theorems go_inv \<open>invariant preservation facts\<close>

type_synonym time = int
type_synonym duration = int
type_synonym bytes = string

section \<open>Durations and instants\<close>

definition Millisecond :: duration where "Millisecond = 1000000"
definition Second :: duration where "Second = 1000000000"
definition Minute :: duration where "Minute = 60000000000"
definition Hour :: duration where "Hour = 3600000000000"

lemmas duration_units = Millisecond_def Second_def Minute_def Hour_def

definition max_duration :: duration where "max_duration = 9223372036854775807"
definition min_duration :: duration where "min_duration = - 9223372036854775808"

text \<open>\<open>Time.Sub\<close> saturates at the bounds of a 64-bit duration.\<close>

definition time_Sub :: "time \<Rightarrow> time \<Rightarrow> duration" where
  "time_Sub t u = max min_duration (min max_duration (t - u))"

definition time_Add :: "time \<Rightarrow> duration \<Rightarrow> time" where
  "time_Add t d = t + d"

definition time_Before :: "time \<Rightarrow> time \<Rightarrow> bool" where
  "time_Before t u \<longleftrightarrow> t < u"

definition time_After :: "time \<Rightarrow> time \<Rightarrow> bool" where
  "time_After t u \<longleftrightarrow> u < t"

text \<open>The zero \<open>time.Time\<close> (1 January of year 1, UTC) is the origin of the time line.\<close>

definition zero_time :: time where "zero_time = 0"

text \<open>\<open>Time.UnixNano\<close>: nanoseconds from 1 January 1970.\<close>

definition UnixNano :: "time \<Rightarrow> int" where "UnixNano t = t - 62135596800000000000"

lemmas time_defs = time_Add_def time_Before_def time_After_def zero_time_def

text \<open>Saturation is invisible to a comparison with a duration inside the 64-bit range.\<close>

lemma time_Sub_less [simp]:
  "min_duration < d \<Longrightarrow> d \<le> max_duration \<Longrightarrow> time_Sub t u < d \<longleftrightarrow> t - u < d"
  by (auto simp: time_Sub_def max_def min_def)

lemma time_Sub_le [simp]:
  "min_duration \<le> d \<Longrightarrow> d < max_duration \<Longrightarrow> time_Sub t u \<le> d \<longleftrightarrow> t - u \<le> d"
  by (auto simp: time_Sub_def max_def min_def)

section \<open>Rendering\<close>

text \<open>The decimal digits of a non-negative number.\<close>

function digits :: "int \<Rightarrow> string" where
  "digits n = (if n < 10 then [char_of (48 + n)] else digits (n div 10) @ [char_of (48 + n mod 10)])"
  by pat_completeness auto
termination
  by (relation "measure nat") auto

declare digits.simps [simp del]

definition itoa :: "int \<Rightarrow> string" where
  "itoa i = (if i < 0 then ''-'' @ digits (- i) else digits i)"

definition pad_zero :: "nat \<Rightarrow> string \<Rightarrow> string" where
  "pad_zero k s = replicate (k - length s) CHR ''0'' @ s"

definition hex_digit :: "nat \<Rightarrow> char" where
  "hex_digit n = (if n < 10 then char_of (48 + n) else char_of (87 + n))"

definition hex_byte :: "char \<Rightarrow> string" where
  "hex_byte c = (let n = of_char c :: nat in [hex_digit (n div 16), hex_digit (n mod 16)])"

text \<open>\<open>hex.EncodeToString\<close>\<close>

definition hex_EncodeToString :: "bytes \<Rightarrow> string" where
  "hex_EncodeToString bs = concat (map hex_byte bs)"

text \<open>\<open>%q\<close> on a string of printable runes: quotes, backslashes and control bytes are escaped.\<close>

definition quote_char :: "char \<Rightarrow> string" where
  "quote_char c =
     (let n = of_char c :: nat in
      if n = 34 then [char_of (92::nat), char_of (34::nat)]
      else if n = 92 then [char_of (92::nat), char_of (92::nat)]
      else if n = 7 then char_of (92::nat) # ''a''
      else if n = 8 then char_of (92::nat) # ''b''
      else if n = 9 then char_of (92::nat) # ''t''
      else if n = 10 then char_of (92::nat) # ''n''
      else if n = 11 then char_of (92::nat) # ''v''
      else if n = 12 then char_of (92::nat) # ''f''
      else if n = 13 then char_of (92::nat) # ''r''
      else if n < 32 \<or> n = 127 then char_of (92::nat) # ''x'' @ hex_byte c
      else [c])"

definition fmt_q :: "string \<Rightarrow> string" where
  "fmt_q s = [char_of (34::nat)] @ concat (map quote_char s) @ [char_of (34::nat)]"

text \<open>A fraction \<open>v / 10^k\<close> without trailing zeros, with its leading dot (\<open>fmtFrac\<close>).\<close>

definition strip_trailing_zeros :: "string \<Rightarrow> string" where
  "strip_trailing_zeros s = rev (dropWhile (\<lambda>c. c = CHR ''0'') (rev s))"

definition fmt_frac :: "int \<Rightarrow> nat \<Rightarrow> string" where
  "fmt_frac v k =
     (let d = strip_trailing_zeros (pad_zero k (digits (v mod 10 ^ k)))
      in if d = [] then [] else ''.'' @ d)"

text \<open>\<open>Duration.String\<close>\<close>

definition fmt_duration :: "duration \<Rightarrow> string" where
  "fmt_duration d =
     (let u = \<bar>d\<bar>; sign = (if d < 0 then ''-'' else '''') in
      if u = 0 then ''0s''
      else if u < 1000 then sign @ digits u @ ''ns''
      else if u < 1000000 then sign @ digits (u div 1000) @ fmt_frac u 3 @ [char_of (194::nat), char_of (181::nat)] @ ''s''
      else if u < 1000000000 then sign @ digits (u div 1000000) @ fmt_frac u 6 @ ''ms''
      else
        (let secs = u div 1000000000; mins = secs div 60; hrs = mins div 60;
             tail = digits (secs mod 60) @ fmt_frac u 9 @ ''s'' in
         sign @ (if hrs > 0 then digits hrs @ ''h'' @ digits (mins mod 60) @ ''m'' @ tail
                 else if mins > 0 then digits mins @ ''m'' @ tail
                 else tail)))"

text \<open>\<open>Duration.Round\<close>: to the nearest multiple, halfway values away from zero.\<close>

definition duration_Round :: "duration \<Rightarrow> duration \<Rightarrow> duration" where
  "duration_Round d m =
     (if m \<le> 0 then d
      else (let r = \<bar>d\<bar> mod m in sgn d * (if r + r < m then \<bar>d\<bar> - r else \<bar>d\<bar> - r + m)))"

text \<open>
  Civil date of a day count from 1 January of year 1 (proleptic Gregorian calendar), by the
  era decomposition with years that start in March.
\<close>

definition civil_of_days :: "int \<Rightarrow> int \<times> int \<times> int" where
  "civil_of_days days =
     (let z = days + 306; era = z div 146097; doe = z mod 146097;
          yoe = (doe - doe div 1460 + doe div 36524 - doe div 146096) div 365;
          doy = doe - (365 * yoe + yoe div 4 - yoe div 100);
          mp = (5 * doy + 2) div 153;
          dd = doy - (153 * mp + 2) div 5 + 1;
          mm = (if mp < 10 then mp + 3 else mp - 9);
          yy = yoe + era * 400 + (if mm \<le> 2 then 1 else 0)
      in (yy, mm, dd))"

definition fmt_rfc3339_with :: "(int \<Rightarrow> string) \<Rightarrow> time \<Rightarrow> string" where
  "fmt_rfc3339_with fracf t =
     (let secs = t div 1000000000; ns = t mod 1000000000;
          (yy, mm, dd) = civil_of_days (secs div 86400); sod = secs mod 86400
      in pad_zero 4 (itoa yy) @ ''-'' @ pad_zero 2 (itoa mm) @ ''-'' @ pad_zero 2 (itoa dd) @ ''T''
         @ pad_zero 2 (digits (sod div 3600)) @ '':'' @ pad_zero 2 (digits (sod div 60 mod 60))
         @ '':'' @ pad_zero 2 (digits (sod mod 60)) @ fracf ns @ ''Z'')"

text \<open>\<open>UTC().Format(time.RFC3339)\<close> and \<open>UTC().Format(time.RFC3339Nano)\<close>\<close>

definition fmt_RFC3339 :: "time \<Rightarrow> string" where
  "fmt_RFC3339 = fmt_rfc3339_with (\<lambda>_. [])"

definition fmt_RFC3339Nano :: "time \<Rightarrow> string" where
  "fmt_RFC3339Nano = fmt_rfc3339_with (\<lambda>ns. fmt_frac ns 9)"

section \<open>Errors\<close>

text \<open>
  The sentinel errors of the packages. An error built with \<open>%w\<close> keeps the sentinels of the
  error it wraps; \<open>errors.Is\<close> looks for a sentinel in the chain.
\<close>

datatype sentinel =
    ErrRunbookNotFound | ErrPreconditionFail | ErrPostconditionFail | ErrActionFailed | ErrLockFailed
  | ErrLockHeld | ErrLockReleased
  | ErrBlastRadiusExceeded | ErrExecutionTimedOut | ErrInvalidAction
  | ErrCatalogNotFound
  | EWOULDBLOCK | EPERM | ESRCH | ErrNotExist

record goerror =
  err_is :: "sentinel list"
  err_msg :: string

definition errorf :: "string \<Rightarrow> goerror" where
  "errorf m = \<lparr>err_is = [], err_msg = m\<rparr>"

definition wrapf :: "string \<Rightarrow> goerror \<Rightarrow> string \<Rightarrow> goerror" where
  "wrapf before e after = \<lparr>err_is = err_is e, err_msg = before @ err_msg e @ after\<rparr>"

definition errors_Is :: "goerror \<Rightarrow> sentinel \<Rightarrow> bool" where
  "errors_Is e s \<longleftrightarrow> s \<in> set (err_is e)"

definition fmt_err :: "goerror option \<Rightarrow> string" where
  "fmt_err e = (case e of None \<Rightarrow> ''<nil>'' | Some x \<Rightarrow> err_msg x)"

lemma errors_Is_wrapf [simp]: "errors_Is (wrapf b e a) s = errors_Is e s"
  by (simp add: errors_Is_def wrapf_def)

lemma errors_Is_errorf [simp]: "\<not> errors_Is (errorf m) s"
  by (simp add: errors_Is_def errorf_def)

section \<open>Lists\<close>

lemma set_dropE:
  assumes "x \<in> set (drop k xs)"
  obtains j where "x = xs ! (k + j)" "k + j < length xs"
proof -
  obtain j where "j < length (drop k xs)" "x = drop k xs ! j"
    using assms by (auto simp: in_set_conv_nth)
  then have "x = xs ! (k + j)" "k + j < length xs" by auto
  then show thesis by (rule that)
qed

end
