(* ===== verification/Damping.thy ===== *)
theory Damping
  imports Go_Prelude
begin

text \<open>
  \<open>internal/damping/damping.go\<close>: the flapping damping controller. \<open>Controller\<close> keeps one
  \<open>ResourceState\<close> per resource and mirrors the map into a state file. Every call of the clock
  is an argument: \<open>now\<close> is the reading at the start of \<open>CanExecute\<close> and \<open>tnow\<close> the
  one \<open>tripLocked\<close> takes. The state file is kept up to \<open>json.Unmarshal\<close>: \<open>Doc m\<close>
  is a file whose text decodes to the map \<open>m\<close>, \<open>Garbage\<close> one that does not decode.
  A \<open>save_io\<close> value says which system call of one \<open>saveLocked\<close> fails.
\<close>

section \<open>Constants and data\<close>

definition MaxExecutions10Min :: nat where "MaxExecutions10Min = 2"
definition MaxExecutions1Hour :: nat where "MaxExecutions1Hour = 4"
definition DefaultCooldown :: duration where "DefaultCooldown = 300 * Second"
definition DefaultQuarantineDuration :: duration where "DefaultQuarantineDuration = 3600 * Second"
definition Window10Min :: duration where "Window10Min = 10 * Minute"
definition Window1Hour :: duration where "Window1Hour = 1 * Hour"

lemmas damping_consts =
  MaxExecutions10Min_def MaxExecutions1Hour_def DefaultCooldown_def DefaultQuarantineDuration_def
  Window10Min_def Window1Hour_def duration_units

record ResourceState =
  rsResource :: string
  rsExecutions :: "time list"
  rsTripped :: bool
  rsQuarantineUntil :: time
  rsTripReason :: string

datatype state_doc = Doc "string \<rightharpoonup> ResourceState" | Garbage

record Controller =
  statePath :: string
  states :: "string \<rightharpoonup> ResourceState"
  stateFile :: "state_doc option"
  tmpFile :: "state_doc option"

text \<open>The outcome of the three system calls of one save.\<close>

datatype save_io = SaveOk | MkdirFails | WriteFails | RenameFails

section \<open>Persistence\<close>

definition load :: "state_doc option \<Rightarrow> bool \<Rightarrow> Controller \<Rightarrow> goerror option \<times> Controller" where
  "load file readable c =
     (case file of
        None \<Rightarrow> (None, c)
      | Some doc \<Rightarrow>
          if \<not> readable then (Some (errorf ''read error''), c)
          else (case doc of
                  Garbage \<Rightarrow> (Some (errorf ''malformed damping state''), c)
                | Doc loaded \<Rightarrow> (None, c\<lparr>states := loaded\<rparr>)))"

definition NewController :: "string \<Rightarrow> state_doc option \<Rightarrow> bool \<Rightarrow> goerror + Controller" where
  "NewController path file readable =
     (let c = \<lparr>statePath = path, states = Map.empty, stateFile = file, tmpFile = None\<rparr> in
      if path \<noteq> ''''
      then (case load file readable c of
              (Some e, _) \<Rightarrow> Inl (wrapf ''failed to load damping state: '' e '''')
            | (None, c') \<Rightarrow> Inr c')
      else Inr c)"

definition saveLocked :: "save_io \<Rightarrow> Controller \<Rightarrow> goerror option \<times> Controller" where
  "saveLocked io c =
     (if statePath c = '''' then (None, c)
      else case io of
        MkdirFails \<Rightarrow> (Some (errorf ''mkdir failed''), c)
      | WriteFails \<Rightarrow> (Some (errorf ''write failed''), c\<lparr>tmpFile := Some Garbage\<rparr>)
      | RenameFails \<Rightarrow> (Some (errorf ''rename failed''), c\<lparr>tmpFile := Some (Doc (states c))\<rparr>)
      | SaveOk \<Rightarrow> (None, c\<lparr>stateFile := Some (Doc (states c)), tmpFile := None\<rparr>))"

definition saved :: "save_io \<Rightarrow> Controller \<Rightarrow> Controller" where
  "saved io c = snd (saveLocked io c)"

section \<open>Operations\<close>

definition tripLocked :: "time \<Rightarrow> Controller \<Rightarrow> string \<Rightarrow> duration \<Rightarrow> string \<Rightarrow> Controller" where
  "tripLocked tnow c resource quarantineDuration reason =
     (let st = (case states c resource of
                  Some st \<Rightarrow> st
                | None \<Rightarrow> \<lparr>rsResource = resource, rsExecutions = [], rsTripped = False,
                           rsQuarantineUntil = zero_time, rsTripReason = ''''\<rparr>)
      in c\<lparr>states := (states c)(resource \<mapsto>
             st\<lparr>rsTripped := True, rsQuarantineUntil := time_Add tnow quarantineDuration,
                rsTripReason := reason\<rparr>)\<rparr>)"

fun countWithin :: "time \<Rightarrow> duration \<Rightarrow> time list \<Rightarrow> nat" where
  "countWithin now window [] = 0"
| "countWithin now window (t # ts) =
     (if time_Sub now t \<le> window then Suc (countWithin now window ts) else countWithin now window ts)"

definition reason_quarantined :: "string \<Rightarrow> ResourceState \<Rightarrow> string" where
  "reason_quarantined resource st =
     ''FLAP_DAMPING_BREACH: resource '' @ fmt_q resource @ '' quarantined until ''
     @ fmt_RFC3339 (rsQuarantineUntil st) @ '' (reason: '' @ rsTripReason st @ '')''"

definition reason_cooldown :: "string \<Rightarrow> duration \<Rightarrow> string" where
  "reason_cooldown resource elapsed =
     ''FLAP_DAMPING_BREACH: cooldown violation for '' @ fmt_q resource @ '': elapsed ''
     @ fmt_duration (duration_Round elapsed Millisecond) @ '' < '' @ fmt_duration DefaultCooldown"

definition reason_10m :: "string \<Rightarrow> nat \<Rightarrow> string" where
  "reason_10m resource n =
     ''FLAP_DAMPING_BREACH: 10-minute execution limit reached for '' @ fmt_q resource @ '': ''
     @ itoa (int n) @ '' executions in last 10m (max '' @ itoa (int MaxExecutions10Min) @ '')''"

definition reason_1h :: "string \<Rightarrow> nat \<Rightarrow> string" where
  "reason_1h resource n =
     ''FLAP_DAMPING_BREACH: 1-hour execution limit reached for '' @ fmt_q resource @ '': ''
     @ itoa (int n) @ '' executions in last 1h (max '' @ itoa (int MaxExecutions1Hour) @ '')''"

text \<open>A breach found by one of the three rate checks: trip, save, refuse.\<close>

definition breach ::
    "time \<Rightarrow> save_io \<Rightarrow> Controller \<Rightarrow> string \<Rightarrow> string \<Rightarrow> (bool \<times> string) \<times> Controller" where
  "breach tnow io c resource reason =
     ((False, reason), saved io (tripLocked tnow c resource DefaultQuarantineDuration reason))"

definition checkRates ::
    "time \<Rightarrow> time \<Rightarrow> save_io \<Rightarrow> Controller \<Rightarrow> string \<Rightarrow> time list \<Rightarrow> (bool \<times> string) \<times> Controller" where
  "checkRates now tnow io c resource executions =
     (if executions \<noteq> [] \<and> time_Sub now (last executions) < DefaultCooldown
      then breach tnow io c resource (reason_cooldown resource (time_Sub now (last executions)))
      else let count10m = countWithin now Window10Min executions in
      if count10m \<ge> MaxExecutions10Min
      then breach tnow io c resource (reason_10m resource count10m)
      else let count1h = countWithin now Window1Hour executions in
      if count1h \<ge> MaxExecutions1Hour
      then breach tnow io c resource (reason_1h resource count1h)
      else ((True, ''''), c))"

definition CanExecute ::
    "time \<Rightarrow> time \<Rightarrow> save_io \<Rightarrow> save_io \<Rightarrow> Controller \<Rightarrow> string \<Rightarrow> (bool \<times> string) \<times> Controller" where
  "CanExecute now tnow io1 io2 c resource =
     (case states c resource of
        None \<Rightarrow> ((True, ''''), c)
      | Some st \<Rightarrow>
          if rsTripped st \<and> time_Before now (rsQuarantineUntil st)
          then ((False, reason_quarantined resource st), c)
          else if rsTripped st
          then let st' = st\<lparr>rsTripped := False, rsQuarantineUntil := zero_time, rsTripReason := ''''\<rparr>;
                   c' = saved io1 (c\<lparr>states := (states c)(resource \<mapsto> st')\<rparr>)
               in checkRates now tnow io2 c' resource (rsExecutions st')
          else checkRates now tnow io2 c resource (rsExecutions st))"

definition RecordExecutionAt :: "save_io \<Rightarrow> Controller \<Rightarrow> string \<Rightarrow> time \<Rightarrow> Controller" where
  "RecordExecutionAt io c resource t =
     (let st = (case states c resource of
                  Some st \<Rightarrow> st
                | None \<Rightarrow> \<lparr>rsResource = resource, rsExecutions = [], rsTripped = False,
                           rsQuarantineUntil = zero_time, rsTripReason = ''''\<rparr>);
          cutoff = time_Add t (- (24 * Hour));
          pruned = filter (\<lambda>execTime. time_After execTime cutoff) (rsExecutions st @ [t])
      in saved io (c\<lparr>states := (states c)(resource \<mapsto> st\<lparr>rsExecutions := pruned\<rparr>)\<rparr>))"

definition RecordExecution :: "time \<Rightarrow> save_io \<Rightarrow> Controller \<Rightarrow> string \<Rightarrow> Controller" where
  "RecordExecution now io c resource = RecordExecutionAt io c resource now"

definition Trip :: "time \<Rightarrow> save_io \<Rightarrow> Controller \<Rightarrow> string \<Rightarrow> duration \<Rightarrow> Controller" where
  "Trip tnow io c resource quarantineDuration =
     (let d = (if quarantineDuration \<le> 0 then DefaultQuarantineDuration else quarantineDuration)
      in saved io (tripLocked tnow c resource d (''manually tripped quarantine for '' @ fmt_duration d)))"

definition Reset :: "save_io \<Rightarrow> Controller \<Rightarrow> string \<Rightarrow> Controller" where
  "Reset io c resource = saved io (c\<lparr>states := (states c)(resource := None)\<rparr>)"

definition GetStatus :: "Controller \<Rightarrow> string \<Rightarrow> ResourceState option" where
  "GetStatus c resource = states c resource"

definition GetAllStatuses :: "Controller \<Rightarrow> (string \<rightharpoonup> ResourceState)" where
  "GetAllStatuses c = (\<lambda>k. case states c k of None \<Rightarrow> None | Some st \<Rightarrow> Some st)"

section \<open>Sliding windows\<close>

text \<open>
  The contract of one rate equation: an event is admitted only while fewer than \<open>limit\<close> of
  the earlier ones lie within \<open>window\<close> of the admission time. A log of admitted events is
  then \<open>spaced\<close>: an event and the one \<open>limit\<close> places later are more than
  \<open>window\<close> apart, so no interval of that length holds more than \<open>limit\<close> events.
\<close>

locale sliding_window =
  fixes window :: int and limit :: nat
  assumes limit_pos: "0 < limit"
begin

definition recent :: "int \<Rightarrow> int list \<Rightarrow> nat" where
  "recent now xs = length (filter (\<lambda>t. now - t \<le> window) xs)"

definition spaced :: "int list \<Rightarrow> bool" where
  "spaced xs \<longleftrightarrow> (\<forall>i. i + limit < length xs \<longrightarrow> window < xs ! (i + limit) - xs ! i)"

lemma recent_Nil [simp]: "recent now [] = 0"
  by (simp add: recent_def)

lemma spaced_Nil: "spaced []"
  by (simp add: spaced_def)

lemma recent_drop:
  assumes "\<forall>x\<in>set (drop k xs). now - x \<le> window"
  shows "length xs - k \<le> recent now xs"
proof -
  have "filter (\<lambda>t. now - t \<le> window) (drop k xs) = drop k xs"
    using assms by (simp add: filter_id_conv)
  then have "recent now xs = length (filter (\<lambda>t. now - t \<le> window) (take k xs)) + (length xs - k)"
    unfolding recent_def by (metis append_take_drop_id filter_append length_append length_drop)
  then show ?thesis by simp
qed

lemma spaced_snoc:
  assumes sp: "spaced xs" and so: "sorted xs" and adm: "recent now xs < limit" and le: "now \<le> t"
  shows "spaced (xs @ [t])"
  unfolding spaced_def
proof (intro allI impI)
  fix i assume i: "i + limit < length (xs @ [t])"
  show "window < (xs @ [t]) ! (i + limit) - (xs @ [t]) ! i"
  proof (cases "i + limit < length xs")
    case True
    then show ?thesis using sp by (simp add: spaced_def nth_append)
  next
    case False
    with i limit_pos have il: "i + limit = length xs" "i < length xs" by auto
    show ?thesis
    proof (rule ccontr)
      assume neg: "\<not> ?thesis"
      have "now - x \<le> window" if mem: "x \<in> set (drop i xs)" for x
      proof -
        obtain j where j: "x = xs ! (i + j)" "i + j < length xs"
          using mem by (rule set_dropE)
        have "xs ! i \<le> x" unfolding j(1) by (rule sorted_nth_mono [OF so]) (use j in auto)
        then show ?thesis using neg le il by (simp add: nth_append)
      qed
      then have "length xs - i \<le> recent now xs" by (intro recent_drop) auto
      with il adm show False by simp
    qed
  qed
qed

text \<open>The reading as a rate: an interval \<open>[a, a + window]\<close> holds at most \<open>limit\<close> events.\<close>

lemma spaced_rate:
  assumes sp: "spaced xs" and so: "sorted xs"
  shows "length (filter (\<lambda>t. a \<le> t \<and> t \<le> a + window) xs) \<le> limit"
  using assms
proof (induction xs)
  case (Cons x xs)
  have sp': "spaced xs" unfolding spaced_def
  proof (intro allI impI)
    fix i assume "i + limit < length xs"
    then show "window < xs ! (i + limit) - xs ! i"
      using Cons.prems(1) unfolding spaced_def by (auto dest: spec [of _ "Suc i"])
  qed
  note IH = Cons.IH [OF sp']
  show ?case
  proof (cases "a \<le> x \<and> x \<le> a + window")
    case False
    then show ?thesis using IH Cons.prems(2) by auto
  next
    case True
    let ?P = "\<lambda>t. a \<le> t \<and> t \<le> a + window"
    have "filter ?P (x # xs) = filter ?P (take limit (x # xs)) @ filter ?P (drop limit (x # xs))"
      by (metis append_take_drop_id filter_append)
    moreover have "filter ?P (drop limit (x # xs)) = []"
    proof (rule filter_False, rule ballI)
      fix y assume "y \<in> set (drop limit (x # xs))"
      then obtain j where j: "y = (x # xs) ! (limit + j)" "limit + j < length (x # xs)"
        by (rule set_dropE)
      have "window < (x # xs) ! (0 + limit) - (x # xs) ! 0"
        using Cons.prems(1) j(2) unfolding spaced_def by (metis add.left_neutral add_lessD1)
      moreover have "(x # xs) ! limit \<le> y"
        unfolding j(1) by (rule sorted_nth_mono [OF Cons.prems(2)]) (use j in auto)
      ultimately show "\<not> ?P y" using True by auto
    qed
    ultimately have "length (filter ?P (x # xs)) \<le> length (take limit (x # xs))"
      by (simp add: le_trans [OF length_filter_le] del: filter.simps take_Cons')
    then show ?thesis by simp
  qed
qed simp

end

interpretation win10: sliding_window Window10Min MaxExecutions10Min
  by unfold_locales (simp add: MaxExecutions10Min_def)

interpretation win60: sliding_window Window1Hour MaxExecutions1Hour
  by unfold_locales (simp add: MaxExecutions1Hour_def)

section \<open>What the operations do to the executions of a resource\<close>

definition execs :: "Controller \<Rightarrow> string \<Rightarrow> time list" where
  "execs c r = (case states c r of None \<Rightarrow> [] | Some st \<Rightarrow> rsExecutions st)"

lemma saved_states [simp]: "states (saved io c) = states c" "statePath (saved io c) = statePath c"
  by (auto simp: saved_def saveLocked_def split: save_io.splits)

lemma tripLocked_states:
  "states (tripLocked tnow c r d why) x =
     (if x = r then Some \<lparr>rsResource = (case states c r of None \<Rightarrow> r | Some st \<Rightarrow> rsResource st),
        rsExecutions = execs c r, rsTripped = True, rsQuarantineUntil = tnow + d, rsTripReason = why\<rparr>
      else states c x)"
  by (auto simp: tripLocked_def Let_def execs_def time_defs split: option.splits)

lemma tripLocked_execs [simp]: "execs (tripLocked tnow c r d why) x = execs c x"
  by (simp add: execs_def tripLocked_states)

lemma saved_execs [simp]: "execs (saved io c) x = execs c x"
  by (simp add: execs_def)

lemma breach_facts [simp]:
  "fst (breach tnow io c r why) = (False, why)"
  "states (snd (breach tnow io c r why)) = states (tripLocked tnow c r DefaultQuarantineDuration why)"
  by (simp_all add: breach_def)

lemma checkRates_execs [simp]: "execs (snd (checkRates now tnow io c r es)) x = execs c x"
  by (simp add: checkRates_def breach_def Let_def)

lemma CanExecute_execs [simp]: "execs (snd (CanExecute now tnow io1 io2 c r)) x = execs c x"
proof -
  have "execs (c\<lparr>states := (states c)(r \<mapsto> st\<lparr>rsTripped := b, rsQuarantineUntil := q, rsTripReason := w\<rparr>)\<rparr>) x
        = execs c x" if "states c r = Some st" for st b q w
    using that by (simp add: execs_def)
  then show ?thesis
    by (simp add: CanExecute_def Let_def split: option.split)
qed

lemma RecordExecutionAt_execs:
  "execs (RecordExecutionAt io c r t) x =
     (if x = r then filter (\<lambda>e. t - 24 * Hour < e) (execs c r @ [t]) else execs c x)"
  by (auto simp: RecordExecutionAt_def execs_def Let_def time_defs split: option.splits)

lemma Trip_execs [simp]: "execs (Trip tnow io c r d) x = execs c x"
  by (simp add: Trip_def Let_def)

lemma Reset_execs: "execs (Reset io c r) x = (if x = r then [] else execs c x)"
  by (simp add: Reset_def execs_def)

section \<open>What \<open>CanExecute\<close> decides\<close>

lemma countWithin_filter:
  "min_duration \<le> w \<Longrightarrow> w < max_duration \<Longrightarrow> countWithin now w xs = length (filter (\<lambda>t. now - t \<le> w) xs)"
  by (induction xs) auto

lemma window_range:
  "min_duration \<le> Window10Min" "Window10Min < max_duration"
  "min_duration \<le> Window1Hour" "Window1Hour < max_duration"
  by (simp_all add: damping_consts min_duration_def max_duration_def)

lemma limits_pos [simp]:
  "0 < MaxExecutions10Min" "0 < MaxExecutions1Hour" "MaxExecutions10Min \<noteq> 0" "MaxExecutions1Hour \<noteq> 0"
  by (simp_all add: damping_consts)

lemma countWithin_recent [simp]:
  "countWithin now Window10Min xs = win10.recent now xs"
  "countWithin now Window1Hour xs = win60.recent now xs"
  using window_range by (simp_all add: countWithin_filter win10.recent_def win60.recent_def)

lemma cooldown_cmp [simp]: "time_Sub now t < DefaultCooldown \<longleftrightarrow> now - t < DefaultCooldown"
  by (rule time_Sub_less) (simp_all add: damping_consts min_duration_def max_duration_def)

definition quarantined :: "time \<Rightarrow> Controller \<Rightarrow> string \<Rightarrow> bool" where
  "quarantined now c r = (case states c r of None \<Rightarrow> False | Some st \<Rightarrow> rsTripped st \<and> now < rsQuarantineUntil st)"

text \<open>The three rate equations, over the executions recorded for the resource.\<close>

definition within_rates :: "time \<Rightarrow> time list \<Rightarrow> bool" where
  "within_rates now es \<longleftrightarrow>
     (es \<noteq> [] \<longrightarrow> DefaultCooldown \<le> now - last es) \<and>
     win10.recent now es < MaxExecutions10Min \<and> win60.recent now es < MaxExecutions1Hour"

lemma within_rates_iff:
  "within_rates now es \<longleftrightarrow>
     (es = [] \<or> 300 * Second \<le> now - last es) \<and>
     length (filter (\<lambda>t. now - t \<le> 10 * Minute) es) < 2 \<and>
     length (filter (\<lambda>t. now - t \<le> Hour) es) < 4"
  unfolding within_rates_def win10.recent_def win60.recent_def
  unfolding MaxExecutions10Min_def MaxExecutions1Hour_def Window10Min_def Window1Hour_def
    DefaultCooldown_def by auto

lemma checkRates_decides:
  "fst (fst (checkRates now tnow io c r es)) \<longleftrightarrow> within_rates now es"
  by (auto simp: checkRates_def within_rates_def breach_def Let_def not_le)

lemma CanExecute_decides:
  "fst (fst (CanExecute now tnow io1 io2 c r)) \<longleftrightarrow>
     \<not> quarantined now c r \<and> within_rates now (execs c r)"
  by (auto simp: CanExecute_def quarantined_def execs_def checkRates_decides within_rates_def
      time_defs Let_def split: option.splits)

lemma checkRates_refused:
  assumes "checkRates now tnow io c r es = ((False, why), c')"
  shows "\<exists>st. states c' r = Some st \<and> rsTripped st \<and> rsQuarantineUntil st = tnow + DefaultQuarantineDuration"
  using assms by (auto simp: checkRates_def breach_def Let_def tripLocked_states split: if_splits)

lemma CanExecute_refused:
  assumes "CanExecute now tnow io1 io2 c r = ((False, why), c')" and "now \<le> tnow"
  shows "\<exists>st. states c' r = Some st \<and> rsTripped st \<and> now < rsQuarantineUntil st"
proof (cases "quarantined now c r")
  case True
  then show ?thesis using assms(1)
    by (auto simp: CanExecute_def quarantined_def time_defs split: option.splits)
next
  case False
  with assms(1) obtain io c0 es where "checkRates now tnow io c0 r es = ((False, why), c')"
    by (auto simp: CanExecute_def quarantined_def time_defs Let_def split: option.splits if_splits)
  from checkRates_refused [OF this] assms(2) show ?thesis
    by (auto simp: damping_consts)
qed

section \<open>Runs through the gate\<close>

text \<open>
  \<open>gated_run r now c tr\<close>: by time \<open>now\<close> the controller has reached state \<open>c\<close>
  and \<open>tr\<close> lists the times of all executions on resource \<open>r\<close>, each recorded after
  \<open>CanExecute\<close> let it pass and no earlier than that check. In between the clock advances,
  anybody asks the gate about any resource, other resources execute, breakers trip.
\<close>

inductive gated_run :: "string \<Rightarrow> time \<Rightarrow> Controller \<Rightarrow> time list \<Rightarrow> bool" for r where
  start: "execs c r = [] \<Longrightarrow> gated_run r now c []"
| wait: "gated_run r now c tr \<Longrightarrow> now \<le> now' \<Longrightarrow> gated_run r now' c tr"
| ask: "gated_run r now c tr \<Longrightarrow> CanExecute now tnow io1 io2 c x = (answer, c') \<Longrightarrow> gated_run r now c' tr"
| exec: "gated_run r now c tr \<Longrightarrow> CanExecute now tnow io1 io2 c r = ((True, why), c1) \<Longrightarrow>
     now \<le> t \<Longrightarrow> RecordExecutionAt io3 c1 r t = c2 \<Longrightarrow> gated_run r t c2 (tr @ [t])"
| other: "gated_run r now c tr \<Longrightarrow> x \<noteq> r \<Longrightarrow> gated_run r now (RecordExecutionAt io c x t) tr"
| trip: "gated_run r now c tr \<Longrightarrow> gated_run r now (Trip tnow io c x d) tr"
| reset: "gated_run r now c tr \<Longrightarrow> x \<noteq> r \<Longrightarrow> gated_run r now (Reset io c x) tr"

text \<open>The controller's list is the trace without entries a day or more old.\<close>

definition keeps_trace :: "time \<Rightarrow> time list \<Rightarrow> time list \<Rightarrow> bool" where
  "keeps_trace now es tr \<longleftrightarrow> (\<exists>cut. cut \<le> now - 24 * Hour \<and> es = filter (\<lambda>e. cut < e) tr)"

definition rate_inv :: "time \<Rightarrow> time list \<Rightarrow> bool" where
  "rate_inv now tr \<longleftrightarrow>
     sorted tr \<and> (\<forall>e\<in>set tr. e \<le> now) \<and>
     successively (\<lambda>a b. DefaultCooldown \<le> b - a) tr \<and> win10.spaced tr \<and> win60.spaced tr"

lemma keeps_trace_mono:
  assumes "keeps_trace now es tr" and "now \<le> now'"
  shows "keeps_trace now' es tr"
proof -
  obtain cut where "cut \<le> now - 24 * Hour" "es = filter (\<lambda>e. cut < e) tr"
    using assms(1) by (auto simp: keeps_trace_def)
  with assms(2) show ?thesis unfolding keeps_trace_def by (intro exI [of _ cut]) auto
qed

lemma keeps_trace_recent:
  assumes "keeps_trace now es tr"
  shows "win10.recent now es = win10.recent now tr" and "win60.recent now es = win60.recent now tr"
proof -
  obtain cut where cut: "cut \<le> now - 24 * Hour" "es = filter (\<lambda>e. cut < e) tr"
    using assms by (auto simp: keeps_trace_def)
  have "filter (\<lambda>t. now - t \<le> w) es = filter (\<lambda>t. now - t \<le> w) tr" if "w \<le> Hour" for w
    using cut(1) that unfolding cut(2) filter_filter
    by (intro filter_cong) (auto simp: duration_units)
  then show "win10.recent now es = win10.recent now tr" "win60.recent now es = win60.recent now tr"
    unfolding win10.recent_def win60.recent_def by (simp_all add: damping_consts)
qed

lemma last_filter: "xs \<noteq> [] \<Longrightarrow> P (last xs) \<Longrightarrow> last (filter P xs) = last xs"
  by (induction xs rule: rev_induct) auto

lemma keeps_trace_last:
  assumes "keeps_trace now es tr" and "tr \<noteq> []"
    and gap: "es \<noteq> [] \<longrightarrow> DefaultCooldown \<le> now - last es"
  shows "DefaultCooldown \<le> now - last tr"
proof -
  obtain cut where cut: "cut \<le> now - 24 * Hour" "es = filter (\<lambda>e. cut < e) tr"
    using assms by (auto simp: keeps_trace_def)
  show ?thesis
  proof (cases "cut < last tr")
    case True
    with assms(2) have "last es = last tr" "es \<noteq> []"
      unfolding cut(2) by (auto simp: last_filter filter_empty_conv intro: last_in_set)
    with gap show ?thesis by simp
  next
    case False
    with cut(1) show ?thesis by (simp add: damping_consts)
  qed
qed

lemma keeps_trace_record:
  assumes "keeps_trace now es tr" and "now \<le> t"
  shows "keeps_trace t (filter (\<lambda>e. t - 24 * Hour < e) (es @ [t])) (tr @ [t])"
proof -
  obtain cut where cut: "cut \<le> now - 24 * Hour" "es = filter (\<lambda>e. cut < e) tr"
    using assms by (auto simp: keeps_trace_def)
  have "filter (\<lambda>e. t - 24 * Hour < e) es = filter (\<lambda>e. t - 24 * Hour < e) tr"
    using cut(1) assms(2) unfolding cut(2) filter_filter by (intro filter_cong) auto
  then show ?thesis unfolding keeps_trace_def by (intro exI [of _ "t - 24 * Hour"]) auto
qed

lemma rate_inv_record:
  assumes inv: "rate_inv now tr" and le: "now \<le> t"
    and keep: "keeps_trace now es tr" and adm: "within_rates now es"
  shows "rate_inv t (tr @ [t])"
proof -
  have so: "sorted tr" and bnd: "\<forall>e\<in>set tr. e \<le> now" using inv by (auto simp: rate_inv_def)
  have "win10.spaced (tr @ [t])" "win60.spaced (tr @ [t])"
    using inv adm le so keeps_trace_recent [OF keep]
    by (auto simp: rate_inv_def within_rates_def intro: win10.spaced_snoc win60.spaced_snoc)
  moreover have "tr \<noteq> [] \<longrightarrow> DefaultCooldown \<le> t - last tr"
    using keeps_trace_last [OF keep] adm le by (fastforce simp: within_rates_def)
  moreover have "sorted (tr @ [t])" using so bnd le by (auto simp: sorted_append)
  ultimately show ?thesis
    using inv le bnd by (auto simp: rate_inv_def successively_append_iff)
qed

lemma gated_run_inv: "gated_run r now c tr \<Longrightarrow> rate_inv now tr \<and> keeps_trace now (execs c r) tr"
proof (induction rule: gated_run.induct)
  case (start c now)
  then show ?case
    by (auto simp: rate_inv_def keeps_trace_def win10.spaced_Nil win60.spaced_Nil
        intro: exI [of _ "now - 24 * Hour"])
next
  case (wait now c tr now')
  then show ?case by (auto simp: rate_inv_def intro: keeps_trace_mono)
next
  case (ask now c tr tnow io1 io2 x answer c')
  then show ?case by (metis CanExecute_execs snd_conv)
next
  case (exec now c tr tnow io1 io2 why c1 t io3 c2)
  have "execs c1 r = execs c r" using exec.hyps(2) by (metis CanExecute_execs snd_conv)
  moreover have "within_rates now (execs c r)"
    using CanExecute_decides [of now tnow io1 io2 c r] exec.hyps(2) by simp
  moreover have "execs c2 r = filter (\<lambda>e. t - 24 * Hour < e) (execs c1 r @ [t])"
    unfolding exec.hyps(4) [symmetric] RecordExecutionAt_execs by simp
  ultimately show ?case
    using exec.IH exec.hyps(3) keeps_trace_record [of now "execs c r" tr t]
      rate_inv_record [of now tr t "execs c r"] by metis
qed (simp_all add: RecordExecutionAt_execs Reset_execs)

section \<open>Sequences of operations\<close>

datatype damping_op =
    OpCanExecute time time save_io save_io string
  | OpRecord save_io string time
  | OpTrip time save_io string duration
  | OpReset save_io string

fun apply_op :: "Controller \<Rightarrow> damping_op \<Rightarrow> Controller" where
  "apply_op c (OpCanExecute now tnow io1 io2 r) = snd (CanExecute now tnow io1 io2 c r)"
| "apply_op c (OpRecord io r t) = RecordExecutionAt io c r t"
| "apply_op c (OpTrip tnow io r d) = Trip tnow io c r d"
| "apply_op c (OpReset io r) = Reset io c r"

definition run_ops :: "Controller \<Rightarrow> damping_op list \<Rightarrow> Controller" where
  "run_ops = foldl apply_op"

text \<open>
  An operation that leaves the quarantine of \<open>r\<close> alone until time \<open>q\<close>: no operator
  intervention (\<open>Trip\<close>, \<open>Reset\<close>) on \<open>r\<close>, and no question about \<open>r\<close> later than \<open>q\<close>.
\<close>

fun no_override :: "string \<Rightarrow> time \<Rightarrow> damping_op \<Rightarrow> bool" where
  "no_override r q (OpCanExecute now tnow io1 io2 x) \<longleftrightarrow> x = r \<longrightarrow> now < q"
| "no_override r q (OpRecord io x t) \<longleftrightarrow> True"
| "no_override r q (OpTrip tnow io x d) \<longleftrightarrow> x \<noteq> r"
| "no_override r q (OpReset io x) \<longleftrightarrow> x \<noteq> r"

definition locked_until :: "Controller \<Rightarrow> string \<Rightarrow> time \<Rightarrow> bool" where
  "locked_until c r q \<longleftrightarrow> (\<exists>st. states c r = Some st \<and> rsTripped st \<and> rsQuarantineUntil st = q)"

lemma checkRates_other: "x \<noteq> r \<Longrightarrow> states (snd (checkRates now tnow io c x es)) r = states c r"
  by (simp add: checkRates_def breach_def tripLocked_states Let_def)

lemma CanExecute_other: "x \<noteq> r \<Longrightarrow> states (snd (CanExecute now tnow io1 io2 c x)) r = states c r"
  by (auto simp: CanExecute_def Let_def checkRates_other split: option.splits)

lemma apply_op_locked:
  "locked_until c r q \<Longrightarrow> no_override r q op \<Longrightarrow> locked_until (apply_op c op) r q"
proof (induction op)
  case (OpCanExecute now tnow io1 io2 x)
  show ?case
  proof (cases "x = r")
    case True
    with OpCanExecute show ?thesis
      by (auto simp: locked_until_def CanExecute_def time_defs split: option.splits)
  next
    case False
    with OpCanExecute show ?thesis by (simp add: locked_until_def CanExecute_other)
  qed
qed (auto simp: locked_until_def RecordExecutionAt_def Trip_def Reset_def tripLocked_states Let_def)

lemma run_ops_locked:
  "locked_until c r q \<Longrightarrow> list_all (no_override r q) ops \<Longrightarrow> locked_until (run_ops c ops) r q"
  by (induction ops arbitrary: c) (auto simp: run_ops_def apply_op_locked)

lemma locked_until_refuses:
  "locked_until c r q \<Longrightarrow> t < q \<Longrightarrow> \<not> fst (fst (CanExecute t tn i1 i2 c r))"
  by (auto simp: CanExecute_decides quarantined_def locked_until_def)

section \<open>Properties\<close>

text \<open>
  \<open>CanExecute\<close> answers yes exactly when the resource is not under an unexpired quarantine,
  its last execution is at least 300 s ago, fewer than two executions lie in the last ten minutes
  and fewer than four in the last hour; whatever it answers, the executions recorded for every
  resource stay as they are.
\<close>

theorem CanExecute_exact:
  "(fst (fst (CanExecute now tnow io1 io2 c r)) =
      (case states c r of
         None \<Rightarrow> True
       | Some st \<Rightarrow>
           \<not> (rsTripped st \<and> now < rsQuarantineUntil st) \<and>
           (rsExecutions st = [] \<or> 300 * Second \<le> now - last (rsExecutions st)) \<and>
           length (filter (\<lambda>t. now - t \<le> 10 * Minute) (rsExecutions st)) < 2 \<and>
           length (filter (\<lambda>t. now - t \<le> Hour) (rsExecutions st)) < 4)) \<and>
   execs (snd (CanExecute now tnow io1 io2 c r)) x = execs c x"
proof (cases "states c r")
  case None
  then show ?thesis by (simp add: CanExecute_def)
next
  case (Some st)
  then have "execs c r = rsExecutions st" by (simp add: execs_def)
  with Some show ?thesis
    by (auto simp: CanExecute_decides quarantined_def within_rates_iff)
qed

text \<open>
  C4: along every run in which executions on a resource are recorded only after the gate let them
  pass, any ten-minute interval holds at most two executions, any one-hour interval at most four,
  and consecutive executions are at least 300 s apart. Pruning entries older than a day never
  weakens the limits.
\<close>

theorem damping_rate_limits:
  assumes "gated_run r now c tr"
  shows "length (filter (\<lambda>t. a \<le> t \<and> t \<le> a + 10 * Minute) tr) \<le> 2 \<and>
         length (filter (\<lambda>t. a \<le> t \<and> t \<le> a + Hour) tr) \<le> 4 \<and>
         successively (\<lambda>t u. 300 * Second \<le> u - t) tr"
proof -
  have inv: "rate_inv now tr" using gated_run_inv [OF assms] by simp
  have "length (filter (\<lambda>t. a \<le> t \<and> t \<le> a + Window10Min) tr) \<le> MaxExecutions10Min"
    using inv by (intro win10.spaced_rate) (auto simp: rate_inv_def)
  moreover have "length (filter (\<lambda>t. a \<le> t \<and> t \<le> a + Window1Hour) tr) \<le> MaxExecutions1Hour"
    using inv by (intro win60.spaced_rate) (auto simp: rate_inv_def)
  ultimately show ?thesis
    using inv by (simp add: rate_inv_def MaxExecutions10Min_def MaxExecutions1Hour_def
        Window10Min_def Window1Hour_def DefaultCooldown_def)
qed

theorem damping_rate_limits_witness:
  "length (filter (\<lambda>t. 0 \<le> t \<and> t \<le> 0 + 10 * Minute) [5::int]) \<le> 2"
proof -
  let ?c = "\<lparr>statePath = '''', states = Map.empty, stateFile = None, tmpFile = None\<rparr>"
  have "gated_run ''disk'' 0 ?c []" by (rule gated_run.start) (simp add: execs_def)
  then have "gated_run ''disk'' 5 (RecordExecutionAt SaveOk ?c ''disk'' 5) ([] @ [5])"
    by (rule gated_run.exec [where now = 0 and tnow = 0 and ?io1.0 = SaveOk and ?io2.0 = SaveOk
          and why = "''''" and ?c1.0 = ?c])
      (simp_all add: CanExecute_def)
  from damping_rate_limits [OF this, of 0] show ?thesis by simp
qed

text \<open>
  once \<open>CanExecute\<close> has refused a resource (its second clock reading not before its first),
  the resource is in quarantine, and it stays refused up to the end of that quarantine through any
  sequence of further questions and recorded executions, on this and on other resources, until an
  operator trips or resets that very resource.
\<close>

theorem damping_refusal_locks:
  assumes "CanExecute now tnow io1 io2 c r = ((False, why), c')" and "now \<le> tnow"
  shows "\<exists>q. now < q \<and> locked_until c' r q \<and>
           (\<forall>ops t tn i1 i2. list_all (no_override r q) ops \<and> t < q \<longrightarrow>
              \<not> fst (fst (CanExecute t tn i1 i2 (run_ops c' ops) r)))"
proof -
  obtain st where st: "states c' r = Some st" "rsTripped st" "now < rsQuarantineUntil st"
    using CanExecute_refused [OF assms] by blast
  then have "locked_until c' r (rsQuarantineUntil st)" by (simp add: locked_until_def)
  with st show ?thesis using run_ops_locked locked_until_refuses by blast
qed

theorem damping_refusal_locks_witness:
  "\<exists>q. (10::int) < q \<and> (\<exists>c'. locked_until c' ''disk'' q \<and>
     \<not> fst (fst (CanExecute 10 11 SaveOk SaveOk (run_ops c' [OpRecord SaveOk ''disk'' 11]) ''disk'')))"
proof -
  let ?st = "\<lparr>rsResource = ''disk'', rsExecutions = [5], rsTripped = False, rsQuarantineUntil = 0, rsTripReason = ''''\<rparr>"
  let ?c = "\<lparr>statePath = '''', states = [''disk'' \<mapsto> ?st], stateFile = None, tmpFile = None\<rparr>"
  obtain b why c' where eq: "CanExecute 10 10 SaveOk SaveOk ?c ''disk'' = ((b, why), c')"
    by (metis surj_pair)
  moreover have "\<not> fst (fst (CanExecute 10 10 SaveOk SaveOk ?c ''disk''))"
    by (simp add: CanExecute_decides quarantined_def within_rates_iff execs_def duration_units)
  ultimately have "CanExecute 10 10 SaveOk SaveOk ?c ''disk'' = ((False, why), c')" by simp
  from damping_refusal_locks [OF this] obtain q where "10 < q" "locked_until c' ''disk'' q"
    and "\<forall>ops t tn i1 i2. list_all (no_override ''disk'' q) ops \<and> t < q \<longrightarrow>
              \<not> fst (fst (CanExecute t tn i1 i2 (run_ops c' ops) ''disk''))"
    by auto
  moreover have "list_all (no_override ''disk'' q) [OpRecord SaveOk ''disk'' 11]" by simp
  ultimately show ?thesis by blast
qed

text \<open>
  a save replaces the state file as a whole or not at all, whichever system call fails: it
  holds the old document or the new one and never a torn one; when the save reports no error, a
  controller started from that file has exactly the saved map.
\<close>

theorem damping_save_atomic:
  assumes "saveLocked io c = (e, c')" and "statePath c \<noteq> ''''"
  shows "states c' = states c \<and>
         (stateFile c' = stateFile c \<or> stateFile c' = Some (Doc (states c))) \<and>
         (e = None \<longrightarrow> (\<exists>c''. NewController (statePath c) (stateFile c') True = Inr c'' \<and>
                             states c'' = states c))"
  using assms by (auto simp: saveLocked_def NewController_def load_def Let_def split: save_io.splits)

theorem damping_save_atomic_witness:
  "stateFile (snd (saveLocked RenameFails \<lparr>statePath = ''/d.json'', states = Map.empty, stateFile = Some Garbage, tmpFile = None\<rparr>))
     = Some Garbage"
proof -
  let ?c = "\<lparr>statePath = ''/d.json'', states = Map.empty, stateFile = Some Garbage, tmpFile = None\<rparr>"
  have "saveLocked RenameFails ?c = (fst (saveLocked RenameFails ?c), snd (saveLocked RenameFails ?c))" by simp
  from damping_save_atomic [OF this] show ?thesis by (simp add: saveLocked_def)
qed

end
