(* ===== verification/Fsm.thy ===== *)
theory Fsm
  imports Go_Prelude "HOL-Library.Sublist"
begin

text \<open>
  \<open>internal/model\<close>: the remediation state machine of \<open>state.go\<close>. The Go type
  \<open>ExecutionState\<close> is a string type with eleven named values; the datatype has one constructor
  per named value and \<open>StateOther\<close> for any other string. \<open>FSM\<close> is the pair of current
  state and history; its mutex is not part of the state.
\<close>

section \<open>States and transitions (state.go)\<close>

datatype ExecutionState =
    StateDetected
  | StateEvaluating
  | StatePrecheckPassed
  | StatePrecheckFailed
  | StateExecuting
  | StatePostcheckPassed
  | StateCommitted
  | StatePostcheckFailed
  | StateRollingBack
  | StateRolledBack
  | StateEscalated
  | StateOther string

fun state_string :: "ExecutionState \<Rightarrow> string" where
  "state_string StateDetected = ''DETECTED''"
| "state_string StateEvaluating = ''EVALUATING''"
| "state_string StatePrecheckPassed = ''PRECHECK_PASSED''"
| "state_string StatePrecheckFailed = ''PRECHECK_FAILED''"
| "state_string StateExecuting = ''EXECUTING''"
| "state_string StatePostcheckPassed = ''POSTCHECK_PASSED''"
| "state_string StateCommitted = ''COMMITTED''"
| "state_string StatePostcheckFailed = ''POSTCHECK_FAILED''"
| "state_string StateRollingBack = ''ROLLING_BACK''"
| "state_string StateRolledBack = ''ROLLED_BACK''"
| "state_string StateEscalated = ''ESCALATED''"
| "state_string (StateOther s) = s"

definition AllStates :: "ExecutionState list" where
  "AllStates =
     [StateDetected, StateEvaluating, StatePrecheckPassed, StatePrecheckFailed, StateExecuting,
      StatePostcheckPassed, StateCommitted, StatePostcheckFailed, StateRollingBack, StateRolledBack,
      StateEscalated]"

text \<open>The transition table: the keys of the inner map that are set to true.\<close>

fun validTransitions :: "ExecutionState \<Rightarrow> ExecutionState list option" where
  "validTransitions StateDetected = Some [StateEvaluating, StateEscalated]"
| "validTransitions StateEvaluating = Some [StatePrecheckPassed, StatePrecheckFailed]"
| "validTransitions StatePrecheckPassed = Some [StateExecuting]"
| "validTransitions StatePrecheckFailed = Some [StateEscalated]"
| "validTransitions StateExecuting = Some [StatePostcheckPassed, StatePostcheckFailed]"
| "validTransitions StatePostcheckPassed = Some [StateCommitted]"
| "validTransitions StatePostcheckFailed = Some [StateRollingBack]"
| "validTransitions StateRollingBack = Some [StateRolledBack, StateEscalated]"
| "validTransitions StateRolledBack = Some [StateEscalated]"
| "validTransitions StateCommitted = Some []"
| "validTransitions StateEscalated = Some []"
| "validTransitions (StateOther _) = None"

definition IsValidState :: "ExecutionState \<Rightarrow> bool" where
  "IsValidState s \<longleftrightarrow> s \<in> set AllStates"

definition CanTransition :: "ExecutionState \<Rightarrow> ExecutionState \<Rightarrow> bool" where
  "CanTransition from to =
     (case validTransitions from of None \<Rightarrow> False | Some targets \<Rightarrow> to \<in> set targets)"

definition IsTerminal :: "ExecutionState \<Rightarrow> bool" where
  "IsTerminal s \<longleftrightarrow> s = StateCommitted \<or> s = StateEscalated"

record StateTransition =
  trFrom :: ExecutionState
  trTo :: ExecutionState
  trTimestamp :: time
  trReason :: string

record FSM =
  current :: ExecutionState
  history :: "StateTransition list"

definition NewFSM :: "time \<Rightarrow> ExecutionState \<Rightarrow> goerror + FSM" where
  "NewFSM now initial =
     (if \<not> IsValidState initial
      then Inl (errorf (''invalid initial state: '' @ fmt_q (state_string initial)))
      else Inr \<lparr>current = initial,
                history = [\<lparr>trFrom = StateOther [], trTo = initial, trTimestamp = now,
                            trReason = ''initialization''\<rparr>]\<rparr>)"

definition Transition ::
    "time \<Rightarrow> FSM \<Rightarrow> ExecutionState \<Rightarrow> string \<Rightarrow> goerror option \<times> FSM" where
  "Transition now m to reason =
     (if \<not> IsValidState to
      then (Some (errorf (''cannot transition to invalid state: '' @ fmt_q (state_string to))), m)
      else if \<not> CanTransition (current m) to
      then (Some (errorf (''illegal monotonic transition: cannot move from '' @ state_string (current m)
              @ '' to '' @ state_string to @ '' (reason: '' @ reason @ '')'')), m)
      else (None, m\<lparr>current := to,
                    history := history m @ [\<lparr>trFrom = current m, trTo = to, trTimestamp = now,
                                             trReason = reason\<rparr>]\<rparr>))"

definition fsm_IsTerminal :: "FSM \<Rightarrow> bool" where
  "fsm_IsTerminal m = IsTerminal (current m)"

section \<open>Reachable machines\<close>

text \<open>Machines built by \<open>NewFSM\<close> and any sequence of \<open>Transition\<close> calls, failed ones included.\<close>

inductive fsm_reachable :: "ExecutionState \<Rightarrow> FSM \<Rightarrow> bool" for initial where
  init: "NewFSM now initial = Inr m \<Longrightarrow> fsm_reachable initial m"
| step: "fsm_reachable initial m \<Longrightarrow> Transition now m to reason = (e, m') \<Longrightarrow> fsm_reachable initial m'"

text \<open>The states a machine has visited, in order.\<close>

definition visited :: "FSM \<Rightarrow> ExecutionState list" where
  "visited m = map trTo (history m)"

section \<open>Monotone machines\<close>

text \<open>
  The contract behind the word "monotonic" in the code: every permitted move raises a bounded
  rank. Whoever drives such a machine never visits a state twice and stops after a bounded
  number of moves.
\<close>

locale monotone_machine =
  fixes can :: "'s \<Rightarrow> 's \<Rightarrow> bool"
    and rank :: "'s \<Rightarrow> nat"
    and bound :: nat
  assumes can_rank: "can s t \<Longrightarrow> rank s < rank t"
    and rank_bound: "can s t \<Longrightarrow> rank t \<le> bound"
begin

lemma path_rank_gap:
  "successively can (s # p) \<Longrightarrow> x \<in> set p \<Longrightarrow> rank s < rank x"
proof (induction p arbitrary: s)
  case (Cons y p)
  then have "rank s < rank y" and "successively can (y # p)"
    by (auto dest: can_rank)
  with Cons show ?case by fastforce
qed simp

lemma path_distinct: "successively can p \<Longrightarrow> distinct p"
proof (induction p)
  case (Cons s p)
  then have "distinct p" by (cases p) auto
  with Cons.prems show ?case using path_rank_gap [of s p s] by auto
qed simp

lemma path_length_rank:
  "successively can (s # p) \<Longrightarrow> rank s \<le> bound \<Longrightarrow> length p \<le> bound - rank s"
proof (induction p arbitrary: s)
  case (Cons t p)
  then have "rank s < rank t" "rank t \<le> bound" "successively can (t # p)"
    by (auto dest: can_rank rank_bound)
  with Cons.IH [of t] show ?case by simp
qed simp

lemma path_length:
  assumes "successively can p" and "p \<noteq> []" and "rank (hd p) \<le> bound"
  shows "length p \<le> Suc bound"
proof -
  obtain s q where "p = s # q" using assms(2) by (cases p) auto
  with path_length_rank [of s q] assms show ?thesis by simp
qed

end

text \<open>The rank of a state: the length of the longest path that leads to it from \<open>DETECTED\<close>.\<close>

fun state_rank :: "ExecutionState \<Rightarrow> nat" where
  "state_rank StateDetected = 0"
| "state_rank StateEvaluating = 1"
| "state_rank StatePrecheckPassed = 2"
| "state_rank StatePrecheckFailed = 2"
| "state_rank StateExecuting = 3"
| "state_rank StatePostcheckPassed = 4"
| "state_rank StatePostcheckFailed = 4"
| "state_rank StateCommitted = 5"
| "state_rank StateRollingBack = 5"
| "state_rank StateRolledBack = 6"
| "state_rank StateEscalated = 7"
| "state_rank (StateOther _) = 0"

lemma CanTransition_cases:
  "CanTransition s t \<longleftrightarrow>
     (s = StateDetected \<and> (t = StateEvaluating \<or> t = StateEscalated)) \<or>
     (s = StateEvaluating \<and> (t = StatePrecheckPassed \<or> t = StatePrecheckFailed)) \<or>
     (s = StatePrecheckPassed \<and> t = StateExecuting) \<or>
     (s = StatePrecheckFailed \<and> t = StateEscalated) \<or>
     (s = StateExecuting \<and> (t = StatePostcheckPassed \<or> t = StatePostcheckFailed)) \<or>
     (s = StatePostcheckPassed \<and> t = StateCommitted) \<or>
     (s = StatePostcheckFailed \<and> t = StateRollingBack) \<or>
     (s = StateRollingBack \<and> (t = StateRolledBack \<or> t = StateEscalated)) \<or>
     (s = StateRolledBack \<and> t = StateEscalated)"
  by (cases s) (auto simp: CanTransition_def)

interpretation fsm: monotone_machine CanTransition state_rank 7
  by unfold_locales (auto simp: CanTransition_cases)

lemma IsValidState_iff [simp]: "IsValidState s \<longleftrightarrow> (\<forall>x. s \<noteq> StateOther x)"
  by (cases s) (simp_all add: IsValidState_def AllStates_def)

lemma CanTransition_valid: "CanTransition s t \<Longrightarrow> IsValidState s \<and> IsValidState t"
  by (auto simp: CanTransition_cases)

section \<open>The history invariant\<close>

text \<open>
  The recorded history is a path of the transition table: it starts at the initial state, each
  entry leaves from the state the previous one reached, and the last one reached the current
  state.
\<close>

definition fsm_wf :: "ExecutionState \<Rightarrow> FSM \<Rightarrow> bool" where
  "fsm_wf initial m \<longleftrightarrow>
     history m \<noteq> [] \<and>
     trFrom (hd (history m)) = StateOther [] \<and>
     trTo (hd (history m)) = initial \<and>
     IsValidState initial \<and>
     trTo (last (history m)) = current m \<and>
     map trFrom (tl (history m)) = butlast (visited m) \<and>
     successively CanTransition (visited m)"

lemma visited_last: "fsm_wf i m \<Longrightarrow> last (visited m) = current m"
  by (simp add: fsm_wf_def visited_def last_map)

lemma visited_nonempty: "fsm_wf i m \<Longrightarrow> visited m \<noteq> []"
  by (simp add: fsm_wf_def visited_def)

lemma visited_hd: "fsm_wf i m \<Longrightarrow> hd (visited m) = i"
  by (simp add: fsm_wf_def visited_def hd_map)

lemma NewFSM_wf [go_inv]: "NewFSM now initial = Inr m \<Longrightarrow> fsm_wf initial m"
  by (auto simp: NewFSM_def fsm_wf_def visited_def split: if_splits)

lemma Transition_ok:
  "Transition now m to reason = (None, m') \<Longrightarrow>
     CanTransition (current m) to \<and> current m' = to \<and> visited m' = visited m @ [to]"
  by (auto simp: Transition_def visited_def split: if_splits)

lemma Transition_error: "Transition now m to reason = (Some e, m') \<Longrightarrow> m' = m"
  by (auto simp: Transition_def split: if_splits)

lemma Transition_iff: "fst (Transition now m to reason) = None \<longleftrightarrow> CanTransition (current m) to"
  using CanTransition_valid by (auto simp: Transition_def)

lemma map_tl_snoc: "xs \<noteq> [] \<Longrightarrow> map f (tl (xs @ [x])) = map f (tl xs) @ [f x]"
  by (cases xs) auto

lemma Transition_wf [go_inv]:
  assumes "fsm_wf initial m" and "Transition now m to reason = (e, m')"
  shows "fsm_wf initial m'"
proof (cases e)
  case (Some x)
  with assms Transition_error show ?thesis by metis
next
  case None
  then have ok: "CanTransition (current m) to"
    and m': "m' = m\<lparr>current := to, history := history m @ [\<lparr>trFrom = current m, trTo = to, trTimestamp = now, trReason = reason\<rparr>]\<rparr>"
    using assms(2) by (auto simp: Transition_def split: if_splits)
  have lst: "current m = last (visited m)" and ne: "visited m \<noteq> []"
    using assms(1) visited_last visited_nonempty by auto
  have tl: "map trFrom (tl (history m')) = butlast (visited m) @ [current m]"
    using assms(1) unfolding m' fsm_wf_def by (simp add: map_tl_snoc)
  have path: "successively CanTransition (visited m @ [to])"
    using assms(1) ok lst ne by (auto simp: fsm_wf_def successively_append_iff)
  show ?thesis
    using assms(1) tl path lst ne unfolding fsm_wf_def
    by (auto simp: m' visited_def)
qed

lemma fsm_reachable_wf: "fsm_reachable initial m \<Longrightarrow> fsm_wf initial m"
  by (induction rule: fsm_reachable.induct) (auto intro: go_inv)

section \<open>Runs from \<open>DETECTED\<close>\<close>

text \<open>The complete runs of the table from \<open>DETECTED\<close>: each ends in a terminal state.\<close>

definition fsm_runs :: "ExecutionState list list" where
  "fsm_runs =
     [[StateDetected, StateEscalated],
      [StateDetected, StateEvaluating, StatePrecheckFailed, StateEscalated],
      [StateDetected, StateEvaluating, StatePrecheckPassed, StateExecuting, StatePostcheckPassed,
       StateCommitted],
      [StateDetected, StateEvaluating, StatePrecheckPassed, StateExecuting, StatePostcheckFailed,
       StateRollingBack, StateEscalated],
      [StateDetected, StateEvaluating, StatePrecheckPassed, StateExecuting, StatePostcheckFailed,
       StateRollingBack, StateRolledBack, StateEscalated]]"

text \<open>A terminal state has no successor, so a path through one ends there.\<close>

lemma path_after:
  "successively CanTransition (s # p) \<longleftrightarrow>
     p = [] \<or> (\<exists>t q. p = t # q \<and> CanTransition s t \<and> successively CanTransition (t # q))"
  by (cases p) auto

lemmas path_step = path_after [of StateDetected] path_after [of StateEvaluating]
  path_after [of StatePrecheckPassed] path_after [of StatePrecheckFailed]
  path_after [of StateExecuting] path_after [of StatePostcheckPassed] path_after [of StateCommitted]
  path_after [of StatePostcheckFailed] path_after [of StateRollingBack]
  path_after [of StateRolledBack] path_after [of StateEscalated]

lemmas CanTransition_from =
  CanTransition_cases [of StateDetected, simplified] CanTransition_cases [of StateEvaluating, simplified]
  CanTransition_cases [of StatePrecheckPassed, simplified] CanTransition_cases [of StatePrecheckFailed, simplified]
  CanTransition_cases [of StateExecuting, simplified] CanTransition_cases [of StatePostcheckPassed, simplified]
  CanTransition_cases [of StateCommitted, simplified] CanTransition_cases [of StatePostcheckFailed, simplified]
  CanTransition_cases [of StateRollingBack, simplified] CanTransition_cases [of StateRolledBack, simplified]
  CanTransition_cases [of StateEscalated, simplified]

lemma path_from_detected:
  "successively CanTransition (StateDetected # p) \<Longrightarrow> \<exists>r\<in>set fsm_runs. prefix (StateDetected # p) r"
  by (auto simp: path_step CanTransition_from fsm_runs_def)

lemma visited_prefix_of_run:
  assumes "fsm_wf StateDetected m"
  shows "\<exists>r\<in>set fsm_runs. prefix (visited m) r"
proof -
  obtain p where "visited m = StateDetected # p"
    using visited_nonempty [OF assms] visited_hd [OF assms] by (cases "visited m") auto
  with assms path_from_detected show ?thesis by (auto simp: fsm_wf_def)
qed

lemma visited_of_committed:
  assumes "fsm_wf StateDetected m" and "StateCommitted \<in> set (visited m)"
  shows "visited m = [StateDetected, StateEvaluating, StatePrecheckPassed, StateExecuting,
                      StatePostcheckPassed, StateCommitted]"
  using visited_prefix_of_run [OF assms(1)] assms(2)
  by (auto simp: fsm_runs_def prefix_Cons)

text \<open>Every state that is not terminal has a way on to a terminal one.\<close>

fun way_out :: "ExecutionState \<Rightarrow> ExecutionState list" where
  "way_out StateEvaluating = [StatePrecheckFailed, StateEscalated]"
| "way_out StatePrecheckPassed = [StateExecuting, StatePostcheckPassed, StateCommitted]"
| "way_out StateExecuting = [StatePostcheckPassed, StateCommitted]"
| "way_out StatePostcheckPassed = [StateCommitted]"
| "way_out StatePostcheckFailed = [StateRollingBack, StateEscalated]"
| "way_out StateCommitted = []"
| "way_out StateEscalated = []"
| "way_out _ = [StateEscalated]"

lemma terminal_reachable:
  "IsValidState s \<Longrightarrow> \<exists>p. successively CanTransition (s # p) \<and> IsTerminal (last (s # p))"
  by (rule exI [of _ "way_out s"]) (cases s; simp add: CanTransition_cases IsTerminal_def)

lemma IsTerminal_no_successor: "IsValidState s \<Longrightarrow> IsTerminal s \<longleftrightarrow> (\<forall>t. \<not> CanTransition s t)"
  by (cases s) (auto simp: IsTerminal_def CanTransition_cases)

section \<open>Properties\<close>

text \<open>
  in every machine that \<open>NewFSM\<close> and any sequence of \<open>Transition\<close> calls (accepted or
  refused) can produce, the recorded history is a path of the transition table from the initial
  state to the current one, no state occurs in it twice, and it has at most eight entries.
\<close>

theorem fsm_history_is_monotone_path:
  assumes "fsm_reachable initial m"
  shows "successively CanTransition (visited m) \<and> hd (visited m) = initial \<and>
         last (visited m) = current m \<and> distinct (visited m) \<and> length (history m) \<le> 8"
proof -
  note wf = fsm_reachable_wf [OF assms]
  have path: "successively CanTransition (visited m)" using wf by (simp add: fsm_wf_def)
  have "state_rank (hd (visited m)) \<le> 7" by (cases "hd (visited m)") auto
  with fsm.path_length [OF path visited_nonempty [OF wf]] have "length (visited m) \<le> 8" by simp
  with path fsm.path_distinct [OF path] visited_hd [OF wf] visited_last [OF wf] show ?thesis
    by (simp add: visited_def)
qed

theorem fsm_history_is_monotone_path_witness:
  "successively CanTransition (visited (snd (Transition 1 \<lparr>current = StateDetected, history =
       [\<lparr>trFrom = StateOther [], trTo = StateDetected, trTimestamp = 0, trReason = ''initialization''\<rparr>]\<rparr>
       StateEvaluating ''matched'')))"
proof -
  let ?m = "\<lparr>current = StateDetected, history =
       [\<lparr>trFrom = StateOther [], trTo = StateDetected, trTimestamp = 0, trReason = ''initialization''\<rparr>]\<rparr>"
  have "fsm_reachable StateDetected ?m" by (rule fsm_reachable.init [of 0]) (simp add: NewFSM_def)
  then have "fsm_reachable StateDetected (snd (Transition 1 ?m StateEvaluating ''matched''))"
    by (rule fsm_reachable.step [of _ _ 1 StateEvaluating "''matched''" "fst (Transition 1 ?m StateEvaluating ''matched'')"]) simp
  from fsm_history_is_monotone_path [OF this] show ?thesis by blast
qed

text \<open>
  C7: a machine started at \<open>DETECTED\<close> that has reached \<open>COMMITTED\<close> has gone through
  \<open>EVALUATING\<close>, \<open>PRECHECK_PASSED\<close>, \<open>EXECUTING\<close> and \<open>POSTCHECK_PASSED\<close> in this
  order and through nothing else; in particular it never was in a rollback state.
\<close>

theorem fsm_committed_only_after_verification:
  assumes "fsm_reachable StateDetected m" and "StateCommitted \<in> set (visited m)"
  shows "visited m = [StateDetected, StateEvaluating, StatePrecheckPassed, StateExecuting,
                      StatePostcheckPassed, StateCommitted]"
  using visited_of_committed [OF fsm_reachable_wf [OF assms(1)] assms(2)] .

text \<open>The machine after a list of requested transitions, all with the same time and reason.\<close>

definition drive :: "time \<Rightarrow> string \<Rightarrow> FSM \<Rightarrow> ExecutionState list \<Rightarrow> FSM" where
  "drive now reason m ss = foldl (\<lambda>m s. snd (Transition now m s reason)) m ss"

lemma fsm_reachable_drive: "fsm_reachable i m \<Longrightarrow> fsm_reachable i (drive now reason m ss)"
proof (induction ss arbitrary: m)
  case (Cons s ss)
  have "fsm_reachable i (snd (Transition now m s reason))"
    by (rule fsm_reachable.step [OF Cons.prems, of now s reason "fst (Transition now m s reason)"]) simp
  with Cons.IH show ?case by (simp add: drive_def)
qed (simp add: drive_def)

theorem fsm_committed_only_after_verification_witness:
  "\<exists>m. fsm_reachable StateDetected m \<and> StateCommitted \<in> set (visited m) \<and> length (visited m) = 6"
proof -
  let ?start = "\<lparr>current = StateDetected, history =
       [\<lparr>trFrom = StateOther [], trTo = StateDetected, trTimestamp = 0, trReason = ''initialization''\<rparr>]\<rparr>"
  let ?m = "drive 0 ''ok'' ?start [StateEvaluating, StatePrecheckPassed, StateExecuting, StatePostcheckPassed, StateCommitted]"
  have "fsm_reachable StateDetected ?start" by (rule fsm_reachable.init [of 0]) (simp add: NewFSM_def)
  then have r: "fsm_reachable StateDetected ?m" by (rule fsm_reachable_drive)
  have c: "StateCommitted \<in> set (visited ?m)"
    by (simp add: drive_def Transition_def CanTransition_def visited_def)
  from fsm_committed_only_after_verification [OF r c] r c show ?thesis by (intro exI [of _ ?m]) simp
qed

text \<open>
  the two states that \<open>IsTerminal\<close> names are exactly the valid states without a permitted
  transition, and from every valid state some sequence of permitted transitions ends in one.
\<close>

theorem fsm_terminal_states:
  assumes "IsValidState s"
  shows "(IsTerminal s \<longleftrightarrow> (\<forall>t. \<not> CanTransition s t)) \<and>
         (\<exists>p. successively CanTransition (s # p) \<and> IsTerminal (last (s # p)))"
  using IsTerminal_no_successor [OF assms] terminal_reachable [OF assms] by blast

theorem fsm_terminal_states_witness:
  "\<exists>p. successively CanTransition (StateExecuting # p) \<and> IsTerminal (last (StateExecuting # p))"
proof -
  have "IsValidState StateExecuting" by simp
  from fsm_terminal_states [OF this] show ?thesis by blast
qed

end
