(* ===== verification/Go_Path.thy ===== *)
theory Go_Path
  imports Go_Prelude
begin

text \<open>
  \<open>path/filepath\<close> on slash-separated paths (\<open>Clean\<close>, \<open>Join\<close>, \<open>Base\<close>,
  \<open>Dir\<close>) and the parts of \<open>strings\<close> and \<open>unicode/utf8\<close> that file names are
  built with. A path is handled as its list of components.
\<close>

section \<open>Components\<close>

fun split_on_acc :: "char \<Rightarrow> string \<Rightarrow> string \<Rightarrow> string list" where
  "split_on_acc sep acc [] = [rev acc]"
| "split_on_acc sep acc (c # cs) =
     (if c = sep then rev acc # split_on_acc sep [] cs else split_on_acc sep (c # acc) cs)"

text \<open>\<open>strings.Split\<close> with a separator of one byte.\<close>

definition split_on :: "char \<Rightarrow> string \<Rightarrow> string list" where
  "split_on sep s = split_on_acc sep [] s"

fun join_with :: "string \<Rightarrow> string list \<Rightarrow> string" where
  "join_with sep [] = []"
| "join_with sep [x] = x"
| "join_with sep (x # y # ys) = x @ sep @ join_with sep (y # ys)"

definition slash :: char where "slash = CHR ''/''"

definition rooted :: "string \<Rightarrow> bool" where
  "rooted s \<longleftrightarrow> s \<noteq> [] \<and> hd s = slash"

text \<open>
  One component after the cleaned ones (kept in order): a dot or an empty component adds nothing,
  a dot-dot removes the component before it, is dropped at a root, and stays otherwise.
\<close>

definition clean_step :: "bool \<Rightarrow> string list \<Rightarrow> string \<Rightarrow> string list" where
  "clean_step rt acc c =
     (if c = [] \<or> c = ''.'' then acc
      else if c = ''..'' then
        (if acc \<noteq> [] \<and> last acc \<noteq> ''..'' then butlast acc
         else if rt then acc
         else acc @ [c])
      else acc @ [c])"

definition clean_comps :: "bool \<Rightarrow> string list \<Rightarrow> string list" where
  "clean_comps rt cs = foldl (clean_step rt) [] cs"

definition comps :: "string \<Rightarrow> string list" where
  "comps s = clean_comps (rooted s) (split_on slash s)"

definition filepath_Clean :: "string \<Rightarrow> string" where
  "filepath_Clean s =
     (if rooted s then slash # join_with [slash] (comps s)
      else if comps s = [] then ''.''
      else join_with [slash] (comps s))"

definition filepath_Join :: "string list \<Rightarrow> string" where
  "filepath_Join es =
     (case dropWhile (\<lambda>e. e = []) es of
        [] \<Rightarrow> []
      | ds \<Rightarrow> filepath_Clean (join_with [slash] ds))"

definition strip_slashes :: "string \<Rightarrow> string" where
  "strip_slashes s = rev (dropWhile (\<lambda>c. c = slash) (rev s))"

definition after_last_slash :: "string \<Rightarrow> string" where
  "after_last_slash s = rev (takeWhile (\<lambda>c. c \<noteq> slash) (rev s))"

definition filepath_Base :: "string \<Rightarrow> string" where
  "filepath_Base s =
     (if s = [] then ''.''
      else let b = after_last_slash (strip_slashes s) in if b = [] then [slash] else b)"

definition filepath_Dir :: "string \<Rightarrow> string" where
  "filepath_Dir s = filepath_Clean (rev (dropWhile (\<lambda>c. c \<noteq> slash) (rev s)))"

section \<open>Strings\<close>

definition trim_char :: "char \<Rightarrow> string \<Rightarrow> string" where
  "trim_char c s = rev (dropWhile (\<lambda>x. x = c) (rev (dropWhile (\<lambda>x. x = c) s)))"

definition has_prefix :: "string \<Rightarrow> string \<Rightarrow> bool" where
  "has_prefix s p \<longleftrightarrow> take (length p) s = p"

definition has_suffix :: "string \<Rightarrow> string \<Rightarrow> bool" where
  "has_suffix s p \<longleftrightarrow> length p \<le> length s \<and> drop (length s - length p) s = p"

definition trim_suffix :: "string \<Rightarrow> string \<Rightarrow> string" where
  "trim_suffix s p = (if has_suffix s p then take (length s - length p) s else s)"

section \<open>Runes\<close>

definition is_cont :: "int \<Rightarrow> int \<Rightarrow> char \<Rightarrow> bool" where
  "is_cont lo hi c \<longleftrightarrow> lo \<le> of_char c \<and> of_char c \<le> hi"

text \<open>The width of the first rune; a byte that starts no valid encoding is one rune by itself.\<close>

definition rune_width :: "string \<Rightarrow> nat" where
  "rune_width s =
     (case s of
        [] \<Rightarrow> 0
      | c # r \<Rightarrow>
          (let n = of_char c :: int;
               lo = (if n = 224 then 160 else if n = 240 then 144 else 128);
               hi = (if n = 237 then 159 else if n = 244 then 143 else 191) in
           if 194 \<le> n \<and> n \<le> 223 \<and> 1 \<le> length r \<and> is_cont 128 191 (r ! 0) then 2
           else if 224 \<le> n \<and> n \<le> 239 \<and> 2 \<le> length r \<and> is_cont lo hi (r ! 0) \<and> is_cont 128 191 (r ! 1) then 3
           else if 240 \<le> n \<and> n \<le> 244 \<and> 3 \<le> length r \<and> is_cont lo hi (r ! 0) \<and> is_cont 128 191 (r ! 1)
             \<and> is_cont 128 191 (r ! 2) then 4
           else 1))"

lemma rune_width_pos: "0 < rune_width (c # cs)"
  by (auto simp: rune_width_def Let_def)

text \<open>
  \<open>strings.Map\<close> with a function that sends every rune outside ASCII to the byte
  \<open>other\<close>.
\<close>

function map_runes :: "(char \<Rightarrow> char) \<Rightarrow> char \<Rightarrow> string \<Rightarrow> string" where
  "map_runes f other [] = []"
| "map_runes f other (c # cs) =
     (if (of_char c :: int) < 128 then f c # map_runes f other cs
      else other # map_runes f other (drop (rune_width (c # cs)) (c # cs)))"
  by pat_completeness auto
termination
  by (relation "measure (\<lambda>(f, x, s). length s)") (auto simp: rune_width_pos diff_less)

section \<open>Components of a joined path\<close>

lemma split_on_acc_append:
  "split_on_acc sep acc (s @ sep # t) = split_on_acc sep acc s @ split_on_acc sep [] t"
  by (induction s arbitrary: acc) auto

lemma split_on_append: "split_on sep (s @ sep # t) = split_on sep s @ split_on sep t"
  by (simp add: split_on_def split_on_acc_append)

lemma split_on_acc_atom: "sep \<notin> set s \<Longrightarrow> split_on_acc sep acc s = [rev acc @ s]"
  by (induction s arbitrary: acc) auto

lemma split_on_atom: "sep \<notin> set s \<Longrightarrow> split_on sep s = [s]"
  by (simp add: split_on_def split_on_acc_atom)

lemma rooted_append: "s \<noteq> [] \<Longrightarrow> rooted (s @ t) = rooted s"
  by (simp add: rooted_def)

text \<open>A proper file name: one component, neither empty nor a dot name.\<close>

definition plain_name :: "string \<Rightarrow> bool" where
  "plain_name f \<longleftrightarrow> slash \<notin> set f \<and> f \<noteq> [] \<and> f \<noteq> ''.'' \<and> f \<noteq> ''..''"

lemma comps_child:
  assumes "d \<noteq> []" "plain_name f"
  shows "comps (d @ slash # f) = comps d @ [f]"
  using assms by (simp add: comps_def clean_comps_def rooted_append split_on_append split_on_atom plain_name_def clean_step_def)

lemma join_with_snoc: "cs \<noteq> [] \<Longrightarrow> join_with sep (cs @ [f]) = join_with sep cs @ sep @ f"
  by (induction sep cs rule: join_with.induct) auto

text \<open>Joining a directory and a proper name names an entry of the directory itself.\<close>

lemma Join_child:
  assumes "d \<noteq> []" "plain_name f"
  shows "filepath_Join [d, f] =
    (if comps d = [] then (if rooted d then slash # f else f) else filepath_Clean d @ slash # f)"
proof -
  have "filepath_Join [d, f] = filepath_Clean (d @ slash # f)"
    using assms(1) by (simp add: filepath_Join_def)
  also have "\<dots> = (if rooted d then slash # join_with [slash] (comps d @ [f]) else join_with [slash] (comps d @ [f]))"
    using assms comps_child [OF assms] by (simp add: filepath_Clean_def rooted_append)
  finally show ?thesis
    by (auto simp: join_with_snoc filepath_Clean_def)
qed

lemma Join_child_inj:
  assumes "d \<noteq> []" "plain_name f" "plain_name g" "filepath_Join [d, f] = filepath_Join [d, g]"
  shows "f = g"
  using assms by (auto simp: Join_child split: if_splits)

end
