(* ===== verification/Json.thy ===== *)
theory Json
  imports Go_Prelude "HOL-Library.Monad_Syntax"
begin

text \<open>
  The part of \<open>encoding/json\<close> that the ledger, the write-ahead log and the ingress rely on:
  the compact text of a value (\<open>json.Marshal\<close>) and the reader of a text
  (\<open>json.Unmarshal\<close> before it stores into a Go value). Strings are byte sequences; bytes from
  0x80 on pass through unchanged in both directions, as they do for valid UTF-8 (the escaping of
  U+2028 and U+2029, the replacement of invalid UTF-8 and the nesting limit of 10000 are left out).
  The reader's fuel is its input's length: \<open>json_roundtrip\<close> shows that it suffices for
  every text the printer makes.
\<close>

section \<open>Values\<close>

datatype json =
    JNull
  | JBool bool
  | JNum string
  | JStr string
  | JArr "json list"
  | JObj "(string \<times> json) list"

definition dquote :: char where "dquote = CHR 0x22"
definition backslash :: char where "backslash = CHR 0x5C"
definition newline :: char where "newline = CHR 0x0A"
definition carriage_return :: char where "carriage_return = CHR 0x0D"

section \<open>Printing\<close>

definition json_char :: "char \<Rightarrow> string" where
  "json_char c =
     (let n = of_char c :: int in
      if n = 34 \<or> n = 92 then [backslash, c]
      else if n = 8 then backslash # ''b''
      else if n = 12 then backslash # ''f''
      else if n = 10 then backslash # ''n''
      else if n = 13 then backslash # ''r''
      else if n = 9 then backslash # ''t''
      else if n < 32 \<or> n = 60 \<or> n = 62 \<or> n = 38 then backslash # ''u00'' @ hex_byte c
      else [c])"

definition json_body :: "string \<Rightarrow> string" where
  "json_body s = concat (map json_char s)"

definition json_string :: "string \<Rightarrow> string" where
  "json_string s = dquote # json_body s @ [dquote]"

fun json_print :: "json \<Rightarrow> string"
  and json_elems :: "json list \<Rightarrow> string"
  and json_members :: "(string \<times> json) list \<Rightarrow> string" where
  "json_print JNull = ''null''"
| "json_print (JBool b) = (if b then ''true'' else ''false'')"
| "json_print (JNum l) = l"
| "json_print (JStr s) = json_string s"
| "json_print (JArr xs) = (if xs = [] then ''[]'' else ''['' @ json_elems xs)"
| "json_print (JObj ms) = (if ms = [] then ''{}'' else ''{'' @ json_members ms)"
| "json_elems [] = []"
| "json_elems (x # xs) = json_print x @ (if xs = [] then '']'' else '','' @ json_elems xs)"
| "json_members [] = []"
| "json_members (m # ms) =
     json_string (fst m) @ '':'' @ json_print (snd m) @ (if ms = [] then ''}'' else '','' @ json_members ms)"

section \<open>Reading\<close>

definition is_ws :: "char \<Rightarrow> bool" where
  "is_ws c \<longleftrightarrow> (let n = of_char c :: int in n = 32 \<or> n = 9 \<or> n = 10 \<or> n = 13)"

definition skip_ws :: "string \<Rightarrow> string" where
  "skip_ws = dropWhile is_ws"

definition is_digit :: "char \<Rightarrow> bool" where
  "is_digit c \<longleftrightarrow> (let n = of_char c :: int in 48 \<le> n \<and> n \<le> 57)"

definition expect :: "char \<Rightarrow> string \<Rightarrow> string option" where
  "expect c s = (case s of [] \<Rightarrow> None | x # r \<Rightarrow> if x = c then Some r else None)"

definition hex_val :: "char \<Rightarrow> int option" where
  "hex_val c =
     (let n = of_char c :: int in
      if 48 \<le> n \<and> n \<le> 57 then Some (n - 48)
      else if 97 \<le> n \<and> n \<le> 102 then Some (n - 87)
      else if 65 \<le> n \<and> n \<le> 70 then Some (n - 55)
      else None)"

text \<open>Four hexadecimal digits.\<close>

definition getu4 :: "string \<Rightarrow> int option" where
  "getu4 s =
     (case s of
        a # b # c # d # _ \<Rightarrow>
          do {w \<leftarrow> hex_val a; x \<leftarrow> hex_val b; y \<leftarrow> hex_val c; z \<leftarrow> hex_val d;
              Some (((w * 16 + x) * 16 + y) * 16 + z)}
      | _ \<Rightarrow> None)"

definition utf8_encode :: "int \<Rightarrow> string" where
  "utf8_encode r =
     (if r < 128 then [char_of r]
      else if r < 2048 then [char_of (192 + r div 64), char_of (128 + r mod 64)]
      else if r < 65536 then
        [char_of (224 + r div 4096), char_of (128 + r div 64 mod 64), char_of (128 + r mod 64)]
      else [char_of (240 + r div 262144), char_of (128 + r div 4096 mod 64),
            char_of (128 + r div 64 mod 64), char_of (128 + r mod 64)])"

text \<open>
  One escape after its backslash: the bytes it stands for and the number of bytes read. A
  surrogate joins the escaped low surrogate that follows it, and is U+FFFD without one.
\<close>

definition unescape_u :: "int \<Rightarrow> string \<Rightarrow> string \<times> nat" where
  "unescape_u r rest =
     (if 55296 \<le> r \<and> r < 57344
      then (case (if take 2 rest = backslash # ''u'' then getu4 (drop 2 rest) else None) of
              None \<Rightarrow> (utf8_encode 65533, 5)
            | Some q \<Rightarrow>
                if r < 56320 \<and> 56320 \<le> q \<and> q < 57344
                then (utf8_encode ((r - 55296) * 1024 + (q - 56320) + 65536), 11)
                else (utf8_encode 65533, 5))
      else (utf8_encode r, 5))"

definition unescape :: "string \<Rightarrow> (string \<times> nat) option" where
  "unescape s =
     (case s of
        [] \<Rightarrow> None
      | c # r \<Rightarrow>
          if c = dquote \<or> c = backslash \<or> c = CHR ''/'' then Some ([c], 1)
          else if c = CHR ''b'' then Some ([char_of (8::int)], 1)
          else if c = CHR ''f'' then Some ([char_of (12::int)], 1)
          else if c = CHR ''n'' then Some ([char_of (10::int)], 1)
          else if c = CHR ''r'' then Some ([char_of (13::int)], 1)
          else if c = CHR ''t'' then Some ([char_of (9::int)], 1)
          else if c = CHR ''u'' then map_option (\<lambda>n. unescape_u n (drop 4 r)) (getu4 r)
          else None)"

text \<open>The rest of a string after its opening quote: its bytes and what follows.\<close>

function lex_string :: "string \<Rightarrow> (string \<times> string) option" where
  "lex_string [] = None"
| "lex_string (c # cs) =
     (if c = dquote then Some ([], cs)
      else if c = backslash
      then do {(out, n) \<leftarrow> unescape cs; (s, r) \<leftarrow> lex_string (drop n cs); Some (out @ s, r)}
      else if (of_char c :: int) < 32 then None
      else do {(s, r) \<leftarrow> lex_string cs; Some (c # s, r)})"
  by pat_completeness auto
termination
  by (relation "measure length") auto

definition lex_int :: "string \<Rightarrow> (string \<times> string) option" where
  "lex_int s =
     (case s of
        [] \<Rightarrow> None
      | c # r \<Rightarrow>
          if c = CHR ''0'' then Some ([c], r)
          else if is_digit c then Some (takeWhile is_digit s, dropWhile is_digit s)
          else None)"

definition lex_digits :: "string \<Rightarrow> (string \<times> string) option" where
  "lex_digits s =
     (let d = takeWhile is_digit s in if d = [] then None else Some (d, dropWhile is_digit s))"

definition lex_frac :: "string \<Rightarrow> (string \<times> string) option" where
  "lex_frac s =
     (case expect CHR ''.'' s of
        None \<Rightarrow> Some ([], s)
      | Some r \<Rightarrow> map_option (\<lambda>(d, r'). (''.'' @ d, r')) (lex_digits r))"

definition lex_exp :: "string \<Rightarrow> (string \<times> string) option" where
  "lex_exp s =
     (case s of
        [] \<Rightarrow> Some ([], [])
      | c # r \<Rightarrow>
          if c = CHR ''e'' \<or> c = CHR ''E''
          then (let sign = (case r of x # _ \<Rightarrow> if x = CHR ''+'' \<or> x = CHR ''-'' then [x] else [] | [] \<Rightarrow> [])
                in map_option (\<lambda>(d, r'). (c # sign @ d, r')) (lex_digits (drop (length sign) r)))
          else Some ([], s))"

definition lex_number :: "string \<Rightarrow> (string \<times> string) option" where
  "lex_number s =
     (let (sign, s0) = (case expect CHR ''-'' s of None \<Rightarrow> ([], s) | Some r \<Rightarrow> (''-'', r)) in
      do {(i, s1) \<leftarrow> lex_int s0; (f, s2) \<leftarrow> lex_frac s1; (e, s3) \<leftarrow> lex_exp s2;
          Some (sign @ i @ f @ e, s3)})"

definition lex_word :: "string \<Rightarrow> json \<Rightarrow> string \<Rightarrow> (json \<times> string) option" where
  "lex_word w j s = (if take (length w) s = w then Some (j, drop (length w) s) else None)"

fun p_value :: "nat \<Rightarrow> string \<Rightarrow> (json \<times> string) option"
  and p_elems :: "nat \<Rightarrow> string \<Rightarrow> (json list \<times> string) option"
  and p_members :: "nat \<Rightarrow> string \<Rightarrow> ((string \<times> json) list \<times> string) option" where
  "p_value 0 s = None"
| "p_value (Suc n) s =
     (case skip_ws s of
        [] \<Rightarrow> None
      | c # r \<Rightarrow>
          if c = dquote then map_option (\<lambda>(x, r'). (JStr x, r')) (lex_string r)
          else if c = CHR ''{'' then
            (case expect CHR ''}'' (skip_ws r) of
               Some r' \<Rightarrow> Some (JObj [], r')
             | None \<Rightarrow> map_option (\<lambda>(ms, r'). (JObj ms, r')) (p_members n r))
          else if c = CHR ''['' then
            (case expect CHR '']'' (skip_ws r) of
               Some r' \<Rightarrow> Some (JArr [], r')
             | None \<Rightarrow> map_option (\<lambda>(xs, r'). (JArr xs, r')) (p_elems n r))
          else if c = CHR ''t'' then lex_word ''true'' (JBool True) (c # r)
          else if c = CHR ''f'' then lex_word ''false'' (JBool False) (c # r)
          else if c = CHR ''n'' then lex_word ''null'' JNull (c # r)
          else map_option (\<lambda>(l, r'). (JNum l, r')) (lex_number (c # r)))"
| "p_elems 0 s = None"
| "p_elems (Suc n) s =
     do {(x, r) \<leftarrow> p_value n s;
         (case expect CHR '']'' (skip_ws r) of
            Some r' \<Rightarrow> Some ([x], r')
          | None \<Rightarrow>
              do {r1 \<leftarrow> expect CHR '','' (skip_ws r); (xs, r') \<leftarrow> p_elems n r1; Some (x # xs, r')})}"
| "p_members 0 s = None"
| "p_members (Suc n) s =
     do {r0 \<leftarrow> expect dquote (skip_ws s); (k, r1) \<leftarrow> lex_string r0;
         r2 \<leftarrow> expect CHR '':'' (skip_ws r1); (v, r) \<leftarrow> p_value n r2;
         (case expect CHR ''}'' (skip_ws r) of
            Some r' \<Rightarrow> Some ([(k, v)], r')
          | None \<Rightarrow>
              do {r3 \<leftarrow> expect CHR '','' (skip_ws r); (ms, r') \<leftarrow> p_members n r3; Some ((k, v) # ms, r')})}"

definition json_parse :: "string \<Rightarrow> json option" where
  "json_parse s =
     do {(j, r) \<leftarrow> p_value (length s + 1) s; (if skip_ws r = [] then Some j else None)}"

section \<open>Reading back a string\<close>

lemmas json_chars = dquote_def backslash_def newline_def carriage_return_def

lemma of_char_int_bounds: "0 \<le> (of_char c :: int)" "(of_char c :: int) < 256"
  using of_char_mod_256 [of c, where 'a = int] pos_mod_bound [of 256 "of_char c :: int"]
    pos_mod_sign [of 256 "of_char c :: int"] by simp_all

lemma char_code: "of_char c = (k :: int) \<Longrightarrow> c = char_of k"
  using char_of_char [of c, where 'a = int] by simp

lemma of_char_of_nat: "n < 256 \<Longrightarrow> (of_char (char_of (n :: nat)) :: int) = int n"
  using of_nat_of_char [of "char_of n", where 'a = int] by simp

lemma hex_val_digit: "n < 16 \<Longrightarrow> hex_val (hex_digit n) = Some (int n)"
  by (auto simp: hex_val_def hex_digit_def Let_def of_char_of_nat)

lemma getu4_hex_byte: "getu4 (CHR ''0'' # CHR ''0'' # hex_byte c @ s) = Some (of_char c)"
proof -
  have n: "(of_char c :: nat) < 256" by simp
  have z: "hex_val CHR ''0'' = Some 0" by (simp add: hex_val_def)
  have "hex_val (hex_digit (of_char c div 16)) = Some (int (of_char c div 16))"
    "hex_val (hex_digit (of_char c mod 16)) = Some (int (of_char c mod 16))"
    by (intro hex_val_digit less_mult_imp_div_less; simp)+
  moreover have "int (of_char c div 16) * 16 + int (of_char c mod 16) = of_char c"
    by (metis div_mult_mod_eq of_nat_of_char of_nat_add of_nat_mult of_nat_numeral)
  ultimately show ?thesis
    by (simp add: getu4_def hex_byte_def Let_def z)
qed

lemma unescape_hex_byte:
  assumes "(of_char c :: int) < 128"
  shows "unescape (CHR ''u'' # CHR ''0'' # CHR ''0'' # hex_byte c @ s) = Some ([c], 5)"
proof -
  have "getu4 (CHR ''0'' # CHR ''0'' # hex_byte c @ s) = Some (of_char c)"
    by (rule getu4_hex_byte)
  then show ?thesis
    using assms by (simp add: unescape_def unescape_u_def utf8_encode_def json_chars)
qed

lemma lex_string_json_char:
  "lex_string (json_char c @ s) = do {(t, r) \<leftarrow> lex_string s; Some (c # t, r)}"
proof -
  let ?n = "of_char c :: int"
  have bs: "backslash \<noteq> dquote" by (simp add: json_chars)
  consider (e) "?n \<in> {34, 92, 8, 12, 10, 13, 9}"
    | (u) "?n \<notin> {34, 92, 8, 12, 10, 13, 9}" "?n < 32 \<or> ?n = 60 \<or> ?n = 62 \<or> ?n = 38"
    | (plain) "?n \<notin> {34, 92, 8, 12, 10, 13, 9}" "\<not> (?n < 32 \<or> ?n = 60 \<or> ?n = 62 \<or> ?n = 38)"
    by auto
  then show ?thesis
  proof cases
    case e
    then have "c = CHR 0x22 \<or> c = CHR 0x5C \<or> c = CHR 0x08 \<or> c = CHR 0x0C \<or> c = CHR 0x0A \<or> c = CHR 0x0D \<or> c = CHR 0x09"
      by (auto dest!: char_code simp: char_of_def)
    then show ?thesis
      by (elim disjE) (simp_all add: json_char_def unescape_def json_chars char_of_def)
  next
    case u
    then show ?thesis
      using unescape_hex_byte [of c s] bs
      by (auto simp: json_char_def Let_def hex_byte_def)
  next
    case plain
    then have "c \<noteq> dquote" "c \<noteq> backslash" by (auto simp: json_chars)
    then show ?thesis using plain by (simp add: json_char_def Let_def)
  qed
qed

lemma lex_string_body: "lex_string (json_body s @ dquote # r) = Some (s, r)"
  by (induction s) (simp_all add: json_body_def lex_string_json_char)

section \<open>Reading back a number\<close>

lemma digits_is_digit: "0 \<le> n \<Longrightarrow> list_all is_digit (digits n)"
proof (induction n rule: digits.induct)
  case (1 n)
  have d: "is_digit (char_of (48 + k))" if "0 \<le> k" "k < 10" for k :: int
    using that by (simp add: is_digit_def Let_def)
  show ?case
  proof (cases "n < 10")
    case True
    then show ?thesis using 1 d by (subst digits.simps) simp
  next
    case False
    then have "list_all is_digit (digits (n div 10))" using 1 by simp
    then show ?thesis using False d [of "n mod 10"] by (subst digits.simps) simp
  qed
qed

lemma digits_hd: "0 < n \<Longrightarrow> digits n \<noteq> [] \<and> hd (digits n) \<noteq> CHR ''0''"
proof (induction n rule: digits.induct)
  case (1 n)
  show ?case
  proof (cases "n < 10")
    case True
    have "char_of (48 + n) \<noteq> CHR ''0''"
    proof
      assume "char_of (48 + n) = CHR ''0''"
      then have "(of_char (char_of (48 + n)) :: int) = of_char CHR ''0''" by (rule arg_cong)
      then show False using True 1 by simp
    qed
    then show ?thesis using True by (subst (1 2) digits.simps) simp
  next
    case False
    then have "0 < n div 10" by simp
    then show ?thesis using 1 False by (subst (1 2) digits.simps) simp
  qed
qed

lemma digits_0: "digits 0 = ''0''"
  by (simp add: digits.simps char_of_def)

text \<open>What may follow a number inside a printed value.\<close>

definition num_stop :: "string \<Rightarrow> bool" where
  "num_stop r \<longleftrightarrow> r = [] \<or> hd r \<in> {CHR '','', CHR ''}'', CHR '']'', newline}"

lemma num_stop_simps [simp]:
  "num_stop []" "num_stop (CHR '','' # s)" "num_stop (CHR ''}'' # s)" "num_stop (CHR '']'' # s)" "num_stop (newline # s)"
  by (simp_all add: num_stop_def)

lemma num_stop_cases:
  assumes "num_stop r"
  obtains "r = []" | s where "r = CHR '','' # s" | s where "r = CHR ''}'' # s" | s where "r = CHR '']'' # s" | s where "r = newline # s"
  using assms by (cases r) (auto simp: num_stop_def)

lemma num_stop_span:
  assumes "num_stop r" "list_all is_digit d"
  shows "takeWhile is_digit (d @ r) = d" "dropWhile is_digit (d @ r) = r"
proof -
  have "takeWhile is_digit r = [] \<and> dropWhile is_digit r = r"
    using assms(1) by (cases rule: num_stop_cases) (simp_all add: is_digit_def newline_def)
  then show "takeWhile is_digit (d @ r) = d" "dropWhile is_digit (d @ r) = r"
    using assms(2) by (simp_all add: list_all_iff takeWhile_append2 dropWhile_append2)
qed

lemma lex_tail_stop: "num_stop r \<Longrightarrow> lex_frac r = Some ([], r)" "num_stop r \<Longrightarrow> lex_exp r = Some ([], r)"
  by (auto elim!: num_stop_cases simp: lex_frac_def lex_exp_def expect_def newline_def)

lemma lex_int_digits:
  assumes "0 \<le> n" "num_stop r"
  shows "lex_int (digits n @ r) = Some (digits n, r)"
proof (cases "n = 0")
  case True
  then show ?thesis by (simp add: digits_0 lex_int_def)
next
  case False
  then have n: "0 < n" using assms by simp
  obtain c s where cs: "digits n = c # s" "c \<noteq> CHR ''0''" "is_digit c"
    using digits_hd [OF n] digits_is_digit [OF assms(1)] by (cases "digits n") auto
  have "takeWhile is_digit (digits n @ r) = digits n" "dropWhile is_digit (digits n @ r) = r"
    using num_stop_span [OF assms(2) digits_is_digit [OF assms(1)]] by auto
  then show ?thesis using cs by (simp add: lex_int_def)
qed

lemma is_digit_hd_digits: "0 \<le> n \<Longrightarrow> \<exists>c s. digits n = c # s \<and> is_digit c"
  using digits_hd [of n] digits_is_digit [of n] digits_0
  by (cases "n = 0"; cases "digits n") auto

lemma not_digit_minus: "\<not> is_digit CHR ''-''" by (simp add: is_digit_def)

lemma lex_number_itoa:
  assumes "num_stop r"
  shows "lex_number (itoa i @ r) = Some (itoa i, r)"
proof (cases "i < 0")
  case True
  then show ?thesis
    using lex_int_digits [of "- i" r] assms
    by (simp add: itoa_def lex_number_def expect_def lex_tail_stop)
next
  case False
  then obtain c s where cs: "digits i = c # s" "is_digit c" using is_digit_hd_digits [of i] by auto
  then have "c \<noteq> CHR ''-''" using not_digit_minus by auto
  then have "expect CHR ''-'' (digits i @ r) = None" using cs by (simp add: expect_def)
  then show ?thesis
    using lex_int_digits [of i r] assms False by (simp add: itoa_def lex_number_def lex_tail_stop)
qed

section \<open>Reading back a value\<close>

text \<open>Values whose numbers are integers, the only ones the engine prints.\<close>

fun json_wf :: "json \<Rightarrow> bool" where
  "json_wf (JNum l) = (\<exists>i. l = itoa i)"
| "json_wf (JArr xs) = (\<forall>x \<in> set xs. json_wf x)"
| "json_wf (JObj ms) = (\<forall>m \<in> set ms. json_wf (snd m))"
| "json_wf _ = True"

fun need :: "json \<Rightarrow> nat" and need_elems :: "json list \<Rightarrow> nat" and need_members :: "(string \<times> json) list \<Rightarrow> nat" where
  "need (JArr xs) = Suc (need_elems xs)"
| "need (JObj ms) = Suc (need_members ms)"
| "need _ = 1"
| "need_elems [] = 0"
| "need_elems (x # xs) = Suc (max (need x) (need_elems xs))"
| "need_members [] = 0"
| "need_members (m # ms) = Suc (max (need (snd m)) (need_members ms))"

lemma itoa_nonempty: "\<exists>c s. itoa i = c # s \<and> (is_digit c \<or> c = CHR ''-'')"
  using is_digit_hd_digits [of i] by (auto simp: itoa_def)

lemma json_print_first:
  assumes "json_wf j"
  shows "\<exists>c s. json_print j = c # s \<and> \<not> is_ws c \<and> c \<noteq> CHR '']'' \<and> c \<noteq> CHR ''}''"
proof (cases j)
  case (JNum l)
  then obtain i where "l = itoa i" using assms by auto
  then obtain c s where c: "l = c # s" "is_digit c \<or> c = CHR ''-''" using itoa_nonempty [of i] by auto
  have "\<not> is_ws c \<and> c \<noteq> CHR '']'' \<and> c \<noteq> CHR ''}''"
    using c(2) by (auto simp: is_digit_def is_ws_def Let_def)
  then show ?thesis using JNum c by auto
qed (auto simp: is_ws_def json_string_def dquote_def)

lemma need_le_length:
  "json_wf j \<Longrightarrow> need j \<le> length (json_print j)"
  "\<forall>x \<in> set xs. json_wf x \<Longrightarrow> need_elems xs \<le> length (json_elems xs)"
  "\<forall>m \<in> set ms. json_wf (snd m) \<Longrightarrow> need_members ms \<le> length (json_members ms)"
proof (induction j and xs and ms rule: json_print_json_elems_json_members.induct)
  case (3 l)
  then obtain i where "l = itoa i" by auto
  then show ?case using itoa_nonempty [of i] by auto
qed (auto simp: json_string_def)

lemma skip_ws_first [simp]: "\<not> is_ws c \<Longrightarrow> skip_ws (c # s) = c # s"
  by (simp add: skip_ws_def)

lemma not_ws [simp]:
  "\<not> is_ws CHR ''{''" "\<not> is_ws CHR ''}''" "\<not> is_ws CHR ''[''" "\<not> is_ws CHR '']''"
  "\<not> is_ws CHR '',''" "\<not> is_ws CHR '':''" "\<not> is_ws CHR ''t''" "\<not> is_ws CHR ''f''" "\<not> is_ws CHR ''n''"
  "\<not> is_ws dquote"
  by (simp_all add: is_ws_def dquote_def)

lemma expect_same [simp]: "expect c (c # s) = Some s" by (simp add: expect_def)
lemma expect_other: "x \<noteq> c \<Longrightarrow> expect c (x # s) = None" by (simp add: expect_def)

lemma p_value_number:
  assumes "json_wf (JNum l)" "num_stop r"
  shows "p_value (Suc n) (l @ r) = Some (JNum l, r)"
proof -
  obtain i where i: "l = itoa i" using assms by auto
  then obtain c s where c: "l = c # s" "is_digit c \<or> c = CHR ''-''" using itoa_nonempty [of i] by auto
  have "\<not> is_ws c" "c \<noteq> dquote" "c \<notin> {CHR ''{'', CHR ''['', CHR ''t'', CHR ''f'', CHR ''n''}"
    using c(2) by (auto simp: is_digit_def is_ws_def Let_def dquote_def)
  moreover have "lex_number (c # s @ r) = Some (c # s, r)"
    using lex_number_itoa [OF assms(2), of i] c(1) unfolding i by (metis append_Cons)
  ultimately show ?thesis using c(1) by simp
qed

lemma expect_first:
  assumes "json_wf j"
  shows "expect CHR '']'' (skip_ws (json_print j @ s)) = None"
  using json_print_first [OF assms] by (auto simp: expect_def)

lemma p_value_print:
  "json_wf j \<Longrightarrow> need j \<le> n \<Longrightarrow> num_stop r \<Longrightarrow> p_value n (json_print j @ r) = Some (j, r)"
  "\<forall>x \<in> set xs. json_wf x \<Longrightarrow> xs \<noteq> [] \<Longrightarrow> need_elems xs \<le> n \<Longrightarrow>
     p_elems n (json_elems xs @ r) = Some (xs, r)"
  "\<forall>m \<in> set ms. json_wf (snd m) \<Longrightarrow> ms \<noteq> [] \<Longrightarrow> need_members ms \<le> n \<Longrightarrow>
     p_members n (json_members ms @ r) = Some (ms, r)"
proof (induction j and xs and ms arbitrary: n r and n r and n r rule: json_print_json_elems_json_members.induct)
  case 1
  then show ?case by (cases n) (simp_all add: lex_word_def dquote_def)
next
  case (2 b)
  then show ?case by (cases n) (simp_all add: lex_word_def dquote_def)
next
  case (3 l)
  then obtain k where "n = Suc k" by (cases n) auto
  then show ?case using p_value_number [of l r k] 3 by (simp only: json_print.simps)
next
  case (4 s)
  then show ?case by (cases n) (simp_all add: json_string_def lex_string_body)
next
  case (5 xs)
  show ?case
  proof (cases xs)
    case Nil
    then show ?thesis using 5 by (cases n) (simp_all add: dquote_def)
  next
    case (Cons x xs')
    then obtain k where n: "n = Suc k" using 5 by (cases n) auto
    have "expect CHR '']'' (skip_ws (json_elems xs @ r)) = None"
      using 5(2) Cons expect_first [of x] by simp
    moreover have "p_elems k (json_elems xs @ r) = Some (xs, r)"
      using 5 Cons n by (intro 5(1)) auto
    ultimately show ?thesis using n Cons by (simp add: dquote_def)
  qed
next
  case (6 ms)
  show ?case
  proof (cases ms)
    case Nil
    then show ?thesis using 6 by (cases n) (simp_all add: dquote_def)
  next
    case (Cons m ms')
    then obtain k where n: "n = Suc k" using 6 by (cases n) auto
    have "expect CHR ''}'' (skip_ws (json_members ms @ r)) = None"
      using Cons by (simp add: json_string_def expect_def dquote_def [symmetric]) (simp add: dquote_def)
    moreover have "p_members k (json_members ms @ r) = Some (ms, r)"
      using 6 Cons n by (intro 6(1)) auto
    ultimately show ?thesis using n Cons by (simp add: dquote_def)
  qed
next
  case (8 x xs)
  then obtain k where n: "n = Suc k" by (cases n) auto
  show ?case
  proof (cases "xs = []")
    case True
    then show ?thesis using 8 n by simp
  next
    case False
    then have "p_value k (json_print x @ CHR '','' # json_elems xs @ r) = Some (x, CHR '','' # json_elems xs @ r)"
      using 8 n by (intro 8(1)) auto
    moreover have "p_elems k (json_elems xs @ r) = Some (xs, r)"
      using 8 n False by (intro 8(2)) auto
    ultimately show ?thesis using n False by (simp add: expect_other)
  qed
next
  case (10 m ms)
  then obtain k where n: "n = Suc k" by (cases n) auto
  show ?case
  proof (cases "ms = []")
    case True
    then have "p_value k (json_print (snd m) @ CHR ''}'' # r) = Some (snd m, CHR ''}'' # r)"
      using 10 n by (intro 10(1)) auto
    then show ?thesis using True n by (simp add: json_string_def lex_string_body)
  next
    case False
    then have "p_value k (json_print (snd m) @ CHR '','' # json_members ms @ r) = Some (snd m, CHR '','' # json_members ms @ r)"
      using 10 n by (intro 10(1)) auto
    moreover have "p_members k (json_members ms @ r) = Some (ms, r)"
      using 10 n False by (intro 10(2)) auto
    ultimately show ?thesis using n False by (simp add: expect_other json_string_def lex_string_body)
  qed
qed simp_all

lemma json_roundtrip:
  assumes "json_wf j"
  shows "json_parse (json_print j) = Some j"
proof -
  have "p_value (length (json_print j) + 1) (json_print j @ []) = Some (j, [])"
    using need_le_length(1) [OF assms] assms by (intro p_value_print(1)) auto
  then show ?thesis by (simp add: json_parse_def skip_ws_def)
qed

section \<open>Storing into a Go struct\<close>

text \<open>
  \<open>json.Unmarshal\<close> checks the syntax of the whole text first, then stores the members in
  order; the first value of a wrong kind is the error it returns.
\<close>

definition ascii_lower :: "string \<Rightarrow> string" where
  "ascii_lower = map (\<lambda>c. let n = of_char c :: int in if 65 \<le> n \<and> n \<le> 90 then char_of (n + 32) else c)"

fun json_kind :: "json \<Rightarrow> string" where
  "json_kind JNull = ''null''"
| "json_kind (JBool _) = ''bool''"
| "json_kind (JNum l) = ''number''"
| "json_kind (JStr _) = ''string''"
| "json_kind (JArr _) = ''array''"
| "json_kind (JObj _) = ''object''"

definition type_error :: "string \<Rightarrow> string \<Rightarrow> string \<Rightarrow> goerror" where
  "type_error kind field ty =
     errorf (''json: cannot unmarshal '' @ kind @ '' into Go struct field '' @ field @ '' of type '' @ ty)"

text \<open>The value to store, \<^term>\<open>None\<close> for \<open>null\<close>.\<close>

definition decode_string :: "string \<Rightarrow> json \<Rightarrow> goerror + string option" where
  "decode_string field v =
     (case v of JNull \<Rightarrow> Inr None | JStr s \<Rightarrow> Inr (Some s) | _ \<Rightarrow> Inl (type_error (json_kind v) field ''string''))"

definition int_of_digits :: "string \<Rightarrow> int" where
  "int_of_digits = foldl (\<lambda>n c. n * 10 + (of_char c - 48)) 0"

definition decode_uint64 :: "string \<Rightarrow> json \<Rightarrow> goerror + (64 word) option" where
  "decode_uint64 field v =
     (case v of
        JNull \<Rightarrow> Inr None
      | JNum l \<Rightarrow>
          if list_all is_digit l \<and> int_of_digits l < 2 ^ 64 then Inr (Some (word_of_int (int_of_digits l)))
          else Inl (type_error (''number '' @ l) field ''uint64'')
      | _ \<Rightarrow> Inl (type_error (json_kind v) field ''uint64''))"

fun store_members :: "('r \<Rightarrow> string \<times> json \<Rightarrow> goerror + 'r) \<Rightarrow> 'r \<Rightarrow> (string \<times> json) list \<Rightarrow> goerror + 'r" where
  "store_members store r [] = Inr r"
| "store_members store r (m # ms) =
     (case store r m of Inl e \<Rightarrow> Inl e | Inr r' \<Rightarrow> store_members store r' ms)"

definition unmarshal_struct ::
    "string \<Rightarrow> ('r \<Rightarrow> string \<times> json \<Rightarrow> goerror + 'r) \<Rightarrow> 'r \<Rightarrow> bytes \<Rightarrow> goerror + 'r" where
  "unmarshal_struct ty store zero text =
     (case json_parse text of
        None \<Rightarrow> Inl (errorf ''invalid character in JSON input'')
      | Some JNull \<Rightarrow> Inr zero
      | Some (JObj ms) \<Rightarrow> store_members store zero ms
      | Some v \<Rightarrow> Inl (errorf (''json: cannot unmarshal '' @ json_kind v @ '' into Go value of type '' @ ty)))"

lemma int_of_digits_snoc: "int_of_digits (s @ [c]) = int_of_digits s * 10 + (of_char c - 48)"
  by (simp add: int_of_digits_def)

lemma int_of_digits_digits: "0 \<le> n \<Longrightarrow> int_of_digits (digits n) = n"
proof (induction n rule: digits.induct)
  case (1 n)
  show ?case
  proof (cases "n < 10")
    case True
    then show ?thesis using 1 by (subst digits.simps) (simp add: int_of_digits_def)
  next
    case False
    then have "int_of_digits (digits (n div 10)) = n div 10" using 1 by simp
    then show ?thesis using False by (subst digits.simps) (simp add: int_of_digits_snoc)
  qed
qed

lemma decode_uint64_itoa: "decode_uint64 field (JNum (itoa (uint w))) = Inr (Some w)"
  using uint_bounded [of w] by (simp add: decode_uint64_def itoa_def int_of_digits_digits digits_is_digit)

lemma decode_string_JStr [simp]: "decode_string field (JStr s) = Inr (Some s)"
  by (simp add: decode_string_def)

section \<open>A printed value is one line\<close>

lemma json_char_no_newline: "newline \<notin> set (json_char c)"
proof -
  have h: "hex_digit k \<noteq> CHR 0x0A" if "k < 16" for k
    using hex_val_digit [OF that] by (auto simp: hex_val_def)
  have "newline \<notin> set (hex_byte c)"
    using h [of "of_char c div 16"] h [of "of_char c mod 16"] less_mult_imp_div_less [of "of_char c" 16 16]
    by (simp add: hex_byte_def Let_def newline_def eq_commute)
  then show ?thesis
    by (auto simp: json_char_def Let_def json_chars)
qed

lemma json_string_no_newline: "newline \<notin> set (json_string s)"
  using json_char_no_newline by (auto simp: json_string_def json_body_def) (simp add: json_chars)

lemma itoa_no_newline: "newline \<notin> set (itoa i)"
proof -
  have "newline \<notin> set (digits n)" if "0 \<le> n" for n
    using digits_is_digit [OF that] by (auto simp: list_all_iff newline_def is_digit_def)
  from this [of i] this [of "- i"] show ?thesis by (auto simp: itoa_def) (simp add: newline_def)
qed

lemma json_print_no_newline:
  "json_wf j \<Longrightarrow> newline \<notin> set (json_print j)"
  "\<forall>x \<in> set xs. json_wf x \<Longrightarrow> newline \<notin> set (json_elems xs)"
  "\<forall>m \<in> set ms. json_wf (snd m) \<Longrightarrow> newline \<notin> set (json_members ms)"
  by (induction j and xs and ms rule: json_print_json_elems_json_members.induct)
    (use json_string_no_newline itoa_no_newline in \<open>auto simp: newline_def\<close>)

section \<open>Indented text\<close>

text \<open>\<open>json.MarshalIndent\<close> with an empty prefix and two blanks per level.\<close>

definition indent :: "nat \<Rightarrow> string" where
  "indent d = newline # replicate (2 * d) CHR '' ''"

fun pretty :: "nat \<Rightarrow> json \<Rightarrow> string"
  and pretty_elems :: "nat \<Rightarrow> json list \<Rightarrow> string"
  and pretty_members :: "nat \<Rightarrow> (string \<times> json) list \<Rightarrow> string" where
  "pretty d JNull = ''null''"
| "pretty d (JBool b) = (if b then ''true'' else ''false'')"
| "pretty d (JNum l) = l"
| "pretty d (JStr s) = json_string s"
| "pretty d (JArr xs) = (if xs = [] then ''[]'' else ''['' @ pretty_elems d xs)"
| "pretty d (JObj ms) = (if ms = [] then ''{}'' else ''{'' @ pretty_members d ms)"
| "pretty_elems d [] = []"
| "pretty_elems d (x # xs) =
     indent (Suc d) @ pretty (Suc d) x @ (if xs = [] then indent d @ '']'' else '','' @ pretty_elems d xs)"
| "pretty_members d [] = []"
| "pretty_members d (m # ms) =
     indent (Suc d) @ json_string (fst m) @ '': '' @ pretty (Suc d) (snd m)
     @ (if ms = [] then indent d @ ''}'' else '','' @ pretty_members d ms)"

lemma is_ws_blank [simp]: "is_ws CHR '' ''" "is_ws newline"
  by (simp_all add: is_ws_def newline_def)

lemma skip_ws_replicate [simp]: "skip_ws (replicate k CHR '' '' @ s) = skip_ws s"
  by (induction k) (simp_all add: skip_ws_def)

lemma skip_ws_ws: "is_ws c \<Longrightarrow> skip_ws (c # s) = skip_ws s"
  by (simp add: skip_ws_def)

lemma skip_ws_indent [simp]: "skip_ws (indent d @ s) = skip_ws s"
  using skip_ws_replicate [of "2 * d" s] by (simp add: indent_def skip_ws_ws)

lemma skip_ws_idem [simp]: "skip_ws (skip_ws s) = skip_ws s"
  by (simp add: skip_ws_def)

lemma p_value_skip: "skip_ws s = skip_ws t \<Longrightarrow> p_value n s = p_value n t"
  by (cases n) simp_all

lemma pretty_first:
  assumes "json_wf j"
  shows "\<exists>c s. pretty d j = c # s \<and> \<not> is_ws c \<and> c \<noteq> CHR '']'' \<and> c \<noteq> CHR ''}''"
proof (cases j)
  case (JNum l)
  then show ?thesis using json_print_first [OF assms] by simp
qed (auto simp: is_ws_def json_string_def dquote_def)

lemma need_le_pretty:
  "json_wf j \<Longrightarrow> need j \<le> length (pretty d j)"
  "\<forall>x \<in> set xs. json_wf x \<Longrightarrow> need_elems xs \<le> length (pretty_elems d xs)"
  "\<forall>m \<in> set ms. json_wf (snd m) \<Longrightarrow> need_members ms \<le> length (pretty_members d ms)"
proof (induction d j and d xs and d ms rule: pretty_pretty_elems_pretty_members.induct)
  case (3 d l)
  then obtain i where "l = itoa i" by auto
  then show ?case using itoa_nonempty [of i] by auto
qed (auto simp: json_string_def)

lemma num_stop_indent [simp]: "num_stop (indent d @ s)"
  by (simp add: indent_def)

lemma p_value_pretty:
  "json_wf j \<Longrightarrow> need j \<le> n \<Longrightarrow> num_stop r \<Longrightarrow> p_value n (pretty d j @ r) = Some (j, r)"
  "\<forall>x \<in> set xs. json_wf x \<Longrightarrow> xs \<noteq> [] \<Longrightarrow> need_elems xs \<le> n \<Longrightarrow>
     p_elems n (pretty_elems d xs @ r) = Some (xs, r)"
  "\<forall>m \<in> set ms. json_wf (snd m) \<Longrightarrow> ms \<noteq> [] \<Longrightarrow> need_members ms \<le> n \<Longrightarrow>
     p_members n (pretty_members d ms @ r) = Some (ms, r)"
proof (induction d j and d xs and d ms arbitrary: n r and n r and n r rule: pretty_pretty_elems_pretty_members.induct)
  case (1 d)
  then show ?case by (cases n) (simp_all add: lex_word_def dquote_def)
next
  case (2 d b)
  then show ?case by (cases n) (simp_all add: lex_word_def dquote_def)
next
  case (3 d l)
  then obtain k where "n = Suc k" by (cases n) auto
  then show ?case using p_value_number [of l r k] 3 by (simp only: pretty.simps)
next
  case (4 d s)
  then show ?case by (cases n) (simp_all add: json_string_def lex_string_body)
next
  case (5 d xs)
  show ?case
  proof (cases xs)
    case Nil
    then show ?thesis using 5 by (cases n) (simp_all add: dquote_def)
  next
    case (Cons x xs')
    then obtain k where n: "n = Suc k" using 5 by (cases n) auto
    have "expect CHR '']'' (skip_ws (pretty_elems d xs @ r)) = None"
      using 5(2) Cons pretty_first [of x "Suc d"] by (auto simp: expect_def)
    moreover have "p_elems k (pretty_elems d xs @ r) = Some (xs, r)"
      using 5 Cons n by (intro 5(1)) auto
    ultimately show ?thesis using n Cons by (simp add: dquote_def)
  qed
next
  case (6 d ms)
  show ?case
  proof (cases ms)
    case Nil
    then show ?thesis using 6 by (cases n) (simp_all add: dquote_def)
  next
    case (Cons m ms')
    then obtain k where n: "n = Suc k" using 6 by (cases n) auto
    have "expect CHR ''}'' (skip_ws (pretty_members d ms @ r)) = None"
      using Cons by (simp add: json_string_def expect_def) (simp add: dquote_def)
    moreover have "p_members k (pretty_members d ms @ r) = Some (ms, r)"
      using 6 Cons n by (intro 6(1)) auto
    ultimately show ?thesis using n Cons by (simp add: dquote_def)
  qed
next
  case (8 d x xs)
  then obtain k where n: "n = Suc k" by (cases n) auto
  have v: "p_value k (indent (Suc d) @ pretty (Suc d) x @ s) = Some (x, s)" if "num_stop s" for s
    using 8 n that by (subst p_value_skip [of _ "pretty (Suc d) x @ s"]) auto
  show ?case
  proof (cases "xs = []")
    case True
    then show ?thesis using n v [of "indent d @ CHR '']'' # r"] by simp
  next
    case False
    then have "p_elems k (pretty_elems d xs @ r) = Some (xs, r)"
      using 8 n by (intro 8(2)) auto
    then show ?thesis using n False v [of "CHR '','' # pretty_elems d xs @ r"] by (simp add: expect_other)
  qed
next
  case (10 d m ms)
  then obtain k where n: "n = Suc k" by (cases n) auto
  have v: "p_value k (CHR '' '' # pretty (Suc d) (snd m) @ s) = Some (snd m, s)" if "num_stop s" for s
    using 10 n that by (subst p_value_skip [of _ "pretty (Suc d) (snd m) @ s"]) (auto simp: skip_ws_ws)
  show ?case
  proof (cases "ms = []")
    case True
    then show ?thesis
      using n v [of "indent d @ CHR ''}'' # r"] by (simp add: json_string_def lex_string_body)
  next
    case False
    then have "p_members k (pretty_members d ms @ r) = Some (ms, r)"
      using 10 n by (intro 10(2)) auto
    then show ?thesis
      using n False v [of "CHR '','' # pretty_members d ms @ r"]
      by (simp add: expect_other json_string_def lex_string_body)
  qed
qed simp_all

lemma pretty_roundtrip:
  assumes "json_wf j"
  shows "json_parse (pretty d j) = Some j"
proof -
  have "p_value (length (pretty d j) + 1) (pretty d j @ []) = Some (j, [])"
    using need_le_pretty(1) [OF assms] assms by (intro p_value_pretty(1)) (auto simp: le_SucI)
  then show ?thesis by (simp add: json_parse_def skip_ws_def)
qed

section \<open>Times\<close>

text \<open>
  \<open>time.Time\<close> is written as a quoted RFC 3339 text with nanoseconds and read back by the
  strict form of that grammar, with \<open>Z\<close> or a numeric offset.
\<close>

definition num_field :: "nat \<Rightarrow> nat \<Rightarrow> string \<Rightarrow> int option" where
  "num_field i n s =
     (let d = take n (drop i s) in if length d = n \<and> list_all is_digit d then Some (int_of_digits d) else None)"

definition char_at :: "nat \<Rightarrow> char \<Rightarrow> string \<Rightarrow> bool" where
  "char_at i c s \<longleftrightarrow> i < length s \<and> s ! i = c"

definition days_of_civil :: "int \<Rightarrow> int \<Rightarrow> int \<Rightarrow> int" where
  "days_of_civil yy mm dd =
     (let y = (if mm \<le> 2 then yy - 1 else yy); yoe = y mod 400;
          doy = (153 * ((mm + 9) mod 12) + 2) div 5 + dd - 1
      in y div 400 * 146097 + yoe * 365 + yoe div 4 - yoe div 100 + doy - 306)"

definition days_in_month :: "int \<Rightarrow> int \<Rightarrow> int" where
  "days_in_month yy mm =
     (if mm = 2 then (if yy mod 4 = 0 \<and> (yy mod 100 \<noteq> 0 \<or> yy mod 400 = 0) then 29 else 28)
      else if mm = 4 \<or> mm = 6 \<or> mm = 9 \<or> mm = 11 then 30 else 31)"

definition parse_frac :: "string \<Rightarrow> (int \<times> string) option" where
  "parse_frac s =
     (case expect CHR ''.'' s of
        None \<Rightarrow> Some (0, s)
      | Some r \<Rightarrow>
          (let d = takeWhile is_digit r; k = take 9 d in
           if d = [] then None
           else Some (int_of_digits (k @ replicate (9 - length k) CHR ''0''), dropWhile is_digit r)))"

definition parse_zone :: "string \<Rightarrow> int option" where
  "parse_zone s =
     (if s = ''Z'' then Some 0
      else if length s = 6 \<and> (char_at 0 CHR ''+'' s \<or> char_at 0 CHR ''-'' s) \<and> char_at 3 CHR '':'' s
      then do {h \<leftarrow> num_field 1 2 s; m \<leftarrow> num_field 4 2 s;
               (if h < 24 \<and> m < 60
                then Some ((if char_at 0 CHR ''-'' s then - 1 else 1) * (h * 3600 + m * 60)) else None)}
      else None)"

definition parse_RFC3339 :: "string \<Rightarrow> time option" where
  "parse_RFC3339 s =
     do {yy \<leftarrow> num_field 0 4 s; mm \<leftarrow> num_field 5 2 s; dd \<leftarrow> num_field 8 2 s;
         h \<leftarrow> num_field 11 2 s; mi \<leftarrow> num_field 14 2 s; sec \<leftarrow> num_field 17 2 s;
         (ns, r) \<leftarrow> parse_frac (drop 19 s); off \<leftarrow> parse_zone r;
         (if char_at 4 CHR ''-'' s \<and> char_at 7 CHR ''-'' s \<and> char_at 10 CHR ''T'' s \<and> char_at 13 CHR '':'' s
             \<and> char_at 16 CHR '':'' s \<and> 1 \<le> mm \<and> mm \<le> 12 \<and> 1 \<le> dd \<and> dd \<le> days_in_month yy mm
             \<and> h < 24 \<and> mi < 60 \<and> sec < 60
          then Some ((days_of_civil yy mm dd * 86400 + h * 3600 + mi * 60 + sec - off) * 1000000000 + ns)
          else None)}"

definition decode_time :: "string \<Rightarrow> json \<Rightarrow> goerror + time option" where
  "decode_time field v =
     (case v of
        JNull \<Rightarrow> Inr None
      | JStr s \<Rightarrow>
          (case parse_RFC3339 s of
             None \<Rightarrow> Inl (errorf (''parsing time '' @ fmt_q s))
           | Some t \<Rightarrow> Inr (Some t))
      | _ \<Rightarrow> Inl (errorf ''Time.UnmarshalJSON: input is not a JSON string''))"

text \<open>An instant whose text is read back; every instant of the years 1 to 9999 is one (\<open>Go_Time\<close>).\<close>

definition time_ok :: "time \<Rightarrow> bool" where
  "time_ok t \<longleftrightarrow> parse_RFC3339 (fmt_RFC3339Nano t) = Some t"

lemma decode_time_ok: "time_ok t \<Longrightarrow> decode_time field (JStr (fmt_RFC3339Nano t)) = Inr (Some t)"
  by (simp add: decode_time_def time_ok_def)

end
