(* ===== verification/Go_Strings.thy ===== *)
theory Go_Strings
  imports Go_Path Json
begin

text \<open>
  The parts of \<open>strings\<close>, \<open>strconv\<close> and \<open>bufio\<close> that several components use:
  searching, trimming, decimal numbers at their 64-bit range, and the line scanner with its default
  buffer.
\<close>

section \<open>Reading lines: \<open>bufio.Scanner\<close> with its default buffer\<close>

definition MaxScanTokenSize :: nat where "MaxScanTokenSize = 65536"

text \<open>The pieces between newlines; a last piece without newline counts when it is not empty.\<close>

fun raw_lines_acc :: "bytes \<Rightarrow> bytes \<Rightarrow> bytes list" where
  "raw_lines_acc acc [] = (if acc = [] then [] else [rev acc])"
| "raw_lines_acc acc (c # cs) =
     (if c = newline then rev acc # raw_lines_acc [] cs else raw_lines_acc (c # acc) cs)"

definition raw_lines :: "bytes \<Rightarrow> bytes list" where
  "raw_lines = raw_lines_acc []"

definition drop_cr :: "bytes \<Rightarrow> bytes" where
  "drop_cr l = (if l \<noteq> [] \<and> last l = carriage_return then butlast l else l)"

text \<open>The tokens up to the first line that does not fit the buffer, and whether there is one.\<close>

fun scan_raw :: "bytes list \<Rightarrow> bytes list \<times> bool" where
  "scan_raw [] = ([], False)"
| "scan_raw (l # ls) =
     (if length l \<ge> MaxScanTokenSize then ([], True)
      else let (ts, too_long) = scan_raw ls in (drop_cr l # ts, too_long))"

definition scan_lines :: "bytes \<Rightarrow> bytes list \<times> bool" where
  "scan_lines content = scan_raw (raw_lines content)"

definition err_too_long :: goerror where "err_too_long = errorf ''bufio.Scanner: token too long''"

section \<open>Searching\<close>

text \<open>\<open>strings.Index\<close> (\<^term>\<open>None\<close> for -1), \<open>Contains\<close>, \<open>Count\<close> of a non-empty text.\<close>

fun index_of :: "string \<Rightarrow> string \<Rightarrow> nat option" where
  "index_of [] sub = (if sub = [] then Some 0 else None)"
| "index_of (c # cs) sub = (if has_prefix (c # cs) sub then Some 0 else map_option Suc (index_of cs sub))"

definition contains :: "string \<Rightarrow> string \<Rightarrow> bool" where
  "contains s sub \<longleftrightarrow> index_of s sub \<noteq> None"

function count_sub :: "string \<Rightarrow> string \<Rightarrow> nat" where
  "count_sub s sub =
     (if sub = [] \<or> length s < length sub then 0
      else if has_prefix s sub then Suc (count_sub (drop (length sub) s) sub)
      else count_sub (tl s) sub)"
  by pat_completeness auto
termination
  by (relation "measure (\<lambda>(s, sub). length s)") (auto simp: Suc_le_eq neq_Nil_conv)

declare count_sub.simps [simp del]

lemma count_sub_absent: "c \<notin> set s \<Longrightarrow> count_sub s (c # t) = 0"
proof (induction s)
  case (Cons x xs)
  then show ?case by (subst count_sub.simps) (auto simp: has_prefix_def)
qed (simp add: count_sub.simps)

definition trim_prefix :: "string \<Rightarrow> string \<Rightarrow> string" where
  "trim_prefix s p = (if has_prefix s p then drop (length p) s else s)"

text \<open>\<open>strings.SplitN(s, sep, 2)\<close> for a text that contains the separator byte.\<close>

definition split_at :: "char \<Rightarrow> string \<Rightarrow> string \<times> string" where
  "split_at c s = (takeWhile (\<lambda>x. x \<noteq> c) s, tl (dropWhile (\<lambda>x. x \<noteq> c) s))"

definition replace_char :: "char \<Rightarrow> char \<Rightarrow> string \<Rightarrow> string" where
  "replace_char a b = map (\<lambda>x. if x = a then b else x)"

lemma has_prefix_iff: "has_prefix s p \<longleftrightarrow> (\<exists>t. s = p @ t)"
  by (auto simp: has_prefix_def) (metis append_take_drop_id)

lemma has_prefix_refl [simp]: "has_prefix s s" "has_prefix s []"
  by (simp_all add: has_prefix_def)

lemma contains_iff: "contains s sub \<longleftrightarrow> (\<exists>a b. s = a @ sub @ b)"
proof (induction s)
  case Nil
  show ?case by (auto simp: contains_def)
next
  case (Cons c cs)
  have "(\<exists>a b. c # cs = a @ sub @ b) \<longleftrightarrow> (\<exists>b. c # cs = sub @ b) \<or> (\<exists>a b. cs = a @ sub @ b)"
  proof
    assume "\<exists>a b. c # cs = a @ sub @ b"
    then obtain a b where ab: "c # cs = a @ sub @ b" by blast
    then show "(\<exists>b. c # cs = sub @ b) \<or> (\<exists>a b. cs = a @ sub @ b)" by (cases a) auto
  qed (metis append_Cons append_Nil)
  then show ?case using Cons by (auto simp: contains_def has_prefix_iff)
qed

section \<open>White space\<close>

text \<open>The encodings of the runes for which \<open>unicode.IsSpace\<close> holds.\<close>

definition space_runes :: "string list" where
  "space_runes =
     map (\<lambda>n. [char_of (n::nat)]) [9, 10, 11, 12, 13, 32]
     @ map (map char_of) [[194, 133::nat], [194, 160], [225, 154, 128], [226, 128, 168], [226, 128, 169], [226, 128, 175],
         [226, 129, 159], [227, 128, 128]]
     @ map (\<lambda>n. map char_of [226, 128, n]) [128::nat, 129, 130, 131, 132, 133, 134, 135, 136, 137, 138]"

function trim_runes :: "string list \<Rightarrow> string \<Rightarrow> string" where
  "trim_runes rs s =
     (case List.find (\<lambda>r. r \<noteq> [] \<and> has_prefix s r) rs of
        None \<Rightarrow> s
      | Some r \<Rightarrow> trim_runes rs (drop (length r) s))"
  by pat_completeness auto
termination
proof (relation "measure (\<lambda>(rs, s). length s)")
  fix rs :: "string list" and s r
  assume "List.find (\<lambda>r. r \<noteq> [] \<and> has_prefix s r) rs = Some r"
  then have "r \<noteq> []" "has_prefix s r" by (auto simp: find_Some_iff)
  then show "((rs, drop (length r) s), rs, s) \<in> measure (\<lambda>(rs, s). length s)"
    by (auto simp: has_prefix_iff)
qed simp

declare trim_runes.simps [simp del]

definition TrimSpace :: "string \<Rightarrow> string" where
  "TrimSpace s = rev (trim_runes (map rev space_runes) (rev (trim_runes space_runes s)))"

lemma TrimSpace_id:
  assumes "List.find (\<lambda>r. r \<noteq> [] \<and> has_prefix s r) space_runes = None"
    and "List.find (\<lambda>r. r \<noteq> [] \<and> has_prefix (rev s) r) (map rev space_runes) = None"
  shows "TrimSpace s = s"
  using assms by (simp add: TrimSpace_def trim_runes.simps)

text \<open>An ASCII character that is neither white space nor a control character.\<close>

definition solid :: "char \<Rightarrow> bool" where
  "solid c \<longleftrightarrow> 32 < (of_char c :: nat) \<and> (of_char c :: nat) < 128"

lemma space_runes_hollow: "r \<in> set space_runes \<Longrightarrow> r \<noteq> [] \<and> \<not> solid (hd r) \<and> \<not> solid (last r)"
proof -
  have "list_all (\<lambda>r. r \<noteq> [] \<and> \<not> solid (hd r) \<and> \<not> solid (last r)) space_runes"
    by (simp add: space_runes_def solid_def)
  then show "r \<in> set space_runes \<Longrightarrow> r \<noteq> [] \<and> \<not> solid (hd r) \<and> \<not> solid (last r)" by (simp add: list_all_iff)
qed

lemma TrimSpace_solid: "s \<noteq> [] \<Longrightarrow> solid (hd s) \<Longrightarrow> solid (last s) \<Longrightarrow> TrimSpace s = s"
proof (rule TrimSpace_id)
  assume s: "s \<noteq> []" "solid (hd s)" "solid (last s)"
  have "\<not> (r \<noteq> [] \<and> has_prefix s r)" if "r \<in> set space_runes" for r
    using space_runes_hollow [OF that] s by (cases r) (auto simp: has_prefix_iff)
  then show "List.find (\<lambda>r. r \<noteq> [] \<and> has_prefix s r) space_runes = None" by (auto simp: find_None_iff)
  have "\<not> has_prefix (rev s) (rev r)" if "r \<in> set space_runes" for r
  proof
    assume "has_prefix (rev s) (rev r)"
    then obtain b where "rev s = rev r @ b" by (auto simp: has_prefix_iff)
    then have "s = rev b @ r" by (metis rev_append rev_rev_ident)
    then show False using space_runes_hollow [OF that] s(3) by simp
  qed
  then show "List.find (\<lambda>r. r \<noteq> [] \<and> has_prefix (rev s) r) (map rev space_runes) = None" by (auto simp: find_None_iff)
qed

lemma trim_runes_suffix: "\<exists>a. s = a @ trim_runes rs s"
proof (induction rs s rule: trim_runes.induct)
  case (1 rs s)
  show ?case
  proof (cases "List.find (\<lambda>r. r \<noteq> [] \<and> has_prefix s r) rs")
    case (Some r)
    then obtain a where "drop (length r) s = a @ trim_runes rs (drop (length r) s)" using 1 by blast
    moreover have "trim_runes rs s = trim_runes rs (drop (length r) s)" using Some by (subst trim_runes.simps) simp
    ultimately have "s = (take (length r) s @ a) @ trim_runes rs s" by (metis append.assoc append_take_drop_id)
    then show ?thesis by blast
  qed (subst trim_runes.simps, simp)
qed

lemma TrimSpace_part: "\<exists>a b. s = a @ TrimSpace s @ b"
proof -
  obtain a where a: "s = a @ trim_runes space_runes s" using trim_runes_suffix by blast
  obtain b where "rev (trim_runes space_runes s) = b @ trim_runes (map rev space_runes) (rev (trim_runes space_runes s))"
    using trim_runes_suffix by blast
  then have "trim_runes space_runes s = TrimSpace s @ rev b" by (simp add: TrimSpace_def) (metis rev_append rev_rev_ident)
  with a show ?thesis by metis
qed

section \<open>Numbers\<close>

definition max_int64 :: int where "max_int64 = 9223372036854775807"
definition min_int64 :: int where "min_int64 = - 9223372036854775808"

text \<open>Two's complement: the value of a 64-bit signed result.\<close>

definition int64 :: "int \<Rightarrow> int" where
  "int64 x = (x + 2 ^ 63) mod 2 ^ 64 - 2 ^ 63"

lemma int64_id: "min_int64 \<le> x \<Longrightarrow> x \<le> max_int64 \<Longrightarrow> int64 x = x"
  by (simp add: int64_def min_int64_def max_int64_def)

text \<open>
  \<open>strconv.ParseInt(s, 10, 64)\<close> and \<open>strconv.Atoi\<close>: the value is 0 on a syntax error and
  the nearest bound on a range error.
\<close>

definition num_error :: "string \<Rightarrow> string \<Rightarrow> string \<Rightarrow> goerror" where
  "num_error fn s why = errorf (''strconv.'' @ fn @ '': parsing '' @ fmt_q s @ '': '' @ why)"

definition parse_int :: "string \<Rightarrow> string \<Rightarrow> int \<times> goerror option" where
  "parse_int fn s =
     (let neg = has_prefix s ''-''; ds = (if neg \<or> has_prefix s ''+'' then tl s else s);
          v = (if neg then - int_of_digits ds else int_of_digits ds) in
      if ds = [] \<or> \<not> list_all is_digit ds then (0, Some (num_error fn s ''invalid syntax''))
      else if v > max_int64 then (max_int64, Some (num_error fn s ''value out of range''))
      else if v < min_int64 then (min_int64, Some (num_error fn s ''value out of range''))
      else (v, None))"

abbreviation Atoi :: "string \<Rightarrow> int \<times> goerror option" where
  "Atoi \<equiv> parse_int ''Atoi''"

text \<open>\<open>big.Int.Text(16)\<close>\<close>

function hex_digits :: "int \<Rightarrow> string" where
  "hex_digits n = (if n < 16 then [hex_digit (nat n)] else hex_digits (n div 16) @ [hex_digit (nat (n mod 16))])"
  by pat_completeness auto
termination
  by (relation "measure nat") auto

declare hex_digits.simps [simp del]

definition Text16 :: "int \<Rightarrow> string" where
  "Text16 n = (if n < 0 then ''-'' @ hex_digits (- n) else hex_digits n)"

lemma slash_itoa: "slash \<notin> set (itoa n)"
proof -
  have "slash \<notin> set (digits k)" if "0 \<le> k" for k
    using digits_is_digit [OF that] by (auto simp: list_all_iff slash_def is_digit_def)
  from this [of n] this [of "- n"] show ?thesis by (auto simp: itoa_def) (simp add: slash_def)
qed

end
