(* ===== verification/Audit_Ledger.thy ===== *)
theory Audit_Ledger
  imports Sha256 Fsm Go_Strings
begin

text \<open>
  \<open>internal/audit\<close>: the hash-chained audit ledger (\<open>ledger.go\<close>) and its verifier
  (\<open>verify.go\<close>). A ledger owns the bytes of its file. The outcome of the system calls of
  one operation is an argument: a write may fail after any number of bytes, and an fsync may fail
  after a complete write. Records are encoded and decoded by the JSON text functions.
\<close>

section \<open>Entries and hashes (ledger.go)\<close>

definition DefaultGenesisSalt :: string where
  "DefaultGenesisSalt = ''REMEDIATION_GENESIS_2026''"

record AuditEntry =
  aeSeq :: "64 word"
  aeTimestamp :: string
  aeHostUUID :: string
  aeResourceID :: string
  aeRunbookID :: string
  aeState :: string
  aePayloadDigest :: string
  aePrevRecordHash :: string
  aeRecordHash :: string

definition GenesisHash :: "string \<Rightarrow> string \<Rightarrow> string" where
  "GenesisHash hostUUID bootInfo = sha256_hex (DefaultGenesisSalt @ hostUUID @ bootInfo)"

definition record_preimage ::
    "string \<Rightarrow> 64 word \<Rightarrow> string \<Rightarrow> string \<Rightarrow> string \<Rightarrow> string \<Rightarrow> string \<Rightarrow> bytes" where
  "record_preimage prevHash seq timestamp resourceID state runbookID payloadDigest =
     prevHash @ be_bytes 8 (uint seq) @ timestamp @ resourceID @ state @ runbookID @ payloadDigest"

definition ComputeRecordHash ::
    "string \<Rightarrow> 64 word \<Rightarrow> string \<Rightarrow> string \<Rightarrow> string \<Rightarrow> string \<Rightarrow> string \<Rightarrow> string" where
  "ComputeRecordHash prevHash seq timestamp resourceID state runbookID payloadDigest =
     sha256_hex (record_preimage prevHash seq timestamp resourceID state runbookID payloadDigest)"

definition ComputePayloadDigest :: "string \<Rightarrow> string \<Rightarrow> string \<Rightarrow> string" where
  "ComputePayloadDigest rawAlert stdout stderr = sha256_hex (rawAlert @ stdout @ stderr)"

section \<open>JSON text of an entry\<close>

text \<open>
  \<open>json.Marshal\<close> and \<open>json.Unmarshal\<close> at this type: fields in declaration order; on
  reading, keys match without regard to ASCII case, unknown keys are skipped, \<open>null\<close> leaves a
  field as it is, and a value of another kind is an error. The message of a syntax error is one
  fixed text here.
\<close>

definition entry_json :: "AuditEntry \<Rightarrow> json" where
  "entry_json e =
     JObj [(''seq'', JNum (itoa (uint (aeSeq e)))), (''timestamp'', JStr (aeTimestamp e)),
           (''host_uuid'', JStr (aeHostUUID e)), (''resource_id'', JStr (aeResourceID e)),
           (''runbook_id'', JStr (aeRunbookID e)), (''state'', JStr (aeState e)),
           (''payload_digest'', JStr (aePayloadDigest e)),
           (''prev_record_hash'', JStr (aePrevRecordHash e)), (''record_hash'', JStr (aeRecordHash e))]"

definition marshal_entry :: "AuditEntry \<Rightarrow> bytes" where
  "marshal_entry e = json_print (entry_json e)"

definition zero_entry :: AuditEntry where
  "zero_entry =
     \<lparr>aeSeq = 0, aeTimestamp = '''', aeHostUUID = '''', aeResourceID = '''', aeRunbookID = '''', aeState = '''',
      aePayloadDigest = '''', aePrevRecordHash = '''', aeRecordHash = ''''\<rparr>"

definition store_entry_field :: "AuditEntry \<Rightarrow> string \<times> json \<Rightarrow> goerror + AuditEntry" where
  "store_entry_field e kv =
     (let k = ascii_lower (fst kv); v = snd kv;
          str = (\<lambda>upd. map_sum id (\<lambda>s. upd (\<lambda>old. case s of None \<Rightarrow> old | Some x \<Rightarrow> x) e)
                         (decode_string (''AuditEntry.'' @ k) v)) in
      if k = ''seq''
      then map_sum id (\<lambda>n. case n of None \<Rightarrow> e | Some x \<Rightarrow> e\<lparr>aeSeq := x\<rparr>) (decode_uint64 (''AuditEntry.'' @ k) v)
      else if k = ''timestamp'' then str aeTimestamp_update
      else if k = ''host_uuid'' then str aeHostUUID_update
      else if k = ''resource_id'' then str aeResourceID_update
      else if k = ''runbook_id'' then str aeRunbookID_update
      else if k = ''state'' then str aeState_update
      else if k = ''payload_digest'' then str aePayloadDigest_update
      else if k = ''prev_record_hash'' then str aePrevRecordHash_update
      else if k = ''record_hash'' then str aeRecordHash_update
      else Inr e)"

definition unmarshal_entry :: "bytes \<Rightarrow> goerror + AuditEntry" where
  "unmarshal_entry = unmarshal_struct ''AuditEntry'' store_entry_field zero_entry"

section \<open>The ledger (ledger.go)\<close>

record Ledger =
  ledgerOpen :: bool
  ledgerPath :: string
  ledgerContent :: bytes
  ledgerHostUUID :: string
  lastHash :: string
  nextSeq :: "64 word"

type_synonym unmarshaller = "bytes \<Rightarrow> goerror + AuditEntry"

datatype open_io = OpenOk | OpenMkdirFails goerror | OpenFails goerror | StatFails | SeekFails goerror

text \<open>The scan for the tail: the last record's hash and sequence number, if there is a record.\<close>

fun scan_tail :: "unmarshaller \<Rightarrow> (string \<times> 64 word) option \<Rightarrow> bytes list \<Rightarrow> goerror + (string \<times> 64 word) option" where
  "scan_tail unm acc [] = Inr acc"
| "scan_tail unm acc (line # rest) =
     (if line = [] then scan_tail unm acc rest
      else case unm line of
        Inl e \<Rightarrow> Inl (wrapf ''existing audit file contains malformed record: '' e '''')
      | Inr rec \<Rightarrow> scan_tail unm (Some (aeRecordHash rec, aeSeq rec)) rest)"

definition NewLedger :: "open_io \<Rightarrow> string \<Rightarrow> bytes \<Rightarrow> string \<Rightarrow> goerror + Ledger" where
  "NewLedger io filePath content host =
     (let hostUUID = (if host = '''' then ''localhost-arm64'' else host);
          l = \<lparr>ledgerOpen = True, ledgerPath = filePath, ledgerContent = content,
               ledgerHostUUID = hostUUID, lastHash = GenesisHash hostUUID ''INIT'', nextSeq = 0\<rparr> in
      case io of
        OpenMkdirFails e \<Rightarrow> Inl (wrapf ''failed to create directory for audit ledger: '' e '''')
      | OpenFails e \<Rightarrow> Inl (wrapf (''failed to open audit ledger file '' @ filePath @ '': '') e '''')
      | StatFails \<Rightarrow> Inr l
      | SeekFails e \<Rightarrow>
          if content = [] then Inr l else Inl (wrapf ''failed to seek audit file: '' e '''')
      | OpenOk \<Rightarrow>
          if content = [] then Inr l
          else case scan_lines content of (tokens, too_long) \<Rightarrow>
            (case scan_tail unmarshal_entry None tokens of
               Inl e \<Rightarrow> Inl e
             | Inr tail \<Rightarrow>
                 if too_long
                 then Inl (wrapf ''failed reading existing audit entries: '' err_too_long '''')
                 else (case tail of
                         None \<Rightarrow> Inr l
                       | Some (h, lastSeq) \<Rightarrow> Inr (l\<lparr>lastHash := h, nextSeq := lastSeq + 1\<rparr>))))"

datatype append_io = AppendOk | AppendWriteFails nat goerror | AppendSyncFails goerror

definition new_entry :: "time \<Rightarrow> Ledger \<Rightarrow> string \<Rightarrow> string \<Rightarrow> ExecutionState \<Rightarrow> string \<Rightarrow> AuditEntry" where
  "new_entry now l resourceID runbookID state payloadDigest =
     (let timestamp = fmt_RFC3339Nano now in
      \<lparr>aeSeq = nextSeq l, aeTimestamp = timestamp, aeHostUUID = ledgerHostUUID l,
       aeResourceID = resourceID, aeRunbookID = runbookID, aeState = state_string state,
       aePayloadDigest = payloadDigest, aePrevRecordHash = lastHash l,
       aeRecordHash = ComputeRecordHash (lastHash l) (nextSeq l) timestamp resourceID
                        (state_string state) runbookID payloadDigest\<rparr>)"

definition Append ::
    "append_io \<Rightarrow> time \<Rightarrow> Ledger \<Rightarrow> string \<Rightarrow> string \<Rightarrow> ExecutionState \<Rightarrow> string \<Rightarrow> (goerror + AuditEntry) \<times> Ledger" where
  "Append io now l resourceID runbookID state payloadDigest =
     (if \<not> ledgerOpen l then (Inl (errorf ''ledger is closed''), l)
      else let entry = new_entry now l resourceID runbookID state payloadDigest;
               text = marshal_entry entry @ [newline] in
        case io of
          AppendWriteFails n e \<Rightarrow>
            (Inl (wrapf ''failed to write audit entry to disk: '' e ''''),
             l\<lparr>ledgerContent := ledgerContent l @ take n text\<rparr>)
        | AppendSyncFails e \<Rightarrow>
            (Inl (wrapf ''failed to sync audit file: '' e ''''),
             l\<lparr>ledgerContent := ledgerContent l @ text\<rparr>)
        | AppendOk \<Rightarrow>
            (Inr entry,
             l\<lparr>ledgerContent := ledgerContent l @ text, lastHash := aeRecordHash entry,
               nextSeq := nextSeq l + 1\<rparr>))"

definition ledger_Close :: "Ledger \<Rightarrow> Ledger" where
  "ledger_Close l = l\<lparr>ledgerOpen := False\<rparr>"

section \<open>Verification (verify.go)\<close>

record VerificationResult =
  vrValid :: bool
  vrTotalRecords :: "64 word"
  vrGenesisHash :: string
  vrTailHash :: string
  vrVerifiedAt :: time

record verify_state =
  expectedPrevHash :: string
  expectedSeq :: "64 word"
  firstPrevHash :: string
  vsLastHash :: string

definition verify_start :: verify_state where
  "verify_start = \<lparr>expectedPrevHash = '''', expectedSeq = 0, firstPrevHash = '''', vsLastHash = ''''\<rparr>"

definition recompute :: "AuditEntry \<Rightarrow> string" where
  "recompute rec =
     ComputeRecordHash (aePrevRecordHash rec) (aeSeq rec) (aeTimestamp rec) (aeResourceID rec)
       (aeState rec) (aeRunbookID rec) (aePayloadDigest rec)"

text \<open>One iteration of the loop on a decoded record.\<close>

definition verify_record :: "verify_state \<Rightarrow> AuditEntry \<Rightarrow> goerror + verify_state" where
  "verify_record s rec =
     (if aeSeq rec \<noteq> expectedSeq s
      then Inl (errorf (''sequence discontinuity at entry '' @ itoa (uint (expectedSeq s)) @ '': expected seq ''
             @ itoa (uint (expectedSeq s)) @ '', got '' @ itoa (uint (aeSeq rec))))
      else if expectedSeq s \<noteq> 0 \<and> aePrevRecordHash rec \<noteq> expectedPrevHash s
      then Inl (errorf (''hash chain broken at seq '' @ itoa (uint (aeSeq rec)) @ '': prev hash ''
             @ aePrevRecordHash rec @ '' != expected '' @ expectedPrevHash s))
      else if recompute rec \<noteq> aeRecordHash rec
      then Inl (errorf (''tamper detected at seq '' @ itoa (uint (aeSeq rec)) @ '': computed ''
             @ recompute rec @ '' != recorded '' @ aeRecordHash rec))
      else Inr \<lparr>expectedPrevHash = aeRecordHash rec, expectedSeq = expectedSeq s + 1,
                firstPrevHash = (if expectedSeq s = 0 then aePrevRecordHash rec else firstPrevHash s),
                vsLastHash = aeRecordHash rec\<rparr>)"

fun verify_lines :: "unmarshaller \<Rightarrow> verify_state \<Rightarrow> bytes list \<Rightarrow> goerror + verify_state" where
  "verify_lines unm s [] = Inr s"
| "verify_lines unm s (line # rest) =
     (if line = [] then verify_lines unm s rest
      else case unm line of
        Inl e \<Rightarrow> Inl (wrapf (''malformed JSON record at seq '' @ itoa (uint (expectedSeq s)) @ '': '') e '''')
      | Inr rec \<Rightarrow>
          (case verify_record s rec of
             Inl e \<Rightarrow> Inl e
           | Inr s' \<Rightarrow> verify_lines unm s' rest))"

definition VerifyLedgerReader :: "time \<Rightarrow> bytes \<Rightarrow> goerror + VerificationResult" where
  "VerifyLedgerReader now content =
     (case scan_lines content of (tokens, too_long) \<Rightarrow>
        (case verify_lines unmarshal_entry verify_start tokens of
           Inl e \<Rightarrow> Inl e
         | Inr s \<Rightarrow>
             if too_long
             then Inl (wrapf ''scanner error during ledger verification: '' err_too_long '''')
             else Inr \<lparr>vrValid = True, vrTotalRecords = expectedSeq s, vrGenesisHash = firstPrevHash s,
                       vrTailHash = vsLastHash s, vrVerifiedAt = now\<rparr>))"

definition VerifyLedgerFile :: "time \<Rightarrow> (string \<Rightarrow> goerror + bytes) \<Rightarrow> string \<Rightarrow> goerror + VerificationResult" where
  "VerifyLedgerFile now open_file filePath =
     (case open_file filePath of
        Inl e \<Rightarrow> Inl (wrapf (''failed to open audit file '' @ filePath @ '': '') e '''')
      | Inr content \<Rightarrow> VerifyLedgerReader now content)"

section \<open>Lines of a ledger\<close>

definition ledger_text :: "bytes list \<Rightarrow> bytes" where
  "ledger_text ls = concat (map (\<lambda>l. l @ [newline]) ls)"

lemma ledger_text_append: "ledger_text (ls @ ms) = ledger_text ls @ ledger_text ms"
  by (simp add: ledger_text_def)

lemma ledger_text_single: "ledger_text [l] = l @ [newline]"
  by (simp add: ledger_text_def)

lemma raw_lines_acc_line:
  "newline \<notin> set l \<Longrightarrow> raw_lines_acc acc (l @ newline # cs) = (rev acc @ l) # raw_lines_acc [] cs"
  by (induction l arbitrary: acc) auto

lemma raw_lines_text: "\<forall>l \<in> set ls. newline \<notin> set l \<Longrightarrow> raw_lines (ledger_text ls) = ls"
  by (induction ls) (auto simp: raw_lines_def ledger_text_def raw_lines_acc_line)

lemma scan_raw_short:
  "\<forall>l \<in> set ls. length l < MaxScanTokenSize \<and> drop_cr l = l \<Longrightarrow> scan_raw ls = (ls, False)"
  by (induction ls) auto

text \<open>
  The contract of a line format: what is written for a record is one non-empty line, without a
  carriage return at its end, that the reader decodes to the same record.
\<close>

locale line_codec =
  fixes enc :: "'r \<Rightarrow> bytes" and dec :: "bytes \<Rightarrow> goerror + 'r"
  assumes dec_enc: "dec (enc r) = Inr r"
    and enc_line: "newline \<notin> set (enc r)"
    and enc_nonempty: "enc r \<noteq> []"
    and enc_no_cr: "last (enc r) \<noteq> carriage_return"
begin

lemma scan_encoded:
  assumes "\<forall>r \<in> set rs. length (enc r) < MaxScanTokenSize"
  shows "scan_lines (ledger_text (map enc rs)) = (map enc rs, False)"
proof -
  have "raw_lines (ledger_text (map enc rs)) = map enc rs"
    by (rule raw_lines_text) (auto simp: enc_line)
  moreover have "scan_raw (map enc rs) = (map enc rs, False)"
    by (rule scan_raw_short) (use assms in \<open>auto simp: drop_cr_def enc_no_cr\<close>)
  ultimately show ?thesis by (simp add: scan_lines_def)
qed

lemma scan_encoded_too_long:
  assumes "MaxScanTokenSize \<le> length (enc r)" "\<forall>x \<in> set rs. length (enc x) < MaxScanTokenSize"
  shows "scan_lines (ledger_text (map enc (rs @ r # ss))) = (map enc rs, True)"
proof -
  have "raw_lines (ledger_text (map enc (rs @ r # ss))) = map enc (rs @ r # ss)"
    by (rule raw_lines_text) (auto simp: enc_line)
  moreover have "scan_raw (map enc (rs @ r # ss)) = (map enc rs, True)"
    using assms by (induction rs) (auto simp: drop_cr_def enc_no_cr)
  ultimately show ?thesis by (simp add: scan_lines_def)
qed

end

lemma entry_json_wf: "json_wf (entry_json e)"
  by (auto simp: entry_json_def)

lemma ascii_lower_keys:
  "ascii_lower ''seq'' = ''seq''" "ascii_lower ''timestamp'' = ''timestamp''"
  "ascii_lower ''host_uuid'' = ''host_uuid''" "ascii_lower ''resource_id'' = ''resource_id''"
  "ascii_lower ''runbook_id'' = ''runbook_id''" "ascii_lower ''state'' = ''state''"
  "ascii_lower ''payload_digest'' = ''payload_digest''"
  "ascii_lower ''prev_record_hash'' = ''prev_record_hash''" "ascii_lower ''record_hash'' = ''record_hash''"
  by (simp_all add: ascii_lower_def)

lemma unmarshal_marshal: "unmarshal_entry (marshal_entry e) = Inr e"
  using json_roundtrip [OF entry_json_wf, of e]
  by (simp add: unmarshal_entry_def unmarshal_struct_def marshal_entry_def)
    (simp add: entry_json_def store_entry_field_def ascii_lower_keys decode_uint64_itoa Let_def zero_entry_def)

lemma last_json_members: "ms \<noteq> [] \<Longrightarrow> json_members ms \<noteq> [] \<and> last (json_members ms) = CHR ''}''"
  by (induction ms) auto

lemma marshal_entry_last: "last (marshal_entry e) = CHR ''}''"
  using last_json_members by (simp add: marshal_entry_def entry_json_def del: json_members.simps)

interpretation entry_line: line_codec marshal_entry unmarshal_entry
proof
  fix e
  show "unmarshal_entry (marshal_entry e) = Inr e" by (rule unmarshal_marshal)
  show "newline \<notin> set (marshal_entry e)"
    using json_print_no_newline(1) [OF entry_json_wf] by (simp add: marshal_entry_def)
  show "marshal_entry e \<noteq> []" by (simp add: marshal_entry_def entry_json_def)
  show "last (marshal_entry e) \<noteq> carriage_return" by (simp add: marshal_entry_last carriage_return_def)
qed

section \<open>The chain of records\<close>

fun chained :: "string \<Rightarrow> 64 word \<Rightarrow> AuditEntry list \<Rightarrow> bool" where
  "chained h n [] = True"
| "chained h n (e # es) =
     (aePrevRecordHash e = h \<and> aeSeq e = n \<and> aeRecordHash e = recompute e \<and> chained (aeRecordHash e) (n + 1) es)"

definition tail_hash :: "string \<Rightarrow> AuditEntry list \<Rightarrow> string" where
  "tail_hash h es = (if es = [] then h else aeRecordHash (last es))"

lemma tail_hash_Cons [simp]: "tail_hash h (e # es) = tail_hash (aeRecordHash e) es"
  by (simp add: tail_hash_def)

lemma tail_hash_Nil [simp]: "tail_hash h [] = h"
  by (simp add: tail_hash_def)

lemma tail_hash_snoc [simp]: "tail_hash h (es @ [e]) = aeRecordHash e"
  by (simp add: tail_hash_def)

lemma chained_snoc:
  "chained h n (es @ [e]) \<longleftrightarrow>
     chained h n es \<and> aePrevRecordHash e = tail_hash h es \<and> aeSeq e = n + of_nat (length es)
     \<and> aeRecordHash e = recompute e"
  by (induction es arbitrary: h n) (auto simp: add_ac)

text \<open>The verifier's loop on decoded records.\<close>

fun verify_records :: "verify_state \<Rightarrow> AuditEntry list \<Rightarrow> goerror + verify_state" where
  "verify_records s [] = Inr s"
| "verify_records s (e # es) = (case verify_record s e of Inl x \<Rightarrow> Inl x | Inr s' \<Rightarrow> verify_records s' es)"

lemma verify_lines_marshal: "verify_lines unmarshal_entry s (map marshal_entry es) = verify_records s es"
  by (induction es arbitrary: s)
    (auto simp: entry_line.enc_nonempty entry_line.dec_enc split: sum.splits)

lemma verify_records_append:
  "verify_records s (es @ fs) = (case verify_records s es of Inl x \<Rightarrow> Inl x | Inr s' \<Rightarrow> verify_records s' fs)"
  by (induction es arbitrary: s) (auto split: sum.splits)

lemma of_nat_seq_nonzero: "0 < k \<Longrightarrow> k < 2 ^ 64 \<Longrightarrow> (of_nat k :: 64 word) \<noteq> 0"
  by (simp add: word_of_nat_eq_0_iff) (metis dvd_imp_le linorder_not_less)

lemma verify_records_chained:
  assumes "chained h (of_nat k) es" "expectedSeq s = of_nat k" "k = 0 \<or> expectedPrevHash s = h"
    "k + length es \<le> 2 ^ 64" "es \<noteq> []"
  shows "verify_records s es =
    Inr \<lparr>expectedPrevHash = tail_hash h es, expectedSeq = of_nat (k + length es),
         firstPrevHash = (if k = 0 then h else firstPrevHash s), vsLastHash = tail_hash h es\<rparr>"
  using assms
proof (induction es arbitrary: h k s)
  case (Cons e es)
  let ?s = "\<lparr>expectedPrevHash = aeRecordHash e, expectedSeq = of_nat (Suc k),
              firstPrevHash = (if k = 0 then h else firstPrevHash s), vsLastHash = aeRecordHash e\<rparr>"
  have "k < 2 ^ 64" using Cons.prems by simp
  then have z: "(of_nat k :: 64 word) = 0 \<longleftrightarrow> k = 0" using of_nat_seq_nonzero [of k] by auto
  have step: "verify_record s e = Inr ?s"
    using Cons.prems z by (auto simp: verify_record_def add_ac)
  show ?case
  proof (cases "es = []")
    case True
    then show ?thesis using step by simp
  next
    case False
    have "chained (aeRecordHash e) (of_nat (Suc k)) es"
      using Cons.prems(1) unfolding chained.simps by (metis of_nat_Suc add.commute)
    then have "verify_records ?s es =
        Inr \<lparr>expectedPrevHash = tail_hash (aeRecordHash e) es, expectedSeq = of_nat (Suc k + length es),
             firstPrevHash = firstPrevHash ?s, vsLastHash = tail_hash (aeRecordHash e) es\<rparr>"
      using Cons.IH [of "aeRecordHash e" "Suc k" ?s] Cons.prems(4) False by simp
    then show ?thesis using step by simp
  qed
qed simp

lemma chained_of_verify:
  assumes "verify_records s es = Inr s'" "expectedSeq s = of_nat k" "k + length es \<le> 2 ^ 64" "es \<noteq> []"
  shows "chained (aePrevRecordHash (hd es)) (of_nat k) es \<and> (0 < k \<longrightarrow> aePrevRecordHash (hd es) = expectedPrevHash s)
         \<and> vsLastHash s' = aeRecordHash (last es) \<and> expectedSeq s' = of_nat (k + length es)"
  using assms
proof (induction es arbitrary: k s)
  case (Cons e es)
  obtain s1 where s1: "verify_record s e = Inr s1" "verify_records s1 es = Inr s'"
    using Cons.prems by (auto split: sum.splits)
  then have v: "aeSeq e = of_nat k" "(of_nat k :: 64 word) \<noteq> 0 \<longrightarrow> aePrevRecordHash e = expectedPrevHash s"
      "recompute e = aeRecordHash e" "expectedPrevHash s1 = aeRecordHash e" "expectedSeq s1 = of_nat (Suc k)"
      "vsLastHash s1 = aeRecordHash e"
    using Cons.prems(2) by (auto simp: verify_record_def add_ac split: if_splits)
  have k: "0 < k \<longrightarrow> aePrevRecordHash e = expectedPrevHash s"
    using v(2) of_nat_seq_nonzero [of k] Cons.prems(3) by auto
  show ?case
  proof (cases "es = []")
    case True
    then show ?thesis using s1 v k by simp
  next
    case False
    then show ?thesis
      using Cons.IH [OF s1(2) v(5)] Cons.prems(3) v(1,3,4) k by (auto simp: add_ac)
  qed
qed simp

section \<open>The invariant of a ledger\<close>

definition ledger_inv :: "Ledger \<Rightarrow> AuditEntry list \<Rightarrow> bool" where
  "ledger_inv l es \<longleftrightarrow>
     ledgerOpen l \<and> ledgerContent l = ledger_text (map marshal_entry es)
     \<and> chained (GenesisHash (ledgerHostUUID l) ''INIT'') 0 es
     \<and> lastHash l = tail_hash (GenesisHash (ledgerHostUUID l) ''INIT'') es
     \<and> nextSeq l = of_nat (length es)"

lemma recompute_new_entry [simp]: "recompute (new_entry now l r b st d) = aeRecordHash (new_entry now l r b st d)"
  by (simp add: recompute_def new_entry_def Let_def)

lemma new_entry_link [simp]:
  "aePrevRecordHash (new_entry now l r b st d) = lastHash l" "aeSeq (new_entry now l r b st d) = nextSeq l"
  by (simp_all add: new_entry_def Let_def)

lemma NewLedger_empty:
  assumes "NewLedger OpenOk path [] host = Inr l"
  shows "ledger_inv l []" "lastHash l = GenesisHash (ledgerHostUUID l) ''INIT''"
  using assms by (auto simp: NewLedger_def Let_def ledger_inv_def ledger_text_def)

lemma Append_ok [go_inv]:
  assumes "ledger_inv l es"
  shows "ledger_inv (snd (Append AppendOk now l r b st d)) (es @ [new_entry now l r b st d])"
  using assms
  by (simp add: ledger_inv_def Append_def Let_def chained_snoc ledger_text_append ledger_text_single add_ac
      ledger_text_def)

text \<open>The appends of a run, each given by the clock reading and the arguments of the call.\<close>

fun append_all :: "Ledger \<Rightarrow> (time \<times> string \<times> string \<times> ExecutionState \<times> string) list \<Rightarrow> Ledger" where
  "append_all l [] = l"
| "append_all l ((now, r, b, st, d) # reqs) = append_all (snd (Append AppendOk now l r b st d)) reqs"

lemma append_all_frame:
  "ledgerHostUUID (append_all l reqs) = ledgerHostUUID l \<and> ledgerPath (append_all l reqs) = ledgerPath l"
proof (induction reqs arbitrary: l)
  case (Cons q reqs)
  then show ?case by (cases q) (simp add: Append_def Let_def)
qed simp

lemma append_all_inv:
  "ledger_inv l es \<Longrightarrow> \<exists>fs. ledger_inv (append_all l reqs) (es @ fs) \<and> length fs = length reqs"
proof (induction reqs arbitrary: l es)
  case Nil
  then show ?case by auto
next
  case (Cons q reqs)
  obtain now r b st d where q: "q = (now, r, b, st, d)" by (cases q)
  have "ledger_inv (snd (Append AppendOk now l r b st d)) (es @ [new_entry now l r b st d])"
    using Cons.prems by (rule Append_ok)
  from Cons.IH [OF this] obtain fs where
    "ledger_inv (append_all l (q # reqs)) ((es @ [new_entry now l r b st d]) @ fs)" "length fs = length reqs"
    using q by auto
  then show ?case by (intro exI [of _ "new_entry now l r b st d # fs"]) simp
qed

definition short_lines :: "bytes \<Rightarrow> bool" where
  "short_lines content \<longleftrightarrow> (\<forall>line \<in> set (raw_lines content). length line < MaxScanTokenSize)"

lemma short_lines_entries:
  "short_lines (ledger_text (map marshal_entry es)) \<longleftrightarrow> (\<forall>e \<in> set es. length (marshal_entry e) < MaxScanTokenSize)"
proof -
  have "raw_lines (ledger_text (map marshal_entry es)) = map marshal_entry es"
    by (rule raw_lines_text) (auto simp: entry_line.enc_line)
  then show ?thesis by (simp add: short_lines_def)
qed

lemma verify_inv:
  assumes "ledger_inv l es" "short_lines (ledgerContent l)" "length es \<le> 2 ^ 64"
  shows "VerifyLedgerReader now (ledgerContent l) =
    Inr \<lparr>vrValid = True, vrTotalRecords = of_nat (length es),
         vrGenesisHash = (if es = [] then '''' else GenesisHash (ledgerHostUUID l) ''INIT''),
         vrTailHash = (if es = [] then '''' else lastHash l), vrVerifiedAt = now\<rparr>"
proof -
  have scan: "scan_lines (ledgerContent l) = (map marshal_entry es, False)"
    using assms entry_line.scan_encoded [of es] short_lines_entries [of es] by (simp add: ledger_inv_def)
  show ?thesis
  proof (cases "es = []")
    case True
    then show ?thesis using scan by (simp add: VerifyLedgerReader_def verify_start_def)
  next
    case False
    then show ?thesis
      using scan assms verify_records_chained [of "GenesisHash (ledgerHostUUID l) ''INIT''" 0 es verify_start]
      by (simp add: VerifyLedgerReader_def verify_lines_marshal ledger_inv_def verify_start_def)
  qed
qed

lemma scan_tail_marshal:
  "scan_tail unmarshal_entry acc (map marshal_entry es) =
     Inr (if es = [] then acc else Some (aeRecordHash (last es), aeSeq (last es)))"
  by (induction es arbitrary: acc) (auto simp: entry_line.enc_nonempty entry_line.dec_enc)

lemma ledger_text_Nil_iff: "ledger_text ls = [] \<longleftrightarrow> ls = []"
  by (simp add: ledger_text_def)

lemma reopen_inv:
  assumes "ledger_inv l es" "short_lines (ledgerContent l)" "host \<noteq> ''''" "ledgerHostUUID l = host" "ledgerPath l = path"
  shows "NewLedger OpenOk path (ledgerContent l) host = Inr l"
proof (cases "es = []")
  case True
  then show ?thesis
    using assms by (simp add: NewLedger_def ledger_inv_def ledger_text_Nil_iff)
next
  case False
  then obtain fs e where es: "es = fs @ [e]" by (metis rev_exhaust)
  have scan: "scan_lines (ledgerContent l) = (map marshal_entry es, False)"
    using assms entry_line.scan_encoded [of es] short_lines_entries [of es] by (simp add: ledger_inv_def)
  have "ledgerContent l \<noteq> []" using assms(1) es by (simp add: ledger_inv_def ledger_text_Nil_iff)
  moreover have "aeSeq e + 1 = nextSeq l" "aeRecordHash e = lastHash l" "ledgerOpen l"
    using assms(1) es by (simp_all add: ledger_inv_def chained_snoc)
  ultimately show ?thesis
    using assms(3-5) unfolding NewLedger_def scan by (simp add: es scan_tail_marshal del: map_append)
qed

section \<open>Append, verify, reopen\<close>


definition demo_ledger :: Ledger where
  "demo_ledger =
     \<lparr>ledgerOpen = True, ledgerPath = ''a'', ledgerContent = [], ledgerHostUUID = ''h'',
      lastHash = GenesisHash ''h'' ''INIT'', nextSeq = 0\<rparr>"

lemma NewLedger_demo: "NewLedger OpenOk ''a'' [] ''h'' = Inr demo_ledger"
  by (simp add: NewLedger_def demo_ledger_def Let_def)

lemma length_json_string: "length (json_string s) \<le> 6 * length s + 2"
proof -
  have "length (json_char c) \<le> 6" for c by (simp add: json_char_def hex_byte_def Let_def)
  then have "length (json_body s) \<le> 6 * length s"
    by (induction s) (auto simp: json_body_def intro: add_mono [of _ 6, simplified])
  then show ?thesis by (simp add: json_string_def)
qed

lemma length_marshal_entry:
  "length (marshal_entry e) \<le>
     800 + length (itoa (uint (aeSeq e))) + 6 * (length (aeTimestamp e) + length (aeHostUUID e) + length (aeResourceID e)
       + length (aeRunbookID e) + length (aeState e) + length (aePayloadDigest e) + length (aePrevRecordHash e)
       + length (aeRecordHash e))"
  using length_json_string [of "aeTimestamp e"] length_json_string [of "aeHostUUID e"]
    length_json_string [of "aeResourceID e"] length_json_string [of "aeRunbookID e"]
    length_json_string [of "aeState e"] length_json_string [of "aePayloadDigest e"]
    length_json_string [of "aePrevRecordHash e"] length_json_string [of "aeRecordHash e"]
    length_json_string [of "''seq''"] length_json_string [of "''timestamp''"] length_json_string [of "''host_uuid''"]
    length_json_string [of "''resource_id''"] length_json_string [of "''runbook_id''"] length_json_string [of "''state''"]
    length_json_string [of "''payload_digest''"] length_json_string [of "''prev_record_hash''"]
    length_json_string [of "''record_hash''"]
  by (simp add: marshal_entry_def entry_json_def)

definition demo_reqs :: "(time \<times> string \<times> string \<times> ExecutionState \<times> string) list" where
  "demo_reqs = [(0, ''disk'', ''rb'', StateDetected, ''d'')]"

lemma length_time_0: "length (fmt_RFC3339Nano 0) = 20"
  by code_simp

lemma length_state_detected: "length (state_string StateDetected) = 8"
  by (simp add: state_string.simps)

lemma length_GenesisHash [simp]: "length (GenesisHash h b) = 64"
  by (simp add: GenesisHash_def)

lemma length_ComputeRecordHash [simp]: "length (ComputeRecordHash p n t r s b d) = 64"
  by (simp add: ComputeRecordHash_def)

lemma demo_short: "short_lines (ledgerContent (append_all demo_ledger demo_reqs))"
proof -
  let ?e = "new_entry 0 demo_ledger ''disk'' ''rb'' StateDetected ''d''"
  have "length (marshal_entry ?e) < MaxScanTokenSize"
    using length_marshal_entry [of ?e] length_time_0 length_state_detected
    by (simp add: new_entry_def demo_ledger_def Let_def MaxScanTokenSize_def itoa_def digits_0)
  moreover have "ledgerContent (append_all demo_ledger demo_reqs) = ledger_text (map marshal_entry [?e])"
    by (simp add: demo_reqs_def Append_def demo_ledger_def Let_def ledger_text_def)
  ultimately show ?thesis using short_lines_entries [of "[?e]"] by simp
qed


section \<open>Tamper evidence\<close>

text \<open>
  The contract that makes a list of records a hash chain: every hash has the same length and the
  hashed bytes of a record begin with the hash of the record before it. Two chains of the same
  length with the same last hash then have the same hashed bytes everywhere, or they exhibit two
  different inputs with the same hash.
\<close>

locale hash_chain =
  fixes H :: "bytes \<Rightarrow> string" and pre :: "'r \<Rightarrow> bytes" and prev :: "'r \<Rightarrow> string" and width :: nat
  assumes H_width: "length (H x) = width"
    and pre_prev: "take (length (prev r)) (pre r) = prev r"
begin

definition linked :: "'r list \<Rightarrow> bool" where
  "linked rs \<longleftrightarrow> (\<forall>i. Suc i < length rs \<longrightarrow> prev (rs ! Suc i) = H (pre (rs ! i)))"

lemma prev_step:
  assumes "linked rs" "linked ss" "Suc i < length rs" "Suc i < length ss" "pre (rs ! Suc i) = pre (ss ! Suc i)"
  shows "H (pre (rs ! i)) = H (pre (ss ! i))"
proof -
  have p: "prev (rs ! Suc i) = H (pre (rs ! i))" "prev (ss ! Suc i) = H (pre (ss ! i))"
    using assms by (auto simp: linked_def)
  then have "prev (rs ! Suc i) = take width (pre (rs ! Suc i))" "prev (ss ! Suc i) = take width (pre (ss ! Suc i))"
    using pre_prev [of "rs ! Suc i"] pre_prev [of "ss ! Suc i"] H_width by auto
  then show ?thesis using p assms(5) by simp
qed

lemma tail_determines:
  assumes "linked rs" "linked ss" "length rs = n" "length ss = n" "0 < n"
    and tail: "H (pre (rs ! (n - 1))) = H (pre (ss ! (n - 1)))"
    and no_coll: "\<forall>i < n. H (pre (rs ! i)) = H (pre (ss ! i)) \<longrightarrow> pre (rs ! i) = pre (ss ! i)"
  shows "i < n \<Longrightarrow> pre (rs ! i) = pre (ss ! i)"
proof (induction "n - 1 - i" arbitrary: i)
  case 0
  then have "i = n - 1" by simp
  then show ?case using tail no_coll assms(5) by simp
next
  case (Suc d)
  then have "pre (rs ! Suc i) = pre (ss ! Suc i)" by simp
  moreover have "Suc i < n" using Suc by simp
  ultimately have "H (pre (rs ! i)) = H (pre (ss ! i))"
    using prev_step [OF assms(1,2)] assms(3,4) by simp
  then show ?case using no_coll Suc.prems by simp
qed

end

definition entry_preimage :: "AuditEntry \<Rightarrow> bytes" where
  "entry_preimage e =
     record_preimage (aePrevRecordHash e) (aeSeq e) (aeTimestamp e) (aeResourceID e) (aeState e) (aeRunbookID e)
       (aePayloadDigest e)"

lemma recompute_preimage: "recompute e = sha256_hex (entry_preimage e)"
  by (simp add: recompute_def ComputeRecordHash_def entry_preimage_def)

interpretation audit_chain: hash_chain sha256_hex entry_preimage aePrevRecordHash 64
  by unfold_locales (simp_all add: entry_preimage_def record_preimage_def)

lemma chained_nth:
  "chained h n es \<Longrightarrow> i < length es \<Longrightarrow>
     aeRecordHash (es ! i) = recompute (es ! i) \<and> aePrevRecordHash (es ! i) = tail_hash h (take i es)
     \<and> aeSeq (es ! i) = n + of_nat i"
proof (induction es arbitrary: h n i)
  case (Cons e es)
  then show ?case
    by (cases i) (use Cons.IH [of "aeRecordHash e" "n + 1" "i - 1"] in \<open>auto simp: add_ac\<close>)
qed simp

lemma chained_linked:
  assumes "chained h n es"
  shows "audit_chain.linked es"
  unfolding audit_chain.linked_def
proof (intro allI impI)
  fix i assume i: "Suc i < length es"
  then have "take (Suc i) es = take i es @ [es ! i]" by (simp add: take_Suc_conv_app_nth)
  then have "aePrevRecordHash (es ! Suc i) = aeRecordHash (es ! i)"
    using chained_nth [OF assms i] by simp
  then show "aePrevRecordHash (es ! Suc i) = sha256_hex (entry_preimage (es ! i))"
    using chained_nth [OF assms, of i] i by (simp add: recompute_preimage)
qed

text \<open>The records the verifier decodes from a file, in order.\<close>

definition records_of :: "bytes \<Rightarrow> AuditEntry list" where
  "records_of content =
     concat (map (\<lambda>line. case unmarshal_entry line of Inl _ \<Rightarrow> [] | Inr e \<Rightarrow> [e])
       (filter (\<lambda>line. line \<noteq> []) (fst (scan_lines content))))"

lemma verify_lines_records:
  "verify_lines unm s ls = Inr s' \<Longrightarrow>
   verify_records s (concat (map (\<lambda>line. case unm line of Inl _ \<Rightarrow> [] | Inr e \<Rightarrow> [e]) (filter (\<lambda>line. line \<noteq> []) ls))) = Inr s'"
  by (induction unm s ls rule: verify_lines.induct) (auto split: if_splits sum.splits)

lemma accepted_chain:
  assumes "VerifyLedgerReader now content = Inr v" "length (records_of content) < 2 ^ 64" "records_of content \<noteq> []"
  shows "chained (aePrevRecordHash (hd (records_of content))) 0 (records_of content)"
    "vrTailHash v = aeRecordHash (last (records_of content))"
    "unat (vrTotalRecords v) = length (records_of content)"
proof -
  obtain s' where s': "verify_lines unmarshal_entry verify_start (fst (scan_lines content)) = Inr s'"
      "vrTailHash v = vsLastHash s'" "vrTotalRecords v = expectedSeq s'"
    using assms(1) by (auto simp: VerifyLedgerReader_def split: prod.splits sum.splits if_splits)
  have "verify_records verify_start (records_of content) = Inr s'"
    unfolding records_of_def by (rule verify_lines_records [OF s'(1)])
  from chained_of_verify [OF this, of 0] assms(2,3) s'(2,3)
  show "chained (aePrevRecordHash (hd (records_of content))) 0 (records_of content)"
    "vrTailHash v = aeRecordHash (last (records_of content))"
    "unat (vrTotalRecords v) = length (records_of content)"
    by (auto simp: verify_start_def unat_of_nat)
qed

text \<open>
  C3: Tamper evidence. If the verifier accepts two files with fewer than \<open>2^64\<close> records and
  reports the same number of records and the same tail hash, then the hashed bytes (previous hash,
  sequence number and the concatenation of the five text fields) of every record agree, or the two
  files contain, at some record, two different inputs with the same SHA-256 digest.
\<close>

theorem audit_tamper_evident:
  assumes "VerifyLedgerReader now a = Inr v" "VerifyLedgerReader now' b = Inr w"
    and "length (records_of a) < 2 ^ 64" "length (records_of b) < 2 ^ 64" "records_of a \<noteq> []" "records_of b \<noteq> []"
    and "vrTotalRecords v = vrTotalRecords w" "vrTailHash v = vrTailHash w"
  shows "length (records_of a) = length (records_of b)
    \<and> ((\<forall>i < length (records_of a). entry_preimage (records_of a ! i) = entry_preimage (records_of b ! i))
       \<or> (\<exists>i < length (records_of a).
            entry_preimage (records_of a ! i) \<noteq> entry_preimage (records_of b ! i)
            \<and> sha256_hex (entry_preimage (records_of a ! i)) = sha256_hex (entry_preimage (records_of b ! i))))"
proof -
  let ?r = "records_of a" and ?s = "records_of b" and ?n = "length (records_of a)"
  note A = accepted_chain [OF assms(1,3,5)] and B = accepted_chain [OF assms(2,4,6)]
  have len: "length ?s = ?n" using A(3) B(3) assms(7) by simp
  have n: "0 < ?n" using assms(5) by simp
  have "sha256_hex (entry_preimage (?r ! (?n - 1))) = vrTailHash v"
    using chained_nth [OF A(1), of "?n - 1"] A(2) n by (simp add: recompute_preimage last_conv_nth)
  moreover have "sha256_hex (entry_preimage (?s ! (?n - 1))) = vrTailHash w"
    using chained_nth [OF B(1), of "?n - 1"] B(2) n len assms(6) by (simp add: recompute_preimage last_conv_nth)
  ultimately have tail: "sha256_hex (entry_preimage (?r ! (?n - 1))) = sha256_hex (entry_preimage (?s ! (?n - 1)))"
    using assms(8) by simp
  show ?thesis
    using audit_chain.tail_determines [OF chained_linked [OF A(1)] chained_linked [OF B(1)] refl len n tail] len
    by metis
qed

lemma records_of_inv:
  assumes "ledger_inv l es" "short_lines (ledgerContent l)"
  shows "records_of (ledgerContent l) = es"
proof -
  have "scan_lines (ledgerContent l) = (map marshal_entry es, False)"
    using assms entry_line.scan_encoded [of es] short_lines_entries [of es] by (simp add: ledger_inv_def)
  moreover have "filter (\<lambda>line. line \<noteq> []) (map marshal_entry es) = map marshal_entry es"
    by (induction es) (simp_all add: entry_line.enc_nonempty)
  moreover have "concat (map (\<lambda>line. case unmarshal_entry line of Inl _ \<Rightarrow> [] | Inr e \<Rightarrow> [e]) (map marshal_entry es)) = es"
    by (induction es) (simp_all add: entry_line.dec_enc)
  ultimately show ?thesis by (simp add: records_of_def)
qed

lemma demo_inv:
  "ledger_inv (append_all demo_ledger demo_reqs) [new_entry 0 demo_ledger ''disk'' ''rb'' StateDetected ''d'']"
  using Append_ok [OF NewLedger_empty(1) [OF NewLedger_demo], of 0 "''disk''" "''rb''" StateDetected "''d''"]
  by (simp add: demo_reqs_def)

theorem audit_tamper_evident_witness:
  "let a = ledgerContent (append_all demo_ledger demo_reqs) in
     records_of a \<noteq> [] \<and> length (records_of a) = length (records_of a)
     \<and> ((\<forall>i < length (records_of a). entry_preimage (records_of a ! i) = entry_preimage (records_of a ! i))
       \<or> (\<exists>i < length (records_of a).
            entry_preimage (records_of a ! i) \<noteq> entry_preimage (records_of a ! i)
            \<and> sha256_hex (entry_preimage (records_of a ! i)) = sha256_hex (entry_preimage (records_of a ! i))))"
proof -
  let ?a = "ledgerContent (append_all demo_ledger demo_reqs)"
  have r: "records_of ?a = [new_entry 0 demo_ledger ''disk'' ''rb'' StateDetected ''d'']"
    by (rule records_of_inv [OF demo_inv demo_short])
  obtain v where v: "VerifyLedgerReader 7 ?a = Inr v"
    using verify_inv [OF demo_inv demo_short, of 7] by auto
  show ?thesis
    using audit_tamper_evident [OF v v] r by (simp add: Let_def)
qed

section \<open>Limits of the format\<close>

lemma verify_entries_text:
  assumes "\<forall>e \<in> set es. length (marshal_entry e) < MaxScanTokenSize"
  shows "VerifyLedgerReader now (ledger_text (map marshal_entry es)) =
    (case verify_records verify_start es of
       Inl x \<Rightarrow> Inl x
     | Inr s \<Rightarrow> Inr \<lparr>vrValid = True, vrTotalRecords = expectedSeq s, vrGenesisHash = firstPrevHash s,
                    vrTailHash = vsLastHash s, vrVerifiedAt = now\<rparr>)"
  using entry_line.scan_encoded [OF assms] by (simp add: VerifyLedgerReader_def verify_lines_marshal split: sum.split)


definition demo_entry :: AuditEntry where
  "demo_entry = new_entry 0 demo_ledger ''diskX'' ''rb'' StateDetected ''d''"


text \<open>
  C34: A failed fsync leaves its record in the file while the ledger's state stays behind: after the
  next successful append the file holds two records with one sequence number, and the verifier
  rejects it from then on.
\<close>

theorem audit_sync_failure_breaks_chain:
  assumes "ledger_inv l es" "length es < 2 ^ 64 - 1"
    and "l1 = snd (Append (AppendSyncFails x) t1 l r1 b1 s1 d1)" "l2 = snd (Append AppendOk t2 l1 r2 b2 s2 d2)"
    and "short_lines (ledgerContent l2)"
  shows "VerifyLedgerReader now (ledgerContent l2) =
    Inl (errorf (''sequence discontinuity at entry '' @ itoa (uint (nextSeq l + 1)) @ '': expected seq ''
           @ itoa (uint (nextSeq l + 1)) @ '', got '' @ itoa (uint (nextSeq l))))"
proof -
  let ?e1 = "new_entry t1 l r1 b1 s1 d1" and ?e2 = "new_entry t2 l1 r2 b2 s2 d2"
  let ?g = "GenesisHash (ledgerHostUUID l) ''INIT''"
  have l1: "l1 = l\<lparr>ledgerContent := ledgerContent l @ marshal_entry ?e1 @ [newline]\<rparr>"
    using assms(1,3) by (simp add: Append_def ledger_inv_def Let_def)
  then have ct: "ledgerContent l2 = ledger_text (map marshal_entry ((es @ [?e1]) @ [?e2]))"
    using assms(1,4) by (simp add: Append_def ledger_inv_def Let_def ledger_text_def)
  have short: "\<forall>e \<in> set ((es @ [?e1]) @ [?e2]). length (marshal_entry e) < MaxScanTokenSize"
    using assms(5) unfolding ct short_lines_entries .
  have "chained ?g (of_nat 0) (es @ [?e1])" and seq: "nextSeq l = of_nat (length es)"
    using assms(1) by (simp_all add: ledger_inv_def chained_snoc)
  then obtain s where s: "verify_records verify_start (es @ [?e1]) = Inr s" "expectedSeq s = nextSeq l + 1"
    using verify_records_chained [of ?g 0 "es @ [?e1]" verify_start] assms(2)
    by (auto simp: verify_start_def add_ac)
  have "aeSeq ?e2 = nextSeq l" using l1 by simp
  then show ?thesis
    unfolding ct verify_entries_text [OF short] verify_records_append [of _ "es @ [?e1]"] s(1)
    using s(2) by (simp add: verify_record_def)
qed

theorem audit_sync_failure_breaks_chain_witness:
  "let l1 = snd (Append (AppendSyncFails (errorf ''EIO'')) 0 demo_ledger ''disk'' ''rb'' StateDetected ''d'');
       l2 = snd (Append AppendOk 0 l1 ''disk'' ''rb'' StateDetected ''d'') in
   \<exists>x. VerifyLedgerReader 7 (ledgerContent l2) = Inl x"
proof -
  let ?l1 = "snd (Append (AppendSyncFails (errorf ''EIO'')) 0 demo_ledger ''disk'' ''rb'' StateDetected ''d'')"
  let ?l2 = "snd (Append AppendOk 0 ?l1 ''disk'' ''rb'' StateDetected ''d'')"
  let ?e = "new_entry 0 demo_ledger ''disk'' ''rb'' StateDetected ''d''"
  have "ledgerContent ?l2 = ledger_text (map marshal_entry [?e, ?e])"
    by (simp add: Append_def demo_ledger_def Let_def ledger_text_def new_entry_def)
  moreover have "length (marshal_entry ?e) < MaxScanTokenSize"
    using length_marshal_entry [of ?e] length_time_0 length_state_detected
    by (simp add: new_entry_def demo_ledger_def Let_def MaxScanTokenSize_def itoa_def digits_0)
  ultimately have "short_lines (ledgerContent ?l2)"
    using short_lines_entries [of "[?e, ?e]"] by simp
  then show ?thesis
    using audit_sync_failure_breaks_chain [OF NewLedger_empty(1) [OF NewLedger_demo] _ refl refl] by (simp add: Let_def)
qed

text \<open>
  A record whose line reaches 65536 bytes is appended without error, but afterwards the ledger
  can neither be opened nor verified: both scanners stop at the line.
\<close>

theorem audit_oversized_record_unreadable:
  assumes "ledger_inv l es" "short_lines (ledgerContent l)" "length es \<le> 2 ^ 64"
    and "Append AppendOk t l r b s d = (Inr e, l')" "MaxScanTokenSize \<le> length (marshal_entry e)"
  shows "NewLedger OpenOk path (ledgerContent l') host =
           Inl (wrapf ''failed reading existing audit entries: '' err_too_long '''')
       \<and> VerifyLedgerReader now (ledgerContent l') =
           Inl (wrapf ''scanner error during ledger verification: '' err_too_long '''')"
proof -
  have e: "ledgerContent l' = ledger_text (map marshal_entry (es @ [e]))"
    using assms(1,4) by (auto simp: Append_def ledger_inv_def Let_def ledger_text_def)
  have sh: "\<forall>e \<in> set es. length (marshal_entry e) < MaxScanTokenSize"
    using assms(1,2) short_lines_entries [of es] by (simp add: ledger_inv_def)
  have scan: "scan_lines (ledgerContent l') = (map marshal_entry es, True)"
    unfolding e by (rule entry_line.scan_encoded_too_long [OF assms(5) sh])
  have "ledgerContent l' \<noteq> []" using e by (simp add: ledger_text_Nil_iff)
  then have "NewLedger OpenOk path (ledgerContent l') host =
      Inl (wrapf ''failed reading existing audit entries: '' err_too_long '''')"
    unfolding NewLedger_def scan by (simp add: scan_tail_marshal Let_def)
  moreover obtain st where "verify_records verify_start es = Inr st"
    using assms(1,3) verify_records_chained [of "GenesisHash (ledgerHostUUID l) ''INIT''" 0 es verify_start]
    by (cases "es = []") (auto simp: ledger_inv_def verify_start_def)
  ultimately show ?thesis
    unfolding VerifyLedgerReader_def scan by (simp add: verify_lines_marshal)
qed

lemma length_json_string_ge: "length s \<le> length (json_string s)"
proof -
  have one: "1 \<le> length (json_char c)" for c by (simp add: json_char_def Let_def)
  have "length s \<le> length (json_body s)"
  proof (induction s)
    case (Cons c s)
    then show ?case using one [of c] by (simp add: json_body_def)
  qed simp
  then show ?thesis by (simp add: json_string_def)
qed

theorem audit_oversized_record_unreadable_witness:
  "\<exists>e l'. Append AppendOk 0 demo_ledger (replicate 65536 CHR ''x'') ''rb'' StateDetected ''d'' = (Inr e, l')
     \<and> NewLedger OpenOk ''a'' (ledgerContent l') ''h'' =
         Inl (wrapf ''failed reading existing audit entries: '' err_too_long '''')"
proof -
  let ?r = "replicate 65536 CHR ''x''"
  obtain e l' where A: "Append AppendOk 0 demo_ledger ?r ''rb'' StateDetected ''d'' = (Inr e, l')" "aeResourceID e = ?r"
    by (simp add: Append_def demo_ledger_def new_entry_def Let_def)
  have "length ?r \<le> length (marshal_entry e)"
    using length_json_string_ge [of ?r] unfolding marshal_entry_def entry_json_def A(2) by (simp only: json_print.simps) simp
  then have "MaxScanTokenSize \<le> length (marshal_entry e)" by (simp add: MaxScanTokenSize_def)
  moreover have "short_lines (ledgerContent demo_ledger)"
    by (simp add: short_lines_def demo_ledger_def raw_lines_def)
  ultimately show ?thesis
    using audit_oversized_record_unreadable [OF NewLedger_empty(1) [OF NewLedger_demo] _ _ A(1)] A(1) by auto
qed

end
