(* ===== verification/Go_Os.thy ===== *)
theory Go_Os
  imports Go_Path "HOL-Library.AList" "HOL-Library.Char_ord" "HOL-Library.List_Lexorder"
begin

text \<open>
  The operating system the engine runs on, as one explicit state. Files, directories and advisory
  locks are state; what the code cannot determine (clock readings, failures of system calls, the
  outcome of signals, commands and HTTP requests, the state of a file system, the expiry of a
  context) is read from oracles of the state, indexed by the number of system calls made so far, so
  that every theorem holds for every behaviour of the environment. A path is a key: different
  spellings of one path are different keys. Go function values may share variables they capture;
  such a variable is a cell of the state, named by its address, and a cell that was never assigned
  holds the zero value of its type. Closing a file does not fail.
\<close>

datatype node = FileNode bytes | DirNode

datatype ctx_err = DeadlineExceeded | Canceled

text \<open>A context: the resource it carries and its deadline.\<close>

record ctx =
  ctxTarget :: "string option"
  ctxDeadline :: "time option"

definition Background :: ctx where
  "Background = \<lparr>ctxTarget = None, ctxDeadline = None\<rparr>"

record command =
  cmdBinary :: string
  cmdArgs :: "string list"
  cmdSetpgid :: bool
  cmdCredential :: "(32 word \<times> 32 word) option"

datatype run_error = ExitError int | SpawnError goerror

record run_outcome =
  roStdout :: string
  roStderr :: string
  roError :: "run_error option"
  roPid :: "int option"

record world =
  steps :: nat
  oClock :: "nat \<Rightarrow> time"
  oFault :: "nat \<Rightarrow> goerror option"
  oWritten :: "nat \<Rightarrow> nat"
  oKill :: "nat \<Rightarrow> int \<Rightarrow> int \<Rightarrow> goerror option"
  oHttp :: "nat \<Rightarrow> string \<Rightarrow> duration \<Rightarrow> goerror + int"
  oStatfs :: "nat \<Rightarrow> string \<Rightarrow> goerror + (int \<times> int)"
  oExec :: "nat \<Rightarrow> command \<Rightarrow> run_outcome"
  oEffect :: "nat \<Rightarrow> command \<Rightarrow> (string \<times> node) list \<Rightarrow> (string \<times> node) list"
  oCtxErr :: "nat \<Rightarrow> ctx \<Rightarrow> ctx_err option"
  oUid :: int
  oPid :: int
  oInode :: "nat \<Rightarrow> string \<Rightarrow> 64 word"
  oMtime :: "nat \<Rightarrow> string \<Rightarrow> time"
  oDial :: "nat \<Rightarrow> string \<Rightarrow> goerror option"
  oTls :: "nat \<Rightarrow> string \<Rightarrow> goerror + int list"
  oSpawn :: "nat \<Rightarrow> command \<Rightarrow> goerror + int"
  intVars :: "string \<Rightarrow> int"
  strVars :: "string \<Rightarrow> string"
  files :: "(string \<times> node) list"
  flocks :: "string list"
  signals :: "(int \<times> int) list"
  commands :: "command list"

section \<open>Clock and contexts\<close>

definition next_step :: "world \<Rightarrow> world" where
  "next_step w = w\<lparr>steps := Suc (steps w)\<rparr>"

definition time_Now :: "world \<Rightarrow> time \<times> world" where
  "time_Now w = (oClock w (steps w), next_step w)"

definition ctx_Err :: "ctx \<Rightarrow> world \<Rightarrow> ctx_err option \<times> world" where
  "ctx_Err c w = (oCtxErr w (steps w) c, next_step w)"

text \<open>\<open>context.WithTimeout\<close>: the earlier of the parent's deadline and the new one.\<close>

definition WithTimeout :: "ctx \<Rightarrow> time \<Rightarrow> duration \<Rightarrow> ctx" where
  "WithTimeout c t d =
     c\<lparr>ctxDeadline := Some (case ctxDeadline c of None \<Rightarrow> t + d | Some e \<Rightarrow> min e (t + d))\<rparr>"

definition WithTarget :: "ctx \<Rightarrow> string \<Rightarrow> ctx" where
  "WithTarget c r = c\<lparr>ctxTarget := Some r\<rparr>"

section \<open>Files\<close>

definition sys :: "world \<Rightarrow> goerror option \<times> world" where
  "sys w = (oFault w (steps w), next_step w)"

definition lookup_file :: "world \<Rightarrow> string \<Rightarrow> node option" where
  "lookup_file w p = map_of (files w) p"

definition put_file :: "string \<Rightarrow> node \<Rightarrow> world \<Rightarrow> world" where
  "put_file p n w = w\<lparr>files := AList.update p n (files w)\<rparr>"

definition delete_file :: "string \<Rightarrow> world \<Rightarrow> world" where
  "delete_file p w = w\<lparr>files := AList.delete p (files w)\<rparr>"

definition err_not_exist :: "string \<Rightarrow> string \<Rightarrow> goerror" where
  "err_not_exist op p = \<lparr>err_is = [ErrNotExist], err_msg = op @ '' '' @ p @ '': no such file or directory''\<rparr>"

definition err_is_dir :: "string \<Rightarrow> string \<Rightarrow> goerror" where
  "err_is_dir op p = errorf (op @ '' '' @ p @ '': is a directory'')"

definition err_not_dir :: "string \<Rightarrow> goerror" where
  "err_not_dir p = errorf (''mkdir '' @ p @ '': not a directory'')"

definition os_MkdirAll :: "string \<Rightarrow> world \<Rightarrow> goerror option \<times> world" where
  "os_MkdirAll p w =
     (case sys w of
        (Some e, w') \<Rightarrow> (Some e, w')
      | (None, w') \<Rightarrow>
          (case lookup_file w' p of
             None \<Rightarrow> (None, put_file p DirNode w')
           | Some DirNode \<Rightarrow> (None, w')
           | Some (FileNode _) \<Rightarrow> (Some (err_not_dir p), w')))"

text \<open>Opening with \<open>O_CREATE\<close>, with and without \<open>O_TRUNC\<close>.\<close>

definition os_OpenTrunc :: "string \<Rightarrow> world \<Rightarrow> goerror option \<times> world" where
  "os_OpenTrunc p w =
     (case sys w of
        (Some e, w') \<Rightarrow> (Some e, w')
      | (None, w') \<Rightarrow>
          if lookup_file w' p = Some DirNode then (Some (err_is_dir ''open'' p), w')
          else (None, put_file p (FileNode []) w'))"

definition os_OpenCreate :: "string \<Rightarrow> world \<Rightarrow> goerror option \<times> world" where
  "os_OpenCreate p w =
     (case sys w of
        (Some e, w') \<Rightarrow> (Some e, w')
      | (None, w') \<Rightarrow>
          (case lookup_file w' p of
             None \<Rightarrow> (None, put_file p (FileNode []) w')
           | Some DirNode \<Rightarrow> (Some (err_is_dir ''open'' p), w')
           | Some (FileNode _) \<Rightarrow> (None, w')))"

text \<open>A write to a freshly truncated file; when it fails, a prefix may have been written.\<close>

definition file_Write :: "string \<Rightarrow> bytes \<Rightarrow> world \<Rightarrow> goerror option \<times> world" where
  "file_Write p bs w =
     (case sys w of
        (Some e, w') \<Rightarrow> (Some e, put_file p (FileNode (take (oWritten w (steps w)) bs)) w')
      | (None, w') \<Rightarrow> (None, put_file p (FileNode bs) w'))"

definition file_Sync :: "world \<Rightarrow> goerror option \<times> world" where
  "file_Sync w = sys w"

definition os_ReadFile :: "string \<Rightarrow> world \<Rightarrow> (goerror + bytes) \<times> world" where
  "os_ReadFile p w =
     (case sys w of
        (Some e, w') \<Rightarrow> (Inl e, w')
      | (None, w') \<Rightarrow>
          (case lookup_file w' p of
             None \<Rightarrow> (Inl (err_not_exist ''open'' p), w')
           | Some DirNode \<Rightarrow> (Inl (err_is_dir ''read'' p), w')
           | Some (FileNode bs) \<Rightarrow> (Inr bs, w')))"

text \<open>\<open>os.Open\<close>: fails on an absent path.\<close>

definition os_Open :: "string \<Rightarrow> world \<Rightarrow> goerror option \<times> world" where
  "os_Open p w =
     (case sys w of
        (Some e, w') \<Rightarrow> (Some e, w')
      | (None, w') \<Rightarrow> (if lookup_file w' p = None then Some (err_not_exist ''open'' p) else None, w'))"

definition os_Stat :: "string \<Rightarrow> world \<Rightarrow> (goerror + node) \<times> world" where
  "os_Stat p w =
     (case sys w of
        (Some e, w') \<Rightarrow> (Inl e, w')
      | (None, w') \<Rightarrow>
          (case lookup_file w' p of
             None \<Rightarrow> (Inl (err_not_exist ''stat'' p), w')
           | Some n \<Rightarrow> (Inr n, w')))"

definition os_Remove :: "string \<Rightarrow> world \<Rightarrow> goerror option \<times> world" where
  "os_Remove p w =
     (case sys w of
        (Some e, w') \<Rightarrow> (Some e, w')
      | (None, w') \<Rightarrow>
          if lookup_file w' p = None then (Some (err_not_exist ''remove'' p), w')
          else (None, delete_file p w'))"

text \<open>\<open>os.WriteFile\<close>: truncate, then write.\<close>

definition os_WriteFile :: "string \<Rightarrow> bytes \<Rightarrow> world \<Rightarrow> goerror option \<times> world" where
  "os_WriteFile p bs w =
     (case os_OpenTrunc p w of (Some e, w') \<Rightarrow> (Some e, w') | (None, w') \<Rightarrow> file_Write p bs w')"

text \<open>\<open>os.Rename\<close> of a file replaces the target as a whole or fails.\<close>

definition os_Rename :: "string \<Rightarrow> string \<Rightarrow> world \<Rightarrow> goerror option \<times> world" where
  "os_Rename p q w =
     (case sys w of
        (Some e, w') \<Rightarrow> (Some e, w')
      | (None, w') \<Rightarrow>
          (case lookup_file w' p of
             None \<Rightarrow> (Some (err_not_exist ''rename'' p), w')
           | Some n \<Rightarrow>
               if lookup_file w' q = Some DirNode then (Some (errorf (''rename '' @ p @ '' '' @ q @ '': file exists'')), w')
               else (None, put_file q n (delete_file p w'))))"

text \<open>\<open>os.ReadDir\<close>: the entries of a directory in name order, with their kind.\<close>

definition os_ReadDir :: "string \<Rightarrow> world \<Rightarrow> (goerror + (string \<times> bool) list) \<times> world" where
  "os_ReadDir d w =
     (case sys w of
        (Some e, w') \<Rightarrow> (Inl e, w')
      | (None, w') \<Rightarrow>
          (case lookup_file w' d of
             None \<Rightarrow> (Inl (err_not_exist ''open'' d), w')
           | Some (FileNode _) \<Rightarrow> (Inl (errorf (''readdirent '' @ d @ '': not a directory'')), w')
           | Some DirNode \<Rightarrow>
               (Inr (sort_key fst
                  (map (\<lambda>(p, n). (filepath_Base p, n = DirNode))
                    (filter (\<lambda>(p, n). p \<noteq> d \<and> filepath_Dir p = filepath_Clean d) (files w')))), w')))"

text \<open>
  \<open>os.Stat\<close> with the attributes the code reads. Inode numbers and modification times are
  oracles; the size of a directory is not used.
\<close>

record file_info =
  fiNode :: node
  fiSize :: int
  fiModTime :: time
  fiIno :: "64 word"

definition os_Info :: "string \<Rightarrow> world \<Rightarrow> (goerror + file_info) \<times> world" where
  "os_Info p w =
     (case os_Stat p w of
        (Inl e, w') \<Rightarrow> (Inl e, w')
      | (Inr n, w') \<Rightarrow>
          (Inr \<lparr>fiNode = n, fiSize = (case n of FileNode bs \<Rightarrow> int (length bs) | DirNode \<Rightarrow> 0),
                fiModTime = oMtime w (steps w) p, fiIno = oInode w (steps w) p\<rparr>, w'))"

text \<open>\<open>io.Copy\<close> between two open files: reading may fail, writing may fail part-way.\<close>

definition io_Copy :: "string \<Rightarrow> string \<Rightarrow> world \<Rightarrow> goerror option \<times> world" where
  "io_Copy dst src w =
     (case os_ReadFile src w of
        (Inl e, w') \<Rightarrow> (Some e, w')
      | (Inr bs, w') \<Rightarrow> file_Write dst bs w')"

section \<open>Processes, commands, network\<close>

text \<open>\<open>syscall.Kill\<close>; a signal other than the probe 0 that is delivered is logged.\<close>

definition sys_Kill :: "int \<Rightarrow> int \<Rightarrow> world \<Rightarrow> goerror option \<times> world" where
  "sys_Kill pid sig w =
     (case oKill w (steps w) pid sig of
        Some e \<Rightarrow> (Some e, next_step w)
      | None \<Rightarrow> (None, (next_step w)\<lparr>signals := (if sig = 0 then signals w else signals w @ [(pid, sig)])\<rparr>))"

definition cmd_Run :: "command \<Rightarrow> world \<Rightarrow> run_outcome \<times> world" where
  "cmd_Run c w = (oExec w (steps w) c, (next_step w)\<lparr>commands := commands w @ [c], files := oEffect w (steps w) c (files w)\<rparr>)"

definition http_Get :: "string \<Rightarrow> duration \<Rightarrow> world \<Rightarrow> (goerror + int) \<times> world" where
  "http_Get url timeout w = (oHttp w (steps w) url timeout, next_step w)"

definition sys_Statfs :: "string \<Rightarrow> world \<Rightarrow> (goerror + (int \<times> int)) \<times> world" where
  "sys_Statfs p w = (oStatfs w (steps w) p, next_step w)"

definition net_Dial :: "string \<Rightarrow> world \<Rightarrow> goerror option \<times> world" where
  "net_Dial addr w = (oDial w (steps w) addr, next_step w)"

text \<open>A TLS handshake answers the serial numbers of the peer's certificates.\<close>

definition tls_Dial :: "string \<Rightarrow> world \<Rightarrow> (goerror + int list) \<times> world" where
  "tls_Dial addr w = (oTls w (steps w) addr, next_step w)"

text \<open>\<open>Cmd.Start\<close>: the child runs on; the answer is its process id.\<close>

definition cmd_Start :: "command \<Rightarrow> world \<Rightarrow> (goerror + int) \<times> world" where
  "cmd_Start c w =
     (oSpawn w (steps w) c, (next_step w)\<lparr>commands := commands w @ [c], files := oEffect w (steps w) c (files w)\<rparr>)"

definition time_Sleep :: "duration \<Rightarrow> world \<Rightarrow> world" where
  "time_Sleep d w = next_step w"

section \<open>Captured variables\<close>

definition set_int :: "string \<Rightarrow> int \<Rightarrow> world \<Rightarrow> world" where
  "set_int x v w = w\<lparr>intVars := (intVars w)(x := v)\<rparr>"

definition set_str :: "string \<Rightarrow> string \<Rightarrow> world \<Rightarrow> world" where
  "set_str x v w = w\<lparr>strVars := (strVars w)(x := v)\<rparr>"

section \<open>Advisory locks\<close>

text \<open>
  \<open>flock(LOCK_EX | LOCK_NB)\<close> on a new open file description: refused when another
  description holds the lock of the same file.
\<close>

definition err_would_block :: goerror where
  "err_would_block = \<lparr>err_is = [EWOULDBLOCK], err_msg = ''resource temporarily unavailable''\<rparr>"

definition sys_Flock :: "string \<Rightarrow> world \<Rightarrow> goerror option \<times> world" where
  "sys_Flock p w =
     (case sys w of
        (Some e, w') \<Rightarrow> (Some e, w')
      | (None, w') \<Rightarrow>
          if p \<in> set (flocks w') then (Some err_would_block, w')
          else (None, w'\<lparr>flocks := p # flocks w'\<rparr>))"

text \<open>Closing the only descriptor of the description releases its lock, whatever \<open>LOCK_UN\<close> answered.\<close>

definition release_flock :: "string \<Rightarrow> world \<Rightarrow> world" where
  "release_flock p w = w\<lparr>flocks := removeAll p (flocks w)\<rparr>"

section \<open>What the calls leave alone\<close>

lemmas os_file_defs = os_MkdirAll_def os_OpenTrunc_def os_OpenCreate_def file_Write_def file_Sync_def
  os_ReadFile_def os_Open_def os_Stat_def os_Remove_def io_Copy_def os_WriteFile_def os_Rename_def os_ReadDir_def os_Info_def sys_def next_step_def put_file_def delete_file_def

lemmas os_proc_defs = sys_Kill_def cmd_Run_def http_Get_def sys_Statfs_def time_Now_def ctx_Err_def next_step_def

lemmas os_splits = option.splits sum.splits prod.splits node.splits if_splits

lemma lookup_put [simp]: "lookup_file (put_file p n w) q = (if q = p then Some n else lookup_file w q)"
  by (simp add: lookup_file_def put_file_def update_conv)

lemma lookup_next_step [simp]: "lookup_file (next_step w) p = lookup_file w p"
  by (simp add: lookup_file_def next_step_def)

lemma snd_sys [simp]: "snd (sys w) = next_step w"
  by (simp add: sys_def)

lemma next_step_frame [simp]:
  "flocks (next_step w) = flocks w" "signals (next_step w) = signals w" "commands (next_step w) = commands w"
  "files (next_step w) = files w" "oFault (next_step w) = oFault w" "steps (next_step w) = Suc (steps w)"
  by (simp_all add: next_step_def)

lemma put_file_frame [simp]:
  "flocks (put_file p n w) = flocks w" "signals (put_file p n w) = signals w" "commands (put_file p n w) = commands w"
  "oFault (put_file p n w) = oFault w" "steps (put_file p n w) = steps w"
  by (simp_all add: put_file_def)

lemma fs_flocks [simp]:
  "flocks (snd (os_MkdirAll p w)) = flocks w" "flocks (snd (os_OpenTrunc p w)) = flocks w"
  "flocks (snd (os_OpenCreate p w)) = flocks w" "flocks (snd (file_Write p bs w)) = flocks w"
  "flocks (snd (file_Sync w)) = flocks w" "flocks (snd (os_ReadFile p w)) = flocks w"
  "flocks (snd (os_Open p w)) = flocks w" "flocks (snd (os_Stat p w)) = flocks w"
  "flocks (snd (os_Remove p w)) = flocks w"
  by (auto simp: os_file_defs split: os_splits)

text \<open>Calls that only look: the files and the logs of signals and commands stay.\<close>

lemma files_Info [simp]: "files (snd (os_Info p w)) = files w"
  by (simp add: os_Info_def os_Stat_def sys_def split: option.split)

lemma log_Info [simp]: "signals (snd (os_Info p w)) = signals w" "commands (snd (os_Info p w)) = commands w"
  by (simp_all add: os_Info_def os_Stat_def sys_def split: option.split)

lemma files_ReadDir [simp]: "files (snd (os_ReadDir p w)) = files w"
  "signals (snd (os_ReadDir p w)) = signals w" "commands (snd (os_ReadDir p w)) = commands w"
  by (simp_all add: os_ReadDir_def sys_def split: option.split node.split)

definition same_fs :: "world \<Rightarrow> world \<Rightarrow> bool" where
  "same_fs w w' \<longleftrightarrow> files w' = files w \<and> signals w' = signals w \<and> commands w' = commands w"

lemma same_fs_refl [simp]: "same_fs w w"
  by (simp add: same_fs_def)

lemma same_fs_Info: "os_Info p w = (r, w') \<Longrightarrow> same_fs w w'"
  using files_Info [of p w] log_Info [of p w] by (simp add: same_fs_def)

lemma lookup_delete [simp]: "lookup_file (delete_file p w) q = (if q = p then None else lookup_file w q)"
  by (simp add: lookup_file_def delete_file_def delete_conv)

lemma Remove_ok:
  assumes "os_Remove p w = (err, w')"
  shows "signals w' = signals w" "commands w' = commands w"
    "err = None \<Longrightarrow> lookup_file w' q = (if q = p then None else lookup_file w q)"
    "err \<noteq> None \<Longrightarrow> lookup_file w' q = lookup_file w q"
  using assms by (auto simp: os_Remove_def sys_def delete_file_def split: option.splits if_splits)
     (auto simp: lookup_file_def delete_conv)

section \<open>Invariants of the environment\<close>

text \<open>
  The contract of a property of the operating-system state that no system call on files, processes
  or the network can change: it does not depend on the call counter, the files and the logs. The
  components' operations keep every such property, provided the function values they are given do.
\<close>

locale world_inv =
  fixes P :: "world \<Rightarrow> bool"
  assumes P_steps: "P (w\<lparr>steps := n\<rparr>) = P w"
    and P_files: "P (w\<lparr>files := fs\<rparr>) = P w"
    and P_signals: "P (w\<lparr>signals := ss\<rparr>) = P w"
    and P_commands: "P (w\<lparr>commands := cs\<rparr>) = P w"
    and P_intVars: "P (w\<lparr>intVars := is\<rparr>) = P w"
    and P_strVars: "P (w\<lparr>strVars := sv\<rparr>) = P w"
begin

lemma P_next_step [simp]: "P (next_step w) = P w"
  by (simp add: next_step_def P_steps)

lemma P_put_file [simp]: "P (put_file p n w) = P w"
  by (simp add: put_file_def P_files)

lemma P_delete_file [simp]: "P (delete_file p w) = P w"
  by (simp add: delete_file_def P_files)

lemma P_calls [simp]:
  "P (snd (sys w)) = P w" "P (snd (time_Now w)) = P w" "P (snd (ctx_Err c w)) = P w"
  "P (snd (os_MkdirAll p w)) = P w" "P (snd (os_OpenTrunc p w)) = P w" "P (snd (os_OpenCreate p w)) = P w"
  "P (snd (file_Write p bs w)) = P w" "P (snd (file_Sync w)) = P w" "P (snd (os_ReadFile p w)) = P w"
  "P (snd (os_Open p w)) = P w" "P (snd (os_Stat p w)) = P w" "P (snd (os_Remove p w)) = P w"
  "P (snd (sys_Statfs p w)) = P w" "P (snd (http_Get u t w)) = P w"
  by (simp_all add: sys_def time_Now_def ctx_Err_def os_MkdirAll_def os_OpenTrunc_def os_OpenCreate_def file_Write_def
      file_Sync_def os_ReadFile_def os_Open_def os_Stat_def os_Remove_def sys_Statfs_def http_Get_def
      split: option.split node.split)

lemma P_kill [simp]: "P (snd (sys_Kill p s w)) = P w"
  by (simp add: sys_Kill_def P_signals split: option.split)

lemma P_run [simp]: "P (snd (cmd_Run c w)) = P w"
proof -
  have "snd (cmd_Run c w) = (next_step w)\<lparr>commands := commands w @ [c]\<rparr>\<lparr>files := oEffect w (steps w) c (files w)\<rparr>"
    by (simp add: cmd_Run_def)
  then show ?thesis by (simp only: P_files P_commands P_next_step)
qed

lemma P_copy [simp]: "P (snd (io_Copy d s w)) = P w"
proof -
  obtain r w1 where "os_ReadFile s w = (r, w1)" by force
  moreover from this have "P w1 = P w" using P_calls(9) [of s w] by simp
  ultimately show ?thesis by (simp add: io_Copy_def split: sum.split)
qed

lemma P_vars [simp]: "P (set_int x i w) = P w" "P (set_str x v w) = P w" "P (time_Sleep d w) = P w"
  by (simp_all add: set_int_def set_str_def time_Sleep_def P_intVars P_strVars)

lemma P_more [simp]:
  "P (snd (os_Rename p q w)) = P w" "P (snd (os_ReadDir p w)) = P w" "P (snd (net_Dial a w)) = P w" "P (snd (tls_Dial a w)) = P w"
  by (simp_all add: os_Rename_def os_ReadDir_def net_Dial_def tls_Dial_def sys_def split: option.split node.split)

lemma P_info [simp]: "P (snd (os_Info p w)) = P w"
proof -
  obtain r w1 where "os_Stat p w = (r, w1)" by force
  moreover from this have "P w1 = P w" using P_calls(11) [of p w] by simp
  ultimately show ?thesis by (simp add: os_Info_def split: sum.split)
qed

lemma P_write [simp]: "P (snd (os_WriteFile p bs w)) = P w"
proof -
  obtain a w1 where "os_OpenTrunc p w = (a, w1)" by force
  moreover from this have "P w1 = P w" using P_calls(5) [of p w] by simp
  ultimately show ?thesis by (simp add: os_WriteFile_def split: option.split)
qed

lemma P_start [simp]: "P (snd (cmd_Start c w)) = P w"
proof -
  have "snd (cmd_Start c w) = (next_step w)\<lparr>commands := commands w @ [c]\<rparr>\<lparr>files := oEffect w (steps w) c (files w)\<rparr>"
    by (simp add: cmd_Start_def)
  then show ?thesis by (simp only: P_files P_commands P_next_step)
qed

lemma P_pairs:
  "sys w = (a, w') \<Longrightarrow> P w' = P w" "time_Now w = (t, w') \<Longrightarrow> P w' = P w" "ctx_Err c w = (x, w') \<Longrightarrow> P w' = P w"
  "os_MkdirAll p w = (a, w') \<Longrightarrow> P w' = P w" "os_OpenTrunc p w = (a, w') \<Longrightarrow> P w' = P w"
  "os_OpenCreate p w = (a, w') \<Longrightarrow> P w' = P w" "file_Write p bs w = (a, w') \<Longrightarrow> P w' = P w"
  "file_Sync w = (a, w') \<Longrightarrow> P w' = P w" "os_ReadFile p w = (b, w') \<Longrightarrow> P w' = P w"
  "os_Open p w = (a, w') \<Longrightarrow> P w' = P w" "os_Stat p w = (d, w') \<Longrightarrow> P w' = P w" "os_Remove p w = (a, w') \<Longrightarrow> P w' = P w"
  "sys_Statfs p w = (f, w') \<Longrightarrow> P w' = P w" "http_Get u tm w = (g, w') \<Longrightarrow> P w' = P w"
  "sys_Kill i s w = (a, w') \<Longrightarrow> P w' = P w" "cmd_Run cc w = (out, w') \<Longrightarrow> P w' = P w" "io_Copy p q w = (a, w') \<Longrightarrow> P w' = P w"
  using P_calls P_kill P_run P_copy by (metis snd_conv)+

lemma P_more_pairs:
  "os_Rename p q w = (a, w') \<Longrightarrow> P w' = P w" "os_ReadDir p w = (b, w') \<Longrightarrow> P w' = P w" "net_Dial x w = (a, w') \<Longrightarrow> P w' = P w"
  "tls_Dial x w = (c, w') \<Longrightarrow> P w' = P w" "os_Info p w = (d, w') \<Longrightarrow> P w' = P w" "os_WriteFile p bs w = (a, w') \<Longrightarrow> P w' = P w"
  "cmd_Start cc w = (f, w') \<Longrightarrow> P w' = P w"
  using P_more P_info P_write P_start by (metis snd_conv)+

end

interpretation held: world_inv "\<lambda>w. flocks w = L" for L
  by unfold_locales simp_all

definition no_faults :: "world \<Rightarrow> bool" where
  "no_faults w \<longleftrightarrow> (\<forall>n. oFault w n = None)"

interpretation calm: world_inv no_faults
  by unfold_locales (simp_all add: no_faults_def)

text \<open>An environment without failures, for concrete runs.\<close>

definition quiet_world :: world where
  "quiet_world =
     \<lparr>steps = 0, oClock = (\<lambda>n. int n), oFault = (\<lambda>_. None), oWritten = (\<lambda>_. 0), oKill = (\<lambda>_ _ _. None),
      oHttp = (\<lambda>_ _ _. Inr 200), oStatfs = (\<lambda>_ _. Inr (50, 100)),
      oExec = (\<lambda>_ _. \<lparr>roStdout = '''', roStderr = '''', roError = None, roPid = Some 1\<rparr>),
      oEffect = (\<lambda>_ _ fs. fs), oCtxErr = (\<lambda>_ _. None), oUid = 1000, oPid = 4242,
      oInode = (\<lambda>_ _. 0), oMtime = (\<lambda>_ _. 0), oDial = (\<lambda>_ _. None), oTls = (\<lambda>_ _. Inr []), oSpawn = (\<lambda>_ _. Inr 77),
      intVars = (\<lambda>_. 0), strVars = (\<lambda>_. ''''),
      files = [], flocks = [], signals = [], commands = []\<rparr>"

end
