(* ===== verification/Lock.thy ===== *)
theory Lock
  imports Go_Os Sha256
begin

text \<open>
  \<open>internal/lock/lock.go\<close>: advisory file locks. A \<open>ResourceLock\<close> is a value; several
  clients (goroutines or processes) share the lock table of the operating system, and their calls
  interleave as steps of \<open>lock_step\<close>.
\<close>

section \<open>Coordinator and lock names\<close>

record Coordinator =
  lockDir :: string

record ResourceLock =
  rlResourceID :: string
  rlPath :: string
  rlOpen :: bool
  rlReleased :: bool

definition NewCoordinator :: "string \<Rightarrow> world \<Rightarrow> (goerror + Coordinator) \<times> world" where
  "NewCoordinator dir w =
     (let d = (if dir = '''' then ''/tmp/remediation-locks'' else dir) in
      case os_MkdirAll d w of
        (Some e, w') \<Rightarrow> (Inl (wrapf (''failed to create lock directory '' @ d @ '': '') e ''''), w')
      | (None, w') \<Rightarrow> (Inr \<lparr>lockDir = d\<rparr>, w'))"

definition safe_char :: "char \<Rightarrow> bool" where
  "safe_char c \<longleftrightarrow>
     (let n = of_char c :: int in
      97 \<le> n \<and> n \<le> 122 \<or> 65 \<le> n \<and> n \<le> 90 \<or> 48 \<le> n \<and> n \<le> 57 \<or> n = 45 \<or> n = 95)"

definition sanitize :: "string \<Rightarrow> string" where
  "sanitize resourceID =
     take 64 (trim_char CHR ''_'' (map_runes (\<lambda>c. if safe_char c then c else CHR ''_'') CHR ''_'' resourceID))"

definition short_hash :: "string \<Rightarrow> string" where
  "short_hash resourceID = hex_EncodeToString (take 4 (sha256 resourceID))"

definition lock_filename :: "string \<Rightarrow> string" where
  "lock_filename resourceID =
     (if sanitize resourceID = [] then ''res_'' else sanitize resourceID @ ''_'') @ short_hash resourceID @ ''.lock''"

definition LockPathFor :: "Coordinator \<Rightarrow> string \<Rightarrow> string" where
  "LockPathFor c resourceID = filepath_Join [lockDir c, lock_filename resourceID]"

section \<open>Locking and unlocking\<close>

definition err_lock_held :: goerror where
  "err_lock_held = \<lparr>err_is = [ErrLockHeld], err_msg = ''lock already held''\<rparr>"

definition TryLockPath :: "string \<Rightarrow> string \<Rightarrow> world \<Rightarrow> (goerror + ResourceLock) \<times> world" where
  "TryLockPath resourceID lockPath w =
     (case os_MkdirAll (filepath_Dir lockPath) w of
        (Some e, w1) \<Rightarrow> (Inl (wrapf ''failed to ensure lock directory: '' e ''''), w1)
      | (None, w1) \<Rightarrow>
          (case os_OpenCreate lockPath w1 of
             (Some e, w2) \<Rightarrow> (Inl (wrapf (''failed to open lock file '' @ lockPath @ '': '') e ''''), w2)
           | (None, w2) \<Rightarrow>
               (case sys_Flock lockPath w2 of
                  (Some e, w3) \<Rightarrow>
                    if errors_Is e EWOULDBLOCK then (Inl err_lock_held, w3)
                    else (Inl (wrapf (''failed to acquire flock on '' @ lockPath @ '': '') e ''''), w3)
                | (None, w3) \<Rightarrow>
                    (Inr \<lparr>rlResourceID = resourceID, rlPath = lockPath, rlOpen = True, rlReleased = False\<rparr>, w3))))"

definition TryLock :: "Coordinator \<Rightarrow> string \<Rightarrow> world \<Rightarrow> (goerror + ResourceLock) \<times> world" where
  "TryLock c resourceID w = TryLockPath resourceID (LockPathFor c resourceID) w"

text \<open>The answer of \<open>LOCK_UN\<close> is ignored; the answer of \<open>Close\<close> is returned.\<close>

definition Unlock :: "ResourceLock \<Rightarrow> world \<Rightarrow> goerror option \<times> ResourceLock \<times> world" where
  "Unlock l w =
     (if rlReleased l \<or> \<not> rlOpen l then (None, l, w)
      else let (_, w1) = sys w; (err, w2) = sys w1
           in (err, l\<lparr>rlReleased := True, rlOpen := False\<rparr>, release_flock (rlPath l) w2))"

definition IsReleased :: "ResourceLock \<Rightarrow> bool" where
  "IsReleased l = rlReleased l"

section \<open>Lock names are entries of the lock directory\<close>

lemma set_map_runes: "set (map_runes f other s) \<subseteq> f ` set s \<union> {other}"
proof (induction f other s rule: map_runes.induct)
  case (2 f other c cs)
  have "set (drop n (c # cs)) \<subseteq> set (c # cs)" for n by (rule set_drop_subset)
  then show ?case using 2 by (auto split: if_splits) blast+
qed simp

lemma set_trim_char: "set (trim_char c s) \<subseteq> set s"
  unfolding trim_char_def by (auto dest!: set_dropWhileD)

lemma safe_char_simps: "\<not> safe_char slash" "safe_char CHR ''_''"
  by (simp_all add: safe_char_def slash_def)

lemma sanitize_safe: "c \<in> set (sanitize r) \<Longrightarrow> safe_char c"
  using set_take_subset set_trim_char set_map_runes safe_char_simps
  by (fastforce simp: sanitize_def split: if_splits)

lemma hex_no_slash: "slash \<notin> set (hex_EncodeToString bs)"
proof -
  have "hex_digit k \<noteq> CHR ''/''" if "k < 16" for k
  proof
    assume "hex_digit k = CHR ''/''"
    then have "(of_char (hex_digit k) :: nat) = 47" by simp
    then show False using that by (auto simp: hex_digit_def split: if_splits)
  qed
  moreover have "(of_char c :: nat) div 16 < 16" for c by (rule less_mult_imp_div_less) simp
  ultimately have "slash \<notin> set (hex_byte c)" for c
    by (simp add: hex_byte_def Let_def slash_def) (metis mod_less_divisor zero_less_numeral)
  then show ?thesis by (auto simp: hex_EncodeToString_def)
qed

lemma plain_lock_filename: "plain_name (lock_filename r)"
proof -
  have "slash \<notin> set (sanitize r)" using sanitize_safe safe_char_simps by blast
  then have "slash \<notin> set (lock_filename r)"
    using hex_no_slash by (auto simp: lock_filename_def short_hash_def slash_def)
  moreover have "5 \<le> length (lock_filename r)" by (simp add: lock_filename_def)
  ultimately show ?thesis by (auto simp: plain_name_def)
qed

lemma length_lock_filename: "length (lock_filename r) \<le> 78"
  by (auto simp: lock_filename_def short_hash_def length_hex sanitize_def)

text \<open>
  Whatever bytes a resource id holds, its lock file is an entry of the lock directory itself
  (never of another directory), its name is at most 78 bytes long, and the same id always has the
  same path.
\<close>

theorem lock_path_confined:
  assumes "lockDir c \<noteq> ''''" "comps (lockDir c) \<noteq> []"
  shows "\<exists>f. LockPathFor c r = filepath_Clean (lockDir c) @ slash # f
           \<and> slash \<notin> set f \<and> f \<noteq> ''.'' \<and> f \<noteq> ''..'' \<and> 0 < length f \<and> length f \<le> 78"
  using Join_child [OF assms(1) plain_lock_filename, of r] plain_lock_filename [of r] length_lock_filename [of r] assms(2)
  by (intro exI [of _ "lock_filename r"]) (auto simp: LockPathFor_def plain_name_def)

theorem lock_path_confined_witness:
  "\<exists>f. LockPathFor \<lparr>lockDir = ''/var/lock''\<rparr> ''../../etc/passwd'' = ''/var/lock'' @ slash # f \<and> slash \<notin> set f"
proof -
  have "comps ''/var/lock'' \<noteq> []" "filepath_Clean ''/var/lock'' = ''/var/lock''" by code_simp+
  then show ?thesis
    using lock_path_confined [of "\<lparr>lockDir = ''/var/lock''\<rparr>" "''../../etc/passwd''"] by auto
qed

section \<open>Interleaved clients\<close>

text \<open>
  The lock values handed out so far and the operating system. A step is one call of any client:
  \<open>TryLock\<close> on any resource, \<open>Unlock\<close> on any lock handed out (also a second time), or a
  change of the environment that touches no lock.
\<close>

inductive lock_step :: "Coordinator \<Rightarrow> ResourceLock list \<times> world \<Rightarrow> ResourceLock list \<times> world \<Rightarrow> bool"
  for c :: Coordinator where
  acquire: "TryLock c r w = (Inr l, w') \<Longrightarrow> lock_step c (ls, w) (ls @ [l], w')"
| refuse: "TryLock c r w = (Inl e, w') \<Longrightarrow> lock_step c (ls, w) (ls, w')"
| release: "i < length ls \<Longrightarrow> Unlock (ls ! i) w = (err, l', w') \<Longrightarrow> lock_step c (ls, w) (ls[i := l'], w')"
| environment: "flocks w' = flocks w \<Longrightarrow> lock_step c (ls, w) (ls, w')"

definition live :: "ResourceLock \<Rightarrow> bool" where
  "live l \<longleftrightarrow> \<not> rlReleased l \<and> rlOpen l"

text \<open>Every lock is on its resource's path; the live locks have distinct paths, exactly the locked files.\<close>

definition lock_inv :: "Coordinator \<Rightarrow> ResourceLock list \<times> world \<Rightarrow> bool" where
  "lock_inv c s \<longleftrightarrow>
     (\<forall>l \<in> set (fst s). rlPath l = LockPathFor c (rlResourceID l))
     \<and> distinct (map rlPath (filter live (fst s))) \<and> set (map rlPath (filter live (fst s))) = set (flocks (snd s))"

lemma TryLockPath_cases:
  assumes "TryLockPath r p w = (res, w')"
  shows "(\<exists>e. res = Inl e) \<and> flocks w' = flocks w
    \<or> res = Inr \<lparr>rlResourceID = r, rlPath = p, rlOpen = True, rlReleased = False\<rparr> \<and> p \<notin> set (flocks w) \<and> flocks w' = p # flocks w"
proof -
  obtain e1 w1 where m: "os_MkdirAll (filepath_Dir p) w = (e1, w1)" by force
  obtain e2 w2 where o: "os_OpenCreate p w1 = (e2, w2)" by force
  have "flocks w1 = flocks w" "flocks w2 = flocks w1"
    using fs_flocks(1) [of "filepath_Dir p" w] fs_flocks(3) [of p w1] m o by simp_all
  then show ?thesis
    using assms m o by (auto simp: TryLockPath_def sys_Flock_def sys_def split: option.splits if_splits)
qed

lemma filter_live_update:
  assumes "i < length ls" "live (ls ! i)" "\<not> live l'"
  shows "filter live (ls[i := l']) = filter live (take i ls) @ filter live (drop (Suc i) ls)"
    "filter live ls = filter live (take i ls) @ ls ! i # filter live (drop (Suc i) ls)"
  using assms by (subst id_take_nth_drop [OF assms(1)]; simp add: upd_conv_take_nth_drop)+

lemma Unlock_cases:
  assumes "Unlock l w = (err, l', w')"
  shows "\<not> live l \<and> l' = l \<and> w' = w
    \<or> live l \<and> \<not> live l' \<and> rlPath l' = rlPath l \<and> rlResourceID l' = rlResourceID l \<and> flocks w' = removeAll (rlPath l) (flocks w)"
  using assms by (auto simp: Unlock_def live_def sys_def release_flock_def next_step_def split: if_splits)

lemma distinct_remove_mid:
  assumes "distinct (xs @ y # zs)" "set (xs @ y # zs) = S"
  shows "distinct (xs @ zs)" "set (xs @ zs) = S - {y}"
  using assms by auto

lemma lock_step_inv [go_inv]:
  assumes "lock_step c s t" "lock_inv c s"
  shows "lock_inv c t"
  using assms
proof (cases rule: lock_step.cases)
  case (acquire r w l w' ls)
  then show ?thesis
    using assms(2) TryLockPath_cases [of r "LockPathFor c r" w "Inr l" w']
    by (auto simp: TryLock_def lock_inv_def live_def)
next
  case (refuse r w e w' ls)
  then show ?thesis
    using assms(2) TryLockPath_cases [of r "LockPathFor c r" w "Inl e" w'] by (auto simp: TryLock_def lock_inv_def)
next
  case (release i ls w err l' w')
  from Unlock_cases [OF release(4)] show ?thesis
  proof (elim disjE conjE)
    assume "\<not> live (ls ! i)" "l' = ls ! i" "w' = w"
    then show ?thesis using assms(2) release by simp
  next
    assume u: "live (ls ! i)" "\<not> live l'" "rlPath l' = rlPath (ls ! i)" "rlResourceID l' = rlResourceID (ls ! i)"
      "flocks w' = removeAll (rlPath (ls ! i)) (flocks w)"
    note f = filter_live_update [OF release(3) u(1,2)]
    let ?A = "map rlPath (filter live (take i ls))" and ?B = "map rlPath (filter live (drop (Suc i) ls))"
    have "distinct (?A @ rlPath (ls ! i) # ?B)" "set (?A @ rlPath (ls ! i) # ?B) = set (flocks w)"
      using assms(2) release(1) f(2) by (simp_all add: lock_inv_def del: set_append)
    note d = distinct_remove_mid [OF this]
    have "\<forall>l \<in> set (ls[i := l']). rlPath l = LockPathFor c (rlResourceID l)"
      using assms(2) release u(3,4) set_update_subset_insert [of ls i l'] by (auto simp: lock_inv_def)
    then show ?thesis
      using d u(5) release(2) f(1) by (simp add: lock_inv_def)
  qed
next
  case (environment w' w ls)
  then show ?thesis using assms(2) by (metis (mono_tags) lock_inv_def fst_conv snd_conv)
qed

definition lock_reachable :: "Coordinator \<Rightarrow> world \<Rightarrow> ResourceLock list \<times> world \<Rightarrow> bool" where
  "lock_reachable c w0 = (lock_step c)\<^sup>*\<^sup>* ([], w0)"

lemma lock_reachable_inv:
  assumes "lock_reachable c w0 s" "flocks w0 = []"
  shows "lock_inv c s"
proof -
  have "(lock_step c)\<^sup>*\<^sup>* ([], w0) s" using assms(1) by (simp add: lock_reachable_def)
  then show ?thesis
  proof (induction rule: rtranclp_induct)
    case base
    then show ?case using assms(2) by (simp add: lock_inv_def)
  next
    case (step s t)
    then show ?case by (blast intro: lock_step_inv)
  qed
qed

text \<open>
  C10: Mutual exclusion. In every interleaving of lock and unlock calls of any number of clients,
  with any failures of the system calls, two different locks that have been handed out and not
  released are on different resources and on different files.
\<close>

theorem lock_mutual_exclusion:
  assumes "lock_reachable c w0 (ls, w)" "flocks w0 = []"
    and "i < length ls" "j < length ls" "i \<noteq> j" "\<not> rlReleased (ls ! i)" "\<not> rlReleased (ls ! j)"
    and "rlOpen (ls ! i)" "rlOpen (ls ! j)"
  shows "rlResourceID (ls ! i) \<noteq> rlResourceID (ls ! j) \<and> rlPath (ls ! i) \<noteq> rlPath (ls ! j)"
proof -
  have inv: "lock_inv c (ls, w)" by (rule lock_reachable_inv [OF assms(1,2)])
  have ij: "rlPath (ls ! a) \<noteq> rlPath (ls ! b)"
    if "a < b" "b < length ls" "live (ls ! a)" "live (ls ! b)" for a b
  proof -
    have "ls = take b ls @ ls ! b # drop (Suc b) ls" using that(2) by (rule id_take_nth_drop)
    then have "filter live ls = filter live (take b ls) @ ls ! b # filter live (drop (Suc b) ls)"
      using that(4) by (metis filter.simps(2) filter_append)
    moreover have "ls ! a \<in> set (filter live (take b ls))"
      using that by (auto simp: in_set_conv_nth intro!: exI [of _ a])
    ultimately show ?thesis using inv by (auto simp: lock_inv_def) (metis image_eqI mem_Collect_eq)
  qed
  have "rlPath (ls ! i) \<noteq> rlPath (ls ! j)"
    using ij [of i j] ij [of j i] assms by (cases "i < j") (auto simp: live_def)
  then show ?thesis using inv assms(3,4) by (auto simp: lock_inv_def)
qed

definition demo_coord :: Coordinator where "demo_coord = \<lparr>lockDir = ''/l''\<rparr>"

lemma TryLock_free:
  assumes "\<forall>n. oFault w n = None" "LockPathFor c r \<notin> set (flocks w)" "lookup_file w (LockPathFor c r) \<noteq> Some DirNode"
    and "\<forall>bs. lookup_file w (filepath_Dir (LockPathFor c r)) \<noteq> Some (FileNode bs)"
    and "filepath_Dir (LockPathFor c r) \<noteq> LockPathFor c r"
  shows "\<exists>w'. TryLock c r w =
    (Inr \<lparr>rlResourceID = r, rlPath = LockPathFor c r, rlOpen = True, rlReleased = False\<rparr>, w')"
proof -
  let ?p = "LockPathFor c r" and ?d = "filepath_Dir (LockPathFor c r)"
  obtain w1 where m: "os_MkdirAll ?d w = (None, w1)" "\<forall>n. oFault w1 n = None" "lookup_file w1 ?p = lookup_file w ?p"
      "flocks w1 = flocks w"
    using assms(1,4,5)
    by (cases "lookup_file w ?d"; cases "the (lookup_file w ?d)") (auto simp: os_MkdirAll_def sys_def)
  then obtain w2 where "os_OpenCreate ?p w1 = (None, w2)" "\<forall>n. oFault w2 n = None" "flocks w2 = flocks w"
    using assms(3)
    by (cases "lookup_file w ?p"; cases "the (lookup_file w ?p)") (auto simp: os_OpenCreate_def sys_def)
  then show ?thesis
    using m assms(2) by (auto simp: TryLock_def TryLockPath_def sys_Flock_def sys_def)
qed

lemma demo_lock_path: "LockPathFor demo_coord r = ''/l/'' @ lock_filename r"
  using Join_child [OF _ plain_lock_filename, of "''/l''" r]
  by (simp add: LockPathFor_def demo_coord_def slash_def) code_simp

lemma demo_lock_dir: "filepath_Dir (LockPathFor demo_coord r) = ''/l''"
proof -
  have "dropWhile (\<lambda>c. c \<noteq> slash) (rev (lock_filename r) @ ''/l/'') = ''/l/''"
    using plain_lock_filename [of r] by (subst dropWhile_append2) (auto simp: slash_def plain_name_def)
  then show ?thesis unfolding demo_lock_path by (simp add: filepath_Dir_def) code_simp
qed

lemma demo_dir: "filepath_Dir (LockPathFor demo_coord r) \<noteq> LockPathFor demo_coord r"
  by (subst demo_lock_dir) (simp add: demo_lock_path)

lemma demo_names: "LockPathFor demo_coord ''a'' \<noteq> LockPathFor demo_coord ''b''"
proof -
  have "sanitize ''a'' = ''a''" "sanitize ''b'' = ''b''" by code_simp+
  then have "lock_filename ''a'' \<noteq> lock_filename ''b''" by (simp add: lock_filename_def)
  then show ?thesis
    using Join_child_inj [OF _ plain_lock_filename plain_lock_filename, of "''/l''" "''a''" "''b''"]
    by (auto simp: LockPathFor_def demo_coord_def)
qed

lemma quiet_flocks: "flocks quiet_world = []" by (simp add: quiet_world_def)

lemma demo_two_locks:
  "\<exists>l m w. lock_reachable demo_coord quiet_world ([l, m], w) \<and> live l \<and> live m"
proof -
  let ?p = "LockPathFor demo_coord"
  let ?l = "\<lambda>r. \<lparr>rlResourceID = r, rlPath = ?p r, rlOpen = True, rlReleased = False\<rparr>"
  have "\<exists>w1. TryLock demo_coord ''a'' quiet_world = (Inr (?l ''a''), w1)"
    by (rule TryLock_free) (auto simp: quiet_world_def lookup_file_def demo_dir)
  then obtain w1 where a: "TryLock demo_coord ''a'' quiet_world = (Inr (?l ''a''), w1)" by blast
  have fl: "flocks w1 = [?p ''a'']"
    using TryLockPath_cases [OF a [unfolded TryLock_def]] by (auto simp: quiet_flocks)
  let ?w2 = "quiet_world\<lparr>flocks := [?p ''a'']\<rparr>"
  have "\<exists>w3. TryLock demo_coord ''b'' ?w2 = (Inr (?l ''b''), w3)"
    by (rule TryLock_free) (use demo_names in \<open>auto simp: quiet_world_def lookup_file_def demo_dir\<close>)
  then obtain w3 where b: "TryLock demo_coord ''b'' ?w2 = (Inr (?l ''b''), w3)" by blast
  have "lock_step demo_coord ([], quiet_world) ([] @ [?l ''a''], w1)" using a by (rule lock_step.acquire)
  moreover have "lock_step demo_coord ([?l ''a''], w1) ([?l ''a''], ?w2)"
    by (rule lock_step.environment) (simp add: fl)
  moreover have "lock_step demo_coord ([?l ''a''], ?w2) ([?l ''a''] @ [?l ''b''], w3)"
    using b by (rule lock_step.acquire)
  ultimately have "lock_reachable demo_coord quiet_world ([?l ''a'', ?l ''b''], w3)"
    unfolding lock_reachable_def by (auto intro: converse_rtranclp_into_rtranclp)
  then show ?thesis by (intro exI) (auto simp: live_def)
qed

theorem lock_mutual_exclusion_witness:
  "\<exists>l m w. lock_reachable demo_coord quiet_world ([l, m], w) \<and> \<not> rlReleased l \<and> \<not> rlReleased m
     \<and> rlResourceID l \<noteq> rlResourceID m \<and> rlPath l \<noteq> rlPath m"
proof -
  obtain l m w where "lock_reachable demo_coord quiet_world ([l, m], w)" "live l" "live m"
    using demo_two_locks by blast
  then show ?thesis
    using lock_mutual_exclusion [of demo_coord quiet_world "[l, m]" w 0 1] quiet_flocks
    by (intro exI [of _ l] exI [of _ m] exI [of _ w]) (auto simp: live_def)
qed

text \<open>
  A released lock can be taken again. In every reachable state, after \<open>Unlock\<close> of a live
  lock (even when closing the file reports an error) its file is unlocked, a second \<open>Unlock\<close>
  does nothing and answers no error, and a \<open>TryLock\<close> on the same resource succeeds as soon as
  the system calls do.
\<close>

theorem lock_release_allows_acquire:
  assumes "lock_reachable c w0 (ls, w)" "flocks w0 = []" "i < length ls" "live (ls ! i)"
    and "Unlock (ls ! i) w = (err, l', w')"
    and "\<forall>n. oFault w' n = None" "lookup_file w' (rlPath (ls ! i)) \<noteq> Some DirNode"
    and "\<forall>bs. lookup_file w' (filepath_Dir (rlPath (ls ! i))) \<noteq> Some (FileNode bs)"
    and "filepath_Dir (rlPath (ls ! i)) \<noteq> rlPath (ls ! i)"
  shows "IsReleased l' \<and> rlPath (ls ! i) \<notin> set (flocks w') \<and> Unlock l' w' = (None, l', w')
    \<and> (\<exists>m w''. TryLock c (rlResourceID (ls ! i)) w' = (Inr m, w'') \<and> rlPath m = rlPath (ls ! i))"
proof -
  have p: "rlPath (ls ! i) = LockPathFor c (rlResourceID (ls ! i))"
    using lock_reachable_inv [OF assms(1,2)] assms(3) by (auto simp: lock_inv_def)
  have u: "rlReleased l'" "flocks w' = removeAll (rlPath (ls ! i)) (flocks w)"
    using assms(4,5) by (auto simp: Unlock_def live_def sys_def release_flock_def)
  then show ?thesis
    using TryLock_free [OF assms(6), of c "rlResourceID (ls ! i)"] assms(7-9) p
    by (auto simp: IsReleased_def Unlock_def)
qed

theorem lock_release_allows_acquire_witness:
  "\<exists>l w err l' w' m w''. lock_reachable demo_coord quiet_world ([l], w) \<and> Unlock l w = (err, l', w')
     \<and> TryLock demo_coord (rlResourceID l) w' = (Inr m, w'')"
proof -
  let ?l = "\<lparr>rlResourceID = ''a'', rlPath = LockPathFor demo_coord ''a'', rlOpen = True, rlReleased = False\<rparr>"
  have "\<exists>w1. TryLock demo_coord ''a'' quiet_world = (Inr ?l, w1)"
    by (rule TryLock_free) (auto simp: quiet_world_def lookup_file_def demo_dir)
  then obtain w1 where a: "TryLock demo_coord ''a'' quiet_world = (Inr ?l, w1)" by blast
  let ?w2 = "quiet_world\<lparr>flocks := flocks w1\<rparr>"
  have "lock_step demo_coord ([], quiet_world) ([] @ [?l], w1)" using a by (rule lock_step.acquire)
  moreover have "lock_step demo_coord ([?l], w1) ([?l], ?w2)" by (rule lock_step.environment) simp
  ultimately have r: "lock_reachable demo_coord quiet_world ([?l], ?w2)"
    unfolding lock_reachable_def by (auto intro: converse_rtranclp_into_rtranclp)
  obtain err l' w' where u: "Unlock ?l ?w2 = (err, l', w')" "\<forall>n. oFault w' n = None" "\<forall>p. lookup_file w' p = None"
    by (auto simp: Unlock_def sys_def release_flock_def quiet_world_def next_step_def lookup_file_def)
  have "\<exists>m w''. TryLock demo_coord ''a'' w' = (Inr m, w'')"
    using lock_release_allows_acquire [OF r quiet_flocks, of 0 err l' w'] u demo_dir by (auto simp: live_def)
  then show ?thesis using r u(1) by (metis ResourceLock.select_convs(1))
qed

end
