(* ===== verification/Go_Time.thy ===== *)
theory Go_Time
  imports Json
begin

text \<open>
  The calendar behind \<open>time.Time\<close>: the day count and the civil date are inverse to each other, the
  date read off a day is always one the calendar has, and every instant of the years 1 to 9999
  survives its RFC 3339 text with nanoseconds (\<open>time_ok_years\<close>). The journal and the alerts
  store their times as this text.
\<close>

section \<open>Days and civil dates\<close>

text \<open>
  Inside an era of 400 years that start in March: the year of a day, and the first day of a year.
\<close>

definition year_of_doe :: "int \<Rightarrow> int" where
  "year_of_doe doe = (doe - doe div 1460 + doe div 36524 - doe div 146096) div 365"

definition year_start :: "int \<Rightarrow> int" where
  "year_start y = 365 * y + y div 4 - y div 100"

lemma div_succ_int:
  fixes n :: int
  assumes "0 < n"
  shows "(d + 1) div n = d div n + (if (d + 1) mod n = 0 then 1 else 0)"
proof -
  have r: "0 \<le> d mod n" "d mod n < n" using assms by simp_all
  have d: "d + 1 = d mod n + 1 + n * (d div n)" by simp
  show ?thesis
  proof (cases "d mod n + 1 = n")
    case True
    have "d + 1 = n * (d div n + 1)" using d True by (simp add: distrib_left)
    then show ?thesis using assms by simp
  next
    case False
    have e: "d + 1 = n * (d div n) + (d mod n + 1)" by simp
    have "(d + 1) mod n = d mod n + 1" by (rule int_mod_pos_eq [OF e]) (use False r in simp_all)
    moreover have "(d + 1) div n = d div n" by (rule int_div_pos_eq [OF e]) (use False r in simp_all)
    ultimately show ?thesis using r by simp
  qed
qed

lemma year_of_doe_step: "year_of_doe d \<le> year_of_doe (d + 1)"
proof -
  have c: "x div 146096 = x div 36524 div 4" for x :: int by (simp add: zdiv_zmult2_eq [symmetric])
  have a: "(d + 1) div 1460 \<le> d div 1460 + 1" by (simp add: div_succ_int)
  have b: "(d + 1) div 36524 = d div 36524 \<or> (d + 1) div 36524 = d div 36524 + 1" by (simp add: div_succ_int)
  have f: "(k + 1) div 4 \<le> k div 4 + 1" for k :: int by presburger
  have "d - d div 1460 + d div 36524 - d div 146096 \<le> d + 1 - (d + 1) div 1460 + (d + 1) div 36524 - (d + 1) div 146096"
    using b
  proof
    assume e: "(d + 1) div 36524 = d div 36524"
    show ?thesis unfolding c e using a by linarith
  next
    assume e: "(d + 1) div 36524 = d div 36524 + 1"
    show ?thesis unfolding c e using a f [of "d div 36524"] by linarith
  qed
  then show ?thesis unfolding year_of_doe_def by (rule zdiv_mono1) simp
qed

lemma year_of_doe_mono:
  assumes "d \<le> e"
  shows "year_of_doe d \<le> year_of_doe e"
proof -
  have "year_of_doe d \<le> year_of_doe (d + int n)" for n
  proof (induction n)
    case (Suc n)
    then show ?case using year_of_doe_step [of "d + int n"] by (simp add: add.assoc add.commute [of 1])
  qed simp
  from this [of "nat (e - d)"] assms show ?thesis by simp
qed

lemma year_ends: "list_all (\<lambda>y. year_of_doe (year_start y) = y \<and> year_of_doe (year_start y - 1) = y - 1) [1..399]"
  by code_simp

lemma year_of_doe_bounds:
  assumes "0 \<le> doe" "doe < 146097"
  defines "y \<equiv> year_of_doe doe"
  shows "0 \<le> y" "y \<le> 399" "year_start y \<le> doe" "y < 399 \<Longrightarrow> doe < year_start (y + 1)"
proof -
  have "year_of_doe 0 = 0" "year_of_doe 146096 = 399" by code_simp+
  then show y: "0 \<le> y" "y \<le> 399" using year_of_doe_mono [of 0 doe] year_of_doe_mono [of doe 146096] assms by auto
  have ends: "year_of_doe (year_start k) = k" "year_of_doe (year_start k - 1) = k - 1" if "1 \<le> k" "k \<le> 399" for k
    using year_ends that by (auto simp: list_all_iff)
  show "year_start y \<le> doe"
  proof (rule ccontr)
    assume less: "\<not> year_start y \<le> doe"
    then have "1 \<le> y" using y assms(1) by (cases "y = 0") (auto simp: year_start_def)
    then show False using ends(2) [of y] y(2) year_of_doe_mono [of doe "year_start y - 1"] less by (simp add: y_def)
  qed
  assume "y < 399"
  then show "doe < year_start (y + 1)"
    using ends(1) [of "y + 1"] y(1) year_of_doe_mono [of "year_start (y + 1)" doe] by (cases "doe < year_start (y + 1)") (auto simp: y_def)
qed

text \<open>The day of the year: 366 days exactly when the year that begins with the next January is a leap year.\<close>

definition leap :: "int \<Rightarrow> bool" where
  "leap y \<longleftrightarrow> y mod 4 = 0 \<and> (y mod 100 \<noteq> 0 \<or> y mod 400 = 0)"

lemma day_of_year_bounds:
  assumes "0 \<le> doe" "doe < 146097"
  defines "y \<equiv> year_of_doe doe"
  shows "0 \<le> doe - year_start y" "doe - year_start y \<le> (if leap (y + 1) then 365 else 364)"
proof -
  note b = year_of_doe_bounds [OF assms(1,2), folded y_def]
  show "0 \<le> doe - year_start y" using b(3) by simp
  show "doe - year_start y \<le> (if leap (y + 1) then 365 else 364)"
  proof (cases "y = 399")
    case True
    then show ?thesis using assms(2) by (simp add: year_start_def leap_def)
  next
    case False
    then have less: "doe < year_start (y + 1)" using b by simp
    have q: "(y + 1) div 4 - y div 4 = (if (y + 1) mod 4 = 0 then 1 else 0)" by (simp add: div_succ_int)
    have p: "(y + 1) div 100 - y div 100 = (if (y + 1) mod 100 = 0 then 1 else 0)" by (simp add: div_succ_int)
    have "year_start (y + 1) = year_start y + 365 + ((y + 1) div 4 - y div 4) - ((y + 1) div 100 - y div 100)"
      by (simp add: year_start_def)
    also have "\<dots> \<le> year_start y + (if leap (y + 1) then 366 else 365)" unfolding q p leap_def by simp
    finally have "doe < year_start y + (if leap (y + 1) then 366 else 365)" using less by linarith
    then show ?thesis by (cases "leap (y + 1)") simp_all
  qed
qed

text \<open>Months and days, by cases on the day of the year.\<close>

definition month_of_doy :: "int \<Rightarrow> int" where
  "month_of_doy doy = (let mp = (5 * doy + 2) div 153 in if mp < 10 then mp + 3 else mp - 9)"

definition day_of_doy :: "int \<Rightarrow> int" where
  "day_of_doy doy = doy - (153 * ((5 * doy + 2) div 153) + 2) div 5 + 1"

definition md_ok :: "int \<Rightarrow> bool" where
  "md_ok doy = (let m = month_of_doy doy; d = day_of_doy doy in
     1 \<le> m \<and> m \<le> 12 \<and> 1 \<le> d \<and> (153 * ((m + 9) mod 12) + 2) div 5 + d - 1 = doy
     \<and> d \<le> (if m = 2 then (if doy = 365 then 29 else 28) else if m = 4 \<or> m = 6 \<or> m = 9 \<or> m = 11 then 30 else 31))"

lemma month_day_table: "list_all md_ok [0..365]"
  by code_simp

lemma md_ok_all: "0 \<le> doy \<Longrightarrow> doy \<le> 365 \<Longrightarrow> md_ok doy"
  using month_day_table unfolding list_all_iff by simp

lemma civil_of_days_parts:
  "civil_of_days days =
     (let era = (days + 306) div 146097; doe = (days + 306) mod 146097; y = year_of_doe doe; doy = doe - year_start y;
          mm = month_of_doy doy
      in (y + era * 400 + (if mm \<le> 2 then 1 else 0), mm, day_of_doy doy))"
  unfolding civil_of_days_def year_of_doe_def year_start_def month_of_doy_def day_of_doy_def Let_def ..

lemma civil_round:
  assumes "civil_of_days days = (yy, mm, dd)"
  shows "days_of_civil yy mm dd = days" "1 \<le> mm" "mm \<le> 12" "1 \<le> dd" "dd \<le> days_in_month yy mm"
    "yy = (days + 306) div 146097 * 400 + year_of_doe ((days + 306) mod 146097) + (if mm \<le> 2 then 1 else 0)"
proof -
  define era where "era = (days + 306) div 146097"
  define doe where "doe = (days + 306) mod 146097"
  define y where "y = year_of_doe doe"
  define doy where "doy = doe - year_start y"
  have doe: "0 \<le> doe" "doe < 146097" by (simp_all add: doe_def)
  note yb = year_of_doe_bounds(1,2) [OF doe, folded y_def] and db = day_of_year_bounds [OF doe, folded y_def, folded doy_def]
  have civ: "yy = y + era * 400 + (if mm \<le> 2 then 1 else 0)" "mm = month_of_doy doy" "dd = day_of_doy doy"
    using assms unfolding civil_of_days_parts Let_def era_def doe_def y_def doy_def prod.inject by blast+
  have "md_ok doy" using db by (intro md_ok_all) (auto split: if_splits)
  then have t: "1 \<le> mm" "mm \<le> 12" "1 \<le> dd" "(153 * ((mm + 9) mod 12) + 2) div 5 + dd - 1 = doy"
    "dd \<le> (if mm = 2 then (if doy = 365 then 29 else 28) else if mm = 4 \<or> mm = 6 \<or> mm = 9 \<or> mm = 11 then 30 else 31)"
    unfolding md_ok_def Let_def civ(2,3) [symmetric] by blast+
  show "1 \<le> mm" "mm \<le> 12" "1 \<le> dd" by fact+
  show "yy = (days + 306) div 146097 * 400 + year_of_doe ((days + 306) mod 146097) + (if mm \<le> 2 then 1 else 0)"
    using civ(1) by (simp add: era_def doe_def y_def)
  have yy: "(if mm \<le> 2 then yy - 1 else yy) = y + era * 400" using civ(1) by simp
  have m: "(y + era * 400) mod 400 = y" "(y + era * 400) div 400 = era" using yb by simp_all
  have "days = era * 146097 + doe - 306" by (simp add: era_def doe_def)
  then show "days_of_civil yy mm dd = days"
    using t(4) unfolding days_of_civil_def Let_def yy m by (simp add: doy_def year_start_def)
  have m4: "(y + era * 400 + 1) mod k = (y + 1) mod k" if "k dvd 400" for k
  proof -
    obtain c where "400 = k * c" using \<open>k dvd 400\<close> by (rule dvdE)
    then have "y + era * 400 + 1 = y + 1 + k * (c * era)" by (simp only: ac_simps)
    then show ?thesis by (simp only: mod_mult_self2)
  qed
  have "leap yy" if d: "doy = 365" and m2: "mm = 2"
  proof -
    have "leap (y + 1)" using db(2) d by (simp split: if_splits)
    then show ?thesis using civ(1) m2 m4 [of 4] m4 [of 100] m4 [of 400] by (simp add: leap_def)
  qed
  then show "dd \<le> days_in_month yy mm"
    using t(5) unfolding days_in_month_def leap_def by (cases "mm = 2"; cases "doy = 365") simp_all
qed

text \<open>The years 1 to 9999, day by day.\<close>

lemma civil_year_range:
  assumes "civil_of_days days = (yy, mm, dd)" "0 \<le> days" "days < 3652059"
  shows "1 \<le> yy" "yy \<le> 9999"
proof -
  note r = civil_round [OF assms(1)]
  define era where "era = (days + 306) div 146097"
  define y where "y = year_of_doe ((days + 306) mod 146097)"
  have yb: "0 \<le> y" "y \<le> 399" unfolding y_def by (rule year_of_doe_bounds; simp)+
  have e: "0 \<le> era" "era \<le> 24" unfolding era_def using assms(2,3) by linarith+
  have yy: "yy = era * 400 + y + (if mm \<le> 2 then 1 else 0)" using r(6) by (simp only: era_def y_def)
  have m: "mm = 1 \<or> mm = 2 \<or> mm = 3 \<or> mm = 4 \<or> mm = 5 \<or> mm = 6 \<or> mm = 7 \<or> mm = 8 \<or> mm = 9 \<or> mm = 10 \<or> mm = 11 \<or> mm = 12"
    using r(2,3) by presburger
  show "1 \<le> yy"
  proof (rule ccontr)
    assume "\<not> 1 \<le> yy"
    then have "yy = 0 \<and> 2 < mm" using yy yb e by (cases "mm \<le> 2") simp_all
    moreover have "dd \<le> 31" using r(5) by (simp add: days_in_month_def split: if_splits)
    ultimately show False using r(1) m assms(2) by (auto simp: days_of_civil_def)
  qed
  show "yy \<le> 9999"
  proof (rule ccontr)
    assume "\<not> yy \<le> 9999"
    then have "yy = 10000 \<and> mm \<le> 2" using yy yb e by (cases "mm \<le> 2") simp_all
    then show False using r(1,2,4) m assms(3) by (auto simp: days_of_civil_def)
  qed
qed

section \<open>Fields of digits\<close>

lemma is_digit_zero: "is_digit CHR ''0''"
  by (simp add: is_digit_def)

lemma length_digits_le:
  "0 \<le> n \<Longrightarrow> n < 10 ^ k \<Longrightarrow> 0 < k \<Longrightarrow> length (digits n) \<le> k"
proof (induction k arbitrary: n)
  case (Suc k)
  show ?case
  proof (cases "n < 10")
    case True
    then show ?thesis by (subst digits.simps) simp
  next
    case False
    have "0 < k" using False Suc.prems by (cases k) simp_all
    have "n < 10 * 10 ^ k" using Suc.prems(2) by simp
    then have "n div 10 < 10 ^ k" by linarith
    then have "length (digits (n div 10)) \<le> k" using Suc.prems(1) \<open>0 < k\<close> by (intro Suc.IH) simp_all
    then show ?thesis using False by (subst digits.simps) simp
  qed
qed simp

lemma int_of_digits_zeros: "int_of_digits (replicate m CHR ''0'' @ s) = int_of_digits s"
  by (induction m) (simp_all add: int_of_digits_def)

lemma pad_digits:
  assumes "0 \<le> n" "n < 10 ^ k" "0 < k"
  shows "length (pad_zero k (digits n)) = k" "list_all is_digit (pad_zero k (digits n))"
    "int_of_digits (pad_zero k (digits n)) = n"
  using length_digits_le [OF assms] digits_is_digit [OF assms(1)] int_of_digits_digits [OF assms(1)]
  by (auto simp: pad_zero_def int_of_digits_zeros list_all_iff is_digit_zero)

lemma strip_trailing_zeros_pad:
  assumes "length s = k"
  shows "strip_trailing_zeros s @ replicate (k - length (strip_trailing_zeros s)) CHR ''0'' = s"
proof -
  define w where "w = takeWhile (\<lambda>c. c = CHR ''0'') (rev s)"
  have w: "w = replicate (length w) CHR ''0''"
    unfolding w_def by (rule replicate_length_same [symmetric]) (auto dest: set_takeWhileD)
  have "rev s = w @ rev (strip_trailing_zeros s)" by (simp add: w_def strip_trailing_zeros_def)
  then have s: "s = strip_trailing_zeros s @ rev w" by (metis rev_append rev_rev_ident)
  then have "length s = length (strip_trailing_zeros s) + length w" by (metis length_append length_rev)
  moreover have "rev w = replicate (length w) CHR ''0''" by (subst w) simp
  ultimately show ?thesis using s assms by (metis add_diff_cancel_left')
qed

lemma parse_frac_fmt:
  assumes "0 \<le> ns" "ns < 1000000000"
  shows "parse_frac (fmt_frac ns 9 @ ''Z'') = Some (ns, ''Z'')"
proof -
  define p where "p = pad_zero 9 (digits ns)"
  define d where "d = strip_trailing_zeros p"
  have p: "length p = 9" "list_all is_digit p" "int_of_digits p = ns"
    unfolding p_def using pad_digits [of ns 9] assms by simp_all
  have pd: "d @ replicate (9 - length d) CHR ''0'' = p" unfolding d_def by (rule strip_trailing_zeros_pad) (rule p(1))
  then have l: "length d \<le> 9" and all: "list_all is_digit d"
    using p(1,2) by (metis length_append le_add1) (metis list_all_append pd p(2))
  have z: "\<not> is_digit CHR ''Z''" by (simp add: is_digit_def)
  have f: "fmt_frac ns 9 = (if d = [] then [] else ''.'' @ d)" using assms by (simp add: fmt_frac_def Let_def d_def p_def)
  show ?thesis
  proof (cases "d = []")
    case True
    then have "ns = int_of_digits (replicate 9 CHR ''0'')" using pd p(3) by simp
    then have "ns = 0" by (simp add: int_of_digits_def numeral_eq_Suc)
    then show ?thesis using True unfolding f by (simp add: parse_frac_def expect_def)
  next
    case False
    have "takeWhile is_digit (d @ ''Z'') = d" "dropWhile is_digit (d @ ''Z'') = ''Z''"
      using all z by (simp_all add: list_all_iff takeWhile_append2 dropWhile_append2)
    then show ?thesis using False l pd p(3) by (simp add: f parse_frac_def expect_def)
  qed
qed

section \<open>The round trip\<close>

lemma length_2: "length s = 2 \<Longrightarrow> \<exists>a b. s = [a, b]"
  by (auto simp: length_Suc_conv numeral_eq_Suc)

lemma length_4: "length s = 4 \<Longrightarrow> \<exists>a b c d. s = [a, b, c, d]"
  by (auto simp: length_Suc_conv numeral_eq_Suc)

lemma num_field_0: "length d = n \<Longrightarrow> list_all is_digit d \<Longrightarrow> num_field 0 n (d @ r) = Some (int_of_digits d)"
  by (simp add: num_field_def)

lemma num_field_Suc: "num_field (Suc i) n (c # s) = num_field i n s"
  by (simp add: num_field_def)

lemma num_field_append: "num_field (length a + i) n (a @ s) = num_field i n s"
  by (simp add: num_field_def)

lemma char_at_append: "char_at (length a + i) c (a @ s) = char_at i c s"
  by (simp add: char_at_def nth_append)

lemma char_at_Cons: "char_at 0 c (c # s)" "char_at (Suc i) c (x # s) = char_at i c s"
  by (simp_all add: char_at_def)

lemma parse_RFC3339_shape:
  fixes Y M D H I S :: string
  assumes "length Y = 4" "length M = 2" "length D = 2" "length H = 2" "length I = 2" "length S = 2"
    and "list_all is_digit Y" "list_all is_digit M" "list_all is_digit D"
      "list_all is_digit H" "list_all is_digit I" "list_all is_digit S"
    and "parse_frac r = Some (ns, ''Z'')"
    and "int_of_digits Y = yy" "int_of_digits M = mm" "int_of_digits D = dd"
      "int_of_digits H = h" "int_of_digits I = mi" "int_of_digits S = sec"
    and "1 \<le> mm" "mm \<le> 12" "1 \<le> dd" "dd \<le> days_in_month yy mm" "h < 24" "mi < 60" "sec < 60"
  shows "parse_RFC3339 (Y @ ''-'' @ M @ ''-'' @ D @ ''T'' @ H @ '':'' @ I @ '':'' @ S @ r)
    = Some ((days_of_civil yy mm dd * 86400 + h * 3600 + mi * 60 + sec) * 1000000000 + ns)"
proof -
  define s where "s = Y @ ''-'' @ M @ ''-'' @ D @ ''T'' @ H @ '':'' @ I @ '':'' @ S @ r"
  obtain y1 y2 y3 y4 m1 m2 d1 d2 h1 h2 i1 i2 s1 s2
    where l: "Y = [y1, y2, y3, y4]" "M = [m1, m2]" "D = [d1, d2]" "H = [h1, h2]" "I = [i1, i2]" "S = [s1, s2]"
    using length_4 [OF assms(1)] length_2 [OF assms(2)] length_2 [OF assms(3)] length_2 [OF assms(4)]
      length_2 [OF assms(5)] length_2 [OF assms(6)] by blast
  have f: "num_field 0 4 s = Some yy" "num_field 5 2 s = Some mm" "num_field 8 2 s = Some dd"
    "num_field 11 2 s = Some h" "num_field 14 2 s = Some mi" "num_field 17 2 s = Some sec"
    using assms(7-12,14-19) by (simp_all add: s_def l num_field_def numeral_eq_Suc)
  have c: "char_at 4 CHR ''-'' s" "char_at 7 CHR ''-'' s" "char_at 10 CHR ''T'' s" "char_at 13 CHR '':'' s" "char_at 16 CHR '':'' s"
    by (simp_all add: s_def l char_at_def numeral_eq_Suc)
  have "drop 19 s = r" by (simp add: s_def l numeral_eq_Suc)
  then have "parse_RFC3339 s = Some ((days_of_civil yy mm dd * 86400 + h * 3600 + mi * 60 + sec) * 1000000000 + ns)"
    using assms(13,20-26) by (simp add: parse_RFC3339_def f c parse_zone_def)
  then show ?thesis by (simp only: s_def)
qed

lemma parse_RFC3339_text:
  assumes "1 \<le> yy" "yy \<le> 9999" "1 \<le> mm" "mm \<le> 12" "1 \<le> dd" "dd \<le> days_in_month yy mm"
    and "0 \<le> h" "h < 24" "0 \<le> mi" "mi < 60" "0 \<le> sec" "sec < 60" "0 \<le> ns" "ns < 1000000000"
  shows "parse_RFC3339 (pad_zero 4 (digits yy) @ ''-'' @ pad_zero 2 (digits mm) @ ''-'' @ pad_zero 2 (digits dd) @ ''T''
      @ pad_zero 2 (digits h) @ '':'' @ pad_zero 2 (digits mi) @ '':'' @ pad_zero 2 (digits sec) @ fmt_frac ns 9 @ ''Z'')
    = Some ((days_of_civil yy mm dd * 86400 + h * 3600 + mi * 60 + sec) * 1000000000 + ns)"
proof -
  have "dd < 100" using assms(6) by (simp add: days_in_month_def split: if_splits)
  then have "0 \<le> yy \<and> yy < 10 ^ 4" "0 \<le> mm \<and> mm < 10 ^ 2" "0 \<le> dd \<and> dd < 10 ^ 2"
    "0 \<le> h \<and> h < 10 ^ 2" "0 \<le> mi \<and> mi < 10 ^ 2" "0 \<le> sec \<and> sec < 10 ^ 2"
    using assms by simp_all
  then show ?thesis
    by (intro parse_RFC3339_shape parse_frac_fmt assms pad_digits zero_less_numeral) blast+
qed

text \<open>The instants of the years 1 to 9999, in nanoseconds from 1 January of year 1.\<close>

definition in_years_1_to_9999 :: "time \<Rightarrow> bool" where
  "in_years_1_to_9999 t \<longleftrightarrow> 0 \<le> t \<and> t < 3652059 * 86400 * 1000000000"

lemma time_ok_years:
  assumes "in_years_1_to_9999 t"
  shows "time_ok t"
proof -
  define secs where "secs = t div 1000000000"
  define ns where "ns = t mod 1000000000"
  define sod where "sod = secs mod 86400"
  obtain yy mm dd where civ: "civil_of_days (secs div 86400) = (yy, mm, dd)" by (cases "civil_of_days (secs div 86400)")
  have "0 \<le> secs" "secs < 3652059 * 86400" using assms unfolding in_years_1_to_9999_def secs_def by linarith+
  then have days: "0 \<le> secs div 86400" "secs div 86400 < 3652059" by linarith+
  note r = civil_round [OF civ] and yr = civil_year_range [OF civ days]
  have ns: "0 \<le> ns" "ns < 1000000000" by (simp_all add: ns_def)
  have sod: "0 \<le> sod" "sod < 86400" by (simp_all add: sod_def)
  have hms: "sod div 3600 < 24" "sod div 60 mod 60 < 60" "sod mod 60 < 60"
    "0 \<le> sod div 3600" "0 \<le> sod div 60 mod 60" "0 \<le> sod mod 60" using sod by auto
  have sum: "sod div 3600 * 3600 + sod div 60 mod 60 * 60 + sod mod 60 = sod"
  proof -
    have "sod div 3600 = sod div 60 div 60" by (simp add: zdiv_zmult2_eq [symmetric])
    then show ?thesis using div_mult_mod_eq [of sod 60] div_mult_mod_eq [of "sod div 60" 60] by presburger
  qed
  have t: "t = (secs div 86400 * 86400 + sod) * 1000000000 + ns" by (simp add: secs_def sod_def ns_def)
  have "fmt_RFC3339Nano t = pad_zero 4 (digits yy) @ ''-'' @ pad_zero 2 (digits mm) @ ''-'' @ pad_zero 2 (digits dd) @ ''T''
      @ pad_zero 2 (digits (sod div 3600)) @ '':'' @ pad_zero 2 (digits (sod div 60 mod 60))
      @ '':'' @ pad_zero 2 (digits (sod mod 60)) @ fmt_frac ns 9 @ ''Z''"
    using yr r(2,4) civ
    by (simp add: fmt_RFC3339Nano_def fmt_rfc3339_with_def itoa_def secs_def [symmetric] ns_def [symmetric] sod_def [symmetric])
  moreover have "parse_RFC3339 \<dots> = Some ((days_of_civil yy mm dd * 86400 + sod div 3600 * 3600 + sod div 60 mod 60 * 60 + sod mod 60) * 1000000000 + ns)"
    by (rule parse_RFC3339_text [OF yr r(2-5) hms(4,1,5,2,6,3) ns])
  moreover have "secs div 86400 * 86400 + sod div 3600 * 3600 + sod div 60 mod 60 * 60 + sod mod 60 = secs div 86400 * 86400 + sod"
    unfolding add.assoc by (simp only: sum [unfolded add.assoc])
  ultimately show ?thesis unfolding time_ok_def by (simp only: r(1) t [symmetric])
qed

lemma in_years_7: "in_years_1_to_9999 7"
  by (simp add: in_years_1_to_9999_def)

end
