(* ===== verification/Model.thy ===== *)
theory Model
  imports Go_Os Go_Time "HOL-Library.Char_ord" "HOL-Library.List_Lexorder"
begin

text \<open>
  \<open>internal/model/model.go\<close>: alerts, runbooks and their parts. A function value of the code
  is a function of the context and the operating-system state; a nil function is
  \<^term>\<open>None\<close>. A Go map is an association list with distinct keys, \<^term>\<open>None\<close> for
  a nil map; a nil slice is the empty list. Floating-point percentages are exact rationals.
\<close>

section \<open>Alerts\<close>

datatype Severity = SeverityInfo | SeverityLow | SeverityMedium | SeverityHigh | SeverityCritical | SeverityOther string

fun severity_string :: "Severity \<Rightarrow> string" where
  "severity_string SeverityInfo = ''INFO''"
| "severity_string SeverityLow = ''LOW''"
| "severity_string SeverityMedium = ''MEDIUM''"
| "severity_string SeverityHigh = ''HIGH''"
| "severity_string SeverityCritical = ''CRITICAL''"
| "severity_string (SeverityOther s) = s"

record Alert =
  alID :: string
  alFingerprint :: string
  alSource :: string
  alResourceID :: string
  alSeverity :: Severity
  alLabels :: "(string \<times> string) list option"
  alAnnotations :: "(string \<times> string) list option"
  alReceivedAt :: time
  alHMACSignature :: string
  alRawPayload :: string

section \<open>Conditions, actions, rollback steps\<close>

record BlastRadius =
  brMaxExecutionTime :: duration
  brMaxBytesMutated :: int
  brMaxProcessesSignaled :: int
  brMaxFilesModified :: int
  brAllowedPathPrefixes :: "string list"

datatype ConditionType =
  ConditionDiskFree | ConditionProcessAlive | ConditionHTTPHealth | ConditionFileExists | ConditionCustom
| ConditionOther string

record Precondition =
  preName :: string
  preType :: ConditionType
  preTarget :: string
  preMinFreePct :: rat
  preExpectedStatus :: int
  preTimeout :: duration
  prePID :: int
  preCheckFn :: "(ctx \<Rightarrow> world \<Rightarrow> (bool \<times> goerror option) \<times> world) option"

record Postcondition =
  postName :: string
  postType :: ConditionType
  postTarget :: string
  postMinFreePct :: rat
  postExpectedStatus :: int
  postTimeout :: duration
  postPID :: int
  postCheckFn :: "(ctx \<Rightarrow> world \<Rightarrow> (bool \<times> goerror option) \<times> world) option"

record ExecutionResult =
  erExitCode :: int
  erStdout :: string
  erStderr :: string
  erDuration :: duration
  erBytesMutated :: int
  erSuccess :: bool
  erError :: string

definition zero_result :: ExecutionResult where
  "zero_result =
     \<lparr>erExitCode = 0, erStdout = '''', erStderr = '''', erDuration = 0, erBytesMutated = 0, erSuccess = False, erError = ''''\<rparr>"

record Action =
  actName :: string
  actBinary :: string
  actArgs :: "string list"
  actTimeout :: duration
  actUID :: "32 word"
  actGID :: "32 word"
  actTargetPID :: int
  actSignal :: int
  actMutateFn :: "(ctx \<Rightarrow> world \<Rightarrow> (ExecutionResult option \<times> goerror option) \<times> world) option"

record RollbackStep =
  stepName :: string
  stepBinary :: string
  stepArgs :: "string list"
  stepTargetPath :: string
  stepStagedBackupPath :: string
  stepCompensatingFn :: "(ctx \<Rightarrow> world \<Rightarrow> goerror option \<times> world) option"

section \<open>Runbooks\<close>

record Runbook =
  rbID :: string
  rbVersion :: string
  rbName :: string
  rbTargetResourceID :: string
  rbSeverity :: Severity
  rbPreconditions :: "Precondition list"
  rbActions :: "Action list"
  rbPostconditions :: "Postcondition list"
  rbRollbackSteps :: "RollbackStep list"
  rbBlastRadius :: BlastRadius
  rbMaxDampingPerHour :: int
  rbCooldown :: duration

definition TargetResource :: "Runbook option \<Rightarrow> string" where
  "TargetResource rb = (case rb of None \<Rightarrow> '''' | Some r \<Rightarrow> rbTargetResourceID r)"

section \<open>JSON of an alert\<close>

text \<open>\<open>json.Marshal\<close> writes the entries of a map in key order and leaves out empty \<open>omitempty\<close> fields.\<close>

definition map_json :: "(string \<times> string) list option \<Rightarrow> json" where
  "map_json m =
     (case m of None \<Rightarrow> JNull | Some kvs \<Rightarrow> JObj (map (\<lambda>(k, v). (k, JStr v)) (sort_key fst kvs)))"

definition omit_empty :: "string \<Rightarrow> string \<Rightarrow> (string \<times> json) list" where
  "omit_empty k v = (if v = '''' then [] else [(k, JStr v)])"

definition alert_json :: "Alert \<Rightarrow> json" where
  "alert_json a =
     JObj ([(''id'', JStr (alID a)), (''fingerprint'', JStr (alFingerprint a)), (''source'', JStr (alSource a)),
            (''resource_id'', JStr (alResourceID a)), (''severity'', JStr (severity_string (alSeverity a))),
            (''labels'', map_json (alLabels a)), (''annotations'', map_json (alAnnotations a)),
            (''received_at'', JStr (fmt_RFC3339Nano (alReceivedAt a)))]
           @ omit_empty ''hmac_signature'' (alHMACSignature a) @ omit_empty ''raw_payload'' (alRawPayload a))"

definition marshal_alert :: "Alert \<Rightarrow> bytes" where
  "marshal_alert a = json_print (alert_json a)"

section \<open>Conditions and actions given by a function\<close>

definition custom_pre :: "string \<Rightarrow> (ctx \<Rightarrow> world \<Rightarrow> (bool \<times> goerror option) \<times> world) \<Rightarrow> Precondition" where
  "custom_pre name f =
     \<lparr>preName = name, preType = ConditionCustom, preTarget = '''', preMinFreePct = 0, preExpectedStatus = 0, preTimeout = 0,
      prePID = 0, preCheckFn = Some f\<rparr>"

definition custom_post :: "string \<Rightarrow> (ctx \<Rightarrow> world \<Rightarrow> (bool \<times> goerror option) \<times> world) \<Rightarrow> Postcondition" where
  "custom_post name f =
     \<lparr>postName = name, postType = ConditionCustom, postTarget = '''', postMinFreePct = 0, postExpectedStatus = 0, postTimeout = 0,
      postPID = 0, postCheckFn = Some f\<rparr>"

definition mutation ::
    "string \<Rightarrow> duration \<Rightarrow> (ctx \<Rightarrow> world \<Rightarrow> (ExecutionResult option \<times> goerror option) \<times> world) \<Rightarrow> Action" where
  "mutation name timeout f =
     \<lparr>actName = name, actBinary = '''', actArgs = [], actTimeout = timeout, actUID = 0, actGID = 0, actTargetPID = 0,
      actSignal = 0, actMutateFn = Some f\<rparr>"

end
