(* ===== verification/Rollback.thy ===== *)
theory Rollback
  imports Model
begin

text \<open>
  \<open>internal/rollback\<close>: the write-ahead log of a transaction (\<open>journal.go\<close>) and the engine
  that replays its compensating steps (\<open>rollback.go\<close>). A WAL file holds the indented JSON text
  of the record. Function values are not part of that text.
\<close>

section \<open>WAL records\<close>

definition StatePrepared :: string where "StatePrepared = ''PREPARED''"
definition WalCommitted :: string where "WalCommitted = ''COMMITTED''"
definition WalRollingBack :: string where "WalRollingBack = ''ROLLING_BACK''"
definition WalRolledBack :: string where "WalRolledBack = ''ROLLED_BACK''"
definition StateFailed :: string where "StateFailed = ''FAILED''"

record WALRecord =
  walTxID :: string
  walRunbookID :: string
  walResourceID :: string
  walCreatedAt :: time
  walUpdatedAt :: time
  walState :: string
  walSteps :: "RollbackStep list"

record Journal =
  journalDir :: string

definition NewJournal :: "string \<Rightarrow> world \<Rightarrow> (goerror + Journal) \<times> world" where
  "NewJournal dir w =
     (let d = (if dir = '''' then ''/tmp/remediation-journal'' else dir) in
      case os_MkdirAll d w of
        (Some e, w') \<Rightarrow> (Inl (wrapf (''failed to create journal directory '' @ d @ '': '') e ''''), w')
      | (None, w') \<Rightarrow> (Inr \<lparr>journalDir = d\<rparr>, w'))"

definition PathForTx :: "Journal \<Rightarrow> string \<Rightarrow> string" where
  "PathForTx j txID = filepath_Join [journalDir j, txID @ ''.wal'']"

section \<open>JSON of a record\<close>

definition step_json :: "RollbackStep \<Rightarrow> json" where
  "step_json s =
     JObj ([(''name'', JStr (stepName s))] @ omit_empty ''binary'' (stepBinary s)
           @ (if stepArgs s = [] then [] else [(''args'', JArr (map JStr (stepArgs s)))])
           @ omit_empty ''target_path'' (stepTargetPath s)
           @ omit_empty ''staged_backup_path'' (stepStagedBackupPath s))"

definition wal_json :: "WALRecord \<Rightarrow> json" where
  "wal_json r =
     JObj [(''txid'', JStr (walTxID r)), (''runbook_id'', JStr (walRunbookID r)),
           (''resource_id'', JStr (walResourceID r)), (''created_at'', JStr (fmt_RFC3339Nano (walCreatedAt r))),
           (''updated_at'', JStr (fmt_RFC3339Nano (walUpdatedAt r))), (''state'', JStr (walState r)),
           (''steps'', if walSteps r = [] then JNull else JArr (map step_json (walSteps r)))]"

definition marshal_wal :: "WALRecord \<Rightarrow> bytes" where
  "marshal_wal r = pretty 0 (wal_json r)"

definition zero_step :: RollbackStep where
  "zero_step =
     \<lparr>stepName = '''', stepBinary = '''', stepArgs = [], stepTargetPath = '''', stepStagedBackupPath = '''',
      stepCompensatingFn = None\<rparr>"

definition zero_wal :: WALRecord where
  "zero_wal =
     \<lparr>walTxID = '''', walRunbookID = '''', walResourceID = '''', walCreatedAt = zero_time, walUpdatedAt = zero_time,
      walState = '''', walSteps = []\<rparr>"

fun decode_list :: "(json \<Rightarrow> goerror + 'a) \<Rightarrow> json list \<Rightarrow> goerror + 'a list" where
  "decode_list f [] = Inr []"
| "decode_list f (v # vs) =
     (case f v of
        Inl e \<Rightarrow> Inl e
      | Inr x \<Rightarrow> map_sum id (\<lambda>xs. x # xs) (decode_list f vs))"

definition set_opt :: "(('a \<Rightarrow> 'a) \<Rightarrow> 'r \<Rightarrow> 'r) \<Rightarrow> 'r \<Rightarrow> goerror + 'a option \<Rightarrow> goerror + 'r" where
  "set_opt upd r d = map_sum id (\<lambda>s. case s of None \<Rightarrow> r | Some x \<Rightarrow> upd (\<lambda>_. x) r) d"

definition decode_strings :: "string \<Rightarrow> json \<Rightarrow> goerror + string list option" where
  "decode_strings field v =
     (case v of
        JNull \<Rightarrow> Inr (Some [])
      | JArr xs \<Rightarrow>
          map_sum id Some (decode_list (\<lambda>x. map_sum id (case_option '''' id) (decode_string field x)) xs)
      | _ \<Rightarrow> Inl (type_error (json_kind v) field ''[]string''))"

definition store_step_field :: "RollbackStep \<Rightarrow> string \<times> json \<Rightarrow> goerror + RollbackStep" where
  "store_step_field s kv =
     (let k = ascii_lower (fst kv); v = snd kv; f = ''RollbackStep.steps.'' @ k in
      if k = ''name'' then set_opt stepName_update s (decode_string f v)
      else if k = ''binary'' then set_opt stepBinary_update s (decode_string f v)
      else if k = ''args'' then set_opt stepArgs_update s (decode_strings f v)
      else if k = ''target_path'' then set_opt stepTargetPath_update s (decode_string f v)
      else if k = ''staged_backup_path'' then set_opt stepStagedBackupPath_update s (decode_string f v)
      else Inr s)"

definition decode_step :: "json \<Rightarrow> goerror + RollbackStep" where
  "decode_step v =
     (case v of
        JNull \<Rightarrow> Inr zero_step
      | JObj ms \<Rightarrow> store_members store_step_field zero_step ms
      | _ \<Rightarrow> Inl (type_error (json_kind v) ''WALRecord.steps'' ''model.RollbackStep''))"

definition decode_steps :: "json \<Rightarrow> goerror + RollbackStep list option" where
  "decode_steps v =
     (case v of
        JNull \<Rightarrow> Inr (Some [])
      | JArr xs \<Rightarrow> map_sum id Some (decode_list decode_step xs)
      | _ \<Rightarrow> Inl (type_error (json_kind v) ''WALRecord.steps'' ''[]model.RollbackStep''))"

definition store_wal_field :: "WALRecord \<Rightarrow> string \<times> json \<Rightarrow> goerror + WALRecord" where
  "store_wal_field r kv =
     (let k = ascii_lower (fst kv); v = snd kv; f = ''WALRecord.'' @ k in
      if k = ''txid'' then set_opt walTxID_update r (decode_string f v)
      else if k = ''runbook_id'' then set_opt walRunbookID_update r (decode_string f v)
      else if k = ''resource_id'' then set_opt walResourceID_update r (decode_string f v)
      else if k = ''created_at'' then set_opt walCreatedAt_update r (decode_time f v)
      else if k = ''updated_at'' then set_opt walUpdatedAt_update r (decode_time f v)
      else if k = ''state'' then set_opt walState_update r (decode_string f v)
      else if k = ''steps'' then set_opt walSteps_update r (decode_steps v)
      else Inr r)"

definition unmarshal_wal :: "bytes \<Rightarrow> goerror + WALRecord" where
  "unmarshal_wal = unmarshal_struct ''WALRecord'' store_wal_field zero_wal"

section \<open>The journal (journal.go)\<close>

definition writeAndSync :: "Journal \<Rightarrow> WALRecord \<Rightarrow> world \<Rightarrow> goerror option \<times> world" where
  "writeAndSync j rec w =
     (let filePath = PathForTx j (walTxID rec) in
      case os_OpenTrunc filePath w of
        (Some e, w1) \<Rightarrow> (Some (wrapf (''failed to open WAL file '' @ filePath @ '': '') e ''''), w1)
      | (None, w1) \<Rightarrow>
          (case file_Write filePath (marshal_wal rec) w1 of
             (Some e, w2) \<Rightarrow> (Some (wrapf ''failed to write WAL file: '' e ''''), w2)
           | (None, w2) \<Rightarrow>
               (case file_Sync w2 of
                  (Some e, w3) \<Rightarrow> (Some (wrapf ''failed to fsync WAL file: '' e ''''), w3)
                | (None, w3) \<Rightarrow> (None, w3))))"

definition Stage ::
    "Journal \<Rightarrow> string \<Rightarrow> string \<Rightarrow> string \<Rightarrow> RollbackStep list \<Rightarrow> world \<Rightarrow> (goerror + WALRecord) \<times> world" where
  "Stage j txID runbookID resourceID rsteps w =
     (let (now, w0) = time_Now w;
          rec = \<lparr>walTxID = txID, walRunbookID = runbookID, walResourceID = resourceID, walCreatedAt = now,
                 walUpdatedAt = now, walState = StatePrepared, walSteps = rsteps\<rparr> in
      case writeAndSync j rec w0 of
        (Some e, w1) \<Rightarrow> (Inl (wrapf (''failed to stage WAL record for tx '' @ txID @ '': '') e ''''), w1)
      | (None, w1) \<Rightarrow> (Inr rec, w1))"

definition readUnsafe :: "Journal \<Rightarrow> string \<Rightarrow> world \<Rightarrow> (goerror + WALRecord) \<times> world" where
  "readUnsafe j txID w =
     (let filePath = PathForTx j txID in
      case os_ReadFile filePath w of
        (Inl e, w1) \<Rightarrow> (Inl (wrapf (''failed to read WAL file '' @ filePath @ '': '') e ''''), w1)
      | (Inr bs, w1) \<Rightarrow>
          (case unmarshal_wal bs of
             Inl e \<Rightarrow> (Inl (wrapf (''corrupted WAL JSON in '' @ filePath @ '': '') e ''''), w1)
           | Inr rec \<Rightarrow> (Inr rec, w1)))"

definition journal_Read :: "Journal \<Rightarrow> string \<Rightarrow> world \<Rightarrow> (goerror + WALRecord) \<times> world" where
  "journal_Read j txID w = readUnsafe j txID w"

definition UpdateState :: "Journal \<Rightarrow> string \<Rightarrow> string \<Rightarrow> world \<Rightarrow> goerror option \<times> world" where
  "UpdateState j txID newState w =
     (case readUnsafe j txID w of
        (Inl e, w1) \<Rightarrow> (Some e, w1)
      | (Inr rec, w1) \<Rightarrow>
          (let (now, w2) = time_Now w1 in writeAndSync j (rec\<lparr>walState := newState, walUpdatedAt := now\<rparr>) w2))"

fun list_pending :: "Journal \<Rightarrow> (string \<times> bool) list \<Rightarrow> world \<Rightarrow> WALRecord list \<times> world" where
  "list_pending j [] w = ([], w)"
| "list_pending j ((name, is_dir) # es) w =
     (if is_dir \<or> \<not> has_suffix name ''.wal'' then list_pending j es w
      else case readUnsafe j (trim_suffix name ''.wal'') w of
        (Inl _, w1) \<Rightarrow> list_pending j es w1
      | (Inr rec, w1) \<Rightarrow>
          (let (rs, w2) = list_pending j es w1 in
           (if walState rec = StatePrepared \<or> walState rec = WalRollingBack then rec # rs else rs, w2)))"

definition ListPending :: "Journal \<Rightarrow> world \<Rightarrow> (goerror + WALRecord list) \<times> world" where
  "ListPending j w =
     (case os_ReadDir (journalDir j) w of
        (Inl e, w1) \<Rightarrow> (Inl (wrapf ''failed to read journal directory: '' e ''''), w1)
      | (Inr es, w1) \<Rightarrow> (let (rs, w2) = list_pending j es w1 in (Inr rs, w2)))"

definition StageFileBackup :: "string \<Rightarrow> string \<Rightarrow> world \<Rightarrow> (goerror + string) \<times> world" where
  "StageFileBackup sourcePath backupDir w =
     (case os_MkdirAll backupDir w of
        (Some e, w1) \<Rightarrow> (Inl (wrapf ''failed to create backup dir: '' e ''''), w1)
      | (None, w1) \<Rightarrow>
          (case os_Open sourcePath w1 of
             (Some e, w2) \<Rightarrow> (Inl (wrapf (''failed to open source file '' @ sourcePath @ '': '') e ''''), w2)
           | (None, w2) \<Rightarrow>
               (let destPath = filepath_Join [backupDir, filepath_Base sourcePath @ ''.bak''] in
                case os_OpenTrunc destPath w2 of
                  (Some e, w3) \<Rightarrow> (Inl (wrapf (''failed to open dest backup file '' @ destPath @ '': '') e ''''), w3)
                | (None, w3) \<Rightarrow>
                    (case io_Copy destPath sourcePath w3 of
                       (Some e, w4) \<Rightarrow> (Inl (wrapf ''failed copying bytes: '' e ''''), w4)
                     | (None, w4) \<Rightarrow>
                         (case file_Sync w4 of
                            (Some e, w5) \<Rightarrow> (Inl (wrapf ''failed syncing backup file: '' e ''''), w5)
                          | (None, w5) \<Rightarrow> (Inr destPath, w5))))))"

section \<open>The rollback engine (rollback.go)\<close>

definition restoreFile :: "string \<Rightarrow> string \<Rightarrow> world \<Rightarrow> goerror option \<times> world" where
  "restoreFile backupPath targetPath w =
     (case os_Open backupPath w of
        (Some e, w1) \<Rightarrow> (Some (wrapf (''failed opening backup file '' @ backupPath @ '': '') e ''''), w1)
      | (None, w1) \<Rightarrow>
          (case os_OpenTrunc targetPath w1 of
             (Some e, w2) \<Rightarrow>
               (Some (wrapf (''failed opening target file '' @ targetPath @ '' for restoration: '') e ''''), w2)
           | (None, w2) \<Rightarrow>
               (case io_Copy targetPath backupPath w2 of
                  (Some e, w3) \<Rightarrow> (Some (wrapf ''failed restoring file contents: '' e ''''), w3)
                | (None, w3) \<Rightarrow>
                    (case file_Sync w3 of
                       (Some e, w4) \<Rightarrow> (Some (wrapf ''failed syncing restored file: '' e ''''), w4)
                     | (None, w4) \<Rightarrow> (None, w4)))))"

text \<open>\<open>cmd.CombinedOutput\<close>: the output is what the command wrote to either stream.\<close>

definition run_error_msg :: "run_error \<Rightarrow> goerror" where
  "run_error_msg e = (case e of ExitError c \<Rightarrow> errorf (''exit status '' @ itoa c) | SpawnError x \<Rightarrow> x)"

definition executeSingleStep :: "ctx \<Rightarrow> RollbackStep \<Rightarrow> world \<Rightarrow> goerror option \<times> world" where
  "executeSingleStep ctx st w =
     (case stepCompensatingFn st of
        Some fn \<Rightarrow> fn ctx w
      | None \<Rightarrow>
          if stepTargetPath st \<noteq> '''' \<and> stepStagedBackupPath st \<noteq> ''''
          then restoreFile (stepStagedBackupPath st) (stepTargetPath st) w
          else if stepBinary st \<noteq> ''''
          then (let (out, w1) = cmd_Run \<lparr>cmdBinary = stepBinary st, cmdArgs = stepArgs st, cmdSetpgid = False,
                                         cmdCredential = None\<rparr> w in
                case roError out of
                  Some e \<Rightarrow>
                    (Some (wrapf (''command '' @ stepBinary st @ '' failed with output ''
                                  @ fmt_q (roStdout out @ roStderr out) @ '': '') (run_error_msg e) ''''), w1)
                | None \<Rightarrow> (None, w1))
          else (None, w))"

text \<open>The loop from the last step down to the first; \<open>n\<close> steps are left.\<close>

fun replay :: "ctx \<Rightarrow> RollbackStep list \<Rightarrow> nat \<Rightarrow> world \<Rightarrow> (nat \<times> goerror) option \<times> world" where
  "replay ctx ss 0 w = (None, w)"
| "replay ctx ss (Suc i) w =
     (case executeSingleStep ctx (ss ! i) w of
        (Some e, w1) \<Rightarrow> (Some (i, e), w1)
      | (None, w1) \<Rightarrow> replay ctx ss i w1)"

definition update_if :: "Journal option \<Rightarrow> string \<Rightarrow> string \<Rightarrow> world \<Rightarrow> world" where
  "update_if j txID st w = (case j of None \<Rightarrow> w | Some jr \<Rightarrow> snd (UpdateState jr txID st w))"

definition ExecuteRollback :: "Journal option \<Rightarrow> ctx \<Rightarrow> WALRecord option \<Rightarrow> world \<Rightarrow> goerror option \<times> world" where
  "ExecuteRollback j ctx rec w =
     (case rec of
        None \<Rightarrow> (None, w)
      | Some r \<Rightarrow>
          (let w0 = update_if j (walTxID r) WalRollingBack w in
           case replay ctx (walSteps r) (length (walSteps r)) w0 of
             (Some (i, e), w1) \<Rightarrow>
               (Some (wrapf (''compensating step '' @ itoa (int i) @ '' ('' @ stepName (walSteps r ! i)
                             @ '') failed during rollback: '') e ''''),
                update_if j (walTxID r) StateFailed w1)
           | (None, w1) \<Rightarrow> (None, update_if j (walTxID r) WalRolledBack w1)))"

section \<open>Reading back a record\<close>

text \<open>What the disk keeps of a step: everything but its function.\<close>

definition strip :: "RollbackStep \<Rightarrow> RollbackStep" where
  "strip s = s\<lparr>stepCompensatingFn := None\<rparr>"

lemma set_opt_simps [simp]: "set_opt upd r (Inr None) = Inr r" "set_opt upd r (Inr (Some x)) = Inr (upd (\<lambda>_. x) r)"
  by (simp_all add: set_opt_def)

lemma step_json_wf: "json_wf (step_json s)"
  by (auto simp: step_json_def omit_empty_def)

lemma wal_json_wf: "json_wf (wal_json r)"
  by (auto simp: wal_json_def step_json_wf)

lemma ascii_lower_step_keys:
  "ascii_lower ''name'' = ''name''" "ascii_lower ''binary'' = ''binary''" "ascii_lower ''args'' = ''args''"
  "ascii_lower ''target_path'' = ''target_path''" "ascii_lower ''staged_backup_path'' = ''staged_backup_path''"
  by (simp_all add: ascii_lower_def)

lemma ascii_lower_wal_keys:
  "ascii_lower ''txid'' = ''txid''" "ascii_lower ''runbook_id'' = ''runbook_id''"
  "ascii_lower ''resource_id'' = ''resource_id''" "ascii_lower ''created_at'' = ''created_at''"
  "ascii_lower ''updated_at'' = ''updated_at''" "ascii_lower ''state'' = ''state''" "ascii_lower ''steps'' = ''steps''"
  by (simp_all add: ascii_lower_def)

lemma decode_list_map: "(\<And>x. x \<in> set xs \<Longrightarrow> f (g x) = Inr (h x)) \<Longrightarrow> decode_list f (map g xs) = Inr (map h xs)"
  by (induction xs) auto

lemma decode_strings_JStr: "decode_strings field (JArr (map JStr xs)) = Inr (Some xs)"
  using decode_list_map [of xs "\<lambda>x. map_sum id (case_option '''' id) (decode_string field x)" JStr id]
  by (simp add: decode_strings_def)

lemma store_members_append:
  "store_members f r (ms @ ns) = (case store_members f r ms of Inl e \<Rightarrow> Inl e | Inr r' \<Rightarrow> store_members f r' ns)"
  by (induction ms arbitrary: r) (auto split: sum.splits)

lemma store_step_members:
  "store_members store_step_field s [(''name'', JStr x)] = Inr (s\<lparr>stepName := x\<rparr>)"
  "stepBinary s = '''' \<Longrightarrow> store_members store_step_field s (omit_empty ''binary'' x) = Inr (s\<lparr>stepBinary := x\<rparr>)"
  "stepArgs s = [] \<Longrightarrow>
     store_members store_step_field s (if xs = [] then [] else [(''args'', JArr (map JStr xs))]) = Inr (s\<lparr>stepArgs := xs\<rparr>)"
  "stepTargetPath s = '''' \<Longrightarrow>
     store_members store_step_field s (omit_empty ''target_path'' x) = Inr (s\<lparr>stepTargetPath := x\<rparr>)"
  "stepStagedBackupPath s = '''' \<Longrightarrow>
     store_members store_step_field s (omit_empty ''staged_backup_path'' x) = Inr (s\<lparr>stepStagedBackupPath := x\<rparr>)"
  by (simp_all add: store_step_field_def omit_empty_def ascii_lower_step_keys decode_strings_JStr Let_def)

lemma decode_step_json: "decode_step (step_json s) = Inr (strip s)"
proof -
  have "decode_step (step_json s) =
      Inr (zero_step\<lparr>stepName := stepName s, stepBinary := stepBinary s, stepArgs := stepArgs s,
        stepTargetPath := stepTargetPath s, stepStagedBackupPath := stepStagedBackupPath s\<rparr>)"
    unfolding decode_step_def step_json_def json.case store_members_append
    by (simp add: store_step_members zero_step_def del: append_Cons store_members.simps split del: if_split)
  then show ?thesis by (cases s) (simp add: zero_step_def strip_def)
qed

lemma decode_steps_json:
  "decode_steps (if ss = [] then JNull else JArr (map step_json ss)) = Inr (Some (map strip ss))"
  using decode_list_map [of ss decode_step step_json strip] by (simp add: decode_steps_def decode_step_json)

lemma unmarshal_marshal_wal:
  assumes "in_years_1_to_9999 (walCreatedAt r)" "in_years_1_to_9999 (walUpdatedAt r)"
  shows "unmarshal_wal (marshal_wal r) = Inr (r\<lparr>walSteps := map strip (walSteps r)\<rparr>)"
proof -
  have "json_parse (marshal_wal r) = Some (wal_json r)"
    unfolding marshal_wal_def by (rule pretty_roundtrip [OF wal_json_wf])
  then show ?thesis
    using time_ok_years [OF assms(1)] time_ok_years [OF assms(2)] decode_steps_json [of "walSteps r"]
    by (simp add: unmarshal_wal_def unmarshal_struct_def wal_json_def store_wal_field_def Let_def ascii_lower_wal_keys
        decode_time_ok zero_wal_def del: if_split) 
qed

section \<open>Writing and reading a WAL file\<close>

lemma no_faults_frame [simp]:
  "no_faults (next_step w) = no_faults w" "no_faults (put_file p n w) = no_faults w"
  by (rule calm.P_next_step, rule calm.P_put_file)

lemma no_faults_sys [simp]: "no_faults w \<Longrightarrow> sys w = (None, next_step w)"
  by (simp add: no_faults_def sys_def)

lemma writeAndSync_ok:
  assumes "no_faults w" "lookup_file w (PathForTx j (walTxID r)) \<noteq> Some DirNode"
  shows "\<exists>w'. writeAndSync j r w = (None, w') \<and> no_faults w'
    \<and> lookup_file w' (PathForTx j (walTxID r)) = Some (FileNode (marshal_wal r))
    \<and> (\<forall>p. p \<noteq> PathForTx j (walTxID r) \<longrightarrow> lookup_file w' p = lookup_file w p)"
  using assms by (simp add: writeAndSync_def os_OpenTrunc_def file_Write_def file_Sync_def Let_def)

lemma readUnsafe_ok:
  assumes "no_faults w" "lookup_file w (PathForTx j tx) = Some (FileNode (marshal_wal r))"
    "in_years_1_to_9999 (walCreatedAt r)" "in_years_1_to_9999 (walUpdatedAt r)"
  shows "readUnsafe j tx w = (Inr (r\<lparr>walSteps := map strip (walSteps r)\<rparr>), next_step w)"
  using assms by (simp add: readUnsafe_def os_ReadFile_def unmarshal_marshal_wal Let_def)


definition demo_world :: world where
  "demo_world = quiet_world\<lparr>oClock := (\<lambda>_. 7)\<rparr>"


section \<open>Replaying in reverse\<close>

text \<open>A run of consecutive steps: the worlds before, between and after them.\<close>

definition steps_run :: "ctx \<Rightarrow> RollbackStep list \<Rightarrow> world list \<Rightarrow> bool" where
  "steps_run ctx ss ws \<longleftrightarrow>
     length ws = Suc (length ss) \<and> (\<forall>k < length ss. executeSingleStep ctx (ss ! k) (ws ! k) = (None, ws ! Suc k))"

lemma steps_run_Nil: "steps_run ctx [] [w]"
  by (simp add: steps_run_def)

lemma steps_run_Cons:
  assumes "executeSingleStep ctx s w = (None, w1)" "steps_run ctx ss ws" "ws ! 0 = w1"
  shows "steps_run ctx (s # ss) (w # ws)"
  unfolding steps_run_def
proof (intro conjI allI impI)
  fix k assume "k < length (s # ss)"
  then show "executeSingleStep ctx ((s # ss) ! k) ((w # ws) ! k) = (None, (w # ws) ! Suc k)"
    using assms by (cases k) (auto simp: steps_run_def)
qed (use assms in \<open>simp add: steps_run_def\<close>)

lemma replay_ok:
  "replay ctx ss n w = (None, w') \<Longrightarrow> n \<le> length ss \<Longrightarrow>
     \<exists>ws. steps_run ctx (rev (take n ss)) ws \<and> ws ! 0 = w \<and> last ws = w'"
proof (induction n arbitrary: w)
  case 0
  then show ?case by (intro exI [of _ "[w]"]) (simp add: steps_run_Nil)
next
  case (Suc n)
  then obtain w1 where e: "executeSingleStep ctx (ss ! n) w = (None, w1)" "replay ctx ss n w1 = (None, w')"
    by (auto split: prod.splits option.splits)
  then obtain ws where ws: "steps_run ctx (rev (take n ss)) ws" "ws ! 0 = w1" "last ws = w'"
    using Suc by (meson Suc_leD)
  have "rev (take (Suc n) ss) = ss ! n # rev (take n ss)"
    using Suc.prems(2) by (simp add: take_Suc_conv_app_nth)
  moreover have "steps_run ctx (ss ! n # rev (take n ss)) (w # ws)" by (rule steps_run_Cons [OF e(1) ws(1,2)])
  moreover have "ws \<noteq> []" using ws(1) by (auto simp: steps_run_def)
  ultimately show ?case using ws(3) by (intro exI [of _ "w # ws"]) simp
qed

lemma replay_fails:
  "replay ctx ss n w = (Some (i, e), w') \<Longrightarrow> n \<le> length ss \<Longrightarrow>
     i < n \<and> (\<exists>ws. steps_run ctx (rev (drop (Suc i) (take n ss))) ws \<and> ws ! 0 = w
       \<and> executeSingleStep ctx (ss ! i) (last ws) = (Some e, w'))"
proof (induction n arbitrary: w)
  case (Suc n)
  show ?case
  proof (cases "executeSingleStep ctx (ss ! n) w")
    case (Pair r w1)
    show ?thesis
    proof (cases r)
      case (Some x)
      then show ?thesis
        using Suc.prems Pair by (auto intro!: exI [of _ "[w]"] simp: steps_run_Nil)
    next
      case None
      then have "replay ctx ss n w1 = (Some (i, e), w')" using Suc.prems Pair by simp
      then obtain ws where ws: "i < n" "steps_run ctx (rev (drop (Suc i) (take n ss))) ws" "ws ! 0 = w1"
          "executeSingleStep ctx (ss ! i) (last ws) = (Some e, w')"
        using Suc by (meson Suc_leD)
      have "rev (drop (Suc i) (take (Suc n) ss)) = ss ! n # rev (drop (Suc i) (take n ss))"
        using Suc.prems(2) ws(1) by (simp add: take_Suc_conv_app_nth)
      moreover have "steps_run ctx (ss ! n # rev (drop (Suc i) (take n ss))) (w # ws)"
        using Pair None ws(2,3) by (intro steps_run_Cons) auto
      moreover have "ws \<noteq> []" using ws(2) by (auto simp: steps_run_def)
      ultimately show ?thesis using ws(1,4) by (auto intro!: exI [of _ "w # ws"])
    qed
  qed
qed simp

text \<open>
  C13: Rollback in reverse order. If \<open>ExecuteRollback\<close> answers no error, every compensating
  step ran once, from the last to the first, each on the state the one before left, and the log was
  marked ROLLED_BACK at the end. If it answers an error, the steps after some step ran successfully
  in that order, that step failed, no earlier step was touched, the log was marked FAILED, and the
  error names the step.
\<close>

theorem rollback_reverse_order:
  "case ExecuteRollback j ctx (Some r) w of
     (None, w') \<Rightarrow>
       \<exists>ws. steps_run ctx (rev (walSteps r)) ws \<and> ws ! 0 = update_if j (walTxID r) WalRollingBack w
         \<and> w' = update_if j (walTxID r) WalRolledBack (last ws)
   | (Some err, w') \<Rightarrow>
       \<exists>i e ws w1. i < length (walSteps r) \<and> steps_run ctx (rev (drop (Suc i) (walSteps r))) ws
         \<and> ws ! 0 = update_if j (walTxID r) WalRollingBack w
         \<and> executeSingleStep ctx (walSteps r ! i) (last ws) = (Some e, w1)
         \<and> w' = update_if j (walTxID r) StateFailed w1
         \<and> err = wrapf (''compensating step '' @ itoa (int i) @ '' ('' @ stepName (walSteps r ! i)
                        @ '') failed during rollback: '') e ''''"
proof -
  let ?w0 = "update_if j (walTxID r) WalRollingBack w" and ?n = "length (walSteps r)"
  obtain res w1 where rp: "replay ctx (walSteps r) ?n ?w0 = (res, w1)" by force
  show ?thesis
  proof (cases res)
    case None
    then show ?thesis using rp replay_ok [of ctx "walSteps r" ?n ?w0 w1] by (auto simp: ExecuteRollback_def Let_def)
  next
    case (Some ie)
    obtain i e where "ie = (i, e)" by force
    then show ?thesis
      using rp Some replay_fails [of ctx "walSteps r" ?n ?w0 i e w1] by (auto simp: ExecuteRollback_def Let_def)
  qed
qed

section \<open>What does not survive\<close>

text \<open>
  A compensating function does not survive the disk. If every step of a staged record does its
  work in its function alone, then the record read back from the log is still reported as rolled
  back without error, but replaying it changes nothing.
\<close>

theorem rollback_reloaded_is_noop:
  assumes "no_faults w" "lookup_file w (PathForTx j tx) \<noteq> Some DirNode" "in_years_1_to_9999 (oClock w (steps w))"
    and "\<forall>s \<in> set ss. stepBinary s = '''' \<and> (stepTargetPath s = '''' \<or> stepStagedBackupPath s = '''')"
  shows "\<exists>w' rec. snd (Stage j tx rb res ss w) = w' \<and> fst (journal_Read j tx w') = Inr rec
    \<and> length (walSteps rec) = length ss \<and> ExecuteRollback None ctx (Some rec) v = (None, v)"
proof -
  let ?r = "\<lparr>walTxID = tx, walRunbookID = rb, walResourceID = res, walCreatedAt = oClock w (steps w),
             walUpdatedAt = oClock w (steps w), walState = StatePrepared, walSteps = ss\<rparr>"
  obtain w' where w': "writeAndSync j ?r (next_step w) = (None, w')" "no_faults w'"
      "lookup_file w' (PathForTx j tx) = Some (FileNode (marshal_wal ?r))"
    using writeAndSync_ok [of "next_step w" j ?r] assms(1,2) by auto
  have rd: "readUnsafe j tx w' = (Inr (?r\<lparr>walSteps := map strip ss\<rparr>), next_step w')"
    using readUnsafe_ok [OF w'(2,3)] assms(3) by simp
  have "replay ctx (map strip ss) n v = (None, v)" if "n \<le> length ss" for n
    using that
  proof (induction n)
    case (Suc n)
    then have "executeSingleStep ctx (strip (ss ! n)) v = (None, v)"
      using assms(4) by (auto simp: executeSingleStep_def strip_def)
    then show ?case using Suc by simp
  qed simp
  then have "ExecuteRollback None ctx (Some (?r\<lparr>walSteps := map strip ss\<rparr>)) v = (None, v)"
    by (simp add: ExecuteRollback_def update_if_def)
  then show ?thesis
    using w'(1) rd by (simp add: Stage_def time_Now_def journal_Read_def)
qed

definition demo_step :: RollbackStep where
  "demo_step =
     \<lparr>stepName = ''undo'', stepBinary = '''', stepArgs = [], stepTargetPath = '''', stepStagedBackupPath = '''',
      stepCompensatingFn = Some (\<lambda>_ w. (None, put_file ''f'' (FileNode ''old'') w))\<rparr>"

theorem rollback_reloaded_is_noop_witness:
  "executeSingleStep Background demo_step demo_world \<noteq> (None, demo_world)
   \<and> (\<exists>w' rec. snd (Stage \<lparr>journalDir = ''/j''\<rparr> ''tx'' ''rb'' ''disk'' [demo_step] demo_world) = w'
      \<and> fst (journal_Read \<lparr>journalDir = ''/j''\<rparr> ''tx'' w') = Inr rec \<and> length (walSteps rec) = 1
      \<and> ExecuteRollback None Background (Some rec) demo_world = (None, demo_world))"
proof -
  have "no_faults demo_world" "lookup_file demo_world (PathForTx \<lparr>journalDir = ''/j''\<rparr> ''tx'') \<noteq> Some DirNode"
      "in_years_1_to_9999 (oClock demo_world (steps demo_world))"
    by (simp_all add: demo_world_def quiet_world_def no_faults_def lookup_file_def in_years_7)
  moreover have "executeSingleStep Background demo_step demo_world \<noteq> (None, demo_world)"
    by (simp add: executeSingleStep_def demo_step_def put_file_def demo_world_def quiet_world_def)
  ultimately show ?thesis
    using rollback_reloaded_is_noop [of demo_world "\<lparr>journalDir = ''/j''\<rparr>" "''tx''" "[demo_step]" "''rb''" "''disk''" Background demo_world]
    by (auto simp: demo_step_def)
qed

text \<open>
  A state update is not atomic. \<open>UpdateState\<close> truncates the file before it writes: when the
  write fails with no byte written, the call reports an error and the transaction's record, with its
  steps, can no longer be read.
\<close>

theorem wal_update_torn:
  assumes "oFault w (steps w) = None" "oFault w (Suc (Suc (steps w))) = None"
    and "oFault w (Suc (Suc (Suc (steps w)))) = Some e" "oWritten w (Suc (Suc (Suc (steps w)))) = 0"
    and "lookup_file w (PathForTx j tx) = Some (FileNode (marshal_wal r))" "walTxID r = tx"
    and "in_years_1_to_9999 (walCreatedAt r)" "in_years_1_to_9999 (walUpdatedAt r)"
  shows "fst (UpdateState j tx st w) = Some (wrapf ''failed to write WAL file: '' e '''')
    \<and> (\<exists>x. fst (journal_Read j tx (snd (UpdateState j tx st w))) = Inl x)"
proof -
  let ?q = "r\<lparr>walSteps := map strip (walSteps r), walState := st, walUpdatedAt := oClock w (Suc (steps w))\<rparr>"
  let ?w2 = "next_step (next_step w)"
  have rd: "readUnsafe j tx w = (Inr (r\<lparr>walSteps := map strip (walSteps r)\<rparr>), next_step w)"
    using assms(1,5,7,8) by (simp add: readUnsafe_def os_ReadFile_def unmarshal_marshal_wal Let_def sys_def)
  have "\<exists>w3. writeAndSync j ?q ?w2 = (Some (wrapf ''failed to write WAL file: '' e ''''), w3)
      \<and> lookup_file w3 (PathForTx j tx) = Some (FileNode [])"
    using assms(2-6) by (simp add: writeAndSync_def os_OpenTrunc_def file_Write_def Let_def sys_def)
      (simp add: next_step_def put_file_def)
  then obtain w3 where w3: "writeAndSync j ?q ?w2 = (Some (wrapf ''failed to write WAL file: '' e ''''), w3)"
      "lookup_file w3 (PathForTx j tx) = Some (FileNode [])" by blast
  have u: "UpdateState j tx st w = (Some (wrapf ''failed to write WAL file: '' e ''''), w3)"
    using w3(1) rd by (simp add: UpdateState_def time_Now_def) (simp add: next_step_def)
  have "json_parse [] = None" by (simp add: json_parse_def skip_ws_def)
  then have "unmarshal_wal [] = Inl (errorf ''invalid character in JSON input'')"
    by (simp add: unmarshal_wal_def unmarshal_struct_def)
  then show ?thesis
    using u w3(2) by (auto simp: journal_Read_def readUnsafe_def os_ReadFile_def Let_def sys_def split: option.splits)
qed

definition demo_wal :: WALRecord where
  "demo_wal =
     \<lparr>walTxID = ''tx'', walRunbookID = ''rb'', walResourceID = ''disk'', walCreatedAt = 7, walUpdatedAt = 7,
      walState = StatePrepared, walSteps = []\<rparr>"

theorem wal_update_torn_witness:
  "let j = \<lparr>journalDir = ''/j''\<rparr>;
       w = put_file (PathForTx j ''tx'') (FileNode (marshal_wal demo_wal))
             (demo_world\<lparr>oFault := (\<lambda>n. if n = 3 then Some (errorf ''ENOSPC'') else None)\<rparr>) in
   fst (journal_Read j ''tx'' w) = Inr demo_wal
   \<and> (\<exists>x. fst (journal_Read j ''tx'' (snd (UpdateState j ''tx'' WalRollingBack w))) = Inl x)"
proof -
  let ?j = "\<lparr>journalDir = ''/j''\<rparr>"
  let ?w = "put_file (PathForTx ?j ''tx'') (FileNode (marshal_wal demo_wal))
             (demo_world\<lparr>oFault := (\<lambda>n. if n = 3 then Some (errorf ''ENOSPC'') else None)\<rparr>)"
  have "fst (journal_Read ?j ''tx'' ?w) = Inr demo_wal"
    by (simp add: journal_Read_def readUnsafe_def os_ReadFile_def sys_def demo_world_def quiet_world_def Let_def
        unmarshal_marshal_wal) (simp add: demo_wal_def unmarshal_marshal_wal in_years_7)
  then show ?thesis
    using wal_update_torn [of ?w "errorf ''ENOSPC''" ?j "''tx''" demo_wal WalRollingBack]
    by (simp add: Let_def demo_world_def quiet_world_def demo_wal_def in_years_7) (simp add: put_file_def)
qed

text \<open>
  The path of a WAL file can leave the journal directory: the transaction id contains the alert
  id as it was received, and slashes and dot-dot components in it are resolved when the path is
  built.
\<close>

theorem wal_path_escapes_directory:
  "PathForTx \<lparr>journalDir = ''/var/lib/journal''\<rparr> (''RBK-DISK-001-'' @ ''x/../../../../etc/cron.d/job'' @ ''-7'')
     = ''/etc/cron.d/job-7.wal''"
  by code_simp

section \<open>Backups\<close>

lemma io_Copy_ok:
  assumes "io_Copy dst src w = (None, w')" "lookup_file w src = Some (FileNode bs)"
  shows "lookup_file w' dst = Some (FileNode bs)" "p \<noteq> dst \<Longrightarrow> lookup_file w' p = lookup_file w p"
  using assms by (auto simp: io_Copy_def os_ReadFile_def file_Write_def sys_def split: option.splits prod.splits)

lemma os_Open_ok: "os_Open p w = (None, w') \<Longrightarrow> lookup_file w' q = lookup_file w q \<and> lookup_file w p \<noteq> None"
  by (auto simp: os_Open_def sys_def split: option.splits if_splits)

lemma os_OpenTrunc_ok:
  "os_OpenTrunc p w = (None, w') \<Longrightarrow> lookup_file w' q = (if q = p then Some (FileNode []) else lookup_file w q)"
  by (auto simp: os_OpenTrunc_def sys_def split: option.splits if_splits)

lemma file_Sync_ok: "file_Sync w = (r, w') \<Longrightarrow> lookup_file w' q = lookup_file w q"
  by (auto simp: file_Sync_def sys_def)

lemma os_MkdirAll_ok:
  "os_MkdirAll p w = (None, w') \<Longrightarrow> lookup_file w q = Some (FileNode bs) \<Longrightarrow> lookup_file w' q = Some (FileNode bs)"
  by (auto simp: os_MkdirAll_def sys_def split: option.splits node.splits if_splits)

lemma StageFileBackup_ok:
  assumes "StageFileBackup src dir w = (Inr dest, w')" "lookup_file w src = Some (FileNode bs)" "dest \<noteq> src"
  shows "lookup_file w' dest = Some (FileNode bs)" "lookup_file w' src = Some (FileNode bs)"
proof -
  obtain w1 w2 w3 w4 where c: "os_MkdirAll dir w = (None, w1)" "os_Open src w1 = (None, w2)"
      "os_OpenTrunc dest w2 = (None, w3)" "io_Copy dest src w3 = (None, w4)" "file_Sync w4 = (None, w')"
    using assms(1) by (auto simp: StageFileBackup_def Let_def split: option.splits prod.splits)
  have "lookup_file w3 src = Some (FileNode bs)"
    using os_MkdirAll_ok [OF c(1) assms(2)] os_Open_ok [OF c(2), of src] os_OpenTrunc_ok [OF c(3), of src] assms(3) by auto
  then show "lookup_file w' dest = Some (FileNode bs)" "lookup_file w' src = Some (FileNode bs)"
    using io_Copy_ok(1) [OF c(4), of bs] io_Copy_ok(2) [OF c(4), of bs src] file_Sync_ok [OF c(5)] assms(3) by auto
qed

lemma restoreFile_ok:
  assumes "restoreFile b t w = (None, w')" "lookup_file w b = Some (FileNode bs)" "b \<noteq> t"
  shows "lookup_file w' t = Some (FileNode bs)"
proof -
  obtain w1 w2 w3 where c: "os_Open b w = (None, w1)" "os_OpenTrunc t w1 = (None, w2)" "io_Copy t b w2 = (None, w3)"
      "file_Sync w3 = (None, w')"
    using assms(1) by (auto simp: restoreFile_def split: option.splits prod.splits)
  then show ?thesis
    using os_Open_ok [OF c(1), of b] os_OpenTrunc_ok [OF c(2), of b] io_Copy_ok(1) [OF c(3)] file_Sync_ok [OF c(4)] assms(2,3)
    by auto
qed

text \<open>
  Backup and restore. If \<open>StageFileBackup\<close> succeeds on an existing file, then whatever
  happens to that file afterwards, a successful \<open>restoreFile\<close> from the backup puts the original
  bytes back, as long as the backup itself was left alone.
\<close>

theorem backup_restore_roundtrip:
  assumes "StageFileBackup src dir w = (Inr dest, w1)" "lookup_file w src = Some (FileNode bs)" "dest \<noteq> src"
    and "lookup_file w2 dest = lookup_file w1 dest" "restoreFile dest src w2 = (None, w3)"
  shows "lookup_file w3 src = Some (FileNode bs)"
  using restoreFile_ok [OF assms(5)] StageFileBackup_ok(1) [OF assms(1-3)] assms(3,4) by simp

theorem backup_restore_roundtrip_witness:
  "\<exists>dest w1 w3. StageFileBackup ''/etc/c'' ''/b'' (put_file ''/etc/c'' (FileNode ''good'') demo_world) = (Inr dest, w1)
     \<and> restoreFile dest ''/etc/c'' (put_file ''/etc/c'' (FileNode ''bad'') w1) = (None, w3)
     \<and> lookup_file w3 ''/etc/c'' = Some (FileNode ''good'')"
proof -
  let ?w = "put_file ''/etc/c'' (FileNode ''good'') demo_world"
  have j: "filepath_Join [''/b'', filepath_Base ''/etc/c'' @ ''.bak''] = ''/b/c.bak''" by code_simp
  have nf: "no_faults demo_world" by (simp add: no_faults_def demo_world_def quiet_world_def)
  have l: "lookup_file demo_world p = None" for p by (simp add: lookup_file_def demo_world_def quiet_world_def)
  obtain w1 where w1: "StageFileBackup ''/etc/c'' ''/b'' ?w = (Inr ''/b/c.bak'', w1)" "no_faults w1"
    using nf l unfolding StageFileBackup_def j
    by (simp add: os_MkdirAll_def os_Open_def os_OpenTrunc_def io_Copy_def os_ReadFile_def file_Write_def file_Sync_def Let_def)
  have b: "lookup_file w1 ''/b/c.bak'' = Some (FileNode ''good'')"
    using StageFileBackup_ok(1) [OF w1(1)] by simp
  obtain w3 where w3: "restoreFile ''/b/c.bak'' ''/etc/c'' (put_file ''/etc/c'' (FileNode ''bad'') w1) = (None, w3)"
    using w1(2) b
    by (simp add: restoreFile_def os_Open_def os_OpenTrunc_def io_Copy_def os_ReadFile_def file_Write_def file_Sync_def)
  show ?thesis
    using backup_restore_roundtrip [OF w1(1) _ _ _ w3] w1(1) w3 by auto
qed

section \<open>What the journal and the replay keep\<close>

context world_inv
begin

lemma P_writeAndSync: "P (snd (writeAndSync j r w)) = P w"
  by (auto simp: writeAndSync_def Let_def split: prod.splits option.splits dest: P_pairs)

lemma P_readUnsafe: "P (snd (readUnsafe j tx w)) = P w"
  by (auto simp: readUnsafe_def Let_def split: prod.splits sum.splits dest: P_pairs)

lemma P_UpdateState: "P (snd (UpdateState j tx st w)) = P w"
  using P_readUnsafe [of j tx w] P_writeAndSync
  by (auto simp: UpdateState_def Let_def split: prod.splits sum.splits dest: P_pairs)

lemma P_Stage: "P (snd (Stage j tx rb res ss w)) = P w"
proof -
  obtain now w0 where t: "time_Now w = (now, w0)" by force
  let ?r = "\<lparr>walTxID = tx, walRunbookID = rb, walResourceID = res, walCreatedAt = now, walUpdatedAt = now,
             walState = StatePrepared, walSteps = ss\<rparr>"
  have "snd (Stage j tx rb res ss w) = snd (writeAndSync j ?r w0)"
    by (simp add: Stage_def t Let_def split: prod.split option.split)
  then show ?thesis using P_writeAndSync [of j ?r w0] P_pairs(2) [OF t] by simp
qed

lemma P_restoreFile: "P (snd (restoreFile b t w)) = P w"
  by (auto simp: restoreFile_def split: prod.splits option.splits dest: P_pairs)

definition step_keeps :: "RollbackStep \<Rightarrow> bool" where
  "step_keeps s \<longleftrightarrow> (\<forall>f c w. stepCompensatingFn s = Some f \<longrightarrow> P w \<longrightarrow> P (snd (f c w)))"

lemma P_executeSingleStep: "step_keeps s \<Longrightarrow> P w \<Longrightarrow> P (snd (executeSingleStep c s w))"
  using P_restoreFile P_run
  by (auto simp: executeSingleStep_def step_keeps_def Let_def split: option.splits prod.splits dest: P_pairs)

lemma P_replay: "\<forall>s \<in> set ss. step_keeps s \<Longrightarrow> n \<le> length ss \<Longrightarrow> P w \<Longrightarrow> P (snd (replay c ss n w))"
proof (induction n arbitrary: w)
  case (Suc n)
  then have "P (snd (executeSingleStep c (ss ! n) w))" by (intro P_executeSingleStep) auto
  then show ?case using Suc by (auto split: prod.splits option.splits)
qed simp

lemma P_update_if: "P (update_if j tx st w) = P w"
  by (simp add: update_if_def P_UpdateState split: option.split)

lemma P_ExecuteRollback: "\<forall>s \<in> set (walSteps r). step_keeps s \<Longrightarrow> P w \<Longrightarrow> P (snd (ExecuteRollback j c (Some r) w))"
  using P_replay [of "walSteps r" "length (walSteps r)" "update_if j (walTxID r) WalRollingBack w" c]
  by (auto simp: ExecuteRollback_def Let_def P_update_if split: prod.splits option.splits)

end

end
