(* ===== verification/Executor.thy ===== *)
theory Executor
  imports Model
begin

text \<open>
  \<open>internal/executor/executor.go\<close>: the execution of one action under the blast-radius clamp: an
  in-process function, a signal, or a command. A nil result is \<^term>\<open>None\<close>.
\<close>

section \<open>The executor\<close>

record Executor =
  exDefaultTimeout :: duration

definition NewExecutor :: Executor where
  "NewExecutor = \<lparr>exDefaultTimeout = 15 * Second\<rparr>"

definition err_blast_radius :: "string \<Rightarrow> goerror" where
  "err_blast_radius s = \<lparr>err_is = [ErrBlastRadiusExceeded], err_msg = ''blast radius clamp exceeded'' @ s\<rparr>"

definition err_timed_out :: goerror where
  "err_timed_out = \<lparr>err_is = [ErrExecutionTimedOut], err_msg = ''action execution timed out''\<rparr>"

definition err_invalid_action :: goerror where
  "err_invalid_action = \<lparr>err_is = [ErrInvalidAction], err_msg = ''invalid action configuration''\<rparr>"

definition effective_timeout :: "Executor \<Rightarrow> Action \<Rightarrow> BlastRadius \<Rightarrow> duration" where
  "effective_timeout e action clamp =
     (let t = (if actTimeout action \<le> 0 then exDefaultTimeout e else actTimeout action)
      in if brMaxExecutionTime clamp > 0 \<and> t > brMaxExecutionTime clamp then brMaxExecutionTime clamp else t)"

definition run_mutation ::
    "(ctx \<Rightarrow> world \<Rightarrow> (ExecutionResult option \<times> goerror option) \<times> world) \<Rightarrow> ctx \<Rightarrow> BlastRadius \<Rightarrow> world
     \<Rightarrow> (ExecutionResult option \<times> goerror option) \<times> world" where
  "run_mutation fn execCtx clamp w =
     (let (start, w1) = time_Now w;
          ((res0, err), w2) = fn execCtx w1;
          (stop, w3) = time_Now w2;
          res = (case res0 of None \<Rightarrow> zero_result | Some r \<Rightarrow> r)\<lparr>erDuration := time_Sub stop start\<rparr>;
          (cerr, w4) = ctx_Err execCtx w3 in
      if cerr = Some DeadlineExceeded
      then ((Some (res\<lparr>erExitCode := 124, erError := ''execution deadline exceeded''\<rparr>), Some err_timed_out), w4)
      else if brMaxBytesMutated clamp > 0 \<and> erBytesMutated res > brMaxBytesMutated clamp
      then ((Some res, Some (err_blast_radius ('': mutated '' @ itoa (erBytesMutated res)
               @ '' bytes, max allowed is '' @ itoa (brMaxBytesMutated clamp)))), w4)
      else case err of
        Some e \<Rightarrow> ((Some (res\<lparr>erSuccess := False, erError := err_msg e\<rparr>), Some e), w4)
      | None \<Rightarrow> ((Some (res\<lparr>erSuccess := True\<rparr>), None), w4))"

definition signal_name :: "int \<Rightarrow> string" where
  "signal_name s =
     (if s = 1 then ''hangup'' else if s = 2 then ''interrupt'' else if s = 9 then ''killed''
      else if s = 15 then ''terminated'' else ''signal '' @ itoa s)"

definition run_signal :: "Action \<Rightarrow> BlastRadius \<Rightarrow> world \<Rightarrow> (ExecutionResult option \<times> goerror option) \<times> world" where
  "run_signal action clamp w =
     (if brMaxProcessesSignaled clamp > 0 \<and> brMaxProcessesSignaled clamp < 1
      then ((None, Some (err_blast_radius '': process signaling prohibited by clamp'')), w)
      else
        (let pid = actTargetPID action; (start, w1) = time_Now w in
         case sys_Kill pid 0 w1 of
           (Some e, w2) \<Rightarrow>
             (let (t, w3) = time_Now w2 in
              ((Some (zero_result\<lparr>erExitCode := 1, erDuration := time_Sub t start,
                  erError := ''target PID '' @ itoa pid @ '' is not running: '' @ err_msg e\<rparr>),
                Some (wrapf (''target PID '' @ itoa pid @ '' is not alive: '') e '''')), w3))
         | (None, w2) \<Rightarrow>
             (let (err, w3) = sys_Kill pid (actSignal action) w2; (t, w4) = time_Now w3 in
              case err of
                Some e \<Rightarrow>
                  ((Some (zero_result\<lparr>erExitCode := 1, erDuration := time_Sub t start, erError := err_msg e\<rparr>),
                    Some (wrapf (''failed to send signal '' @ signal_name (actSignal action) @ '' to PID ''
                                 @ itoa pid @ '': '') e '''')), w4)
              | None \<Rightarrow>
                  ((Some (zero_result\<lparr>erExitCode := 0, erDuration := time_Sub t start, erSuccess := True\<rparr>), None), w4))))"

definition action_command :: "Action \<Rightarrow> world \<Rightarrow> command" where
  "action_command action w =
     \<lparr>cmdBinary = actBinary action, cmdArgs = actArgs action, cmdSetpgid = True,
      cmdCredential = (if oUid w = 0 \<and> (actUID action > 0 \<or> actGID action > 0)
                       then Some (actUID action, actGID action) else None)\<rparr>"

definition run_command :: "Action \<Rightarrow> ctx \<Rightarrow> world \<Rightarrow> (ExecutionResult option \<times> goerror option) \<times> world" where
  "run_command action execCtx w =
     (let (start, w1) = time_Now w;
          (out, w2) = cmd_Run (action_command action w1) w1;
          (stop, w3) = time_Now w2;
          res = zero_result\<lparr>erDuration := time_Sub stop start, erStdout := roStdout out, erStderr := roStderr out\<rparr> in
      case roError out of
        None \<Rightarrow> ((Some (res\<lparr>erExitCode := 0, erSuccess := True\<rparr>), None), w3)
      | Some e \<Rightarrow>
          (let (cerr, w4) = ctx_Err execCtx w3 in
           if cerr = Some DeadlineExceeded
           then (let w5 = (case roPid out of None \<Rightarrow> w4 | Some p \<Rightarrow> snd (sys_Kill (- p) 9 w4)) in
                 ((Some (res\<lparr>erExitCode := 124, erError := ''execution timed out''\<rparr>), Some err_timed_out), w5))
           else case e of
             ExitError c \<Rightarrow>
               ((Some (res\<lparr>erExitCode := c, erError := roStderr out\<rparr>),
                 Some (errorf (''action '' @ actName action @ '' exited with code '' @ itoa c @ '': '' @ roStderr out))), w4)
           | SpawnError x \<Rightarrow>
               ((Some (res\<lparr>erExitCode := 1, erError := err_msg x\<rparr>),
                 Some (wrapf (''action '' @ actName action @ '' failed to spawn: '') x '''')), w4)))"

definition Execute ::
    "Executor \<Rightarrow> ctx \<Rightarrow> Action \<Rightarrow> BlastRadius \<Rightarrow> world \<Rightarrow> (ExecutionResult option \<times> goerror option) \<times> world" where
  "Execute e ctx action clamp w =
     (let (now, w0) = time_Now w;
          execCtx = WithTimeout ctx now (effective_timeout e action clamp) in
      case actMutateFn action of
        Some fn \<Rightarrow> run_mutation fn execCtx clamp w0
      | None \<Rightarrow>
          if actTargetPID action > 0 \<and> actSignal action \<noteq> 0 then run_signal action clamp w0
          else if actBinary action \<noteq> '''' then run_command action execCtx w0
          else ((None, Some err_invalid_action), w0))"

section \<open>Outcomes\<close>

lemmas execute_defs = Execute_def run_mutation_def run_signal_def run_command_def Let_def

text \<open>An action counts as done for the engine when there is no error and no failed result.\<close>

definition action_ok :: "ExecutionResult option \<times> goerror option \<Rightarrow> bool" where
  "action_ok r \<longleftrightarrow> snd r = None \<and> (case fst r of None \<Rightarrow> True | Some x \<Rightarrow> erSuccess x)"

lemma execute_verdict_ok:
  assumes "Execute e ctx action clamp w = ((res, None), w')"
  shows "\<exists>r. res = Some r \<and> erSuccess r"
proof (cases "actMutateFn action")
  case (Some fn)
  then show ?thesis
    using assms by (auto simp: Execute_def run_mutation_def Let_def split: prod.splits option.splits if_splits)
next
  case None
  then show ?thesis
    using assms
    by (auto simp: Execute_def run_signal_def run_command_def Let_def split: prod.splits option.splits if_splits run_error.splits)
qed

text \<open>
  Verdict of the executor. A call without error always returns a result, marked successful with
  its exit code unchanged or 0; a call with an error never returns a result marked successful,
  except when an in-process function itself set the mark and overran its deadline or its byte clamp,
  in which case the error says so.
\<close>

theorem execute_verdict:
  assumes "Execute e ctx action clamp w = ((res, err), w')"
  shows "(err = None \<longrightarrow> (\<exists>r. res = Some r \<and> erSuccess r))
    \<and> (\<forall>x r. err = Some x \<and> res = Some r \<and> erSuccess r
          \<longrightarrow> actMutateFn action \<noteq> None \<and> (errors_Is x ErrExecutionTimedOut \<or> errors_Is x ErrBlastRadiusExceeded))"
proof (cases "actMutateFn action")
  case (Some fn)
  then show ?thesis
    using assms by (auto simp: Execute_def run_mutation_def Let_def zero_result_def errors_Is_def err_timed_out_def
        err_blast_radius_def split: prod.splits option.splits if_splits)
next
  case None
  have "\<not> erSuccess zero_result" by (simp add: zero_result_def)
  then show ?thesis
    using assms None
    by (auto simp: Execute_def run_signal_def run_command_def Let_def split: prod.splits option.splits if_splits run_error.splits)
qed

definition demo_action :: Action where
  "demo_action =
     \<lparr>actName = ''restart'', actBinary = '''', actArgs = [], actTimeout = 0, actUID = 0, actGID = 0, actTargetPID = 42,
      actSignal = 15, actMutateFn = None\<rparr>"

definition demo_clamp :: BlastRadius where
  "demo_clamp =
     \<lparr>brMaxExecutionTime = 10 * Second, brMaxBytesMutated = 0, brMaxProcessesSignaled = 1, brMaxFilesModified = 0,
      brAllowedPathPrefixes = []\<rparr>"

theorem execute_verdict_witness:
  "\<exists>res w'. Execute NewExecutor Background demo_action demo_clamp quiet_world = ((res, None), w')
     \<and> (\<exists>r. res = Some r \<and> erSuccess r) \<and> signals w' = [(42, 15)]"
proof -
  obtain res w' where e: "Execute NewExecutor Background demo_action demo_clamp quiet_world = ((res, None), w')"
      "signals w' = [(42, 15)]"
    by (simp add: Execute_def run_signal_def demo_action_def demo_clamp_def quiet_world_def time_Now_def sys_Kill_def
        next_step_def Let_def)
  then show ?thesis using execute_verdict [OF e(1)] by auto
qed


definition demo_mutation :: Action where
  "demo_mutation = demo_action\<lparr>actMutateFn := Some (\<lambda>c w. ((Some (zero_result\<lparr>erBytesMutated := 500\<rparr>), None), w))\<rparr>"


text \<open>
  Clamps that are not enforced. The outcome of an action does not depend on the limits for
  signalled processes and modified files nor on the allowed path prefixes; in particular a limit of
  zero signalled processes does not stop a signal.
\<close>

theorem execute_ignores_clamps:
  "Execute e ctx action (clamp\<lparr>brMaxProcessesSignaled := p, brMaxFilesModified := f, brAllowedPathPrefixes := a\<rparr>) w
   = Execute e ctx action clamp w"
proof -
  let ?c = "clamp\<lparr>brMaxProcessesSignaled := p, brMaxFilesModified := f, brAllowedPathPrefixes := a\<rparr>"
  have none: "(0 < (x :: int) \<and> x < 1) = False" for x by auto
  have sel: "brMaxBytesMutated ?c = brMaxBytesMutated clamp" "brMaxExecutionTime ?c = brMaxExecutionTime clamp" by simp_all
  have "effective_timeout e action ?c = effective_timeout e action clamp"
    by (simp only: effective_timeout_def sel)
  moreover have "run_mutation fn c ?c = run_mutation fn c clamp" for fn c
    by (rule ext) (simp only: run_mutation_def sel)
  moreover have "run_signal action ?c = run_signal action clamp"
    by (rule ext) (simp only: run_signal_def none if_False)
  ultimately show ?thesis by (simp only: Execute_def)
qed

section \<open>What an action keeps\<close>

context world_inv
begin

definition act_keeps :: "Action \<Rightarrow> bool" where
  "act_keeps a \<longleftrightarrow> (\<forall>f c w. actMutateFn a = Some f \<longrightarrow> P w \<longrightarrow> P (snd (f c w)))"

lemma P_run_mutation:
  assumes "\<And>c w. P w \<Longrightarrow> P (snd (fn c w))" "P w"
  shows "P (snd (run_mutation fn c clamp w))"
proof -
  obtain start w1 where a: "time_Now w = (start, w1)" by force
  obtain res0 err w2 where b: "fn c w1 = ((res0, err), w2)" by (metis prod.exhaust)
  obtain stop w3 where d: "time_Now w2 = (stop, w3)" by force
  obtain cerr w4 where e: "ctx_Err c w3 = (cerr, w4)" by force
  have "P w2" using assms P_pairs(2) [OF a] b by (metis snd_conv)
  then have "P w4" using P_pairs(2) [OF d] P_pairs(3) [OF e] by simp
  then show ?thesis by (auto simp: run_mutation_def a b d e Let_def split: option.split)
qed

lemma P_run_signal: "P (snd (run_signal a clamp w)) = P w"
  by (auto simp: run_signal_def Let_def split: prod.splits option.splits dest: P_pairs)

lemma P_run_command: "P (snd (run_command a c w)) = P w"
proof -
  obtain start w1 where s: "time_Now w = (start, w1)" by force
  obtain out w2 where o: "cmd_Run (action_command a w1) w1 = (out, w2)" by force
  obtain stop w3 where t: "time_Now w2 = (stop, w3)" by force
  obtain cerr w4 where e: "ctx_Err c w3 = (cerr, w4)" by force
  have "P w3 = P w" "P w4 = P w" using P_pairs(2) [OF s] P_pairs(16) [OF o] P_pairs(2) [OF t] P_pairs(3) [OF e] by simp_all
  then show ?thesis by (auto simp: run_command_def s o t e Let_def split: option.split run_error.split)
qed

lemma P_Execute:
  assumes "act_keeps a" "P w"
  shows "P (snd (Execute e c a clamp w))"
  using assms P_run_mutation [of _ "next_step w"]
  by (auto simp: Execute_def time_Now_def act_keeps_def P_run_signal P_run_command Let_def split: option.split)

end

end
