(* ===== verification/Verifier.thy ===== *)
theory Verifier
  imports Model
begin

text \<open>
  \<open>internal/verifier/verifier.go\<close>: the ground-truth checks behind pre- and postconditions. The
  free percentage is the exact quotient; the code computes it in double precision.
\<close>

section \<open>Checks\<close>

text \<open>\<open>%.2f\<close>: two decimals, rounded to nearest, ties to even.\<close>

definition fmt_2f :: "rat \<Rightarrow> string" where
  "fmt_2f x =
     (let a = \<bar>x\<bar> * 100; n = \<lfloor>a\<rfloor>; d = a - of_int n;
          m = (if d > 1 / 2 \<or> d = 1 / 2 \<and> odd n then n + 1 else n)
      in (if x < 0 then ''-'' else '''') @ digits (m div 100) @ ''.'' @ pad_zero 2 (digits (m mod 100)))"

definition CheckDiskFree :: "string \<Rightarrow> rat \<Rightarrow> world \<Rightarrow> (bool \<times> rat \<times> goerror option) \<times> world" where
  "CheckDiskFree path minFreePct w =
     (if path = '''' then ((False, 0, Some (errorf ''empty path provided for disk check'')), w)
      else case sys_Statfs path w of
        (Inl e, w1) \<Rightarrow> ((False, 0, Some (wrapf (''statfs failed on '' @ path @ '': '') e '''')), w1)
      | (Inr (bavail, blocks), w1) \<Rightarrow>
          if blocks = 0
          then ((False, 0, Some (errorf (''filesystem at '' @ path @ '' reports 0 total blocks''))), w1)
          else (let freePct = of_int bavail / of_int blocks * 100 in ((freePct \<ge> minFreePct, freePct, None), w1)))"

definition CheckProcessAlive :: "int \<Rightarrow> world \<Rightarrow> bool \<times> world" where
  "CheckProcessAlive pid w =
     (if pid \<le> 0 then (False, w)
      else case sys_Kill pid 0 w of
        (None, w1) \<Rightarrow> (True, w1)
      | (Some e, w1) \<Rightarrow> (errors_Is e EPERM, w1))"

definition CheckHTTPHealth :: "string \<Rightarrow> duration \<Rightarrow> int \<Rightarrow> world \<Rightarrow> (bool \<times> goerror option) \<times> world" where
  "CheckHTTPHealth url timeout expectedStatus w =
     (if url = '''' then ((False, Some (errorf ''empty URL for HTTP health check'')), w)
      else
        (let t = (if timeout \<le> 0 then 2 * Second else timeout);
             expected = (if expectedStatus \<le> 0 then 200 else expectedStatus) in
         case http_Get url t w of
           (Inl e, w1) \<Rightarrow> ((False, Some (wrapf (''HTTP GET request failed for '' @ url @ '': '') e '''')), w1)
         | (Inr status, w1) \<Rightarrow>
             if status \<noteq> expected
             then ((False, Some (errorf (''HTTP check failed: expected status '' @ itoa expected @ '', got '' @ itoa status))), w1)
             else ((True, None), w1)))"

definition CheckFileExists :: "string \<Rightarrow> world \<Rightarrow> bool \<times> world" where
  "CheckFileExists path w =
     (if path = '''' then (False, w)
      else case os_Stat path w of (Inl _, w1) \<Rightarrow> (False, w1) | (Inr _, w1) \<Rightarrow> (True, w1))"

section \<open>Conditions\<close>

definition cond_string :: "ConditionType \<Rightarrow> string" where
  "cond_string t =
     (case t of
        ConditionDiskFree \<Rightarrow> ''disk_free_pct'' | ConditionProcessAlive \<Rightarrow> ''process_alive''
      | ConditionHTTPHealth \<Rightarrow> ''http_health'' | ConditionFileExists \<Rightarrow> ''file_exists''
      | ConditionCustom \<Rightarrow> ''custom'' | ConditionOther s \<Rightarrow> s)"

definition VerifyPrecondition :: "ctx \<Rightarrow> Precondition \<Rightarrow> world \<Rightarrow> (bool \<times> goerror option) \<times> world" where
  "VerifyPrecondition ctx pre w =
     (case preCheckFn pre of
        Some fn \<Rightarrow> fn ctx w
      | None \<Rightarrow>
          (case preType pre of
             ConditionDiskFree \<Rightarrow>
               (case CheckDiskFree (preTarget pre) (preMinFreePct pre) w of
                  ((passed, freePct, err), w1) \<Rightarrow>
                    (case err of
                       Some e \<Rightarrow> ((False, Some e), w1)
                     | None \<Rightarrow>
                         if passed then ((True, None), w1)
                         else ((False, Some (errorf (''disk free space on '' @ preTarget pre @ '' is '' @ fmt_2f freePct
                                @ ''%, required >= '' @ fmt_2f (preMinFreePct pre) @ ''%''))), w1)))
           | ConditionProcessAlive \<Rightarrow>
               (case CheckProcessAlive (prePID pre) w of
                  (alive, w1) \<Rightarrow>
                    if alive then ((True, None), w1)
                    else ((False, Some (errorf (''process with PID '' @ itoa (prePID pre) @ '' is not running''))), w1))
           | ConditionHTTPHealth \<Rightarrow> CheckHTTPHealth (preTarget pre) (preTimeout pre) (preExpectedStatus pre) w
           | ConditionFileExists \<Rightarrow>
               (case CheckFileExists (preTarget pre) w of
                  (exists, w1) \<Rightarrow>
                    if exists then ((True, None), w1)
                    else ((False, Some (errorf (''target file does not exist: '' @ preTarget pre))), w1))
           | ConditionCustom \<Rightarrow> ((False, Some (errorf ''custom condition requires CheckFn'')), w)
           | ConditionOther t \<Rightarrow> ((False, Some (errorf (''unsupported precondition type: '' @ t))), w)))"

definition VerifyPostcondition :: "ctx \<Rightarrow> Postcondition \<Rightarrow> world \<Rightarrow> (bool \<times> goerror option) \<times> world" where
  "VerifyPostcondition ctx post w =
     (case postCheckFn post of
        Some fn \<Rightarrow> fn ctx w
      | None \<Rightarrow>
          (case postType post of
             ConditionDiskFree \<Rightarrow>
               (case CheckDiskFree (postTarget post) (postMinFreePct post) w of
                  ((passed, freePct, err), w1) \<Rightarrow>
                    (case err of
                       Some e \<Rightarrow> ((False, Some e), w1)
                     | None \<Rightarrow>
                         if passed then ((True, None), w1)
                         else ((False, Some (errorf (''postcondition disk free space on '' @ postTarget post @ '' is ''
                                @ fmt_2f freePct @ ''%, required >= '' @ fmt_2f (postMinFreePct post) @ ''%''))), w1)))
           | ConditionProcessAlive \<Rightarrow>
               (case CheckProcessAlive (postPID post) w of
                  (alive, w1) \<Rightarrow>
                    if alive then ((True, None), w1)
                    else ((False, Some (errorf (''postcondition process with PID '' @ itoa (postPID post)
                             @ '' is not running''))), w1))
           | ConditionHTTPHealth \<Rightarrow> CheckHTTPHealth (postTarget post) (postTimeout post) (postExpectedStatus post) w
           | ConditionFileExists \<Rightarrow>
               (case CheckFileExists (postTarget post) w of
                  (exists, w1) \<Rightarrow>
                    if exists then ((True, None), w1)
                    else ((False, Some (errorf (''postcondition target file does not exist: '' @ postTarget post))), w1))
           | ConditionCustom \<Rightarrow> ((False, Some (errorf ''custom postcondition requires CheckFn'')), w)
           | ConditionOther t \<Rightarrow> ((False, Some (errorf (''unsupported postcondition type: '' @ t))), w)))"

section \<open>Ground truth\<close>

text \<open>
  The condition a precondition without a function stands for, read off the operating system as it
  is when the check is made.
\<close>

definition ground_truth :: "ConditionType \<Rightarrow> string \<Rightarrow> rat \<Rightarrow> int \<Rightarrow> duration \<Rightarrow> int \<Rightarrow> world \<Rightarrow> bool" where
  "ground_truth ty target pct status timeout pid w =
     (let n = steps w in
      case ty of
        ConditionDiskFree \<Rightarrow>
          target \<noteq> '''' \<and> (\<exists>a b. oStatfs w n target = Inr (a, b) \<and> b \<noteq> 0 \<and> pct \<le> 100 * of_int a / of_int b)
      | ConditionProcessAlive \<Rightarrow>
          0 < pid \<and> (oKill w n pid 0 = None \<or> (\<exists>e. oKill w n pid 0 = Some e \<and> EPERM \<in> set (err_is e)))
      | ConditionHTTPHealth \<Rightarrow>
          target \<noteq> ''''
          \<and> oHttp w n target (if timeout \<le> 0 then 2 * Second else timeout) = Inr (if status \<le> 0 then 200 else status)
      | ConditionFileExists \<Rightarrow> target \<noteq> '''' \<and> oFault w n = None \<and> lookup_file w target \<noteq> None
      | _ \<Rightarrow> False)"

lemmas check_defs = CheckDiskFree_def CheckProcessAlive_def CheckHTTPHealth_def CheckFileExists_def sys_Statfs_def
  sys_Kill_def http_Get_def os_Stat_def sys_def errors_Is_def Let_def


definition demo_pre :: Precondition where
  "demo_pre =
     \<lparr>preName = ''space'', preType = ConditionDiskFree, preTarget = ''/var'', preMinFreePct = 20, preExpectedStatus = 0,
      preTimeout = 0, prePID = 0, preCheckFn = None\<rparr>"

definition demo_post :: Postcondition where
  "demo_post =
     \<lparr>postName = ''alive'', postType = ConditionProcessAlive, postTarget = '''', postMinFreePct = 0, postExpectedStatus = 0,
      postTimeout = 0, postPID = 42, postCheckFn = None\<rparr>"


section \<open>What the checks keep\<close>

context world_inv
begin

definition pre_keeps :: "Precondition \<Rightarrow> bool" where
  "pre_keeps pre \<longleftrightarrow> (\<forall>f c w. preCheckFn pre = Some f \<longrightarrow> P w \<longrightarrow> P (snd (f c w)))"

definition post_keeps :: "Postcondition \<Rightarrow> bool" where
  "post_keeps post \<longleftrightarrow> (\<forall>f c w. postCheckFn post = Some f \<longrightarrow> P w \<longrightarrow> P (snd (f c w)))"

lemma P_checks:
  "P (snd (CheckDiskFree p m w)) = P w" "P (snd (CheckProcessAlive pid w)) = P w"
  "P (snd (CheckHTTPHealth u t s w)) = P w" "P (snd (CheckFileExists p w)) = P w"
  by (auto simp: CheckDiskFree_def CheckProcessAlive_def CheckHTTPHealth_def CheckFileExists_def Let_def
      split: prod.splits sum.splits option.splits dest: P_pairs)

lemma P_check_pairs:
  "CheckDiskFree p m w = (a, w') \<Longrightarrow> P w' = P w" "CheckProcessAlive pid w = (b, w') \<Longrightarrow> P w' = P w"
  "CheckHTTPHealth u t s w = (c, w') \<Longrightarrow> P w' = P w" "CheckFileExists p w = (b, w') \<Longrightarrow> P w' = P w"
  using P_checks by (metis snd_conv)+

lemma P_VerifyPrecondition: "pre_keeps pre \<Longrightarrow> P w \<Longrightarrow> P (snd (VerifyPrecondition c pre w))"
  by (auto simp: VerifyPrecondition_def pre_keeps_def P_checks split: option.splits ConditionType.splits prod.splits
      dest: P_check_pairs)

lemma P_VerifyPostcondition: "post_keeps post \<Longrightarrow> P w \<Longrightarrow> P (snd (VerifyPostcondition c post w))"
  by (auto simp: VerifyPostcondition_def post_keeps_def P_checks split: option.splits ConditionType.splits prod.splits
      dest: P_check_pairs)

end

end
