(* ===== verification/Engine.thy ===== *)
theory Engine
  imports Damping Audit_Ledger Lock Rollback Executor Verifier
begin

text \<open>
  \<open>internal/engine/engine.go\<close>: the closed control loop that turns an alert into a verified
  remediation. A remediation works on the engine (its ledger and damping controller), the operating
  system and its own state machine; these three are the fields of a \<open>run\<close>. Go ranges over the
  map of runbooks in an unspecified order: \<open>ord\<close> is the order of one call.
\<close>

section \<open>Engine and results\<close>

record EngineConfig =
  cfgLockDir :: string
  cfgAuditLogPath :: string
  cfgJournalDir :: string
  cfgHostUUID :: string
  cfgDampingStatePath :: string

record RemediationResult =
  rrTxID :: string
  rrRunbookID :: string
  rrResourceID :: string
  rrFinalState :: ExecutionState
  rrSuccess :: bool
  rrRolledBack :: bool
  rrExecutionRes :: "ExecutionResult option"
  rrDuration :: duration
  rrTransitions :: "StateTransition list"
  rrError :: string

definition zero_rr :: RemediationResult where
  "zero_rr =
     \<lparr>rrTxID = '''', rrRunbookID = '''', rrResourceID = '''', rrFinalState = StateOther '''', rrSuccess = False,
      rrRolledBack = False, rrExecutionRes = None, rrDuration = 0, rrTransitions = [], rrError = ''''\<rparr>"

record Engine =
  engCfg :: EngineConfig
  engRunbooks :: "(string \<times> Runbook) list"
  engLockCoord :: Coordinator
  engLedger :: Ledger
  engJournal :: Journal
  engExecutor :: Executor
  engDamping :: Controller

text \<open>
  \<open>NewEngine\<close>: the subsystems in the order of the code. The outcome of opening the ledger file
  with its content, and the damping state file, are arguments.
\<close>

definition NewEngine ::
    "open_io \<Rightarrow> bytes \<Rightarrow> state_doc option \<Rightarrow> bool \<Rightarrow> EngineConfig \<Rightarrow> world \<Rightarrow> (goerror + Engine) \<times> world" where
  "NewEngine io content dfile readable cfg w =
     (case NewCoordinator (cfgLockDir cfg) w of
        (Inl e, w1) \<Rightarrow> (Inl (wrapf ''failed to initialize lock coordinator: '' e ''''), w1)
      | (Inr coord, w1) \<Rightarrow>
          (case NewLedger io (cfgAuditLogPath cfg) content (cfgHostUUID cfg) of
             Inl e \<Rightarrow> (Inl (wrapf ''failed to initialize audit ledger: '' e ''''), w1)
           | Inr ledger \<Rightarrow>
               (case NewJournal (cfgJournalDir cfg) w1 of
                  (Inl e, w2) \<Rightarrow> (Inl (wrapf ''failed to initialize WAL journal: '' e ''''), w2)
                | (Inr journal, w2) \<Rightarrow>
                    (case NewController (cfgDampingStatePath cfg) dfile readable of
                       Inl e \<Rightarrow> (Inl (wrapf ''failed to initialize damping controller: '' e ''''), w2)
                     | Inr damping \<Rightarrow>
                         (Inr \<lparr>engCfg = cfg, engRunbooks = [], engLockCoord = coord, engLedger = ledger,
                               engJournal = journal, engExecutor = NewExecutor, engDamping = damping\<rparr>, w2)))))"

definition RegisterRunbook :: "Runbook option \<Rightarrow> Engine \<Rightarrow> goerror option \<times> Engine" where
  "RegisterRunbook rb e =
     (case rb of
        None \<Rightarrow> (Some (errorf ''cannot register nil or un-identified runbook''), e)
      | Some r \<Rightarrow>
          if rbID r = '''' then (Some (errorf ''cannot register nil or un-identified runbook''), e)
          else (None, e\<lparr>engRunbooks := AList.update (rbID r) r (engRunbooks e)\<rparr>))"

definition canonical_id :: "string \<Rightarrow> string" where
  "canonical_id ident =
     (if ident \<in> {''disk_cleanup_var_log'', ''disk_log_drain'', ''RBK-DISK-001''} then ''RBK-DISK-001''
      else if ident \<in> {''service_deadlock_restart'', ''service_hang_recovery'', ''RBK-PROC-001''} then ''RBK-PROC-001''
      else if ident \<in> {''tls_cert_renew_internal'', ''tls_cert_rotation'', ''tls_cert_reload'', ''RBK-TLS-001''} then ''RBK-TLS-001''
      else if ident \<in> {''config_rollback'', ''RBK-CFG-001''} then ''RBK-CFG-001''
      else '''')"

type_synonym order = "Runbook list \<Rightarrow> Runbook list"

definition lookup_runbook :: "order \<Rightarrow> Engine \<Rightarrow> string \<Rightarrow> Runbook option" where
  "lookup_runbook ord e ident =
     (case map_of (engRunbooks e) ident of
        Some rb \<Rightarrow> Some rb
      | None \<Rightarrow> List.find (\<lambda>rb. rbName rb = ident \<or> rbID rb = ident) (ord (map snd (engRunbooks e))))"

definition err_runbook_not_found :: "string \<Rightarrow> goerror" where
  "err_runbook_not_found s = \<lparr>err_is = [ErrRunbookNotFound], err_msg = ''matching runbook not found'' @ s\<rparr>"

definition GetRunbook :: "order \<Rightarrow> Engine \<Rightarrow> string \<Rightarrow> goerror + Runbook" where
  "GetRunbook ord e ident =
     (case lookup_runbook ord e ident of
        Some rb \<Rightarrow> Inr rb
      | None \<Rightarrow>
          (case (if canonical_id ident = '''' then None else lookup_runbook ord e (canonical_id ident)) of
             Some rb \<Rightarrow> Inr rb
           | None \<Rightarrow> Inl (err_runbook_not_found ('': '' @ ident))))"

definition ListRunbooks :: "order \<Rightarrow> Engine \<Rightarrow> Runbook list" where
  "ListRunbooks ord e = ord (map snd (engRunbooks e))"

definition engine_Close :: "Engine \<Rightarrow> Engine" where
  "engine_Close e = e\<lparr>engLedger := ledger_Close (engLedger e)\<rparr>"

definition IsHealthy :: "Engine \<Rightarrow> world \<Rightarrow> (bool \<times> string) \<times> world" where
  "IsHealthy e w =
     (let dir = cfgLockDir (engCfg e) in
      if dir = '''' then ((True, ''healthy''), w)
      else case os_MkdirAll dir w of
        (Some x, w1) \<Rightarrow> ((False, ''lock directory '' @ dir @ '' cannot be created: '' @ err_msg x), w1)
      | (None, w1) \<Rightarrow>
          (let (t, w2) = time_Now w1; testFile = filepath_Join [dir, ''.healthcheck-'' @ itoa (UnixNano t)] in
           case os_OpenTrunc testFile w2 of
             (Some x, w3) \<Rightarrow> ((False, ''lock directory '' @ dir @ '' is not writable: '' @ err_msg x), w3)
           | (None, w3) \<Rightarrow>
               (case file_Write testFile ''healthcheck'' w3 of
                  (Some x, w4) \<Rightarrow> ((False, ''lock directory '' @ dir @ '' is not writable: '' @ err_msg x), w4)
                | (None, w4) \<Rightarrow> ((True, ''healthy''), snd (os_Remove testFile w4)))))"

section \<open>Steps of a run\<close>

record run =
  runEngine :: Engine
  runWorld :: world
  runFsm :: FSM

text \<open>\<open>_ = fsm.Transition(to, reason)\<close>\<close>

definition run_transition :: "ExecutionState \<Rightarrow> string \<Rightarrow> run \<Rightarrow> run" where
  "run_transition to reason r =
     (let (now, w) = time_Now (runWorld r) in r\<lparr>runWorld := w, runFsm := snd (Transition now (runFsm r) to reason)\<rparr>)"

definition next_append_io :: "world \<Rightarrow> append_io \<times> world" where
  "next_append_io w =
     (case sys w of
        (Some x, w1) \<Rightarrow> (AppendWriteFails (oWritten w (steps w)) x, w1)
      | (None, w1) \<Rightarrow> (case sys w1 of (Some x, w2) \<Rightarrow> (AppendSyncFails x, w2) | (None, w2) \<Rightarrow> (AppendOk, w2)))"

text \<open>\<open>_, _ = e.ledger.Append(...)\<close>\<close>

definition run_append :: "string \<Rightarrow> string \<Rightarrow> string \<Rightarrow> ExecutionState \<Rightarrow> run \<Rightarrow> run" where
  "run_append res rb digest st r =
     (let (now, w1) = time_Now (runWorld r); (io, w2) = next_append_io w1; e = runEngine r in
      r\<lparr>runWorld := w2, runEngine := e\<lparr>engLedger := snd (Append io now (engLedger e) res rb st digest)\<rparr>\<rparr>)"

definition mark :: "string \<Rightarrow> string \<Rightarrow> string \<Rightarrow> ExecutionState \<Rightarrow> string \<Rightarrow> run \<Rightarrow> run" where
  "mark res rb digest st reason r = run_append res rb digest st (run_transition st reason r)"

definition next_save_io :: "world \<Rightarrow> save_io \<times> world" where
  "next_save_io w =
     (case sys w of
        (Some _, w1) \<Rightarrow> (MkdirFails, w1)
      | (None, w1) \<Rightarrow>
          (case sys w1 of
             (Some _, w2) \<Rightarrow> (WriteFails, w2)
           | (None, w2) \<Rightarrow> (case sys w2 of (Some _, w3) \<Rightarrow> (RenameFails, w3) | (None, w3) \<Rightarrow> (SaveOk, w3))))"

definition run_can_execute :: "string \<Rightarrow> run \<Rightarrow> (bool \<times> string) \<times> run" where
  "run_can_execute target r =
     (let (now, w1) = time_Now (runWorld r); (tnow, w2) = time_Now w1; (io1, w3) = next_save_io w2;
          (io2, w4) = next_save_io w3; e = runEngine r;
          (ans, c) = CanExecute now tnow io1 io2 (engDamping e) target in
      (ans, r\<lparr>runWorld := w4, runEngine := e\<lparr>engDamping := c\<rparr>\<rparr>))"

definition run_record_execution :: "string \<Rightarrow> run \<Rightarrow> run" where
  "run_record_execution target r =
     (let (now, w1) = time_Now (runWorld r); (io, w2) = next_save_io w1; e = runEngine r in
      r\<lparr>runWorld := w2, runEngine := e\<lparr>engDamping := RecordExecution now io (engDamping e) target\<rparr>\<rparr>)"

type_synonym outcome = "(RemediationResult option \<times> goerror option) \<times> Engine \<times> world"

text \<open>A return: the result gets the elapsed time and the history of the machine.\<close>

definition conclude :: "time \<Rightarrow> run \<Rightarrow> RemediationResult \<Rightarrow> goerror option \<Rightarrow> outcome" where
  "conclude start r res err =
     (let (now, w) = time_Now (runWorld r) in
      ((Some (res\<lparr>rrDuration := time_Sub now start, rrTransitions := history (runFsm r)\<rparr>), err), runEngine r, w))"

section \<open>The loops\<close>

fun check_preconditions :: "ctx \<Rightarrow> Precondition list \<Rightarrow> world \<Rightarrow> string option \<times> world" where
  "check_preconditions ctx [] w = (None, w)"
| "check_preconditions ctx (pre # pres) w =
     (case VerifyPrecondition ctx pre w of
        ((ok, err), w1) \<Rightarrow>
          if \<not> ok \<or> err \<noteq> None
          then (Some (''precondition '' @ fmt_q (preName pre) @ '' failed: '' @ fmt_err err), w1)
          else check_preconditions ctx pres w1)"

fun run_actions ::
    "Executor \<Rightarrow> ctx \<Rightarrow> BlastRadius \<Rightarrow> Action list \<Rightarrow> ExecutionResult option \<Rightarrow> world
     \<Rightarrow> (ExecutionResult option \<times> string option) \<times> world" where
  "run_actions ex ctx clamp [] lastRes w = ((lastRes, None), w)"
| "run_actions ex ctx clamp (act # acts) lastRes w =
     (case Execute ex ctx act clamp w of
        ((res, err), w1) \<Rightarrow>
          (case err of
             Some e \<Rightarrow> ((res, Some (''action '' @ actName act @ '' error: '' @ err_msg e)), w1)
           | None \<Rightarrow>
               (case res of
                  Some x \<Rightarrow>
                    if \<not> erSuccess x
                    then ((res, Some (''action '' @ actName act @ '' failed: '' @ erError x)), w1)
                    else run_actions ex ctx clamp acts res w1
                | None \<Rightarrow> run_actions ex ctx clamp acts res w1)))"

fun check_postconditions :: "ctx \<Rightarrow> Postcondition list \<Rightarrow> world \<Rightarrow> string option \<times> world" where
  "check_postconditions ctx [] w = (None, w)"
| "check_postconditions ctx (post # posts) w =
     (case VerifyPostcondition ctx post w of
        ((ok, err), w1) \<Rightarrow>
          if \<not> ok \<or> err \<noteq> None
          then (Some (''postcondition '' @ fmt_q (postName post) @ '' unmet: '' @ fmt_err err), w1)
          else check_postconditions ctx posts w1)"

section \<open>The control loop\<close>

definition err_precondition :: "string \<Rightarrow> goerror" where
  "err_precondition s = \<lparr>err_is = [ErrPreconditionFail], err_msg = ''precondition invariant check failed: '' @ s\<rparr>"

definition err_postcondition :: "string \<Rightarrow> goerror" where
  "err_postcondition s = \<lparr>err_is = [ErrPostconditionFail], err_msg = ''postcondition invariant check failed: '' @ s\<rparr>"

definition err_lock_failed :: goerror where
  "err_lock_failed = \<lparr>err_is = [ErrLockFailed], err_msg = ''failed to acquire resource advisory lock''\<rparr>"

text \<open>The data one remediation carries along.\<close>

record job =
  jobStart :: time
  jobCtx :: ctx
  jobAlert :: Alert
  jobRunbook :: Runbook
  jobTarget :: string
  jobTxID :: string

definition job_mark :: "job \<Rightarrow> string \<Rightarrow> ExecutionState \<Rightarrow> string \<Rightarrow> run \<Rightarrow> run" where
  "job_mark j digest st reason r = mark (alResourceID (jobAlert j)) (rbID (jobRunbook j)) digest st reason r"

definition job_result :: "job \<Rightarrow> ExecutionState \<Rightarrow> string \<Rightarrow> RemediationResult" where
  "job_result j st msg =
     zero_rr\<lparr>rrRunbookID := rbID (jobRunbook j), rrResourceID := alResourceID (jobAlert j), rrFinalState := st, rrError := msg\<rparr>"

definition base_digest :: "Alert \<Rightarrow> string" where
  "base_digest a = ComputePayloadDigest (marshal_alert a) '''' ''''"

definition exec_digest :: "Alert \<Rightarrow> ExecutionResult option \<Rightarrow> string" where
  "exec_digest a res =
     (case res of
        None \<Rightarrow> ComputePayloadDigest (marshal_alert a) '''' ''''
      | Some x \<Rightarrow> ComputePayloadDigest (marshal_alert a) (erStdout x) (erStderr x))"

text \<open>Step 9, happy path.\<close>

definition commit :: "job \<Rightarrow> ExecutionResult option \<Rightarrow> run \<Rightarrow> outcome" where
  "commit j res r =
     (let d = exec_digest (jobAlert j) res;
          r1 = job_mark j d StatePostcheckPassed ''ground-truth postconditions verified'' r;
          r2 = run_transition StateCommitted ''remediation successfully verified and committed'' r1;
          r3 = r2\<lparr>runWorld := snd (UpdateState (engJournal (runEngine r2)) (jobTxID j) WalCommitted (runWorld r2))\<rparr>;
          r4 = run_append (alResourceID (jobAlert j)) (rbID (jobRunbook j)) d StateCommitted r3;
          r5 = run_record_execution (jobTarget j) r4 in
      conclude (jobStart j) r5
        ((job_result j StateCommitted '''')\<lparr>rrTxID := jobTxID j, rrSuccess := True, rrExecutionRes := res\<rparr>) None)"

text \<open>Step 9, fault path: rollback and escalation.\<close>

definition roll_back :: "job \<Rightarrow> WALRecord \<Rightarrow> ExecutionResult option \<Rightarrow> string \<Rightarrow> run \<Rightarrow> outcome" where
  "roll_back j walRec res failureReason r =
     (let d = exec_digest (jobAlert j) res;
          r1 = job_mark j d StatePostcheckFailed failureReason r;
          r2 = job_mark j d StateRollingBack ''initiating compensating rollback actions'' r1 in
      case ExecuteRollback (Some (engJournal (runEngine r2))) (jobCtx j) (Some walRec) (runWorld r2) of
        (Some e, w) \<Rightarrow>
          (let msg = ''automated rollback failed: '' @ err_msg e @ '' (initial fault: '' @ failureReason @ '')'';
               r3 = job_mark j d StateEscalated msg (r2\<lparr>runWorld := w\<rparr>) in
           conclude (jobStart j) r3
             ((job_result j StateEscalated msg)\<lparr>rrTxID := jobTxID j, rrExecutionRes := res\<rparr>)
             (Some (wrapf ''remediation failed and rollback faulted: '' e '''')))
      | (None, w) \<Rightarrow>
          (let r3 = job_mark j d StateRolledBack ''compensating actions executed cleanly'' (r2\<lparr>runWorld := w\<rparr>);
               r4 = job_mark j d StateEscalated ''remediation rolled back; escalating to operator'' r3 in
           conclude (jobStart j) r4
             ((job_result j StateRolledBack failureReason)
                \<lparr>rrTxID := jobTxID j, rrRolledBack := True, rrExecutionRes := res\<rparr>)
             (Some (err_postcondition failureReason))))"

text \<open>Steps 7 and 8: actions and postconditions.\<close>

definition execute_plan :: "job \<Rightarrow> WALRecord \<Rightarrow> run \<Rightarrow> outcome" where
  "execute_plan j walRec r =
     (let rb = jobRunbook j;
          r1 = job_mark j (base_digest (jobAlert j)) StateExecuting ''executing mutation actions'' r;
          ((res, failed), w1) = run_actions (engExecutor (runEngine r1)) (jobCtx j) (rbBlastRadius rb) (rbActions rb) None (runWorld r1) in
      case failed of
        Some reason \<Rightarrow> roll_back j walRec res reason (r1\<lparr>runWorld := w1\<rparr>)
      | None \<Rightarrow>
          (case check_postconditions (jobCtx j) (rbPostconditions rb) w1 of
             (Some reason, w2) \<Rightarrow> roll_back j walRec res reason (r1\<lparr>runWorld := w2\<rparr>)
           | (None, w2) \<Rightarrow> commit j res (r1\<lparr>runWorld := w2\<rparr>)))"

text \<open>Step 6: the write-ahead log.\<close>

definition stage_plan :: "job \<Rightarrow> run \<Rightarrow> outcome" where
  "stage_plan j0 r =
     (let rb = jobRunbook j0; a = jobAlert j0; (t, w1) = time_Now (runWorld r);
          txID = rbID rb @ ''-'' @ alID a @ ''-'' @ itoa (UnixNano t); j = j0\<lparr>jobTxID := txID\<rparr> in
      case Stage (engJournal (runEngine r)) txID (rbID rb) (alResourceID a) (rbRollbackSteps rb) w1 of
        (Inl err, w2) \<Rightarrow>
          (let msg = ''failed to stage WAL record: '' @ err_msg err;
               r1 = job_mark j (base_digest a) StateEscalated msg (r\<lparr>runWorld := w2\<rparr>) in
           conclude (jobStart j) r1 ((job_result j StateEscalated msg)\<lparr>rrTxID := txID\<rparr>) (Some err))
      | (Inr walRec, w2) \<Rightarrow> execute_plan j walRec (r\<lparr>runWorld := w2\<rparr>))"

text \<open>A failed gate: PRECHECK_FAILED and ESCALATED are recorded, the result says which.\<close>

definition gate_failed :: "job \<Rightarrow> string \<Rightarrow> string \<Rightarrow> run \<Rightarrow> run" where
  "gate_failed j reason escalation r =
     (let d = base_digest (jobAlert j) in
      job_mark j d StateEscalated escalation (job_mark j d StatePrecheckFailed reason r))"

text \<open>Steps 4 and 5, under the resource lock: damping gate and preconditions.\<close>

definition remediate_locked :: "job \<Rightarrow> run \<Rightarrow> outcome" where
  "remediate_locked j r =
     (let ((canExec, dampReason), r1) = run_can_execute (jobTarget j) r in
      if \<not> canExec
      then (let reason = ''FLAP_DAMPING_BREACH: '' @ dampReason in
            conclude (jobStart j) (gate_failed j reason ''flap damping breach; fail-closed'' r1)
              (job_result j StatePrecheckFailed reason) (Some (err_precondition reason)))
      else case check_preconditions (jobCtx j) (rbPreconditions (jobRunbook j)) (runWorld r1) of
        (Some msg, w2) \<Rightarrow>
          conclude (jobStart j) (gate_failed j msg ''precheck failed; fail-closed'' (r1\<lparr>runWorld := w2\<rparr>))
            (job_result j StatePrecheckFailed msg) (Some (err_precondition msg))
      | (None, w2) \<Rightarrow>
          stage_plan j (job_mark j (base_digest (jobAlert j)) StatePrecheckPassed ''all preconditions verified''
            (r1\<lparr>runWorld := w2\<rparr>)))"

text \<open>Step 3: the lock, released by the deferred \<open>Unlock\<close> on every return after it was taken.\<close>

definition remediate_matched :: "job \<Rightarrow> run \<Rightarrow> outcome" where
  "remediate_matched j r0 =
     (let a = jobAlert j; res = alResourceID a;
          r = job_mark j (base_digest a) StateEvaluating (''matched runbook '' @ rbID (jobRunbook j)) r0 in
      case TryLock (engLockCoord (runEngine r)) res (runWorld r) of
        (Inl err, w1) \<Rightarrow>
          (let reason = ''resource lock collision on '' @ res @ '': '' @ err_msg err in
           conclude (jobStart j) (gate_failed j reason ''resource locked; escalation required'' (r\<lparr>runWorld := w1\<rparr>))
             (job_result j StateEscalated reason) (Some err_lock_failed))
      | (Inr l, w1) \<Rightarrow>
          (let (out, e', w2) = remediate_locked j (r\<lparr>runWorld := w1\<rparr>) in (out, e', snd (snd (Unlock l w2)))))"

text \<open>Step 2: resolution of the runbook.\<close>

definition alert_label :: "Alert \<Rightarrow> string \<Rightarrow> string" where
  "alert_label a k =
     (case alLabels a of None \<Rightarrow> '''' | Some m \<Rightarrow> (case map_of m k of None \<Rightarrow> '''' | Some v \<Rightarrow> v))"

definition match_runbook :: "order \<Rightarrow> Engine \<Rightarrow> Alert \<Rightarrow> Runbook option" where
  "match_runbook ord e a =
     (if alert_label a ''runbook_id'' \<noteq> ''''
      then (case GetRunbook ord e (alert_label a ''runbook_id'') of Inl _ \<Rightarrow> None | Inr rb \<Rightarrow> Some rb)
      else List.find (\<lambda>rb. rbTargetResourceID rb = alResourceID a) (ord (map snd (engRunbooks e))))"

definition remediate_alert :: "order \<Rightarrow> ctx \<Rightarrow> time \<Rightarrow> Alert \<Rightarrow> run \<Rightarrow> outcome" where
  "remediate_alert ord ctx start a r0 =
     (let res = alResourceID a; d = base_digest a; r = run_append res '''' d StateDetected r0 in
      case match_runbook ord (runEngine r) a of
        None \<Rightarrow>
          conclude start (mark res '''' d StateEscalated (''no runbook matched for resource '' @ res) r)
            (zero_rr\<lparr>rrResourceID := res, rrFinalState := StateEscalated, rrError := ''no matching runbook found''\<rparr>)
            (Some (err_runbook_not_found ''''))
      | Some rb \<Rightarrow>
          (let target = (if TargetResource (Some rb) = '''' then res else TargetResource (Some rb)) in
           remediate_matched
             \<lparr>jobStart = start, jobCtx = ctx, jobAlert = a, jobRunbook = rb, jobTarget = target, jobTxID = ''''\<rparr> r))"

definition Remediate :: "order \<Rightarrow> ctx \<Rightarrow> Alert option \<Rightarrow> Engine \<Rightarrow> world \<Rightarrow> outcome" where
  "Remediate ord ctx0 alert e w =
     (let (start, w0) = time_Now w; (now, w1) = time_Now w0;
          ctx = (case alert of
                   None \<Rightarrow> ctx0
                 | Some a \<Rightarrow> if alResourceID a \<noteq> '''' then WithTarget ctx0 (alResourceID a) else ctx0) in
      case NewFSM now StateDetected of
        Inl err \<Rightarrow> ((None, Some (wrapf ''failed to initialize FSM: '' err '''')), e, w1)
      | Inr m \<Rightarrow>
          (let r = \<lparr>runEngine = e, runWorld = w1, runFsm = m\<rparr>;
               malformed = conclude start (run_transition StateEscalated ''malformed or empty alert'' r)
                 (zero_rr\<lparr>rrFinalState := StateEscalated, rrError := ''malformed alert payload''\<rparr>)
                 (Some (errorf ''malformed or empty alert'')) in
           case alert of
             None \<Rightarrow> malformed
           | Some a \<Rightarrow>
               if alID a = '''' \<or> alResourceID a = '''' then malformed
               else remediate_alert ord ctx start a r))"

definition ProcessAlert :: "order \<Rightarrow> Alert option \<Rightarrow> Engine \<Rightarrow> world \<Rightarrow> outcome" where
  "ProcessAlert ord alert e w = Remediate ord Background alert e w"

definition RunDirect :: "order \<Rightarrow> ctx \<Rightarrow> string \<Rightarrow> string \<Rightarrow> Engine \<Rightarrow> world \<Rightarrow> outcome" where
  "RunDirect ord ctx runbookID resourceID e w =
     (case GetRunbook ord e runbookID of
        Inl err \<Rightarrow> ((None, Some err), e, w)
      | Inr rb \<Rightarrow>
          (let (t1, w1) = time_Now w; (t2, w2) = time_Now w1 in
           Remediate ord ctx
             (Some \<lparr>alID = ''manual-'' @ itoa (UnixNano t1), alFingerprint = ''fp-'' @ runbookID @ ''-'' @ resourceID,
                    alSource = ''remediation-ctl'', alResourceID = resourceID, alSeverity = rbSeverity rb,
                    alLabels = Some [(''runbook_id'', runbookID)], alAnnotations = None, alReceivedAt = t2,
                    alHMACSignature = '''', alRawPayload = ''''\<rparr>) e w2))"

section \<open>The path of a run through the state machine\<close>

definition at_path :: "run \<Rightarrow> ExecutionState list \<Rightarrow> bool" where
  "at_path r ss \<longleftrightarrow> map trTo (history (runFsm r)) = ss \<and> ss \<noteq> [] \<and> current (runFsm r) = last ss"

lemma at_path_world [simp]: "at_path (r\<lparr>runWorld := w\<rparr>) ss = at_path r ss"
  by (simp add: at_path_def)

lemma runFsm_simps [simp]:
  "runFsm (run_append res rb d st r) = runFsm r"
  "runFsm (run_record_execution target r) = runFsm r"
  "runFsm (snd (run_can_execute target r)) = runFsm r"
  by (simp_all add: run_append_def run_record_execution_def run_can_execute_def Let_def split: prod.split)

lemma at_path_simps [simp]:
  "at_path (run_append res rb d st r) ss = at_path r ss"
  "at_path (run_record_execution target r) ss = at_path r ss"
  by (simp_all add: at_path_def)

lemma at_path_transition [intro]:
  "at_path r ss \<Longrightarrow> CanTransition (last ss) st \<Longrightarrow> at_path (run_transition st reason r) (ss @ [st])"
  using CanTransition_valid [of "last ss" st]
  by (auto simp: at_path_def run_transition_def Transition_def time_Now_def)

lemma at_path_stuck:
  "at_path r ss \<Longrightarrow> \<not> CanTransition (last ss) st \<Longrightarrow> at_path (run_transition st reason r) ss"
  by (auto simp: at_path_def run_transition_def Transition_def time_Now_def)

lemma at_path_mark [intro]:
  "at_path r ss \<Longrightarrow> CanTransition (last ss) st \<Longrightarrow> at_path (job_mark j d st reason r) (ss @ [st])"
  by (simp add: job_mark_def mark_def at_path_transition)

lemma at_path_mark_stuck:
  "at_path r ss \<Longrightarrow> \<not> CanTransition (last ss) st \<Longrightarrow> at_path (job_mark j d st reason r) ss"
  by (simp add: job_mark_def mark_def at_path_stuck)

lemma moves [simp]:
  "CanTransition StateDetected StateEscalated" "CanTransition StateDetected StateEvaluating"
  "CanTransition StateEvaluating StatePrecheckFailed" "CanTransition StateEvaluating StatePrecheckPassed"
  "CanTransition StatePrecheckFailed StateEscalated" "CanTransition StatePrecheckPassed StateExecuting"
  "CanTransition StateExecuting StatePostcheckPassed" "CanTransition StateExecuting StatePostcheckFailed"
  "CanTransition StatePostcheckPassed StateCommitted" "CanTransition StatePostcheckFailed StateRollingBack"
  "CanTransition StateRollingBack StateRolledBack" "CanTransition StateRollingBack StateEscalated"
  "CanTransition StateRolledBack StateEscalated" "\<not> CanTransition StatePrecheckPassed StateEscalated"
  by (simp_all add: CanTransition_def)

text \<open>
  The returns of the control loop: the states passed through, the state reported, whether the run
  counts as a success or as rolled back, and the sentinel of the error.
\<close>

inductive returns :: "ExecutionState list \<Rightarrow> ExecutionState \<Rightarrow> bool \<Rightarrow> bool \<Rightarrow> goerror option \<Rightarrow> bool" where
  ret_rejected: "returns [StateDetected, StateEscalated] StateEscalated False False (Some e)"
| ret_locked: "errors_Is e ErrLockFailed \<Longrightarrow>
    returns [StateDetected, StateEvaluating, StatePrecheckFailed, StateEscalated] StateEscalated False False (Some e)"
| ret_gate: "errors_Is e ErrPreconditionFail \<Longrightarrow>
    returns [StateDetected, StateEvaluating, StatePrecheckFailed, StateEscalated] StatePrecheckFailed False False (Some e)"
| ret_unstaged:
    "returns [StateDetected, StateEvaluating, StatePrecheckPassed] StateEscalated False False (Some e)"
| ret_committed:
    "returns [StateDetected, StateEvaluating, StatePrecheckPassed, StateExecuting, StatePostcheckPassed, StateCommitted]
       StateCommitted True False None"
| ret_rollback_failed:
    "returns [StateDetected, StateEvaluating, StatePrecheckPassed, StateExecuting, StatePostcheckFailed, StateRollingBack, StateEscalated]
       StateEscalated False False (Some e)"
| ret_rolled_back: "errors_Is e ErrPostconditionFail \<Longrightarrow>
    returns [StateDetected, StateEvaluating, StatePrecheckPassed, StateExecuting, StatePostcheckFailed, StateRollingBack,
             StateRolledBack, StateEscalated] StateRolledBack False True (Some e)"

definition returns_of :: "outcome \<Rightarrow> bool" where
  "returns_of out \<longleftrightarrow>
     (\<exists>res. fst (fst out) = Some res
       \<and> returns (map trTo (rrTransitions res)) (rrFinalState res) (rrSuccess res) (rrRolledBack res) (snd (fst out)))"

lemma conclude_returns:
  assumes "at_path r ss" "returns ss (rrFinalState res) (rrSuccess res) (rrRolledBack res) err"
  shows "returns_of (conclude start r res err)"
  using assms by (auto simp: returns_of_def conclude_def at_path_def split: prod.split)

lemma job_result_simps [simp]:
  "rrFinalState (job_result j st msg) = st" "rrSuccess (job_result j st msg) = False" "rrRolledBack (job_result j st msg) = False"
  by (simp_all add: job_result_def zero_rr_def)

lemma sentinels [simp]:
  "errors_Is (err_precondition s) ErrPreconditionFail" "errors_Is (err_postcondition s) ErrPostconditionFail"
  "errors_Is err_lock_failed ErrLockFailed"
  by (simp_all add: err_precondition_def err_postcondition_def err_lock_failed_def errors_Is_def)

lemmas ret_sentinels [simp] = ret_gate [OF sentinels(1)] ret_rolled_back [OF sentinels(2)] ret_locked [OF sentinels(3)]

lemma at_path_snoc:
  assumes "at_path r ss" "CanTransition (last ss) st" "ss @ [st] = ts"
  shows "at_path (job_mark j d st reason r) ts"
  using at_path_mark [OF assms(1,2)] assms(3) by simp

lemma commit_returns:
  assumes "at_path r [StateDetected, StateEvaluating, StatePrecheckPassed, StateExecuting]"
  shows "returns_of (commit j res r)"
proof -
  let ?r1 = "job_mark j (exec_digest (jobAlert j) res) StatePostcheckPassed ''ground-truth postconditions verified'' r"
  have "at_path ?r1 [StateDetected, StateEvaluating, StatePrecheckPassed, StateExecuting, StatePostcheckPassed]"
    by (rule at_path_snoc [OF assms]) simp_all
  from at_path_transition [OF this, of StateCommitted "''remediation successfully verified and committed''"]
  show ?thesis
    unfolding commit_def Let_def by (intro conclude_returns) (auto intro: returns.intros)
qed

lemma roll_back_returns:
  assumes "at_path r [StateDetected, StateEvaluating, StatePrecheckPassed, StateExecuting]"
  shows "returns_of (roll_back j walRec res why r)"
proof -
  let ?d = "exec_digest (jobAlert j) res"
  let ?r1 = "job_mark j ?d StatePostcheckFailed why r"
  let ?r2 = "job_mark j ?d StateRollingBack ''initiating compensating rollback actions'' ?r1"
  let ?p = "[StateDetected, StateEvaluating, StatePrecheckPassed, StateExecuting, StatePostcheckFailed, StateRollingBack]"
  have "at_path ?r1 [StateDetected, StateEvaluating, StatePrecheckPassed, StateExecuting, StatePostcheckFailed]"
    by (rule at_path_snoc [OF assms]) simp_all
  then have "at_path ?r2 ?p" by (rule at_path_snoc) simp_all
  then have p: "at_path (?r2\<lparr>runWorld := w\<rparr>) ?p" for w by simp
  have a: "at_path (job_mark j ?d StateEscalated m (?r2\<lparr>runWorld := w\<rparr>)) (?p @ [StateEscalated])" for m w
    by (rule at_path_mark [OF p]) simp
  have b: "at_path (job_mark j ?d StateEscalated m (job_mark j ?d StateRolledBack n (?r2\<lparr>runWorld := w\<rparr>)))
      ((?p @ [StateRolledBack]) @ [StateEscalated])" for m n w
    by (rule at_path_mark [OF at_path_mark [OF p]]) simp_all
  show ?thesis
    unfolding roll_back_def Let_def
    by (auto split: prod.split option.split intro!: conclude_returns [OF a] conclude_returns [OF b] intro: returns.intros)
qed

lemma execute_plan_returns:
  assumes "at_path r [StateDetected, StateEvaluating, StatePrecheckPassed]"
  shows "returns_of (execute_plan j walRec r)"
proof -
  let ?r1 = "job_mark j (base_digest (jobAlert j)) StateExecuting ''executing mutation actions'' r"
  have "at_path ?r1 [StateDetected, StateEvaluating, StatePrecheckPassed, StateExecuting]"
    by (rule at_path_snoc [OF assms]) simp_all
  then have "at_path (?r1\<lparr>runWorld := w\<rparr>) [StateDetected, StateEvaluating, StatePrecheckPassed, StateExecuting]" for w by simp
  from commit_returns [OF this] roll_back_returns [OF this] show ?thesis
    unfolding execute_plan_def Let_def by (auto split: prod.split option.split)
qed

lemma stage_plan_returns:
  assumes "at_path r [StateDetected, StateEvaluating, StatePrecheckPassed]"
  shows "returns_of (stage_plan j r)"
proof -
  have w: "at_path (r\<lparr>runWorld := w\<rparr>) [StateDetected, StateEvaluating, StatePrecheckPassed]" for w using assms by simp
  have m: "at_path (job_mark k d StateEscalated msg (r\<lparr>runWorld := w\<rparr>)) [StateDetected, StateEvaluating, StatePrecheckPassed]" for k d msg w
    by (rule at_path_mark_stuck [OF w]) simp
  show ?thesis
    using execute_plan_returns [OF w] unfolding stage_plan_def Let_def
    by (auto split: prod.split sum.split intro!: conclude_returns [OF m] intro: returns.intros)
qed

lemma gate_failed_path:
  assumes "at_path r [StateDetected, StateEvaluating]"
  shows "at_path (gate_failed j why esc r) [StateDetected, StateEvaluating, StatePrecheckFailed, StateEscalated]"
  unfolding gate_failed_def Let_def
  by (rule at_path_snoc [OF at_path_mark [OF assms]]) simp_all

lemma remediate_locked_returns:
  assumes "at_path r [StateDetected, StateEvaluating]"
  shows "returns_of (remediate_locked j r)"
proof -
  obtain ok why r1 where c: "run_can_execute (jobTarget j) r = ((ok, why), r1)" by (metis prod.exhaust)
  have "runFsm r1 = runFsm r" using runFsm_simps(3) [of "jobTarget j" r] c by simp
  then have p: "at_path (r1\<lparr>runWorld := w\<rparr>) [StateDetected, StateEvaluating]" "at_path r1 [StateDetected, StateEvaluating]" for w
    using assms by (simp_all add: at_path_def)
  have "at_path (job_mark j d StatePrecheckPassed m (r1\<lparr>runWorld := w\<rparr>)) [StateDetected, StateEvaluating, StatePrecheckPassed]" for d m w
    by (rule at_path_snoc [OF p(1)]) simp_all
  from stage_plan_returns [OF this] show ?thesis
    unfolding remediate_locked_def c Let_def
    by (auto split: prod.split option.split intro!: conclude_returns [OF gate_failed_path [OF p(1)]]
        conclude_returns [OF gate_failed_path [OF p(2)]] intro: returns.intros)
qed

lemma remediate_matched_returns:
  assumes "at_path r [StateDetected]"
  shows "returns_of (remediate_matched j r)"
proof -
  let ?r = "job_mark j (base_digest (jobAlert j)) StateEvaluating (''matched runbook '' @ rbID (jobRunbook j)) r"
  have "at_path ?r [StateDetected, StateEvaluating]" by (rule at_path_snoc [OF assms]) simp_all
  then have p: "at_path (?r\<lparr>runWorld := w\<rparr>) [StateDetected, StateEvaluating]" for w by simp
  show ?thesis
  proof (cases "TryLock (engLockCoord (runEngine ?r)) (alResourceID (jobAlert j)) (runWorld ?r)")
    case (Pair res w1)
    show ?thesis
    proof (cases res)
      case (Inl err)
      show ?thesis
        unfolding remediate_matched_def Let_def Pair Inl prod.case sum.case
        by (rule conclude_returns [OF gate_failed_path [OF p]]) simp
    next
      case (Inr l)
      obtain out e' w2 where o: "remediate_locked j (?r\<lparr>runWorld := w1\<rparr>) = (out, e', w2)" by (metis prod.exhaust)
      have "remediate_matched j r = (out, e', snd (snd (Unlock l w2)))"
        unfolding remediate_matched_def Let_def Pair Inr prod.case sum.case o by (rule refl)
      then show ?thesis using remediate_locked_returns [OF p, of j w1] o by (simp add: returns_of_def)
    qed
  qed
qed

lemma Remediate_returns: "returns_of (Remediate ord ctx alert e w)"
proof -
  obtain start w0 where s: "time_Now w = (start, w0)" by force
  obtain now w1 where n: "time_Now w0 = (now, w1)" by force
  obtain m where m: "NewFSM now StateDetected = Inr m" by (simp add: NewFSM_def)
  let ?r = "\<lparr>runEngine = e, runWorld = w1, runFsm = m\<rparr>"
  have p: "at_path ?r [StateDetected]" using m by (auto simp: at_path_def NewFSM_def)
  have bad: "returns_of (conclude start (run_transition StateEscalated why ?r)
      (zero_rr\<lparr>rrFinalState := StateEscalated, rrError := x\<rparr>) (Some err))" for why x err
    using at_path_transition [OF p, of StateEscalated why]
    by (intro conclude_returns) (auto simp: zero_rr_def intro: returns.intros)
  have app: "at_path (run_append res rb d st ?r) [StateDetected]" for res rb d st using p by simp
  have none: "returns_of (conclude start (mark res '''' d StateEscalated why (run_append res '''' d StateDetected ?r))
      (zero_rr\<lparr>rrResourceID := res, rrFinalState := StateEscalated, rrError := x\<rparr>) (Some err))" for res d why x err
  proof -
    have "at_path (mark res '''' d StateEscalated why (run_append res '''' d StateDetected ?r)) ([StateDetected] @ [StateEscalated])"
      unfolding mark_def at_path_simps by (rule at_path_transition [OF app]) simp
    then show ?thesis by (rule conclude_returns) (simp add: zero_rr_def ret_rejected)
  qed
  have ok: "returns_of (remediate_alert ord c start a ?r)" for c a
    unfolding remediate_alert_def Let_def using none remediate_matched_returns [OF app] by (auto split: option.split)
  show ?thesis
    unfolding Remediate_def s n m Let_def using bad ok by (auto simp: m s n split: option.split)
qed

section \<open>What a remediation keeps of the environment\<close>

context world_inv
begin

definition rb_keeps :: "Runbook \<Rightarrow> bool" where
  "rb_keeps rb \<longleftrightarrow>
     (\<forall>p \<in> set (rbPreconditions rb). pre_keeps p) \<and> (\<forall>a \<in> set (rbActions rb). act_keeps a)
     \<and> (\<forall>p \<in> set (rbPostconditions rb). post_keeps p) \<and> (\<forall>s \<in> set (rbRollbackSteps rb). step_keeps s)"

lemma P_next_append_io [simp]: "P (snd (next_append_io w)) = P w"
  by (auto simp: next_append_io_def split: prod.splits option.splits dest: P_pairs)

lemma P_next_save_io [simp]: "P (snd (next_save_io w)) = P w"
  by (auto simp: next_save_io_def split: prod.splits option.splits dest: P_pairs)

lemma P_io_pairs: "next_append_io w = (io, w') \<Longrightarrow> P w' = P w" "next_save_io w = (sio, w') \<Longrightarrow> P w' = P w"
  using P_next_append_io P_next_save_io by (metis snd_conv)+

lemma P_run_steps [simp]:
  "P (runWorld (run_transition st why r)) = P (runWorld r)"
  "P (runWorld (run_append res rb d st r)) = P (runWorld r)"
  "P (runWorld (run_record_execution t r)) = P (runWorld r)"
  "P (runWorld (snd (run_can_execute t r))) = P (runWorld r)"
  by (auto simp: run_transition_def run_append_def run_record_execution_def run_can_execute_def Let_def
      split: prod.splits dest: P_pairs P_io_pairs)

lemma P_job_mark [simp]: "P (runWorld (job_mark j d st why r)) = P (runWorld r)"
  by (simp add: job_mark_def mark_def)

lemma P_mark [simp]: "P (runWorld (mark res rb d st why r)) = P (runWorld r)"
  by (simp add: mark_def)

lemma P_conclude [simp]: "P (snd (snd (conclude start r res err))) = P (runWorld r)"
  by (auto simp: conclude_def split: prod.splits dest: P_pairs)

lemma P_check_preconditions:
  "\<forall>p \<in> set ps. pre_keeps p \<Longrightarrow> P w \<Longrightarrow> P (snd (check_preconditions c ps w))"
proof (induction ps arbitrary: w)
  case (Cons p ps)
  then have "P (snd (VerifyPrecondition c p w))" by (intro P_VerifyPrecondition) auto
  then show ?case using Cons by (auto split: prod.splits)
qed simp

lemma P_check_postconditions:
  "\<forall>p \<in> set ps. post_keeps p \<Longrightarrow> P w \<Longrightarrow> P (snd (check_postconditions c ps w))"
proof (induction ps arbitrary: w)
  case (Cons p ps)
  then have "P (snd (VerifyPostcondition c p w))" by (intro P_VerifyPostcondition) auto
  then show ?case using Cons by (auto split: prod.splits)
qed simp

lemma P_run_actions:
  "\<forall>a \<in> set as. act_keeps a \<Longrightarrow> P w \<Longrightarrow> P (snd (run_actions ex c clamp as l w))"
proof (induction as arbitrary: l w)
  case (Cons a as)
  then have "P (snd (Execute ex c a clamp w))" by (intro P_Execute) auto
  then show ?case using Cons by (auto split: prod.splits option.splits)
qed simp

lemma P_commit: "P (snd (snd (commit j res r))) = P (runWorld r)"
  by (simp add: commit_def Let_def P_UpdateState)

lemma P_roll_back:
  assumes "\<forall>s \<in> set (walSteps wr). step_keeps s" "P (runWorld r)"
  shows "P (snd (snd (roll_back j wr res why r)))"
proof -
  let ?d = "exec_digest (jobAlert j) res"
  let ?r2 = "job_mark j ?d StateRollingBack ''initiating compensating rollback actions'' (job_mark j ?d StatePostcheckFailed why r)"
  obtain err w where x: "ExecuteRollback (Some (engJournal (runEngine ?r2))) (jobCtx j) (Some wr) (runWorld ?r2) = (err, w)" by force
  have "P w"
    using P_ExecuteRollback [OF assms(1), of "runWorld ?r2" "Some (engJournal (runEngine ?r2))" "jobCtx j"] x assms(2) by simp
  then show ?thesis unfolding roll_back_def Let_def x by (simp split: option.split)
qed

lemma P_execute_plan:
  assumes "rb_keeps (jobRunbook j)" "\<forall>s \<in> set (walSteps wr). step_keeps s" "P (runWorld r)"
  shows "P (snd (snd (execute_plan j wr r)))"
proof -
  let ?rb = "jobRunbook j"
  let ?r1 = "job_mark j (base_digest (jobAlert j)) StateExecuting ''executing mutation actions'' r"
  obtain res failed w1 where a:
    "run_actions (engExecutor (runEngine ?r1)) (jobCtx j) (rbBlastRadius ?rb) (rbActions ?rb) None (runWorld ?r1) = ((res, failed), w1)"
    by (metis prod.exhaust)
  obtain pf w2 where p: "check_postconditions (jobCtx j) (rbPostconditions ?rb) w1 = (pf, w2)" by force
  have w1: "P w1"
    using P_run_actions [of "rbActions ?rb" "runWorld ?r1" "engExecutor (runEngine ?r1)" "jobCtx j" "rbBlastRadius ?rb" None] a assms(1,3)
    by (auto simp: rb_keeps_def)
  then have "P w2"
    using P_check_postconditions [of "rbPostconditions ?rb" w1 "jobCtx j"] p assms(1) by (auto simp: rb_keeps_def)
  then show ?thesis
    using w1 unfolding execute_plan_def Let_def a prod.case p
    by (auto simp: P_commit P_roll_back [OF assms(2)] split: option.split)
qed

lemma P_stage_plan:
  assumes "rb_keeps (jobRunbook j)" "P (runWorld r)"
  shows "P (snd (snd (stage_plan j r)))"
proof -
  let ?rb = "jobRunbook j" and ?a = "jobAlert j"
  obtain t w1 where t: "time_Now (runWorld r) = (t, w1)" by force
  let ?tx = "rbID ?rb @ ''-'' @ alID ?a @ ''-'' @ itoa (UnixNano t)"
  obtain res w2 where s: "Stage (engJournal (runEngine r)) ?tx (rbID ?rb) (alResourceID ?a) (rbRollbackSteps ?rb) w1 = (res, w2)" by force
  have w2: "P w2"
    using P_Stage [of "engJournal (runEngine r)" ?tx "rbID ?rb" "alResourceID ?a" "rbRollbackSteps ?rb" w1] s assms(2) P_pairs(2) [OF t]
    by simp
  show ?thesis
  proof (cases res)
    case (Inl err)
    show ?thesis unfolding stage_plan_def Let_def t prod.case s Inl sum.case using w2 by simp
  next
    case (Inr wr)
    have "walSteps wr = rbRollbackSteps ?rb"
      using s Inr by (auto simp: Stage_def Let_def split: prod.splits option.splits)
    then show ?thesis
      unfolding stage_plan_def Let_def t prod.case s Inr sum.case using w2 assms(1)
      by (intro P_execute_plan) (auto simp: rb_keeps_def)
  qed
qed

lemma P_remediate_locked:
  assumes "rb_keeps (jobRunbook j)" "P (runWorld r)"
  shows "P (snd (snd (remediate_locked j r)))"
proof -
  obtain ok why r1 where c: "run_can_execute (jobTarget j) r = ((ok, why), r1)" by (metis prod.exhaust)
  obtain pf w2 where p: "check_preconditions (jobCtx j) (rbPreconditions (jobRunbook j)) (runWorld r1) = (pf, w2)" by force
  have r1: "P (runWorld r1)" using P_run_steps(4) [of "jobTarget j" r] c assms(2) by simp
  then have "P w2"
    using P_check_preconditions [of "rbPreconditions (jobRunbook j)" "runWorld r1" "jobCtx j"] p assms(1) by (auto simp: rb_keeps_def)
  then have "P (snd (snd (stage_plan j (job_mark j d st m (r1\<lparr>runWorld := w2\<rparr>)))))" for d st m
    using P_stage_plan [OF assms(1)] by simp
  then show ?thesis
    using r1 \<open>P w2\<close> unfolding remediate_locked_def c p Let_def prod.case
    by (auto simp: gate_failed_def Let_def simp del: append_Cons append_Nil split: option.split)
qed

end

text \<open>The held locks are restored: what was taken is released on every return.\<close>

lemma remediate_matched_flocks:
  assumes "\<forall>L. held.rb_keeps L (jobRunbook j)"
  shows "flocks (snd (snd (remediate_matched j r))) = flocks (runWorld r)"
proof -
  define R where "R = job_mark j (base_digest (jobAlert j)) StateEvaluating (''matched runbook '' @ rbID (jobRunbook j)) r"
  define p where "p = LockPathFor (engLockCoord (runEngine R)) (alResourceID (jobAlert j))"
  have L: "flocks (runWorld R) = flocks (runWorld r)" unfolding R_def by (rule iffD2 [OF held.P_job_mark refl])
  obtain res w1 where t: "TryLock (engLockCoord (runEngine R)) (alResourceID (jobAlert j)) (runWorld R) = (res, w1)" by force
  note c = TryLockPath_cases [OF t [unfolded TryLock_def p_def [symmetric]]]
  show ?thesis
  proof (cases res)
    case (Inl err)
    then have "flocks w1 = flocks (runWorld r)" using c L by auto
    then have "flocks (runWorld (gate_failed j x y (R\<lparr>runWorld := w1\<rparr>))) = flocks (runWorld r)" for x y
      unfolding gate_failed_def Let_def held.P_job_mark by simp
    then show ?thesis
      unfolding remediate_matched_def Let_def R_def [symmetric] t Inl prod.case sum.case held.P_conclude by simp
  next
    case (Inr l)
    then have l: "live l" "rlPath l = p" "p \<notin> set (flocks (runWorld r))" "flocks w1 = p # flocks (runWorld r)"
      using c L by (auto simp: live_def)
    obtain out e' w2 where o: "remediate_locked j (R\<lparr>runWorld := w1\<rparr>) = (out, e', w2)" by (metis prod.exhaust)
    have "flocks w2 = p # flocks (runWorld r)"
      using held.P_remediate_locked [where L = "p # flocks (runWorld r)", of j "R\<lparr>runWorld := w1\<rparr>"] assms l(4) o by simp
    moreover obtain err l' w3 where u: "Unlock l w2 = (err, l', w3)" by (metis prod.exhaust)
    ultimately have "flocks w3 = flocks (runWorld r)" using Unlock_cases [OF u] l(1-3) by auto
    then show ?thesis
      unfolding remediate_matched_def Let_def R_def [symmetric] t Inr prod.case sum.case o u by simp
  qed
qed

lemma match_runbook_mem:
  assumes "match_runbook ord e a = Some rb" "\<And>xs. set (ord xs) \<subseteq> set xs"
  shows "rb \<in> snd ` set (engRunbooks e)"
proof -
  have look: "lookup_runbook ord e i = Some x \<Longrightarrow> x \<in> snd ` set (engRunbooks e)" for i x
    using assms(2) [of "map snd (engRunbooks e)"]
    by (auto simp: lookup_runbook_def find_Some_iff split: option.splits dest!: map_of_SomeD) (metis nth_mem snd_conv image_eqI)+
  show ?thesis
    using assms(1) look assms(2) [of "map snd (engRunbooks e)"] nth_mem
    by (auto simp: match_runbook_def GetRunbook_def find_Some_iff split: if_splits option.splits)
qed

text \<open>A runbook whose functions leave the lock table alone.\<close>

definition lock_neutral :: "Runbook \<Rightarrow> bool" where
  "lock_neutral rb \<longleftrightarrow>
     (\<forall>p \<in> set (rbPreconditions rb). \<forall>f. preCheckFn p = Some f \<longrightarrow> (\<forall>c w. flocks (snd (f c w)) = flocks w))
     \<and> (\<forall>a \<in> set (rbActions rb). \<forall>f. actMutateFn a = Some f \<longrightarrow> (\<forall>c w. flocks (snd (f c w)) = flocks w))
     \<and> (\<forall>p \<in> set (rbPostconditions rb). \<forall>f. postCheckFn p = Some f \<longrightarrow> (\<forall>c w. flocks (snd (f c w)) = flocks w))
     \<and> (\<forall>s \<in> set (rbRollbackSteps rb). \<forall>f. stepCompensatingFn s = Some f \<longrightarrow> (\<forall>c w. flocks (snd (f c w)) = flocks w))"

lemma lock_neutral_held: "lock_neutral rb \<Longrightarrow> held.rb_keeps L rb"
  by (simp add: lock_neutral_def held.rb_keeps_def held.pre_keeps_def held.act_keeps_def held.post_keeps_def held.step_keeps_def)

text \<open>
  C6: No lock is leaked. If the functions of the registered runbooks leave the lock table alone,
  then after \<open>Remediate\<close> returns, on whatever path, exactly the locks that were held before the
  call are held, so that the resource can be remediated again.
\<close>

theorem remediate_releases_lock:
  assumes "\<And>xs. set (ord xs) \<subseteq> set xs" "\<forall>rb \<in> snd ` set (engRunbooks e). lock_neutral rb"
  shows "flocks (snd (snd (Remediate ord ctx alert e w))) = flocks w"
proof -
  obtain start w0 where s: "time_Now w = (start, w0)" by force
  obtain now w1 where n: "time_Now w0 = (now, w1)" by force
  obtain m where m: "NewFSM now StateDetected = Inr m" by (simp add: NewFSM_def)
  let ?r = "\<lparr>runEngine = e, runWorld = w1, runFsm = m\<rparr>"
  have f: "flocks w1 = flocks w" using held.P_pairs(2) [OF s] held.P_pairs(2) [OF n] by metis
  have ra: "flocks (snd (snd (remediate_alert ord c start a ?r))) = flocks w" for c a
  proof -
    let ?r0 = "run_append (alResourceID a) '''' (base_digest a) StateDetected ?r"
    have r0: "flocks (runWorld ?r0) = flocks w" unfolding held.P_run_steps using f by simp
    have rb: "engRunbooks (runEngine ?r0) = engRunbooks e" by (simp add: run_append_def Let_def split: prod.split)
    show ?thesis
    proof (cases "match_runbook ord (runEngine ?r0) a")
      case None
      then show ?thesis
        unfolding remediate_alert_def Let_def None option.case held.P_conclude held.P_mark using r0 by simp
    next
      case (Some b)
      then have "\<forall>L. held.rb_keeps L b"
        using match_runbook_mem [OF Some assms(1)] assms(2) rb lock_neutral_held by auto
      then show ?thesis
        unfolding remediate_alert_def Let_def Some option.case using r0 by (subst remediate_matched_flocks) auto
    qed
  qed
  have bad: "flocks (snd (snd (conclude start (run_transition StateEscalated why ?r) x err))) = flocks w" for why x err
    unfolding held.P_conclude held.P_run_steps using f by simp
  show ?thesis
    unfolding Remediate_def s n Let_def prod.case m sum.case using bad ra by (simp split: option.split)
qed

definition demo_runbook :: Runbook where
  "demo_runbook =
     \<lparr>rbID = ''RB'', rbVersion = ''1'', rbName = ''restart'', rbTargetResourceID = ''svc'', rbSeverity = SeverityHigh,
      rbPreconditions = [demo_pre], rbActions = [demo_action], rbPostconditions = [demo_post],
      rbRollbackSteps = [demo_step], rbBlastRadius = demo_clamp, rbMaxDampingPerHour = 0, rbCooldown = 0\<rparr>"

definition demo_engine :: Engine where
  "demo_engine =
     \<lparr>engCfg = \<lparr>cfgLockDir = ''/l'', cfgAuditLogPath = ''a'', cfgJournalDir = ''/j'', cfgHostUUID = ''h'', cfgDampingStatePath = ''''\<rparr>,
      engRunbooks = [(''RB'', demo_runbook)], engLockCoord = demo_coord, engLedger = demo_ledger,
      engJournal = \<lparr>journalDir = ''/j''\<rparr>, engExecutor = NewExecutor,
      engDamping = \<lparr>statePath = '''', states = Map.empty, stateFile = None, tmpFile = None\<rparr>\<rparr>"

definition demo_alert :: Alert where
  "demo_alert =
     \<lparr>alID = ''al-1'', alFingerprint = ''fp'', alSource = ''test'', alResourceID = ''svc'', alSeverity = SeverityHigh,
      alLabels = None, alAnnotations = None, alReceivedAt = 7, alHMACSignature = '''', alRawPayload = ''''\<rparr>"

theorem remediate_releases_lock_witness:
  "flocks (snd (snd (Remediate (\<lambda>xs. xs) Background (Some demo_alert) demo_engine demo_world))) = []"
proof -
  have "\<forall>rb \<in> snd ` set (engRunbooks demo_engine). lock_neutral rb"
    by (simp add: demo_engine_def lock_neutral_def demo_runbook_def demo_pre_def demo_action_def demo_post_def demo_step_def
        put_file_def)
  then show ?thesis
    using remediate_releases_lock [of "\<lambda>xs. xs" demo_engine Background "Some demo_alert" demo_world]
    by (simp add: demo_world_def quiet_world_def)
qed

section \<open>Outcomes\<close>

lemma returns_facts:
  assumes "returns ss final success rolled err"
  shows "(success \<longleftrightarrow> err = None) \<and> (success \<longleftrightarrow> final = StateCommitted) \<and> (success \<longleftrightarrow> last ss = StateCommitted)
    \<and> (rolled \<longleftrightarrow> StateRolledBack \<in> set ss) \<and> hd ss = StateDetected
    \<and> (IsTerminal (last ss) \<or> ss = [StateDetected, StateEvaluating, StatePrecheckPassed] \<and> final = StateEscalated)
    \<and> (StateExecuting \<in> set ss \<longleftrightarrow> success \<or> StateRollingBack \<in> set ss)"
  using assms by (cases rule: returns.cases) (simp_all add: IsTerminal_def)


section \<open>Nothing is executed before the gates\<close>

lemma run_transition_fsm:
  "runFsm (run_transition st why r) = snd (Transition (oClock (runWorld r) (steps (runWorld r))) (runFsm r) st why)"
  by (simp add: run_transition_def time_Now_def)

definition executed :: "outcome \<Rightarrow> bool" where
  "executed out \<longleftrightarrow> (\<exists>res. fst (fst out) = Some res \<and> StateExecuting \<in> set (map trTo (rrTransitions res)))"

definition has_executed :: "run \<Rightarrow> bool" where
  "has_executed r \<longleftrightarrow> StateExecuting \<in> set (map trTo (history (runFsm r)))"

lemma has_executed_keeps [simp]:
  "has_executed r \<Longrightarrow> has_executed (run_transition st why r)" "has_executed (r\<lparr>runWorld := w\<rparr>) = has_executed r"
  "has_executed (run_append res rb d st r) = has_executed r" "has_executed (run_record_execution t r) = has_executed r"
  by (auto simp: has_executed_def run_transition_def Transition_def time_Now_def)

lemma has_executed_mark [simp]: "has_executed r \<Longrightarrow> has_executed (job_mark j d st why r)"
  by (simp add: job_mark_def mark_def)

lemma executed_conclude [simp]: "has_executed r \<Longrightarrow> executed (conclude start r res err)"
  by (auto simp: executed_def has_executed_def conclude_def split: prod.split)

lemma executed_commit: "has_executed r \<Longrightarrow> executed (commit j res r)"
  by (simp add: commit_def Let_def)

lemma executed_roll_back: "has_executed r \<Longrightarrow> executed (roll_back j wr res why r)"
  unfolding roll_back_def Let_def by (auto split: prod.split option.split)

lemma executed_execute_plan:
  assumes "current (runFsm r) = StatePrecheckPassed"
  shows "executed (execute_plan j wr r)"
proof -
  have "has_executed (job_mark j d StateExecuting why r)" for d why
    using assms by (simp add: has_executed_def job_mark_def mark_def run_transition_fsm Transition_def)
  then show ?thesis
    unfolding execute_plan_def Let_def by (auto simp: executed_commit executed_roll_back split: prod.split option.split)
qed

definition other_plan :: "Action list \<Rightarrow> Postcondition list \<Rightarrow> job \<Rightarrow> job" where
  "other_plan as ps j = j\<lparr>jobRunbook := (jobRunbook j)\<lparr>rbActions := as, rbPostconditions := ps\<rparr>\<rparr>"

lemma other_plan_simps [simp]:
  "job_mark (other_plan as ps j) = job_mark j" "job_result (other_plan as ps j) = job_result j"
  "gate_failed (other_plan as ps j) = gate_failed j" "jobStart (other_plan as ps j) = jobStart j"
  "jobAlert (other_plan as ps j) = jobAlert j" "jobTarget (other_plan as ps j) = jobTarget j" "jobCtx (other_plan as ps j) = jobCtx j"
  "rbPreconditions (jobRunbook (other_plan as ps j)) = rbPreconditions (jobRunbook j)"
  "rbID (jobRunbook (other_plan as ps j)) = rbID (jobRunbook j)"
  "rbRollbackSteps (jobRunbook (other_plan as ps j)) = rbRollbackSteps (jobRunbook j)"
  "(other_plan as ps j)\<lparr>jobTxID := tx\<rparr> = other_plan as ps (j\<lparr>jobTxID := tx\<rparr>)"
  by (auto simp: other_plan_def fun_eq_iff job_mark_def job_result_def gate_failed_def)

lemma stage_plan_other:
  assumes "current (runFsm r) = StatePrecheckPassed" "\<not> executed (stage_plan j r)"
  shows "stage_plan (other_plan as ps j) r = stage_plan j r"
proof -
  let ?rb = "jobRunbook j" and ?a = "jobAlert j"
  obtain t w1 where t: "time_Now (runWorld r) = (t, w1)" by force
  let ?tx = "rbID ?rb @ ''-'' @ alID ?a @ ''-'' @ itoa (UnixNano t)"
  obtain res w2 where s: "Stage (engJournal (runEngine r)) ?tx (rbID ?rb) (alResourceID ?a) (rbRollbackSteps ?rb) w1 = (res, w2)" by force
  show ?thesis
  proof (cases res)
    case (Inl err)
    show ?thesis unfolding stage_plan_def Let_def t prod.case other_plan_simps s Inl sum.case by (simp del: append_Cons append_Nil)
  next
    case (Inr wr)
    have "executed (stage_plan j r)"
      unfolding stage_plan_def Let_def t prod.case s Inr sum.case
      by (rule executed_execute_plan) (simp add: assms(1))
    then show ?thesis using assms(2) by blast
  qed
qed

lemma remediate_locked_other:
  assumes "current (runFsm r) = StateEvaluating" "\<not> executed (remediate_locked j r)"
  shows "remediate_locked (other_plan as ps j) r = remediate_locked j r"
proof -
  obtain ok why r1 where c: "run_can_execute (jobTarget j) r = ((ok, why), r1)" by (metis prod.exhaust)
  obtain pf w2 where p: "check_preconditions (jobCtx j) (rbPreconditions (jobRunbook j)) (runWorld r1) = (pf, w2)" by force
  let ?R = "job_mark j (base_digest (jobAlert j)) StatePrecheckPassed ''all preconditions verified'' (r1\<lparr>runWorld := w2\<rparr>)"
  have "runFsm r1 = runFsm r" using runFsm_simps(3) [of "jobTarget j" r] c by simp
  then have pp: "current (runFsm ?R) = StatePrecheckPassed"
    using assms(1) by (simp add: job_mark_def mark_def run_transition_fsm Transition_def)
  show ?thesis
  proof (cases "ok \<and> pf = None")
    case True
    then have "remediate_locked i r = stage_plan i ?R" if "i = j \<or> i = other_plan as ps j" for i
      using that c p by (auto simp: remediate_locked_def Let_def)
    then show ?thesis using stage_plan_other [OF pp] assms(2) by simp
  next
    case False
    then show ?thesis
      unfolding remediate_locked_def other_plan_simps c p Let_def prod.case by (auto split: option.split)
  qed
qed


lemma coord_mark [simp]: "engLockCoord (runEngine (job_mark j d st why r)) = engLockCoord (runEngine r)"
  by (simp add: job_mark_def mark_def run_append_def run_transition_def Let_def split: prod.split)

lemma locked_out:
  assumes "at_path r [StateDetected]" "LockPathFor (engLockCoord (runEngine r)) (alResourceID (jobAlert j)) \<in> set (flocks (runWorld r))"
  shows "\<exists>res. fst (remediate_matched j r) = (Some res, Some err_lock_failed)
    \<and> map trTo (rrTransitions res) = [StateDetected, StateEvaluating, StatePrecheckFailed, StateEscalated]"
proof -
  define R where "R = job_mark j (base_digest (jobAlert j)) StateEvaluating (''matched runbook '' @ rbID (jobRunbook j)) r"
  have "at_path R [StateDetected, StateEvaluating]" unfolding R_def by (rule at_path_snoc [OF assms(1)]) simp_all
  then have p: "at_path (gate_failed j x y (R\<lparr>runWorld := w\<rparr>)) [StateDetected, StateEvaluating, StatePrecheckFailed, StateEscalated]" for x y w
    by (intro gate_failed_path) simp
  have "flocks (runWorld R) = flocks (runWorld r)" unfolding R_def by (rule iffD2 [OF held.P_job_mark refl])
  moreover have coord: "engLockCoord (runEngine R) = engLockCoord (runEngine r)" by (simp add: R_def)
  moreover obtain lr w1 where t: "TryLock (engLockCoord (runEngine R)) (alResourceID (jobAlert j)) (runWorld R) = (lr, w1)" by force
  ultimately obtain err where "lr = Inl err"
    using TryLockPath_cases [OF t [unfolded TryLock_def]] assms(2) coord by auto
  then show ?thesis
    unfolding remediate_matched_def Let_def R_def [symmetric] t prod.case
    using p by (auto simp: conclude_def at_path_def simp del: append_Cons append_Nil split: prod.split)
qed

definition demo_fsm :: FSM where
  "demo_fsm =
     \<lparr>current = StateDetected, history = [\<lparr>trFrom = StateOther '''', trTo = StateDetected, trTimestamp = 7, trReason = ''initialization''\<rparr>]\<rparr>"

definition demo_job :: job where
  "demo_job =
     \<lparr>jobStart = 7, jobCtx = Background, jobAlert = demo_alert, jobRunbook = demo_runbook, jobTarget = ''svc'', jobTxID = ''''\<rparr>"

definition locked_run :: run where
  "locked_run =
     \<lparr>runEngine = demo_engine, runWorld = demo_world\<lparr>flocks := [LockPathFor demo_coord ''svc'']\<rparr>, runFsm = demo_fsm\<rparr>"


section \<open>A success was earned\<close>

text \<open>A list of checks that all pass, one after the other.\<close>

fun all_pass :: "(world \<Rightarrow> (bool \<times> goerror option) \<times> world) list \<Rightarrow> world \<Rightarrow> world \<Rightarrow> bool" where
  "all_pass [] w w' = (w' = w)"
| "all_pass (f # fs) w w' = (\<exists>w1. f w = ((True, None), w1) \<and> all_pass fs w1 w')"

text \<open>A list of actions that are all carried out: each answers a successful result and no error.\<close>

fun all_done :: "(world \<Rightarrow> (ExecutionResult option \<times> goerror option) \<times> world) list \<Rightarrow> world \<Rightarrow> world \<Rightarrow> bool" where
  "all_done [] w w' = (w' = w)"
| "all_done (f # fs) w w' = (\<exists>r w1. f w = ((Some r, None), w1) \<and> erSuccess r \<and> all_done fs w1 w')"

lemma check_preconditions_pass:
  "check_preconditions c ps w = (None, w') \<Longrightarrow> all_pass (map (VerifyPrecondition c) ps) w w'"
  by (induction ps arbitrary: w) (auto split: prod.splits if_splits)

lemma check_postconditions_pass:
  "check_postconditions c ps w = (None, w') \<Longrightarrow> all_pass (map (VerifyPostcondition c) ps) w w'"
  by (induction ps arbitrary: w) (auto split: prod.splits if_splits)

lemma run_actions_done:
  "run_actions ex c clamp as l w = ((res, None), w') \<Longrightarrow> all_done (map (\<lambda>a. Execute ex c a clamp) as) w w'"
proof (induction as arbitrary: l w)
  case (Cons a as)
  obtain r err w1 where x: "Execute ex c a clamp w = ((r, err), w1)" by (metis prod.exhaust)
  then have err: "err = None" using Cons.prems by (auto split: option.splits)
  then obtain y where "r = Some y" "erSuccess y" using execute_verdict_ok [of ex c a clamp w r w1] x by auto
  then show ?case using Cons x err by auto
qed simp

lemma parts_transition [simp]: "runEngine (run_transition st why r) = runEngine r"
  by (simp add: run_transition_def split: prod.split)

lemma parts_append [simp]:
  "engExecutor (runEngine (run_append res rb d st r)) = engExecutor (runEngine r)"
  "engJournal (runEngine (run_append res rb d st r)) = engJournal (runEngine r)"
  "engLockCoord (runEngine (run_append res rb d st r)) = engLockCoord (runEngine r)"
  "engRunbooks (runEngine (run_append res rb d st r)) = engRunbooks (runEngine r)"
  "engDamping (runEngine (run_append res rb d st r)) = engDamping (runEngine r)"
  by (simp_all add: run_append_def Let_def split: prod.split)

lemma parts_mark [simp]:
  "engExecutor (runEngine (job_mark j d st why r)) = engExecutor (runEngine r)"
  "engJournal (runEngine (job_mark j d st why r)) = engJournal (runEngine r)"
  "engDamping (runEngine (job_mark j d st why r)) = engDamping (runEngine r)"
  by (simp_all add: job_mark_def mark_def)

lemma parts_can_execute:
  assumes "run_can_execute t r = (ans, r1)"
  shows "engExecutor (runEngine r1) = engExecutor (runEngine r)" "engJournal (runEngine r1) = engJournal (runEngine r)"
  using assms by (auto simp: run_can_execute_def Let_def split: prod.splits)

lemma conclude_err [simp]: "snd (fst (conclude start r res err)) = err"
  by (simp add: conclude_def split: prod.split)

lemma conclude_tx: "fst (fst (conclude start r res err)) = Some x \<Longrightarrow> rrTxID x = rrTxID res"
  by (auto simp: conclude_def split: prod.splits)

lemma roll_back_err: "(snd (fst (roll_back j wr res why r)) = None) = False"
  unfolding roll_back_def Let_def by (simp split: prod.split option.split)

lemma execute_plan_success:
  assumes "snd (fst (execute_plan j wr r)) = None"
  shows "\<exists>v w4 w5. all_done (map (\<lambda>a. Execute (engExecutor (runEngine r)) (jobCtx j) a (rbBlastRadius (jobRunbook j))) (rbActions (jobRunbook j))) v w4
    \<and> all_pass (map (VerifyPostcondition (jobCtx j)) (rbPostconditions (jobRunbook j))) w4 w5
    \<and> (\<forall>x. fst (fst (execute_plan j wr r)) = Some x \<longrightarrow> rrTxID x = jobTxID j)"
proof -
  define R where "R = job_mark j (base_digest (jobAlert j)) StateExecuting ''executing mutation actions'' r"
  let ?rb = "jobRunbook j"
  obtain res failed w1 where a:
    "run_actions (engExecutor (runEngine R)) (jobCtx j) (rbBlastRadius ?rb) (rbActions ?rb) None (runWorld R) = ((res, failed), w1)"
    by (metis prod.exhaust)
  obtain pf w2 where p: "check_postconditions (jobCtx j) (rbPostconditions ?rb) w1 = (pf, w2)" by force
  note u = execute_plan_def Let_def R_def [symmetric] a p prod.case
  have f: "failed = None" "pf = None"
    using assms unfolding u by (auto simp: roll_back_err split: option.splits)
  have "engExecutor (runEngine R) = engExecutor (runEngine r)" by (simp add: R_def)
  then have "all_done (map (\<lambda>a. Execute (engExecutor (runEngine r)) (jobCtx j) a (rbBlastRadius ?rb)) (rbActions ?rb)) (runWorld R) w1"
    using run_actions_done [of "engExecutor (runEngine R)" "jobCtx j" "rbBlastRadius ?rb" "rbActions ?rb" None "runWorld R" res w1] a f by simp
  moreover have "all_pass (map (VerifyPostcondition (jobCtx j)) (rbPostconditions ?rb)) w1 w2"
    using check_postconditions_pass p f by blast
  moreover have "rrTxID x = jobTxID j" if "fst (fst (execute_plan j wr r)) = Some x" for x
    using that unfolding u f option.case commit_def by (auto dest!: conclude_tx)
  ultimately show ?thesis by blast
qed

lemma stage_plan_success:
  assumes "snd (fst (stage_plan j r)) = None"
  shows "\<exists>tx v wr w3 v' w4 w5.
      Stage (engJournal (runEngine r)) tx (rbID (jobRunbook j)) (alResourceID (jobAlert j)) (rbRollbackSteps (jobRunbook j)) v = (Inr wr, w3)
    \<and> all_done (map (\<lambda>a. Execute (engExecutor (runEngine r)) (jobCtx j) a (rbBlastRadius (jobRunbook j))) (rbActions (jobRunbook j))) v' w4
    \<and> all_pass (map (VerifyPostcondition (jobCtx j)) (rbPostconditions (jobRunbook j))) w4 w5
    \<and> (\<forall>x. fst (fst (stage_plan j r)) = Some x \<longrightarrow> rrTxID x = tx)"
proof -
  let ?rb = "jobRunbook j" and ?a = "jobAlert j"
  obtain t w1 where t: "time_Now (runWorld r) = (t, w1)" by force
  define tx where "tx = rbID ?rb @ ''-'' @ alID ?a @ ''-'' @ itoa (UnixNano t)"
  obtain res w2 where s: "Stage (engJournal (runEngine r)) tx (rbID ?rb) (alResourceID ?a) (rbRollbackSteps ?rb) w1 = (res, w2)" by force
  note u = stage_plan_def Let_def t prod.case tx_def [symmetric] s
  show ?thesis
  proof (cases res)
    case (Inl err)
    then show ?thesis using assms unfolding u by simp
  next
    case (Inr wr)
    have e: "stage_plan j r = execute_plan (j\<lparr>jobTxID := tx\<rparr>) wr (r\<lparr>runWorld := w2\<rparr>)" unfolding u Inr sum.case by (rule refl)
    obtain v' w4 w5 where
      "all_done (map (\<lambda>a. Execute (engExecutor (runEngine r)) (jobCtx j) a (rbBlastRadius ?rb)) (rbActions ?rb)) v' w4"
      "all_pass (map (VerifyPostcondition (jobCtx j)) (rbPostconditions ?rb)) w4 w5"
      "\<forall>x. fst (fst (stage_plan j r)) = Some x \<longrightarrow> rrTxID x = tx"
      using execute_plan_success [OF assms [unfolded e]] unfolding e by auto
    then show ?thesis using s Inr by blast
  qed
qed

lemma remediate_locked_success:
  assumes "snd (fst (remediate_locked j r)) = None"
  shows "\<exists>why r1 w2 tx v wr w3 v' w4 w5.
      run_can_execute (jobTarget j) r = ((True, why), r1)
    \<and> all_pass (map (VerifyPrecondition (jobCtx j)) (rbPreconditions (jobRunbook j))) (runWorld r1) w2
    \<and> Stage (engJournal (runEngine r)) tx (rbID (jobRunbook j)) (alResourceID (jobAlert j)) (rbRollbackSteps (jobRunbook j)) v = (Inr wr, w3)
    \<and> all_done (map (\<lambda>a. Execute (engExecutor (runEngine r)) (jobCtx j) a (rbBlastRadius (jobRunbook j))) (rbActions (jobRunbook j))) v' w4
    \<and> all_pass (map (VerifyPostcondition (jobCtx j)) (rbPostconditions (jobRunbook j))) w4 w5
    \<and> (\<forall>x. fst (fst (remediate_locked j r)) = Some x \<longrightarrow> rrTxID x = tx)"
proof -
  let ?rb = "jobRunbook j"
  obtain ok why r1 where c: "run_can_execute (jobTarget j) r = ((ok, why), r1)" by (metis prod.exhaust)
  obtain pf w2 where p: "check_preconditions (jobCtx j) (rbPreconditions ?rb) (runWorld r1) = (pf, w2)" by force
  define R where "R = job_mark j (base_digest (jobAlert j)) StatePrecheckPassed ''all preconditions verified'' (r1\<lparr>runWorld := w2\<rparr>)"
  note u = remediate_locked_def Let_def c prod.case p R_def [symmetric]
  have f: "ok" "pf = None" using assms unfolding u by (auto split: if_splits option.splits)
  have c': "run_can_execute (jobTarget j) r = ((True, why), r1)" using c f(1) by simp
  have e: "remediate_locked j r = stage_plan j R" using f(1) unfolding u f(2) option.case by simp
  have parts: "engExecutor (runEngine R) = engExecutor (runEngine r)" "engJournal (runEngine R) = engJournal (runEngine r)"
    using parts_can_execute [OF c] by (simp_all add: R_def)
  have "all_pass (map (VerifyPrecondition (jobCtx j)) (rbPreconditions ?rb)) (runWorld r1) w2"
    using check_preconditions_pass p f by blast
  then show ?thesis
    using stage_plan_success [OF assms [unfolded e]] c' unfolding e parts by blast
qed


section \<open>A concrete remediation that succeeds\<close>

text \<open>The worlds that answer like \<open>demo_world\<close>: same oracles, other files, locks and logs.\<close>

definition like_demo :: "world \<Rightarrow> bool" where
  "like_demo w \<longleftrightarrow>
     oClock w = oClock demo_world \<and> oFault w = oFault demo_world \<and> oKill w = oKill demo_world \<and> oHttp w = oHttp demo_world
     \<and> oStatfs w = oStatfs demo_world \<and> oCtxErr w = oCtxErr demo_world"

interpretation demo: world_inv like_demo
  by unfold_locales (simp_all add: like_demo_def)

lemma like_demo_facts:
  assumes "like_demo w"
  shows "no_faults w" "oClock w n = 7" "oKill w n p s = None" "oStatfs w n f = Inr (50, 100)"
  using assms by (auto simp: like_demo_def no_faults_def demo_world_def quiet_world_def)

lemma files_run_steps [simp]:
  "files (runWorld (run_transition st why r)) = files (runWorld r)"
  "files (runWorld (run_append res rb d st r)) = files (runWorld r)"
  "files (runWorld (snd (run_can_execute t r))) = files (runWorld r)"
  by (auto simp: run_transition_def run_append_def run_can_execute_def next_append_io_def next_save_io_def time_Now_def sys_def
      Let_def split: prod.splits option.splits)

lemma files_job_mark [simp]: "files (runWorld (job_mark j d st why r)) = files (runWorld r)"
  by (simp add: job_mark_def mark_def)

lemma TryLock_dirs:
  assumes "TryLockPath r p w = (res, w')" "lookup_file w' q = Some DirNode"
  shows "q = filepath_Dir p \<or> lookup_file w q = Some DirNode"
proof -
  obtain e1 w1 where m: "os_MkdirAll (filepath_Dir p) w = (e1, w1)" by force
  obtain e2 w2 where o: "os_OpenCreate p w1 = (e2, w2)" by force
  obtain e3 w3 where f: "sys_Flock p w2 = (e3, w3)" by force
  have 1: "lookup_file w1 q = Some DirNode \<Longrightarrow> q = filepath_Dir p \<or> lookup_file w q = Some DirNode"
    using m by (auto simp: os_MkdirAll_def sys_def split: option.splits node.splits if_splits)
  have 2: "lookup_file w2 q = Some DirNode \<Longrightarrow> lookup_file w1 q = Some DirNode"
    using o by (auto simp: os_OpenCreate_def sys_def split: option.splits node.splits if_splits)
  have 3: "lookup_file w3 q = lookup_file w2 q"
    using f by (auto simp: sys_Flock_def sys_def lookup_file_def split: option.splits if_splits)
  show ?thesis
    using assms m o f 1 2 3 by (auto simp: TryLockPath_def split: option.splits if_splits)
qed

lemma demo_pre_passes: "like_demo w \<Longrightarrow> check_preconditions c [demo_pre] w = (None, next_step w)"
  by (simp add: VerifyPrecondition_def demo_pre_def CheckDiskFree_def sys_Statfs_def like_demo_facts Let_def)

lemma demo_post_passes: "like_demo w \<Longrightarrow> \<exists>w'. check_postconditions c [demo_post] w = (None, w')"
  by (simp add: VerifyPostcondition_def demo_post_def CheckProcessAlive_def sys_Kill_def like_demo_facts)

lemma demo_action_runs:
  assumes "like_demo w"
  shows "\<exists>res w'. run_actions ex c demo_clamp [demo_action] None w = ((res, None), w') \<and> like_demo w'"
proof -
  obtain res err w' where x: "Execute ex c demo_action demo_clamp w = ((res, err), w')" by (metis prod.exhaust)
  have "err = None"
    using x assms by (auto simp: Execute_def run_signal_def demo_action_def demo_clamp_def time_Now_def sys_Kill_def like_demo_facts
        next_step_def Let_def)
  moreover from this obtain y where "res = Some y" "erSuccess y" using execute_verdict_ok x by blast
  moreover have "like_demo w'"
    using demo.P_Execute [of demo_action w ex c demo_clamp] x assms by (simp add: demo.act_keeps_def demo_action_def)
  ultimately show ?thesis using x by simp
qed

lemma Stage_demo:
  assumes "like_demo w" "lookup_file w (PathForTx j tx) \<noteq> Some DirNode"
  shows "\<exists>wr w'. Stage j tx rb res ss w = (Inr wr, w') \<and> like_demo w'"
proof -
  let ?r = "\<lparr>walTxID = tx, walRunbookID = rb, walResourceID = res, walCreatedAt = 7, walUpdatedAt = 7,
             walState = StatePrepared, walSteps = ss\<rparr>"
  obtain w' where "writeAndSync j ?r (next_step w) = (None, w')"
    using writeAndSync_ok [of "next_step w" j ?r] assms like_demo_facts by auto
  then have "Stage j tx rb res ss w = (Inr ?r, w')" using assms by (simp add: Stage_def time_Now_def like_demo_facts)
  then show ?thesis using demo.P_Stage [of j tx rb res ss w] assms(1) by auto
qed

definition demo_tx :: string where "demo_tx = ''RB-al-1-'' @ itoa (UnixNano 7)"

lemma demo_wal_path: "PathForTx \<lparr>journalDir = ''/j''\<rparr> demo_tx = ''/j/RB-al-1--62135596799999999993.wal''"
  by code_simp

lemma execute_plan_demo:
  assumes "like_demo (runWorld r)" "jobRunbook j = demo_runbook"
  shows "snd (fst (execute_plan j wr r)) = None"
proof -
  define R where "R = job_mark j (base_digest (jobAlert j)) StateExecuting ''executing mutation actions'' r"
  have "like_demo (runWorld R)" unfolding R_def demo.P_job_mark by (rule assms(1))
  then obtain res w1 where a: "run_actions (engExecutor (runEngine R)) (jobCtx j) demo_clamp [demo_action] None (runWorld R) = ((res, None), w1)"
      "like_demo w1" using demo_action_runs by blast
  then obtain w2 where p: "check_postconditions (jobCtx j) [demo_post] w1 = (None, w2)" using demo_post_passes by blast
  have rb: "rbBlastRadius demo_runbook = demo_clamp" "rbActions demo_runbook = [demo_action]" "rbPostconditions demo_runbook = [demo_post]"
    by (simp_all add: demo_runbook_def)
  show ?thesis
    unfolding execute_plan_def Let_def R_def [symmetric] assms(2) rb a(1) prod.case option.case p
    by (simp add: commit_def Let_def)
qed

lemma stage_plan_demo:
  assumes "like_demo (runWorld r)" "jobRunbook j = demo_runbook" "jobAlert j = demo_alert"
    "engJournal (runEngine r) = \<lparr>journalDir = ''/j''\<rparr>" "lookup_file (runWorld r) (PathForTx \<lparr>journalDir = ''/j''\<rparr> demo_tx) \<noteq> Some DirNode"
  shows "snd (fst (stage_plan j r)) = None"
proof -
  have t: "time_Now (runWorld r) = (7, next_step (runWorld r))" using assms(1) by (simp add: time_Now_def like_demo_facts)
  have tx: "rbID demo_runbook @ ''-'' @ alID demo_alert @ ''-'' @ itoa (UnixNano 7) = demo_tx"
    by (simp add: demo_runbook_def demo_alert_def demo_tx_def)
  obtain wr w2 where s: "Stage \<lparr>journalDir = ''/j''\<rparr> demo_tx (rbID demo_runbook) (alResourceID demo_alert) (rbRollbackSteps demo_runbook)
      (next_step (runWorld r)) = (Inr wr, w2)" "like_demo w2"
    using Stage_demo [of "next_step (runWorld r)" "\<lparr>journalDir = ''/j''\<rparr>" demo_tx "rbID demo_runbook" "alResourceID demo_alert"
        "rbRollbackSteps demo_runbook"] assms(1,5) by auto
  show ?thesis
    unfolding stage_plan_def Let_def t prod.case assms(2-4) tx s(1) sum.case
    by (rule execute_plan_demo) (use s(2) assms(2) in simp_all)
qed

lemma remediate_locked_demo:
  assumes "like_demo (runWorld r)" "jobRunbook j = demo_runbook" "jobAlert j = demo_alert" "states (engDamping (runEngine r)) (jobTarget j) = None"
    "engJournal (runEngine r) = \<lparr>journalDir = ''/j''\<rparr>" "lookup_file (runWorld r) (PathForTx \<lparr>journalDir = ''/j''\<rparr> demo_tx) \<noteq> Some DirNode"
  shows "snd (fst (remediate_locked j r)) = None"
proof -
  obtain ok why r1 where c: "run_can_execute (jobTarget j) r = ((ok, why), r1)" by (metis prod.exhaust)
  have ok: "ok" using c assms(4) by (auto simp: run_can_execute_def CanExecute_def Let_def split: prod.splits)
  have l1: "like_demo (runWorld r1)" using demo.P_run_steps(4) [of "jobTarget j" r] c assms(1) by simp
  have f1: "files (runWorld r1) = files (runWorld r)" using files_run_steps(3) [of "jobTarget j" r] c by simp
  have p: "check_preconditions (jobCtx j) (rbPreconditions (jobRunbook j)) (runWorld r1) = (None, next_step (runWorld r1))"
    using demo_pre_passes [OF l1] assms(2) by (simp add: demo_runbook_def)
  define R where "R = job_mark j (base_digest (jobAlert j)) StatePrecheckPassed ''all preconditions verified''
    (r1\<lparr>runWorld := next_step (runWorld r1)\<rparr>)"
  have "like_demo (runWorld R)" unfolding R_def demo.P_job_mark using l1 by simp
  moreover have "engJournal (runEngine R) = \<lparr>journalDir = ''/j''\<rparr>" using parts_can_execute(2) [OF c] assms(5) by (simp add: R_def)
  moreover have "files (runWorld R) = files (runWorld r)" unfolding R_def files_job_mark using f1 by simp
  then have "lookup_file (runWorld R) q = lookup_file (runWorld r) q" for q by (simp add: lookup_file_def)
  ultimately have "snd (fst (stage_plan j R)) = None" using stage_plan_demo [of R j] assms(2,3,6) by simp
  moreover have "remediate_locked j r = stage_plan j R"
    using ok unfolding remediate_locked_def Let_def c prod.case p option.case R_def [symmetric] by simp
  ultimately show ?thesis by simp
qed

lemma remediate_matched_demo:
  assumes "like_demo (runWorld r)" "jobRunbook j = demo_runbook" "jobAlert j = demo_alert" "states (engDamping (runEngine r)) = Map.empty"
    "engJournal (runEngine r) = \<lparr>journalDir = ''/j''\<rparr>" "engLockCoord (runEngine r) = demo_coord" "files (runWorld r) = []" "flocks (runWorld r) = []"
  shows "snd (fst (remediate_matched j r)) = None"
proof -
  define R where "R = job_mark j (base_digest (jobAlert j)) StateEvaluating (''matched runbook '' @ rbID (jobRunbook j)) r"
  have lR: "like_demo (runWorld R)" unfolding R_def demo.P_job_mark by (rule assms(1))
  have fR: "files (runWorld R) = []" unfolding R_def files_job_mark by (rule assms(7))
  have kR: "flocks (runWorld R) = []" unfolding R_def held.P_job_mark by (rule assms(8))
  have cR: "engLockCoord (runEngine R) = demo_coord" unfolding R_def coord_mark by (rule assms(6))
  have res: "alResourceID (jobAlert j) = ''svc''" using assms(3) by (simp add: demo_alert_def)
  have "\<exists>w1. TryLock demo_coord ''svc'' (runWorld R) = (Inr \<lparr>rlResourceID = ''svc'', rlPath = LockPathFor demo_coord ''svc'', rlOpen = True, rlReleased = False\<rparr>, w1)"
    by (rule TryLock_free) (use lR fR kR demo_dir like_demo_facts(1) in \<open>auto simp: no_faults_def lookup_file_def\<close>)
  then obtain l w1 where t: "TryLock demo_coord ''svc'' (runWorld R) = (Inr l, w1)" by blast
  have "lookup_file w1 (PathForTx \<lparr>journalDir = ''/j''\<rparr> demo_tx) \<noteq> Some DirNode"
    using TryLock_dirs [OF t [unfolded TryLock_def], of "PathForTx \<lparr>journalDir = ''/j''\<rparr> demo_tx"] fR
    unfolding demo_lock_dir demo_wal_path by (auto simp: lookup_file_def)
  moreover have "like_demo w1"
    using t lR by (auto simp: TryLock_def TryLockPath_def sys_Flock_def like_demo_def sys_def next_step_def os_MkdirAll_def os_OpenCreate_def put_file_def
        split: prod.splits option.splits if_splits node.splits)
  ultimately have "snd (fst (remediate_locked j (R\<lparr>runWorld := w1\<rparr>))) = None"
    using assms(2-5) by (intro remediate_locked_demo) (simp_all add: R_def)
  moreover obtain out e' w2 where o: "remediate_locked j (R\<lparr>runWorld := w1\<rparr>) = (out, e', w2)" by (metis prod.exhaust)
  ultimately show ?thesis
    unfolding remediate_matched_def Let_def R_def [symmetric] cR res t prod.case sum.case o by simp
qed

lemma demo_success: "\<exists>res e' w'. Remediate (\<lambda>xs. xs) Background (Some demo_alert) demo_engine demo_world = ((Some res, None), e', w')"
proof -
  let ?out = "Remediate (\<lambda>xs. xs) Background (Some demo_alert) demo_engine demo_world"
  define r where "r = \<lparr>runEngine = demo_engine, runWorld = next_step (next_step demo_world), runFsm = demo_fsm\<rparr>"
  define R where "R = run_append (alResourceID demo_alert) '''' (base_digest demo_alert) StateDetected r"
  have m: "NewFSM 7 StateDetected = Inr demo_fsm" by (simp add: NewFSM_def demo_fsm_def)
  have t: "time_Now demo_world = (7, next_step demo_world)" "time_Now (next_step demo_world) = (7, next_step (next_step demo_world))"
    by (simp_all add: time_Now_def demo_world_def next_step_def)
  have ids: "alID demo_alert \<noteq> ''''" "alResourceID demo_alert \<noteq> ''''" by (simp_all add: demo_alert_def)
  have mt: "match_runbook (\<lambda>xs. xs) (runEngine R) demo_alert = Some demo_runbook"
    by (simp add: match_runbook_def alert_label_def demo_alert_def R_def r_def demo_engine_def demo_runbook_def)
  have R: "like_demo (runWorld R)" "files (runWorld R) = []" "flocks (runWorld R) = []"
    unfolding R_def demo.P_run_steps held.P_run_steps files_run_steps
    by (simp_all add: r_def like_demo_def) (simp_all add: demo_world_def quiet_world_def next_step_def)
  obtain c start where "?out = remediate_matched
      \<lparr>jobStart = start, jobCtx = c, jobAlert = demo_alert, jobRunbook = demo_runbook,
       jobTarget = (if TargetResource (Some demo_runbook) = '''' then alResourceID demo_alert else TargetResource (Some demo_runbook)),
       jobTxID = ''''\<rparr> R"
    unfolding Remediate_def t Let_def prod.case m sum.case option.case r_def [symmetric] remediate_alert_def R_def [symmetric] mt
    using ids by simp
  then have "snd (fst ?out) = None"
    using R by (simp only:) (rule remediate_matched_demo, simp_all add: R_def r_def demo_engine_def)
  moreover obtain res err where "fst ?out = (Some res, err)"
    using Remediate_returns [of "\<lambda>xs. xs" Background "Some demo_alert" demo_engine demo_world] by (auto simp: returns_of_def) (metis prod.collapse)
  ultimately show ?thesis by (metis prod.collapse snd_conv)
qed


section \<open>Accounting for damping\<close>

text \<open>The executions of an outcome's engine, compared with those of a run.\<close>

definition same_execs :: "run \<Rightarrow> outcome \<Rightarrow> bool" where
  "same_execs r out \<longleftrightarrow> (\<forall>x. execs (engDamping (fst (snd out))) x = execs (engDamping (runEngine r)) x)"

definition counted :: "string \<Rightarrow> run \<Rightarrow> outcome \<Rightarrow> bool" where
  "counted target r out \<longleftrightarrow>
     (\<exists>t. \<forall>x. execs (engDamping (fst (snd out))) x =
        (if x = target then filter (\<lambda>s. t - 24 * Hour < s) (execs (engDamping (runEngine r)) target @ [t])
         else execs (engDamping (runEngine r)) x))"

definition accounted :: "string \<Rightarrow> run \<Rightarrow> outcome \<Rightarrow> bool" where
  "accounted target r out \<longleftrightarrow> (if snd (fst out) = None then counted target r out else same_execs r out)"

lemma conclude_engine [simp]: "fst (snd (conclude start r res err)) = runEngine r"
  by (simp add: conclude_def split: prod.split)

lemma accounted_conclude:
  "engDamping (runEngine s) = engDamping (runEngine r) \<Longrightarrow> accounted target r (conclude start s res (Some err))"
  by (simp add: accounted_def same_execs_def)

lemma accounted_same:
  assumes "\<forall>x. execs (engDamping (runEngine s)) x = execs (engDamping (runEngine r)) x" "accounted target s out"
  shows "accounted target r out"
proof -
  have "execs (engDamping (runEngine s)) = execs (engDamping (runEngine r))" using assms(1) by (simp add: fun_eq_iff)
  then show ?thesis using assms(2) unfolding accounted_def counted_def same_execs_def by (simp only:)
qed

lemma accounted_commit: "accounted (jobTarget j) r (commit j res r)"
proof -
  have "counted (jobTarget j) r (commit j res r)"
    by (auto simp: counted_def commit_def Let_def run_record_execution_def RecordExecution_def RecordExecutionAt_execs
        split: prod.split)
  then show ?thesis by (simp add: accounted_def commit_def Let_def)
qed

lemma accounted_roll_back: "accounted target r (roll_back j wr res why r)"
  unfolding roll_back_def Let_def by (auto intro!: accounted_conclude split: prod.split option.split)

lemma accounted_execute_plan: "accounted (jobTarget j) r (execute_plan j wr r)"
proof -
  define R where "R = job_mark j (base_digest (jobAlert j)) StateExecuting ''executing mutation actions'' r"
  have R: "\<forall>x. execs (engDamping (runEngine (R\<lparr>runWorld := w\<rparr>))) x = execs (engDamping (runEngine r)) x" for w
    by (simp add: R_def)
  have "accounted (jobTarget j) r (commit j res (R\<lparr>runWorld := w\<rparr>))" for res w
    by (rule accounted_same [OF R accounted_commit])
  moreover have "accounted (jobTarget j) r (roll_back j wr res why (R\<lparr>runWorld := w\<rparr>))" for res why w
    by (rule accounted_same [OF R accounted_roll_back])
  ultimately show ?thesis
    unfolding execute_plan_def Let_def R_def [symmetric] by (auto split: prod.split option.split)
qed

lemma accounted_stage_plan: "accounted (jobTarget j) r (stage_plan j r)"
proof -
  have "accounted (jobTarget j) r (execute_plan (j\<lparr>jobTxID := tx\<rparr>) wr (r\<lparr>runWorld := w\<rparr>))" for tx wr w
  proof -
    have "accounted (jobTarget j) (r\<lparr>runWorld := w\<rparr>) (execute_plan (j\<lparr>jobTxID := tx\<rparr>) wr (r\<lparr>runWorld := w\<rparr>))"
      using accounted_execute_plan [of "j\<lparr>jobTxID := tx\<rparr>" "r\<lparr>runWorld := w\<rparr>" wr] by simp
    then show ?thesis by (rule accounted_same [rotated]) simp
  qed
  then show ?thesis
    unfolding stage_plan_def Let_def by (auto intro!: accounted_conclude split: prod.split sum.split)
qed

lemma gate_failed_engine [simp]: "engDamping (runEngine (gate_failed j x y r)) = engDamping (runEngine r)"
  by (simp add: gate_failed_def Let_def)

lemma accounted_remediate_locked: "accounted (jobTarget j) r (remediate_locked j r)"
proof -
  obtain ok why r1 where c: "run_can_execute (jobTarget j) r = ((ok, why), r1)" by (metis prod.exhaust)
  have r1: "\<forall>x. execs (engDamping (runEngine r1)) x = execs (engDamping (runEngine r)) x"
  proof
    fix x
    have "\<exists>now tnow io1 io2. CanExecute now tnow io1 io2 (engDamping (runEngine r)) (jobTarget j) = ((ok, why), engDamping (runEngine r1))"
      using c by (auto simp: run_can_execute_def Let_def split: prod.splits) blast
    then obtain now tnow io1 io2 where "engDamping (runEngine r1) = snd (CanExecute now tnow io1 io2 (engDamping (runEngine r)) (jobTarget j))"
      by (metis snd_conv)
    then show "execs (engDamping (runEngine r1)) x = execs (engDamping (runEngine r)) x" by simp
  qed
  obtain pf w2 where p: "check_preconditions (jobCtx j) (rbPreconditions (jobRunbook j)) (runWorld r1) = (pf, w2)" by force
  define R where "R = job_mark j (base_digest (jobAlert j)) StatePrecheckPassed ''all preconditions verified'' (r1\<lparr>runWorld := w2\<rparr>)"
  have "accounted (jobTarget j) R (stage_plan j R)" by (rule accounted_stage_plan)
  then have sp: "accounted (jobTarget j) r1 (stage_plan j R)"
    by (rule accounted_same [rotated]) (simp add: R_def)
  have "accounted (jobTarget j) r1 (remediate_locked j r)"
    unfolding remediate_locked_def Let_def c prod.case p R_def [symmetric]
    using sp by (auto intro!: accounted_conclude split: option.split)
  then show ?thesis by (rule accounted_same [OF r1])
qed

lemma accounted_remediate_matched: "accounted (jobTarget j) r (remediate_matched j r)"
proof -
  define R where "R = job_mark j (base_digest (jobAlert j)) StateEvaluating (''matched runbook '' @ rbID (jobRunbook j)) r"
  have R: "engDamping (runEngine (R\<lparr>runWorld := w\<rparr>)) = engDamping (runEngine r)" for w by (simp add: R_def)
  obtain lr w1 where t: "TryLock (engLockCoord (runEngine R)) (alResourceID (jobAlert j)) (runWorld R) = (lr, w1)" by force
  show ?thesis
  proof (cases lr)
    case (Inl err)
    show ?thesis
      unfolding remediate_matched_def Let_def R_def [symmetric] t Inl prod.case sum.case
      by (rule accounted_conclude) (simp only: gate_failed_engine R)
  next
    case (Inr l)
    obtain out e' w2 where o: "remediate_locked j (R\<lparr>runWorld := w1\<rparr>) = (out, e', w2)" by (metis prod.exhaust)
    have "accounted (jobTarget j) r (out, e', w2)"
      using accounted_remediate_locked [of j "R\<lparr>runWorld := w1\<rparr>"] unfolding o
      by (rule accounted_same [rotated]) (simp only: R simp_thms)
    then show ?thesis
      unfolding remediate_matched_def Let_def R_def [symmetric] t Inr prod.case sum.case o
      unfolding accounted_def counted_def same_execs_def by (simp only: fst_conv snd_conv)
  qed
qed

text \<open>
  C9: Damping accounting. A remediation that answers an error leaves the recorded executions of
  every resource unchanged, so a run that failed, was refused or was rolled back is never counted;
  a successful one appends exactly one execution to the matched runbook's target (or to the alert's
  resource when the runbook names none), drops entries older than a day, and touches no other
  resource.
\<close>

theorem remediate_damping_accounting:
  assumes "Remediate ord ctx (Some a) e w = ((res, err), e', w')"
  shows "(err \<noteq> None \<longrightarrow> (\<forall>x. execs (engDamping e') x = execs (engDamping e) x))
    \<and> (err = None \<longrightarrow> (\<exists>rb t. match_runbook ord e a = Some rb
        \<and> (let target = (if rbTargetResourceID rb = '''' then alResourceID a else rbTargetResourceID rb) in
           execs (engDamping e') target = filter (\<lambda>s. t - 24 * Hour < s) (execs (engDamping e) target @ [t])
           \<and> (\<forall>x. x \<noteq> target \<longrightarrow> execs (engDamping e') x = execs (engDamping e) x))))"
proof -
  obtain start w0 where s: "time_Now w = (start, w0)" by force
  obtain now u1 where n: "time_Now w0 = (now, u1)" by force
  obtain m where m: "NewFSM now StateDetected = Inr m" by (simp add: NewFSM_def)
  define r where "r = \<lparr>runEngine = e, runWorld = u1, runFsm = m\<rparr>"
  define R where "R = run_append (alResourceID a) '''' (base_digest a) StateDetected r"
  have dR: "engDamping (runEngine R) = engDamping e" "engRunbooks (runEngine R) = engRunbooks e" by (simp_all add: R_def r_def)
  have mr: "match_runbook ord (runEngine R) a = match_runbook ord e a"
    by (simp only: match_runbook_def GetRunbook_def lookup_runbook_def dR)
  note u = Remediate_def s n Let_def prod.case m sum.case option.case r_def [symmetric]
  show ?thesis
  proof (cases "alID a = '''' \<or> alResourceID a = '''' \<or> match_runbook ord e a = None")
    case True
    then have "err \<noteq> None \<and> engDamping e' = engDamping e"
      using assms unfolding u remediate_alert_def R_def [symmetric] mr
      by (auto simp: conclude_def mark_def split: prod.splits if_splits) (simp_all add: R_def r_def)
    then show ?thesis by (auto simp del: filter_append)
  next
    case False
    then obtain rb where rb: "match_runbook ord e a = Some rb" by blast
    define j where "j = \<lparr>jobStart = start, jobCtx = WithTarget ctx (alResourceID a), jobAlert = a, jobRunbook = rb,
      jobTarget = (if rbTargetResourceID rb = '''' then alResourceID a else rbTargetResourceID rb), jobTxID = ''''\<rparr>"
    have "remediate_matched j R = ((res, err), e', w')"
      using assms False unfolding u remediate_alert_def R_def [symmetric] mr rb j_def TargetResource_def by simp
    then have "accounted (jobTarget j) R ((res, err), e', w')" using accounted_remediate_matched [of j R] by simp
    then have A: "if err = None then \<exists>t. \<forall>x. execs (engDamping e') x =
        (if x = jobTarget j then filter (\<lambda>s. t - 24 * Hour < s) (execs (engDamping e) (jobTarget j) @ [t]) else execs (engDamping e) x)
      else \<forall>x. execs (engDamping e') x = execs (engDamping e) x"
      unfolding accounted_def counted_def same_execs_def dR fst_conv snd_conv .
    show ?thesis
    proof (cases err)
      case None
      then obtain t where t: "\<forall>x. execs (engDamping e') x =
          (if x = jobTarget j then filter (\<lambda>s. t - 24 * Hour < s) (execs (engDamping e) (jobTarget j) @ [t]) else execs (engDamping e) x)"
        using A by auto
      have jt: "jobTarget j = (if rbTargetResourceID rb = '''' then alResourceID a else rbTargetResourceID rb)" by (simp add: j_def)
      show ?thesis
        unfolding Let_def jt [symmetric]
        by (intro conjI impI exI [of _ rb] exI [of _ t]) (use None rb t in \<open>simp_all add: jt\<close>)
    next
      case (Some x)
      then show ?thesis using A by simp
    qed
  qed
qed

theorem remediate_damping_accounting_witness:
  "\<exists>res e' w' t. Remediate (\<lambda>xs. xs) Background (Some demo_alert) demo_engine demo_world = ((Some res, None), e', w')
     \<and> execs (engDamping e') ''svc'' = [t]"
proof -
  obtain res e' w' where x: "Remediate (\<lambda>xs. xs) Background (Some demo_alert) demo_engine demo_world = ((Some res, None), e', w')"
    using demo_success by blast
  have m: "match_runbook (\<lambda>xs. xs) demo_engine demo_alert = Some demo_runbook"
    by (simp add: match_runbook_def alert_label_def demo_alert_def demo_engine_def demo_runbook_def)
  have "rbTargetResourceID demo_runbook = ''svc''" "execs (engDamping demo_engine) ''svc'' = []"
    by (simp_all add: demo_runbook_def demo_engine_def execs_def)
  then show ?thesis using remediate_damping_accounting [OF x] x m by (auto simp: duration_units Let_def)
qed

end
