(* ===== verification/Engine_Trail.thy ===== *)
theory Engine_Trail
  imports Engine
begin

text \<open>
  The ledger and the state machine of one remediation agree: what \<open>Remediate\<close> appends to the
  audit ledger is the sequence of states that its state machine passed. The lemmas follow the control
  loop from the inside out (commit, rollback, plan, staging, gates, lock).
\<close>

section \<open>The audit trail\<close>

text \<open>
  A run on its way without faults: the states passed, and the states of the records that were added
  to the ledger since it held the records \<open>es\<close>.
\<close>

definition trail :: "AuditEntry list \<Rightarrow> run \<Rightarrow> ExecutionState list \<Rightarrow> ExecutionState list \<Rightarrow> bool" where
  "trail es r ss ts \<longleftrightarrow>
     at_path r ss \<and> no_faults (runWorld r)
     \<and> (\<exists>fs. ledger_inv (engLedger (runEngine r)) (es @ fs) \<and> map aeState fs = map state_string ts)"

definition trailed :: "AuditEntry list \<Rightarrow> outcome \<Rightarrow> bool" where
  "trailed es out \<longleftrightarrow>
     (\<exists>res fs. fst (fst out) = Some res \<and> ledger_inv (engLedger (fst (snd out))) (es @ fs)
        \<and> (let ss = map trTo (rrTransitions res) in
           map aeState fs = map state_string ss
           \<or> ss = [StateDetected, StateEvaluating, StatePrecheckPassed]
             \<and> map aeState fs = map state_string (ss @ [StateEscalated])))"

lemma trail_world: "trail es r ss ts \<Longrightarrow> no_faults w \<Longrightarrow> trail es (r\<lparr>runWorld := w\<rparr>) ss ts"
  by (simp add: trail_def)

lemma trail_transition:
  assumes "trail es r ss ts" "CanTransition (last ss) st"
  shows "trail es (run_transition st why r) (ss @ [st]) ts"
  using assms at_path_transition [of r ss st why] by (simp add: trail_def)

lemma next_append_io_calm: "no_faults w \<Longrightarrow> fst (next_append_io w) = AppendOk"
  by (simp add: next_append_io_def)

lemma trail_append:
  assumes "trail es r ss ts"
  shows "trail es (run_append res rb d st r) ss (ts @ [st])"
proof -
  obtain fs where fs: "ledger_inv (engLedger (runEngine r)) (es @ fs)" "map aeState fs = map state_string ts"
    using assms by (auto simp: trail_def)
  obtain now w1 where n: "time_Now (runWorld r) = (now, w1)" by force
  have calm: "no_faults (runWorld r)" using assms by (simp add: trail_def)
  then have "no_faults w1" using calm.P_pairs(2) [OF n] by simp
  then obtain w2 where a: "next_append_io w1 = (AppendOk, w2)" using next_append_io_calm by (metis prod.collapse)
  let ?e = "new_entry now (engLedger (runEngine r)) res rb st d"
  have l: "engLedger (runEngine (run_append res rb d st r)) = snd (Append AppendOk now (engLedger (runEngine r)) res rb st d)"
    by (simp add: run_append_def n a Let_def)
  have "ledger_inv (engLedger (runEngine (run_append res rb d st r))) (es @ (fs @ [?e]))"
    using Append_ok [OF fs(1), of now res rb st d] l by simp
  moreover have "aeState ?e = state_string st" by (simp add: new_entry_def Let_def)
  ultimately show ?thesis
    using assms fs(2) calm unfolding trail_def by (intro conjI exI [of _ "fs @ [?e]"]) simp_all
qed

lemma trail_mark:
  assumes "trail es r ss ts" "CanTransition (last ss) st"
  shows "trail es (job_mark j d st why r) (ss @ [st]) (ts @ [st])"
  unfolding job_mark_def mark_def by (rule trail_append [OF trail_transition [OF assms]])

lemma trail_record: "trail es r ss ts \<Longrightarrow> trail es (run_record_execution t r) ss ts"
proof -
  have "engLedger (runEngine (run_record_execution t r)) = engLedger (runEngine r)"
    by (simp add: run_record_execution_def Let_def split: prod.split)
  then show "trail es r ss ts \<Longrightarrow> trail es (run_record_execution t r) ss ts" by (simp add: trail_def)
qed

lemma trail_can_execute:
  assumes "trail es r ss ts" "run_can_execute t r = (ans, r1)"
  shows "trail es r1 ss ts"
proof -
  have "engLedger (runEngine r1) = engLedger (runEngine r)"
    using assms(2) by (auto simp: run_can_execute_def Let_def split: prod.splits)
  moreover have "runFsm r1 = runFsm r" "no_faults (runWorld r1) = no_faults (runWorld r)"
    using runFsm_simps(3) [of t r] calm.P_run_steps(4) [of t r] assms(2) by simp_all
  ultimately show ?thesis using assms(1) by (simp add: trail_def at_path_def)
qed

lemma trail_conclude: "trail es r ss ss \<Longrightarrow> trailed es (conclude start r res err)"
  by (fastforce simp: trail_def trailed_def conclude_def at_path_def Let_def split: prod.split)

abbreviation upto_executing :: "ExecutionState list" where
  "upto_executing \<equiv> [StateDetected, StateEvaluating, StatePrecheckPassed, StateExecuting]"

lemma trailed_commit:
  assumes "trail es r upto_executing upto_executing"
  shows "trailed es (commit j res r)"
proof -
  let ?d = "exec_digest (jobAlert j) res"
  define r1 where "r1 = job_mark j ?d StatePostcheckPassed ''ground-truth postconditions verified'' r"
  define r2 where "r2 = run_transition StateCommitted ''remediation successfully verified and committed'' r1"
  define r3 where "r3 = r2\<lparr>runWorld := snd (UpdateState (engJournal (runEngine r2)) (jobTxID j) WalCommitted (runWorld r2))\<rparr>"
  have "trail es r1 (upto_executing @ [StatePostcheckPassed]) (upto_executing @ [StatePostcheckPassed])"
    unfolding r1_def by (rule trail_mark [OF assms]) simp
  then have t2: "trail es r2 ((upto_executing @ [StatePostcheckPassed]) @ [StateCommitted]) (upto_executing @ [StatePostcheckPassed])"
    unfolding r2_def by (rule trail_transition) simp
  then have "no_faults (runWorld r2)" by (simp add: trail_def)
  then have "trail es r3 ((upto_executing @ [StatePostcheckPassed]) @ [StateCommitted]) (upto_executing @ [StatePostcheckPassed])"
    unfolding r3_def by (intro trail_world [OF t2]) (simp add: calm.P_UpdateState)
  from trail_conclude [OF trail_record [OF trail_append [OF this]]] show ?thesis
    unfolding commit_def Let_def r1_def [symmetric] r2_def [symmetric] r3_def [symmetric] .
qed

lemma trailed_roll_back:
  assumes "trail es r upto_executing upto_executing" "\<forall>s \<in> set (walSteps wr). calm.step_keeps s"
  shows "trailed es (roll_back j wr res why r)"
proof -
  let ?d = "exec_digest (jobAlert j) res"
  define r2 where "r2 = job_mark j ?d StateRollingBack ''initiating compensating rollback actions'' (job_mark j ?d StatePostcheckFailed why r)"
  let ?p = "(upto_executing @ [StatePostcheckFailed]) @ [StateRollingBack]"
  have t2: "trail es r2 ?p ?p" unfolding r2_def by (intro trail_mark assms(1)) simp_all
  obtain err w where x: "ExecuteRollback (Some (engJournal (runEngine r2))) (jobCtx j) (Some wr) (runWorld r2) = (err, w)" by force
  have "no_faults w"
    using calm.P_ExecuteRollback [OF assms(2), of "runWorld r2" "Some (engJournal (runEngine r2))" "jobCtx j"] x t2 by (simp add: trail_def)
  then have w: "trail es (r2\<lparr>runWorld := w\<rparr>) ?p ?p" by (rule trail_world [OF t2])
  have a: "trail es (job_mark j ?d StateEscalated m (r2\<lparr>runWorld := w\<rparr>)) (?p @ [StateEscalated]) (?p @ [StateEscalated])" for m
    by (rule trail_mark [OF w]) simp
  have b: "trail es (job_mark j ?d StateEscalated m (job_mark j ?d StateRolledBack n (r2\<lparr>runWorld := w\<rparr>)))
      ((?p @ [StateRolledBack]) @ [StateEscalated]) ((?p @ [StateRolledBack]) @ [StateEscalated])" for m n
    by (intro trail_mark w) simp_all
  show ?thesis
    unfolding roll_back_def Let_def r2_def [symmetric] x prod.case
    using trail_conclude [OF a] trail_conclude [OF b] by (cases err) (simp_all only: option.case)
qed

lemma trailed_execute_plan:
  assumes "trail es r [StateDetected, StateEvaluating, StatePrecheckPassed] [StateDetected, StateEvaluating, StatePrecheckPassed]"
    "calm.rb_keeps (jobRunbook j)" "\<forall>s \<in> set (walSteps wr). calm.step_keeps s"
  shows "trailed es (execute_plan j wr r)"
proof -
  let ?rb = "jobRunbook j"
  define R where "R = job_mark j (base_digest (jobAlert j)) StateExecuting ''executing mutation actions'' r"
  have R: "trail es R upto_executing upto_executing"
    using trail_mark [OF assms(1), of StateExecuting] by (simp add: R_def)
  obtain res failed w1 where a:
    "run_actions (engExecutor (runEngine R)) (jobCtx j) (rbBlastRadius ?rb) (rbActions ?rb) None (runWorld R) = ((res, failed), w1)"
    by (metis prod.exhaust)
  obtain pf w2 where p: "check_postconditions (jobCtx j) (rbPostconditions ?rb) w1 = (pf, w2)" by force
  have w1: "no_faults w1"
    using calm.P_run_actions [of "rbActions ?rb" "runWorld R" "engExecutor (runEngine R)" "jobCtx j" "rbBlastRadius ?rb" None] a R assms(2)
    by (auto simp: calm.rb_keeps_def trail_def)
  then have w2: "no_faults w2"
    using calm.P_check_postconditions [of "rbPostconditions ?rb" w1 "jobCtx j"] p assms(2) by (auto simp: calm.rb_keeps_def)
  show ?thesis
    unfolding execute_plan_def Let_def R_def [symmetric] a prod.case p
    using trailed_roll_back [OF trail_world [OF R] assms(3)] trailed_commit [OF trail_world [OF R]] w1 w2
    by (cases failed; cases pf) (simp_all only: option.case)
qed
lemma trailed_stage_plan:
  assumes "trail es r [StateDetected, StateEvaluating, StatePrecheckPassed] [StateDetected, StateEvaluating, StatePrecheckPassed]"
    "calm.rb_keeps (jobRunbook j)"
  shows "trailed es (stage_plan j r)"
proof -
  let ?rb = "jobRunbook j" and ?a = "jobAlert j" and ?p = "[StateDetected, StateEvaluating, StatePrecheckPassed]"
  obtain t w1 where t: "time_Now (runWorld r) = (t, w1)" by force
  define tx where "tx = rbID ?rb @ ''-'' @ alID ?a @ ''-'' @ itoa (UnixNano t)"
  obtain s w2 where s: "Stage (engJournal (runEngine r)) tx (rbID ?rb) (alResourceID ?a) (rbRollbackSteps ?rb) w1 = (s, w2)" by force
  have "no_faults w2"
    using calm.P_pairs(2) [OF t] calm.P_Stage [of "engJournal (runEngine r)" tx "rbID ?rb" "alResourceID ?a" "rbRollbackSteps ?rb" w1] s assms(1)
    by (simp add: trail_def)
  then have r2: "trail es (r\<lparr>runWorld := w2\<rparr>) ?p ?p" by (rule trail_world [OF assms(1)])
  show ?thesis
  proof (cases s)
    case (Inl err)
    define R where "R = job_mark (j\<lparr>jobTxID := tx\<rparr>) (base_digest ?a) StateEscalated (''failed to stage WAL record: '' @ err_msg err) (r\<lparr>runWorld := w2\<rparr>)"
    have "trail es (run_transition StateEscalated why (r\<lparr>runWorld := w2\<rparr>)) ?p ?p" for why
      using r2 at_path_stuck [of "r\<lparr>runWorld := w2\<rparr>" ?p StateEscalated why] by (simp add: trail_def)
    then have "trail es R ?p (?p @ [StateEscalated])"
      unfolding R_def job_mark_def mark_def by (rule trail_append)
    then have "trailed es (conclude start R res err')" for start res err'
      by (fastforce simp: trail_def trailed_def conclude_def at_path_def Let_def split: prod.split)
    then show ?thesis
      unfolding stage_plan_def Let_def t prod.case tx_def [symmetric] s Inl sum.case R_def [symmetric] .
  next
    case (Inr wr)
    have "walSteps wr = rbRollbackSteps ?rb" using s Inr by (auto simp: Stage_def Let_def split: prod.splits option.splits)
    then have "trailed es (execute_plan (j\<lparr>jobTxID := tx\<rparr>) wr (r\<lparr>runWorld := w2\<rparr>))"
      using assms(2) by (intro trailed_execute_plan r2) (simp_all add: calm.rb_keeps_def)
    then show ?thesis
      unfolding stage_plan_def Let_def t prod.case tx_def [symmetric] s Inr sum.case .
  qed
qed

lemma trailed_gate:
  assumes "trail es r [StateDetected, StateEvaluating] [StateDetected, StateEvaluating]"
  shows "trailed es (conclude start (gate_failed j why esc r) res err)"
proof -
  let ?d = "base_digest (jobAlert j)"
  have "trail es (job_mark j ?d StatePrecheckFailed why r) ([StateDetected, StateEvaluating] @ [StatePrecheckFailed])
      ([StateDetected, StateEvaluating] @ [StatePrecheckFailed])"
    by (rule trail_mark [OF assms]) simp
  from trail_conclude [OF trail_mark [OF this]] show ?thesis unfolding gate_failed_def Let_def by simp
qed

lemma trailed_remediate_locked:
  assumes "trail es r [StateDetected, StateEvaluating] [StateDetected, StateEvaluating]" "calm.rb_keeps (jobRunbook j)"
  shows "trailed es (remediate_locked j r)"
proof -
  obtain ok why r1 where c: "run_can_execute (jobTarget j) r = ((ok, why), r1)" by (metis prod.exhaust)
  obtain pf w2 where p: "check_preconditions (jobCtx j) (rbPreconditions (jobRunbook j)) (runWorld r1) = (pf, w2)" by force
  have r1: "trail es r1 [StateDetected, StateEvaluating] [StateDetected, StateEvaluating]" by (rule trail_can_execute [OF assms(1) c])
  then have "no_faults w2"
    using calm.P_check_preconditions [of "rbPreconditions (jobRunbook j)" "runWorld r1" "jobCtx j"] p assms(2)
    by (auto simp: calm.rb_keeps_def trail_def)
  then have r2: "trail es (r1\<lparr>runWorld := w2\<rparr>) [StateDetected, StateEvaluating] [StateDetected, StateEvaluating]" by (rule trail_world [OF r1])
  define R where "R = job_mark j (base_digest (jobAlert j)) StatePrecheckPassed ''all preconditions verified'' (r1\<lparr>runWorld := w2\<rparr>)"
  have "trailed es (stage_plan j R)"
    using trail_mark [OF r2, of StatePrecheckPassed] unfolding R_def by (intro trailed_stage_plan assms(2)) simp
  then show ?thesis
    unfolding remediate_locked_def c Let_def prod.case p R_def [symmetric]
    using trailed_gate [OF r1] trailed_gate [OF r2] by (auto split: option.split)
qed

lemma calm_TryLock: "no_faults (snd (TryLock c res w)) = no_faults w" and calm_Unlock: "no_faults (snd (snd (Unlock l w))) = no_faults w"
proof -
  have flock: "sys_Flock p v = (a, v') \<Longrightarrow> no_faults v' = no_faults v" for p v a v'
    by (auto simp: sys_Flock_def no_faults_def sys_def split: option.splits if_splits)
  show "no_faults (snd (TryLock c res w)) = no_faults w"
    unfolding TryLock_def TryLockPath_def
    by (auto simp: Let_def split: prod.splits option.splits dest: calm.P_pairs flock)
  show "no_faults (snd (snd (Unlock l w))) = no_faults w"
    by (auto simp: Unlock_def release_flock_def no_faults_def sys_def Let_def split: prod.splits)
qed

lemma trailed_remediate_matched:
  assumes "trail es r [StateDetected] [StateDetected]" "calm.rb_keeps (jobRunbook j)"
  shows "trailed es (remediate_matched j r)"
proof -
  define R where "R = job_mark j (base_digest (jobAlert j)) StateEvaluating (''matched runbook '' @ rbID (jobRunbook j)) r"
  have R: "trail es R [StateDetected, StateEvaluating] [StateDetected, StateEvaluating]"
    using trail_mark [OF assms(1), of StateEvaluating] by (simp add: R_def)
  obtain l w1 where l: "TryLock (engLockCoord (runEngine R)) (alResourceID (jobAlert j)) (runWorld R) = (l, w1)" by force
  have "no_faults w1" using calm_TryLock [of "engLockCoord (runEngine R)" "alResourceID (jobAlert j)" "runWorld R"] l R by (simp add: trail_def)
  then have R1: "trail es (R\<lparr>runWorld := w1\<rparr>) [StateDetected, StateEvaluating] [StateDetected, StateEvaluating]" by (rule trail_world [OF R])
  obtain out e' w2 where k: "remediate_locked j (R\<lparr>runWorld := w1\<rparr>) = (out, e', w2)" by (metis prod.exhaust)
  have t: "trailed es (out, e', w3)" for w3
    using trailed_remediate_locked [OF R1 assms(2)] unfolding k trailed_def by simp
  show ?thesis
    unfolding remediate_matched_def Let_def R_def [symmetric] l prod.case k
    using trailed_gate [OF R1] t by (cases l) (simp_all only: sum.case)
qed

text \<open>A runbook whose functions do not make later system calls fail.\<close>

definition fault_neutral :: "Runbook \<Rightarrow> bool" where
  "fault_neutral rb \<longleftrightarrow>
     (\<forall>p \<in> set (rbPreconditions rb). \<forall>f. preCheckFn p = Some f \<longrightarrow> (\<forall>c w. oFault (snd (f c w)) = oFault w))
     \<and> (\<forall>a \<in> set (rbActions rb). \<forall>f. actMutateFn a = Some f \<longrightarrow> (\<forall>c w. oFault (snd (f c w)) = oFault w))
     \<and> (\<forall>p \<in> set (rbPostconditions rb). \<forall>f. postCheckFn p = Some f \<longrightarrow> (\<forall>c w. oFault (snd (f c w)) = oFault w))
     \<and> (\<forall>s \<in> set (rbRollbackSteps rb). \<forall>f. stepCompensatingFn s = Some f \<longrightarrow> (\<forall>c w. oFault (snd (f c w)) = oFault w))"

lemma fault_neutral_calm: "fault_neutral rb \<Longrightarrow> calm.rb_keeps rb"
  by (simp add: fault_neutral_def calm.rb_keeps_def calm.pre_keeps_def calm.act_keeps_def calm.post_keeps_def calm.step_keeps_def no_faults_def)



end
