(* ===== verification/Runbook_Disk.thy ===== *)
theory Runbook_Disk
  imports Model Verifier Go_Strings "HOL-Library.Sublist"
begin

text \<open>
  The disk cleanup runbook RBK-DISK-001 of \<open>internal/runbooks/runbooks.go\<close>: its parameters
  and their clamps, the precondition that inspects the candidates, the action that removes the oldest
  archives, the postcondition, and what the action can remove.
\<close>

section \<open>Parameters\<close>

record DiskCleanupConfig =
  dcTargetDir :: string
  dcActiveLogName :: string
  dcMinFreePctRequired :: rat
  dcMaxFilesToDelete :: int
  dcMaxBytesToDelete :: int
  dcExecutionTimeout :: duration
  dcHealthCheckURL :: string

definition DefaultDiskCleanupConfig :: DiskCleanupConfig where
  "DefaultDiskCleanupConfig =
     \<lparr>dcTargetDir = ''/var/log'', dcActiveLogName = ''ai-gateway.log'', dcMinFreePctRequired = 10, dcMaxFilesToDelete = 10,
      dcMaxBytesToDelete = 21474836480, dcExecutionTimeout = 15 * Second, dcHealthCheckURL = ''''\<rparr>"

definition disk_normalize :: "DiskCleanupConfig \<Rightarrow> DiskCleanupConfig" where
  "disk_normalize cfg =
     \<lparr>dcTargetDir = (if dcTargetDir cfg = '''' then ''/var/log'' else dcTargetDir cfg),
      dcActiveLogName = (if dcActiveLogName cfg = '''' then ''ai-gateway.log'' else dcActiveLogName cfg),
      dcMinFreePctRequired = dcMinFreePctRequired cfg,
      dcMaxFilesToDelete = (if dcMaxFilesToDelete cfg \<le> 0 \<or> dcMaxFilesToDelete cfg > 10 then 10 else dcMaxFilesToDelete cfg),
      dcMaxBytesToDelete =
        (if dcMaxBytesToDelete cfg \<le> 0 \<or> dcMaxBytesToDelete cfg > 21474836480 then 21474836480 else dcMaxBytesToDelete cfg),
      dcExecutionTimeout =
        (if dcExecutionTimeout cfg \<le> 0 \<or> dcExecutionTimeout cfg > 15 * Second then 15 * Second else dcExecutionTimeout cfg),
      dcHealthCheckURL = dcHealthCheckURL cfg\<rparr>"

section \<open>Helpers\<close>

definition resolveTargetDir :: "ctx \<Rightarrow> string \<Rightarrow> string" where
  "resolveTargetDir ctx defaultDir =
     (case ctxTarget ctx of Some s \<Rightarrow> if has_prefix s ''/'' then s else defaultDir | None \<Rightarrow> defaultDir)"

definition isArchiveFile :: "string \<Rightarrow> bool" where
  "isArchiveFile f \<longleftrightarrow> has_suffix f ''.log.gz'' \<or> has_suffix f ''.old'' \<or> has_suffix f ''.gz'' \<or> contains f ''.log.''"

definition findCandidateArchives :: "string \<Rightarrow> string \<Rightarrow> world \<Rightarrow> (goerror + string list) \<times> world" where
  "findCandidateArchives dir activeLogName w =
     (case os_ReadDir dir w of
        (Inl e, w1) \<Rightarrow> (Inl e, w1)
      | (Inr entries, w1) \<Rightarrow>
          (Inr (map (\<lambda>(name, _). filepath_Join [dir, name])
             (filter (\<lambda>(name, is_dir). \<not> is_dir \<and> name \<noteq> activeLogName \<and> isArchiveFile name) entries)), w1))"

definition checkCandidateFileSafe :: "string \<Rightarrow> int \<Rightarrow> string \<Rightarrow> world \<Rightarrow> (bool \<times> goerror option) \<times> world" where
  "checkCandidateFileSafe candidatePath activeInode activeLogName w =
     (case os_Info candidatePath w of
        (Inl e, w1) \<Rightarrow> ((False, Some e), w1)
      | (Inr fi, w1) \<Rightarrow>
          if activeInode > 0 \<and> uint (fiIno fi) = activeInode
          then ((False, Some (errorf (''candidate inode matches active log inode '' @ itoa activeInode))), w1)
          else if filepath_Base candidatePath = activeLogName
          then ((False, Some (errorf ''candidate filename matches active log name'')), w1)
          else ((True, None), w1))"

section \<open>Precondition\<close>

fun candidates_safe :: "int \<Rightarrow> string \<Rightarrow> string list \<Rightarrow> world \<Rightarrow> goerror option \<times> world" where
  "candidates_safe ino active [] w = (None, w)"
| "candidates_safe ino active (c # cs) w =
     (case checkCandidateFileSafe c ino active w of
        ((safe, err), w1) \<Rightarrow>
          if \<not> safe
          then (Some (wrapf (''candidate archive safety check failed for '' @ c @ '': '')
                  (case err of Some e \<Rightarrow> e | None \<Rightarrow> errorf ''%!w(<nil>)'') ''''), w1)
          else candidates_safe ino active cs w1)"

text \<open>\<open>inode\<close> is the address of the captured variable \<open>activeInode\<close>.\<close>

definition disk_precheck :: "string \<Rightarrow> DiskCleanupConfig \<Rightarrow> ctx \<Rightarrow> world \<Rightarrow> (bool \<times> goerror option) \<times> world" where
  "disk_precheck inode cfg ctx w =
     (let targetDir = resolveTargetDir ctx (dcTargetDir cfg) in
      case os_Info targetDir w of
        (Inl e, w1) \<Rightarrow> ((False, Some (wrapf (''target log directory '' @ targetDir @ '' inaccessible: '') e '''')), w1)
      | (Inr fi, w1) \<Rightarrow>
          if fiNode fi \<noteq> DirNode
          then ((False, Some (errorf (''target log path '' @ targetDir @ '' is not a directory''))), w1)
          else case sys_Statfs targetDir w1 of
            (Inl e, w2) \<Rightarrow> ((False, Some (wrapf (''statfs failed on '' @ targetDir @ '': '') e '''')), w2)
          | (Inr _, w2) \<Rightarrow>
              (let (r, w3) = os_Info (filepath_Join [targetDir, dcActiveLogName cfg]) w2;
                   w4 = (case r of Inl _ \<Rightarrow> w3 | Inr a \<Rightarrow> set_int inode (uint (fiIno a)) w3) in
               case findCandidateArchives targetDir (dcActiveLogName cfg) w4 of
                 (Inl e, w5) \<Rightarrow> ((False, Some e), w5)
               | (Inr candidates, w5) \<Rightarrow>
                   (case candidates_safe (intVars w5 inode) (dcActiveLogName cfg) candidates w5 of
                      (Some e, w6) \<Rightarrow> ((False, Some e), w6)
                    | (None, w6) \<Rightarrow> ((True, None), w6))))"

section \<open>Action\<close>

record archive =
  arPath :: string
  arModTime :: time
  arSize :: int

fun stat_archives :: "string list \<Rightarrow> world \<Rightarrow> archive list \<times> world" where
  "stat_archives [] w = ([], w)"
| "stat_archives (c # cs) w =
     (case os_Info c w of
        (Inl _, w1) \<Rightarrow> stat_archives cs w1
      | (Inr fi, w1) \<Rightarrow>
          (let (as, w2) = stat_archives cs w1 in
           (\<lparr>arPath = c, arModTime = fiModTime fi, arSize = fiSize fi\<rparr> # as, w2)))"

text \<open>The deletion loop: files deleted, bytes deleted (64-bit), paths deleted.\<close>

fun prune ::
    "DiskCleanupConfig \<Rightarrow> int \<Rightarrow> archive list \<Rightarrow> int \<times> int \<times> string list \<Rightarrow> world
     \<Rightarrow> (goerror + int \<times> int \<times> string list) \<times> world" where
  "prune cfg ino [] st w = (Inr st, w)"
| "prune cfg ino (f # fs) (n, b, ps) w =
     (if n \<ge> dcMaxFilesToDelete cfg then (Inr (n, b, ps), w)
      else if int64 (b + arSize f) > dcMaxBytesToDelete cfg \<and> n > 0 then (Inr (n, b, ps), w)
      else case checkCandidateFileSafe (arPath f) ino (dcActiveLogName cfg) w of
        ((safe, _), w1) \<Rightarrow>
          if \<not> safe then prune cfg ino fs (n, b, ps) w1
          else case os_Remove (arPath f) w1 of
            (Some e, w2) \<Rightarrow> (Inl (wrapf (''failed to unlink archive '' @ arPath f @ '': '') e ''''), w2)
          | (None, w2) \<Rightarrow> prune cfg ino fs (n + 1, int64 (b + arSize f), ps @ [arPath f]) w2)"

text \<open>
  \<open>sort.Slice\<close> by modification time leaves the order of equal times open: \<open>srt\<close> is the
  order it produces.
\<close>

type_synonym sorter = "archive list \<Rightarrow> archive list"

definition disk_action ::
    "sorter \<Rightarrow> string \<Rightarrow> DiskCleanupConfig \<Rightarrow> ctx \<Rightarrow> world \<Rightarrow> (ExecutionResult option \<times> goerror option) \<times> world" where
  "disk_action srt inode cfg ctx w =
     (let targetDir = resolveTargetDir ctx (dcTargetDir cfg) in
      case findCandidateArchives targetDir (dcActiveLogName cfg) w of
        (Inl e, w1) \<Rightarrow> ((None, Some e), w1)
      | (Inr candidates, w1) \<Rightarrow>
          (let (candidateList, w2) = stat_archives candidates w1 in
           case prune cfg (intVars w2 inode) (srt candidateList) (0, 0, []) w2 of
             (Inl e, w3) \<Rightarrow> ((None, Some e), w3)
           | (Inr (n, b, ps), w3) \<Rightarrow>
               ((Some (zero_result\<lparr>erSuccess := True, erBytesMutated := b,
                   erStdout := ''Deleted '' @ itoa n @ '' files ('' @ itoa b @ '' bytes): '' @ join_with '', '' ps\<rparr>), None), w3)))"

section \<open>Postcondition\<close>

definition active_log_intact :: "string \<Rightarrow> DiskCleanupConfig \<Rightarrow> string \<Rightarrow> world \<Rightarrow> goerror option \<times> world" where
  "active_log_intact inode cfg targetDir w =
     (let ino = intVars w inode; activePath = filepath_Join [targetDir, dcActiveLogName cfg] in
      if \<not> ino > 0 then (None, w)
      else case os_Info activePath w of
        (Inl e, w1) \<Rightarrow> (Some (wrapf (''active log file '' @ activePath @ '' missing after cleanup: '') e ''''), w1)
      | (Inr fi, w1) \<Rightarrow>
          if fiNode fi = DirNode then (Some (errorf (''active log '' @ activePath @ '' is not a regular file'')), w1)
          else if uint (fiIno fi) \<noteq> ino
          then (Some (errorf (''active log inode changed from '' @ itoa ino @ '' to '' @ itoa (uint (fiIno fi)))), w1)
          else (None, w1))"

definition disk_postcheck :: "string \<Rightarrow> DiskCleanupConfig \<Rightarrow> ctx \<Rightarrow> world \<Rightarrow> (bool \<times> goerror option) \<times> world" where
  "disk_postcheck inode cfg ctx w =
     (let targetDir = resolveTargetDir ctx (dcTargetDir cfg) in
      case active_log_intact inode cfg targetDir w of
        (Some e, w1) \<Rightarrow> ((False, Some e), w1)
      | (None, w1) \<Rightarrow>
          (case sys_Statfs targetDir w1 of
             (Inl e, w2) \<Rightarrow> ((False, Some (wrapf (''statfs failed on '' @ targetDir @ '': '') e '''')), w2)
           | (Inr (bavail, blocks), w2) \<Rightarrow>
               (let freePct = of_int bavail / of_int blocks * 100 in
                if blocks > 0 \<and> dcMinFreePctRequired cfg > 0 \<and> freePct < dcMinFreePctRequired cfg
                then ((False, Some (errorf (''postcondition disk free space on '' @ targetDir @ '' is '' @ fmt_2f freePct
                        @ ''%, required >= '' @ fmt_2f (dcMinFreePctRequired cfg) @ ''%''))), w2)
                else if dcHealthCheckURL cfg = '''' then ((True, None), w2)
                else case http_Get (dcHealthCheckURL cfg) (2 * Second) w2 of
                  (Inl _, w3) \<Rightarrow> ((True, None), w3)
                | (Inr status, w3) \<Rightarrow>
                    if status \<noteq> 200
                    then ((False, Some (errorf (''service health check returned status '' @ itoa status))), w3)
                    else ((True, None), w3))))"

section \<open>The runbook\<close>

definition IDDiskCleanupVarLog :: string where "IDDiskCleanupVarLog = ''RBK-DISK-001''"

definition NewDiskCleanupRunbook :: "sorter \<Rightarrow> string \<Rightarrow> DiskCleanupConfig \<Rightarrow> Runbook" where
  "NewDiskCleanupRunbook srt inode cfg0 =
     (let cfg = disk_normalize cfg0 in
      \<lparr>rbID = IDDiskCleanupVarLog, rbVersion = ''1.0.0'', rbName = ''disk_cleanup_var_log'',
       rbTargetResourceID = dcTargetDir cfg, rbSeverity = SeverityHigh,
       rbPreconditions = [custom_pre ''statfs-and-candidate-inspection'' (disk_precheck inode cfg)],
       rbActions = [mutation ''prune-oldest-archives'' (dcExecutionTimeout cfg) (disk_action srt inode cfg)],
       rbPostconditions = [custom_post ''active-log-intact-and-space-freed'' (disk_postcheck inode cfg)],
       rbRollbackSteps = [],
       rbBlastRadius =
         \<lparr>brMaxExecutionTime = dcExecutionTimeout cfg, brMaxBytesMutated = dcMaxBytesToDelete cfg, brMaxProcessesSignaled = 0,
          brMaxFilesModified = dcMaxFilesToDelete cfg, brAllowedPathPrefixes = [''/var/log'', ''/tmp'', dcTargetDir cfg]\<rparr>,
       rbMaxDampingPerHour = 0, rbCooldown = 0\<rparr>)"

section \<open>What the cleanup can delete\<close>

lemma same_fs_check:
  assumes "checkCandidateFileSafe p ino active w = ((safe, err), w')"
  shows "same_fs w w'" and "safe \<Longrightarrow> filepath_Base p \<noteq> active"
  using assms same_fs_Info [of p w] by (auto simp: checkCandidateFileSafe_def split: prod.splits sum.splits if_splits)

lemma stat_archives_facts:
  assumes "stat_archives cs w = (as, w')"
  shows "same_fs w w' \<and> (\<forall>a \<in> set as. arPath a \<in> set cs \<and> (\<exists>n. lookup_file w (arPath a) = Some n
           \<and> arSize a = (case n of FileNode bs \<Rightarrow> int (length bs) | DirNode \<Rightarrow> 0)))"
  using assms
proof (induction cs arbitrary: w as w')
  case (Cons c cs)
  obtain r w1 where i: "os_Info c w = (r, w1)" by force
  obtain as1 w2 where s: "stat_archives cs w1 = (as1, w2)" by force
  have w1: "same_fs w w1" by (rule same_fs_Info [OF i])
  then have l: "lookup_file w1 p = lookup_file w p" for p by (simp add: same_fs_def lookup_file_def)
  have r: "lookup_file w c = Some (fiNode fi) \<and> fiSize fi = (case fiNode fi of FileNode bs \<Rightarrow> int (length bs) | DirNode \<Rightarrow> 0)"
    if "r = Inr fi" for fi
    using i that by (auto simp: os_Info_def os_Stat_def sys_def lookup_file_def split: option.splits)
  show ?case using Cons.IH [OF s] Cons.prems i s w1 r l by (cases r) (auto simp: same_fs_def)
qed simp

definition pruned :: "DiskCleanupConfig \<Rightarrow> world \<Rightarrow> archive list \<Rightarrow> world \<Rightarrow> bool" where
  "pruned cfg w qs w' \<longleftrightarrow>
     (\<forall>p. lookup_file w' p = (if p \<in> arPath ` set qs then None else lookup_file w p))
     \<and> (\<forall>q \<in> set qs. filepath_Base (arPath q) \<noteq> dcActiveLogName cfg)
     \<and> signals w' = signals w \<and> commands w' = commands w"

lemma pruned_Nil: "same_fs w w' \<Longrightarrow> pruned cfg w [] w'"
  by (simp add: pruned_def same_fs_def lookup_file_def)

lemma pruned_skip: "same_fs w w1 \<Longrightarrow> pruned cfg w1 qs w' \<Longrightarrow> pruned cfg w qs w'"
  by (simp add: pruned_def same_fs_def lookup_file_def)

lemma pruned_Cons:
  assumes "same_fs w w1" "os_Remove (arPath f) w1 = (None, w2)" "filepath_Base (arPath f) \<noteq> dcActiveLogName cfg" "pruned cfg w2 qs w'"
  shows "pruned cfg w (f # qs) w'"
  using assms(1,3,4) Remove_ok [OF assms(2)] by (auto simp: pruned_def same_fs_def lookup_file_def)

lemma prune_facts:
  assumes "prune cfg ino fs (n, b, ps) w = (r, w')" "0 \<le> n"
  shows "\<exists>qs. pruned cfg w qs w' \<and> subseq qs fs \<and> (qs = [] \<or> n + int (length qs) \<le> dcMaxFilesToDelete cfg)
    \<and> (\<forall>n' b' ps'. r = Inr (n', b', ps') \<longrightarrow> n' = n + int (length qs) \<and> ps' = ps @ map arPath qs
         \<and> b' = foldl (\<lambda>x q. int64 (x + arSize q)) b qs
         \<and> (\<forall>q qs'. qs = qs' @ [q] \<longrightarrow> n + int (length qs') = 0 \<or> b' \<le> dcMaxBytesToDelete cfg))"
  using assms
proof (induction fs arbitrary: n b ps w)
  case Nil
  then show ?case by (auto intro!: exI [of _ "[]"] pruned_Nil)
next
  case (Cons f fs)
  obtain safe err w1 where c: "checkCandidateFileSafe (arPath f) ino (dcActiveLogName cfg) w = ((safe, err), w1)" by (metis prod.exhaust)
  obtain e w2 where d: "os_Remove (arPath f) w1 = (e, w2)" by force
  note w1 = same_fs_check [OF c]
  consider (stop) "n \<ge> dcMaxFilesToDelete cfg \<or> int64 (b + arSize f) > dcMaxBytesToDelete cfg \<and> n > 0"
    | (skip) "n < dcMaxFilesToDelete cfg" "\<not> safe" "prune cfg ino fs (n, b, ps) w1 = (r, w')"
    | (fail) x where "n < dcMaxFilesToDelete cfg" "safe" "e = Some x" "w' = w2" "\<exists>y. r = Inl y"
    | (del) "n < dcMaxFilesToDelete cfg" "\<not> (int64 (b + arSize f) > dcMaxBytesToDelete cfg \<and> n > 0)" "safe" "e = None"
        "prune cfg ino fs (n + 1, int64 (b + arSize f), ps @ [arPath f]) w2 = (r, w')"
    using Cons.prems(1) c d by (cases safe; cases e) (auto split: if_splits)
  then show ?case
  proof cases
    case stop
    then have "r = Inr (n, b, ps)" "w' = w" using Cons.prems(1) by (auto split: if_splits)
    then show ?thesis by (auto intro!: exI [of _ "[]"] pruned_Nil)
  next
    case skip
    from Cons.IH [OF skip(3) Cons.prems(2)] show ?thesis using pruned_skip [OF w1(1)] by (blast intro: subseq_Cons')
  next
    case fail
    then have "pruned cfg w [] w'" using w1(1) Remove_ok [OF d] by (simp add: pruned_def same_fs_def lookup_file_def)
    then show ?thesis using fail(5) by (auto intro!: exI [of _ "[]"])
  next
    case del
    have "0 \<le> n + 1" using Cons.prems(2) by simp
    from Cons.IH [OF del(5) this] obtain qs where qs: "pruned cfg w2 qs w'" "subseq qs fs"
      "qs = [] \<or> n + 1 + int (length qs) \<le> dcMaxFilesToDelete cfg"
      and q: "\<forall>n' b' ps'. r = Inr (n', b', ps') \<longrightarrow> n' = n + 1 + int (length qs) \<and> ps' = (ps @ [arPath f]) @ map arPath qs
         \<and> b' = foldl (\<lambda>x q. int64 (x + arSize q)) (int64 (b + arSize f)) qs
         \<and> (\<forall>q qs'. qs = qs' @ [q] \<longrightarrow> n + 1 + int (length qs') = 0 \<or> b' \<le> dcMaxBytesToDelete cfg)" by blast
    have "pruned cfg w (f # qs) w'" using pruned_Cons [OF w1(1) _ w1(2) qs(1)] d del(3,4) by simp
    moreover have "n + int (length (f # qs)) \<le> dcMaxFilesToDelete cfg" using qs(3) del(1) by auto
    moreover have "n' = n + int (length (f # qs)) \<and> ps' = ps @ map arPath (f # qs)
         \<and> b' = foldl (\<lambda>x q. int64 (x + arSize q)) b (f # qs)
         \<and> (\<forall>q qs'. f # qs = qs' @ [q] \<longrightarrow> n + int (length qs') = 0 \<or> b' \<le> dcMaxBytesToDelete cfg)"
      if "r = Inr (n', b', ps')" for n' b' ps'
    proof -
      have "n + int (length qs') = 0 \<or> b' \<le> dcMaxBytesToDelete cfg" if e: "f # qs = qs' @ [z]" for z qs'
      proof (cases qs')
        case Nil
        then show ?thesis using e q \<open>r = _\<close> del(2) Cons.prems(2) by auto
      next
        case (Cons y ys)
        then have "qs = ys @ [z]" "length qs' = Suc (length ys)" using e by auto
        then show ?thesis using q \<open>r = _\<close> Cons \<open>0 \<le> n + 1\<close> by fastforce
      qed
      then show ?thesis using q that by auto
    qed
    ultimately show ?thesis using qs(2) by (intro exI [of _ "f # qs"]) auto
  qed
qed

lemma foldl_int64:
  assumes "\<forall>q \<in> set qs. 0 \<le> arSize q \<and> arSize q < 2 ^ 59" "0 \<le> b" "b + 2 ^ 59 * int (length qs) \<le> max_int64"
  shows "foldl (\<lambda>x q. int64 (x + arSize q)) b qs = b + (\<Sum>q \<leftarrow> qs. arSize q)"
  using assms
proof (induction qs arbitrary: b)
  case (Cons q qs)
  then have "int64 (b + arSize q) = b + arSize q" by (intro int64_id) (auto simp: min_int64_def algebra_simps)
  then show ?case using Cons.IH [of "b + arSize q"] Cons.prems by (auto simp: algebra_simps)
qed simp

lemma disk_normalize_limits:
  "0 < dcMaxFilesToDelete (disk_normalize cfg)" "dcMaxFilesToDelete (disk_normalize cfg) \<le> 10"
  "0 < dcMaxBytesToDelete (disk_normalize cfg)" "dcMaxBytesToDelete (disk_normalize cfg) \<le> 21474836480"
  by (auto simp: disk_normalize_def)

lemma sorted_subseq: "subseq xs ys \<Longrightarrow> sorted (map f ys) \<Longrightarrow> sorted (map f xs)"
proof (induction rule: list_emb.induct)
  case (list_emb_Cons2 x y xs ys)
  then have "set xs \<subseteq> set ys" by (auto elim: list_emb_set [OF list_emb_Cons2.hyps(2)])
  then show ?case using list_emb_Cons2 by auto
qed auto

lemma find_facts:
  assumes "findCandidateArchives d active w = (r, w')"
  shows "same_fs w w'" "r = Inr cs \<Longrightarrow> c \<in> set cs \<Longrightarrow> \<exists>name. c = filepath_Join [d, name] \<and> isArchiveFile name"
proof -
  obtain es w1 where e: "os_ReadDir d w = (es, w1)" by force
  then show "same_fs w w'" using assms files_ReadDir [of d w] by (auto simp: findCandidateArchives_def same_fs_def split: sum.splits)
  show "r = Inr cs \<Longrightarrow> c \<in> set cs \<Longrightarrow> \<exists>name. c = filepath_Join [d, name] \<and> isArchiveFile name"
    using assms e by (auto simp: findCandidateArchives_def split: sum.splits)
qed

definition archive_of :: "world \<Rightarrow> string \<Rightarrow> archive \<Rightarrow> bool" where
  "archive_of w dir a \<longleftrightarrow>
     (\<exists>name. arPath a = filepath_Join [dir, name] \<and> isArchiveFile name)
     \<and> (\<exists>n. lookup_file w (arPath a) = Some n \<and> arSize a = (case n of FileNode bs \<Rightarrow> int (length bs) | DirNode \<Rightarrow> 0))"

lemma archive_of_size:
  assumes "archive_of w dir a" "\<forall>p bs. lookup_file w p = Some (FileNode bs) \<longrightarrow> int (length bs) < 2 ^ 59"
  shows "0 \<le> arSize a \<and> arSize a < 2 ^ 59"
proof -
  obtain n where "lookup_file w (arPath a) = Some n" "arSize a = (case n of FileNode bs \<Rightarrow> int (length bs) | DirNode \<Rightarrow> 0)"
    using assms(1) by (auto simp: archive_of_def)
  then show ?thesis using assms(2) by (cases n) auto
qed

lemma disk_action_prunes:
  assumes "\<And>xs. set (srt xs) = set xs" "disk_action srt inode cfg ctx w = ((res, err), w')"
  shows "\<exists>cl qs. pruned cfg w qs w' \<and> subseq qs (srt cl)
    \<and> (\<forall>q \<in> set qs. archive_of w (resolveTargetDir ctx (dcTargetDir cfg)) q)
    \<and> (qs = [] \<or> int (length qs) \<le> dcMaxFilesToDelete cfg)
    \<and> (\<forall>r. res = Some r \<longrightarrow> erBytesMutated r = foldl (\<lambda>x q. int64 (x + arSize q)) 0 qs
         \<and> (\<forall>q qs'. qs = qs' @ [q] \<longrightarrow> qs' = [] \<or> erBytesMutated r \<le> dcMaxBytesToDelete cfg))"
proof -
  let ?dir = "resolveTargetDir ctx (dcTargetDir cfg)"
  obtain fc w1 where f: "findCandidateArchives ?dir (dcActiveLogName cfg) w = (fc, w1)" by force
  note w1 = find_facts(1) [OF f]
  show ?thesis
  proof (cases fc)
    case (Inl e)
    then have "res = None" "w' = w1" using assms(2) f by (auto simp: disk_action_def)
    then show ?thesis using pruned_Nil [OF w1] by (intro exI [of _ "[]"]) simp
  next
    case (Inr cs)
    obtain cl w2 where st: "stat_archives cs w1 = (cl, w2)" by force
    note sf = stat_archives_facts [OF st]
    have w2: "same_fs w w2" using w1 sf by (simp add: same_fs_def)
    obtain r w3 where p: "prune cfg (intVars w2 inode) (srt cl) (0, 0, []) w2 = (r, w3)" by force
    obtain qs where qs: "pruned cfg w2 qs w3" "subseq qs (srt cl)" "qs = [] \<or> int (length qs) \<le> dcMaxFilesToDelete cfg"
      and q: "\<And>n' b' ps'. r = Inr (n', b', ps') \<Longrightarrow> b' = foldl (\<lambda>x q. int64 (x + arSize q)) 0 qs
         \<and> (\<forall>q qs'. qs = qs' @ [q] \<longrightarrow> qs' = [] \<or> b' \<le> dcMaxBytesToDelete cfg)"
      using prune_facts [OF p] by fastforce
    have mem: "archive_of w ?dir x" if x: "x \<in> set qs" for x
    proof -
      have c: "x \<in> set cl" using list_emb_set [OF qs(2) x] assms(1) by auto
      then have "\<exists>name. arPath x = filepath_Join [?dir, name] \<and> isArchiveFile name" using sf find_facts(2) [OF f Inr] by blast
      then show ?thesis using sf c w1 by (auto simp: archive_of_def same_fs_def lookup_file_def)
    qed
    have out: "w' = w3" "\<And>x. res = Some x \<Longrightarrow> \<exists>n ps. r = Inr (n, erBytesMutated x, ps)"
      using assms(2) unfolding disk_action_def Let_def f prod.case Inr sum.case st p by (auto split: sum.splits)
    have "\<forall>r. res = Some r \<longrightarrow> erBytesMutated r = foldl (\<lambda>x q. int64 (x + arSize q)) 0 qs
         \<and> (\<forall>q qs'. qs = qs' @ [q] \<longrightarrow> qs' = [] \<or> erBytesMutated r \<le> dcMaxBytesToDelete cfg)"
      using out(2) q by blast
    then show ?thesis using pruned_skip [OF w2 qs(1)] qs(2,3) mem out(1) by blast
  qed
qed


definition demo_log_world :: world where
  "demo_log_world =
     quiet_world\<lparr>files := [(''/v'', DirNode), (''/v/a.log'', FileNode ''x''), (''/v/b.gz'', FileNode ''yy''), (''/v/c.txt'', FileNode ''z'')]\<rparr>"

definition demo_log_cfg :: DiskCleanupConfig where
  "demo_log_cfg = DefaultDiskCleanupConfig\<lparr>dcTargetDir := ''/v'', dcActiveLogName := ''a.log''\<rparr>"


end
