(* ===== verification/Runbook_Proc.thy ===== *)
theory Runbook_Proc
  imports Model Go_Strings
begin

text \<open>
  The service recovery runbook RBK-PROC-001 of \<open>internal/runbooks/runbooks.go\<close>: the
  precondition that finds the hung process, the escalation ladder SIGTERM, wait, SIGKILL, wait, the
  respawn, and the health postcondition. Its waiting loops end, and it signals nobody but its target.
\<close>

section \<open>Parameters\<close>

record ServiceHangConfig =
  shServiceName :: string
  shTargetPID :: int
  shPIDFilePath :: string
  shPort :: int
  shHealthURL :: string
  shStartCmd :: string
  shStartArgs :: "string list"
  shSpawnFn :: "(world \<Rightarrow> (goerror + int) \<times> world) option"
  shTermTimeout :: duration
  shKillTimeout :: duration
  shExecutionTimeout :: duration

definition DefaultServiceHangConfig :: ServiceHangConfig where
  "DefaultServiceHangConfig =
     \<lparr>shServiceName = ''ai-gateway'', shTargetPID = 0, shPIDFilePath = ''/var/run/ai-gateway.pid'', shPort = 8080,
      shHealthURL = ''http://127.0.0.1:8080/healthz'', shStartCmd = ''/usr/local/bin/ai-gateway'',
      shStartArgs = [''--config=/etc/ai-gateway/config.yaml''], shSpawnFn = None, shTermTimeout = 5 * Second,
      shKillTimeout = 2 * Second, shExecutionTimeout = 15 * Second\<rparr>"

definition hang_normalize :: "ServiceHangConfig \<Rightarrow> ServiceHangConfig" where
  "hang_normalize cfg =
     (let port = (if shPort cfg \<le> 0 then 8080 else shPort cfg) in
      cfg\<lparr>shServiceName := (if shServiceName cfg = '''' then ''ai-gateway'' else shServiceName cfg),
          shPort := port,
          shHealthURL := (if shHealthURL cfg = '''' then ''http://127.0.0.1:'' @ itoa port @ ''/healthz'' else shHealthURL cfg),
          shTermTimeout := (if shTermTimeout cfg \<le> 0 then 5 * Second else shTermTimeout cfg),
          shKillTimeout := (if shKillTimeout cfg \<le> 0 then 2 * Second else shKillTimeout cfg),
          shExecutionTimeout := (if shExecutionTimeout cfg \<le> 0 then 15 * Second else shExecutionTimeout cfg)\<rparr>)"

section \<open>Helpers\<close>

definition fileExists :: "string \<Rightarrow> world \<Rightarrow> bool \<times> world" where
  "fileExists path w =
     (case os_Stat path w of (Inl _, w1) \<Rightarrow> (False, w1) | (Inr n, w1) \<Rightarrow> (n \<noteq> DirNode, w1))"

text \<open>\<open>err != nil && !errors.Is(err, EPERM)\<close>: the probe says that the process is gone.\<close>

definition gone :: "goerror option \<Rightarrow> bool" where
  "gone err \<longleftrightarrow> (case err of None \<Rightarrow> False | Some e \<Rightarrow> \<not> errors_Is e EPERM)"

definition SIGHUP :: int where "SIGHUP = 1"
definition SIGKILL :: int where "SIGKILL = 9"
definition SIGTERM :: int where "SIGTERM = 15"

definition mock_script :: "int \<Rightarrow> string" where
  "mock_script port =
     (let nl = [newline]; dq = [dquote] in
      ''import http.server'' @ nl @
      ''class H(http.server.BaseHTTPRequestHandler):'' @ nl @
      ''    def do_GET(self):'' @ nl @
      ''        self.send_response(200)'' @ nl @
      ''        self.end_headers()'' @ nl @
      ''        self.wfile.write(b'' @ dq @ ''OK'' @ dq @ '')'' @ nl @
      ''    def log_message(self, format, *args):'' @ nl @
      ''        pass'' @ nl @
      ''http.server.HTTPServer(('' @ dq @ ''127.0.0.1'' @ dq @ '', '' @ itoa port @ ''), H).serve_forever()'')"

definition exec_Command :: "string \<Rightarrow> string list \<Rightarrow> command" where
  "exec_Command bin args = \<lparr>cmdBinary = bin, cmdArgs = args, cmdSetpgid = False, cmdCredential = None\<rparr>"

definition startMockHealthServer :: "int \<Rightarrow> world \<Rightarrow> int \<times> world" where
  "startMockHealthServer port w =
     (case cmd_Start (exec_Command ''python3'' [''-c'', mock_script (if port \<le> 0 then 8080 else port)]) w of
        (Inl _, w1) \<Rightarrow> (0, w1)
      | (Inr pid, w1) \<Rightarrow> (pid, w1))"

section \<open>Precondition\<close>

text \<open>\<open>pidv\<close> is the address of the captured variable \<open>activePID\<close>.\<close>

definition read_pid_file :: "string \<Rightarrow> ServiceHangConfig \<Rightarrow> world \<Rightarrow> world" where
  "read_pid_file pidv cfg w =
     (let pidPath = (if shPIDFilePath cfg = '''' then ''/var/run/'' @ shServiceName cfg @ ''.pid'' else shPIDFilePath cfg);
          (data, w2) = (case os_ReadFile pidPath w of
                          (Inl _, w1) \<Rightarrow> os_ReadFile (''/tmp/'' @ shServiceName cfg @ ''.pid'') w1
                        | (Inr d, w1) \<Rightarrow> (Inr d, w1)) in
      case data of
        Inl _ \<Rightarrow> w2
      | Inr d \<Rightarrow>
          (case Atoi (TrimSpace d) of (p, err) \<Rightarrow> if err = None \<and> p > 0 then set_int pidv p w2 else w2))"

definition hang_precheck :: "string \<Rightarrow> ServiceHangConfig \<Rightarrow> ctx \<Rightarrow> world \<Rightarrow> (bool \<times> goerror option) \<times> world" where
  "hang_precheck pidv cfg ctx w =
     (let w1 = read_pid_file pidv cfg w; curPID = intVars w1 pidv;
          (stopped, w2) =
            (if \<not> curPID > 0 then (None, w1)
             else if curPID = oPid w1 then (None, set_int pidv 0 w1)
             else case sys_Kill curPID 0 w1 of
               (err, w') \<Rightarrow>
                 if \<not> gone err then (None, w')
                 else if shTargetPID cfg > 0
                 then (Some (wrapf (''target process PID '' @ itoa curPID @ '' is not running: '') (the err) ''''), w')
                 else (None, set_int pidv 0 w')) in
      case stopped of
        Some e \<Rightarrow> ((False, Some e), w2)
      | None \<Rightarrow>
          (case http_Get (shHealthURL cfg) (1 * Second) w2 of
             (Inl _, w3) \<Rightarrow> ((True, None), w3)
           | (Inr status, w3) \<Rightarrow>
               if status = 200 \<and> intVars w2 pidv = 0
               then ((False, Some (errorf ''service is currently healthy; recovery not required'')), w3)
               else ((True, None), w3)))"

section \<open>Action\<close>

text \<open>
  A polling loop: probe the process every 50 ms until it is gone or the deadline has passed. The
  loop has at most \<open>timeout / 50 ms + 1\<close> iterations when sleeping takes at least the time asked
  for; \<open>poll_fuel\<close> is that number, and \<open>wait_gone_fuel\<close> below shows that it is enough.
\<close>

fun wait_gone :: "nat \<Rightarrow> int \<Rightarrow> time \<Rightarrow> world \<Rightarrow> bool \<times> world" where
  "wait_gone 0 pid deadline w = (False, snd (time_Now w))"
| "wait_gone (Suc k) pid deadline w =
     (let (now, w1) = time_Now w in
      if \<not> time_Before now deadline then (False, w1)
      else case sys_Kill pid 0 w1 of
        (err, w2) \<Rightarrow> if gone err then (True, w2) else wait_gone k pid deadline (time_Sleep (50 * Millisecond) w2))"

definition poll_fuel :: "duration \<Rightarrow> nat" where
  "poll_fuel timeout = nat (timeout div (50 * Millisecond)) + 1"

definition poll_gone :: "int \<Rightarrow> duration \<Rightarrow> world \<Rightarrow> bool \<times> world" where
  "poll_gone pid timeout w =
     (let (now, w1) = time_Now w in wait_gone (poll_fuel timeout) pid (time_Add now timeout) w1)"

definition escalation_ladder :: "int \<Rightarrow> ServiceHangConfig \<Rightarrow> world \<Rightarrow> world" where
  "escalation_ladder curPID cfg w =
     (if \<not> (curPID > 0 \<and> curPID \<noteq> oPid w) then w
      else case sys_Kill curPID 0 w of
        (Some _, w1) \<Rightarrow> w1
      | (None, w1) \<Rightarrow>
          (let (_, w2) = sys_Kill curPID SIGTERM w1; (terminated, w3) = poll_gone curPID (shTermTimeout cfg) w2 in
           if terminated then w3
           else (let (_, w4) = sys_Kill curPID SIGKILL w3 in snd (poll_gone curPID (shKillTimeout cfg) w4))))"

definition spawn_replacement :: "ServiceHangConfig \<Rightarrow> world \<Rightarrow> (goerror + int) \<times> world" where
  "spawn_replacement cfg w =
     (case shSpawnFn cfg of
        Some f \<Rightarrow>
          (case f w of
             (Inl e, w1) \<Rightarrow> (Inl (wrapf ''failed to spawn replacement service via SpawnFn: '' e ''''), w1)
           | (Inr np, w1) \<Rightarrow> (Inr np, w1))
      | None \<Rightarrow>
          if shStartCmd cfg = '''' then (Inr 0, w)
          else case fileExists (shStartCmd cfg) w of
            (True, w1) \<Rightarrow>
              (case cmd_Start (exec_Command (shStartCmd cfg) (shStartArgs cfg)) w1 of
                 (Inl e, w2) \<Rightarrow> (Inl (wrapf ''failed to spawn replacement service: '' e ''''), w2)
               | (Inr pid, w2) \<Rightarrow> (Inr pid, w2))
          | (False, w1) \<Rightarrow> (let (pid, w2) = startMockHealthServer (shPort cfg) w1 in (Inr pid, w2)))"

definition hang_action ::
    "string \<Rightarrow> ServiceHangConfig \<Rightarrow> ctx \<Rightarrow> world \<Rightarrow> (ExecutionResult option \<times> goerror option) \<times> world" where
  "hang_action pidv cfg ctx w =
     (case spawn_replacement cfg (escalation_ladder (intVars w pidv) cfg w) of
        (Inl e, w1) \<Rightarrow> ((None, Some e), w1)
      | (Inr newPID, w1) \<Rightarrow>
          (let w2 = (if \<not> newPID > 0 then w1
                     else if shPIDFilePath cfg = '''' then set_int pidv newPID w1
                     else snd (os_WriteFile (shPIDFilePath cfg) (itoa newPID) (set_int pidv newPID w1))) in
           ((Some (zero_result\<lparr>erSuccess := True,
               erStdout := ''Service '' @ shServiceName cfg @ '' successfully restarted with new PID '' @ itoa newPID\<rparr>), None), w2)))"

section \<open>Postcondition\<close>

fun port_ready :: "nat \<Rightarrow> string \<Rightarrow> world \<Rightarrow> bool \<times> world" where
  "port_ready 0 addr w = (False, w)"
| "port_ready (Suc k) addr w =
     (case net_Dial addr w of
        (None, w1) \<Rightarrow> (True, w1)
      | (Some _, w1) \<Rightarrow> port_ready k addr (time_Sleep (100 * Millisecond) w1))"

text \<open>The health probe with retries: \<^term>\<open>None\<close> when it answered 200, the last error otherwise.\<close>

fun probe_health :: "nat \<Rightarrow> string \<Rightarrow> string \<Rightarrow> goerror option \<Rightarrow> world \<Rightarrow> goerror option option \<times> world" where
  "probe_health 0 what url lastErr w = (Some lastErr, w)"
| "probe_health (Suc k) what url lastErr w =
     (case http_Get url (1 * Second) w of
        (Inr status, w1) \<Rightarrow>
          if status = 200 then (None, w1)
          else probe_health k what url (Some (errorf (what @ itoa status))) (time_Sleep (100 * Millisecond) w1)
      | (Inl e, w1) \<Rightarrow> probe_health k what url (Some e) (time_Sleep (100 * Millisecond) w1))"

definition wrap_opt :: "string \<Rightarrow> goerror option \<Rightarrow> goerror" where
  "wrap_opt s err = (case err of Some e \<Rightarrow> wrapf s e '''' | None \<Rightarrow> errorf (s @ ''%!w(<nil>)''))"

definition hang_postcheck :: "string \<Rightarrow> ServiceHangConfig \<Rightarrow> ctx \<Rightarrow> world \<Rightarrow> (bool \<times> goerror option) \<times> world" where
  "hang_postcheck pidv cfg ctx w =
     (let newPID = intVars w pidv in
      if \<not> newPID > 0 then ((True, None), w)
      else case sys_Kill newPID 0 w of
        (err, w1) \<Rightarrow>
          if gone err
          then ((False, Some (wrapf (''replacement process PID '' @ itoa newPID @ '' is not running: '') (the err) '''')), w1)
          else case port_ready 30 (''127.0.0.1:'' @ itoa (shPort cfg)) w1 of
            (False, w2) \<Rightarrow> ((False, Some (errorf (''service port '' @ itoa (shPort cfg) @ '' is not listening''))), w2)
          | (True, w2) \<Rightarrow>
              (case probe_health 20 ''health endpoint returned '' (shHealthURL cfg) None w2 of
                 (None, w3) \<Rightarrow> ((True, None), w3)
               | (Some e, w3) \<Rightarrow> ((False, Some (wrap_opt (''health check '' @ shHealthURL cfg @ '' failed: '') e)), w3)))"

section \<open>The runbook\<close>

definition IDServiceHangRecovery :: string where "IDServiceHangRecovery = ''RBK-PROC-001''"

text \<open>The constructor initialises the captured variable with the configured process.\<close>

definition NewServiceHangRecoveryRunbook :: "string \<Rightarrow> ServiceHangConfig \<Rightarrow> world \<Rightarrow> Runbook \<times> world" where
  "NewServiceHangRecoveryRunbook pidv cfg0 w =
     (let cfg = hang_normalize cfg0 in
      (\<lparr>rbID = IDServiceHangRecovery, rbVersion = ''1.0.0'', rbName = ''service_hang_recovery'',
        rbTargetResourceID = shServiceName cfg, rbSeverity = SeverityCritical,
        rbPreconditions = [custom_pre ''target-service-hang-asserted'' (hang_precheck pidv cfg)],
        rbActions = [mutation ''escalation-ladder-termination-and-respawn'' (shExecutionTimeout cfg) (hang_action pidv cfg)],
        rbPostconditions = [custom_post ''replacement-process-and-port-healthy'' (hang_postcheck pidv cfg)],
        rbRollbackSteps = [],
        rbBlastRadius =
          \<lparr>brMaxExecutionTime = shExecutionTimeout cfg, brMaxBytesMutated = 0, brMaxProcessesSignaled = 1,
           brMaxFilesModified = 0, brAllowedPathPrefixes = []\<rparr>,
        rbMaxDampingPerHour = 0, rbCooldown = 0\<rparr>,
       if shTargetPID cfg > 0 then set_int pidv (shTargetPID cfg) w else w))"

section \<open>The polling loop ends\<close>

lemma sys_Kill_frame [simp]:
  "oClock (snd (sys_Kill p s w)) = oClock w" "steps (snd (sys_Kill p s w)) = Suc (steps w)" "oPid (snd (sys_Kill p s w)) = oPid w"
  by (simp_all add: sys_Kill_def next_step_def split: option.split)

lemma sys_Kill_log:
  "sys_Kill p s w = (err, w') \<Longrightarrow> signals w' = signals w @ (if err = None \<and> s \<noteq> 0 then [(p, s)] else [])"
  by (auto simp: sys_Kill_def split: option.splits)

lemma next_step_clock [simp]: "oClock (next_step w) = oClock w" "oPid (next_step w) = oPid w"
  by (simp_all add: next_step_def)

text \<open>With \<open>k\<close> probes left, the clock is at most \<open>k\<close> pauses before the deadline, now and after each probe.\<close>

definition paced :: "nat \<Rightarrow> time \<Rightarrow> world \<Rightarrow> bool" where
  "paced k deadline w \<longleftrightarrow> (\<forall>i \<le> k. deadline - int (k - i) * (50 * Millisecond) \<le> oClock w (steps w + 3 * i))"

lemma paced_next:
  assumes "paced (Suc k) deadline w" "oClock v = oClock w" "steps v = steps w + 3"
  shows "paced k deadline v"
proof -
  have "deadline - int (k - i) * (50 * Millisecond) \<le> oClock w (steps w + 3 + 3 * i)" if "i \<le> k" for i
    using assms(1) that unfolding paced_def by (elim allE [of _ "Suc i"]) (simp add: ac_simps)
  then show ?thesis by (simp add: paced_def assms(2,3))
qed

lemma probe_frame:
  assumes "sys_Kill pid 0 (next_step w) = (err, w2)"
  shows "oClock (time_Sleep d w2) = oClock w" "steps (time_Sleep d w2) = steps w + 3"
  using sys_Kill_frame(1,2) [of pid 0 "next_step w"] assms by (simp_all add: time_Sleep_def)

lemma wait_gone_fuel:
  assumes "paced k deadline w"
  shows "wait_gone (k + m) pid deadline w = wait_gone k pid deadline w"
  using assms
proof (induction k arbitrary: w)
  case 0
  then show ?case by (cases m) (auto simp: paced_def time_Now_def time_Before_def)
next
  case (Suc k)
  obtain err w2 where x: "sys_Kill pid 0 (next_step w) = (err, w2)" by force
  let ?w = "time_Sleep (50 * Millisecond) w2"
  have "wait_gone (k + m) pid deadline ?w = wait_gone k pid deadline ?w"
    by (rule Suc.IH [OF paced_next [OF Suc.prems probe_frame [OF x]]])
  then show ?case by (simp add: time_Now_def x)
qed

lemma wait_gone_timeout:
  assumes "wait_gone k pid deadline w = (False, w')" "paced k deadline w"
  shows "deadline \<le> oClock w (steps w' - 1) \<and> steps w < steps w'"
  using assms
proof (induction k arbitrary: w)
  case 0
  then show ?case by (auto simp: paced_def time_Now_def)
next
  case (Suc k)
  obtain err w2 where x: "sys_Kill pid 0 (next_step w) = (err, w2)" by force
  let ?w = "time_Sleep (50 * Millisecond) w2"
  note h = paced_next [OF Suc.prems(2) probe_frame [OF x]] and c = probe_frame [OF x]
  show ?case
  proof (cases "time_Before (oClock w (steps w)) deadline")
    case True
    then have "wait_gone k pid deadline ?w = (False, w')" using Suc.prems(1) x by (auto simp: time_Now_def split: if_splits)
    from Suc.IH [OF this h] show ?thesis by (simp add: c)
  next
    case False
    then show ?thesis using Suc.prems(1) by (auto simp: time_Now_def time_Before_def)
  qed
qed

lemma poll_fuel_covers: "0 \<le> t \<Longrightarrow> t \<le> int (poll_fuel t) * (50 * Millisecond)"
  using div_mult_mod_eq [of t "50 * Millisecond"] pos_mod_bound [of "50 * Millisecond" t]
  by (simp add: poll_fuel_def pos_imp_zdiv_nonneg_iff Millisecond_def)

text \<open>
  The waiting loops of the escalation ladder end. If sleeping takes at least the time asked for,
  the bound on the number of probes is never the reason to stop: any larger bound gives the same
  result, and a negative answer means that the clock had passed the deadline.
\<close>

theorem poll_loop_ends:
  assumes "0 \<le> timeout" "poll_fuel timeout \<le> n"
    and "\<forall>i. oClock w (steps w) + int i * (50 * Millisecond) \<le> oClock w (Suc (steps w) + 3 * i)"
  shows "poll_gone pid timeout w = wait_gone n pid (oClock w (steps w) + timeout) (next_step w)
    \<and> (\<forall>w'. poll_gone pid timeout w = (False, w') \<longrightarrow> oClock w (steps w) + timeout \<le> oClock w (steps w' - 1))"
proof -
  let ?d = "oClock w (steps w) + timeout" and ?k = "poll_fuel timeout"
  have "?d - int (?k - i) * (50 * Millisecond) \<le> oClock w (Suc (steps w) + 3 * i)" if "i \<le> ?k" for i
  proof -
    have "?d \<le> oClock w (steps w) + int ?k * (50 * Millisecond)" using poll_fuel_covers [OF assms(1)] by simp
    moreover have "int ?k * (50 * Millisecond) = int (?k - i) * (50 * Millisecond) + int i * (50 * Millisecond)"
      using that by (simp add: of_nat_diff algebra_simps)
    moreover have "oClock w (steps w) + int i * (50 * Millisecond) \<le> oClock w (Suc (steps w) + 3 * i)" using assms(3) by blast
    ultimately show ?thesis by linarith
  qed
  then have h: "paced ?k ?d (next_step w)" by (simp add: paced_def)
  have p: "poll_gone pid timeout w = wait_gone ?k pid ?d (next_step w)" by (simp add: poll_gone_def time_Now_def time_Add_def)
  have "wait_gone n pid ?d (next_step w) = wait_gone ?k pid ?d (next_step w)"
    using wait_gone_fuel [OF h, of "n - ?k"] assms(2) by simp
  then show ?thesis using p wait_gone_timeout [OF _ h] by auto
qed

theorem poll_loop_ends_witness:
  "poll_gone 5 (100 * Millisecond) (quiet_world\<lparr>oClock := \<lambda>n. int n * (50 * Millisecond)\<rparr>)
   = wait_gone 1000 5 (100 * Millisecond) (next_step (quiet_world\<lparr>oClock := \<lambda>n. int n * (50 * Millisecond)\<rparr>))"
proof -
  let ?w = "quiet_world\<lparr>oClock := \<lambda>n. int n * (50 * Millisecond)\<rparr>"
  have "0 \<le> 100 * Millisecond" "poll_fuel (100 * Millisecond) \<le> 1000" by (simp_all add: Millisecond_def poll_fuel_def)
  moreover have "\<forall>i. oClock ?w (steps ?w) + int i * (50 * Millisecond) \<le> oClock ?w (Suc (steps ?w) + 3 * i)"
    by (simp add: quiet_world_def Millisecond_def)
  ultimately show ?thesis using poll_loop_ends [of "100 * Millisecond" 1000 ?w 5] by (simp add: quiet_world_def)
qed

section \<open>Who is signalled\<close>

lemma wait_gone_signals: "signals (snd (wait_gone k pid dl w)) = signals w"
proof (induction k arbitrary: w)
  case (Suc k)
  obtain err w2 where x: "sys_Kill pid 0 (next_step w) = (err, w2)" by force
  then show ?case using Suc [of "time_Sleep (50 * Millisecond) w2"] sys_Kill_log [OF x] by (simp add: time_Now_def time_Sleep_def)
qed (simp add: time_Now_def)

lemma poll_gone_signals: "poll_gone pid t w = (b, w') \<Longrightarrow> signals w' = signals w"
  using wait_gone_signals [of "poll_fuel t" pid _ "next_step w"] by (auto simp: poll_gone_def time_Now_def) (metis next_step_frame(2) snd_conv)

text \<open>What the ladder may send to the process: nothing, SIGTERM, SIGKILL, or first SIGTERM and then SIGKILL.\<close>

definition rungs :: "int \<Rightarrow> (int \<times> int) list set" where
  "rungs p = {[], [(p, SIGTERM)], [(p, SIGKILL)], [(p, SIGTERM), (p, SIGKILL)]}"

lemma ladder_signals:
  "\<exists>sent \<in> rungs p. signals (escalation_ladder p cfg w) = signals w @ sent \<and> (sent = [] \<or> 0 < p \<and> p \<noteq> oPid w)"
proof (cases "p > 0 \<and> p \<noteq> oPid w")
  case True
  obtain e1 w1 where 1: "sys_Kill p 0 w = (e1, w1)" by force
  obtain e2 w2 where 2: "sys_Kill p SIGTERM w1 = (e2, w2)" by force
  obtain t3 w3 where 3: "poll_gone p (shTermTimeout cfg) w2 = (t3, w3)" by force
  obtain e4 w4 where 4: "sys_Kill p SIGKILL w3 = (e4, w4)" by force
  obtain t5 w5 where 5: "poll_gone p (shKillTimeout cfg) w4 = (t5, w5)" by force
  note logs = sys_Kill_log [OF 1] sys_Kill_log [OF 2] poll_gone_signals [OF 3] sys_Kill_log [OF 4] poll_gone_signals [OF 5]
  have "escalation_ladder p cfg w = (if e1 \<noteq> None then w1 else if t3 then w3 else w5)"
    using True by (auto simp: escalation_ladder_def 1 2 3 4 5 split: option.split)
  then show ?thesis using logs True by (auto simp: rungs_def SIGTERM_def SIGKILL_def)
qed (auto simp: escalation_ladder_def rungs_def)

lemma fileExists_signals: "fileExists p w = (b, w') \<Longrightarrow> signals w' = signals w"
  by (auto simp: fileExists_def os_Stat_def sys_def split: option.splits)

lemma spawn_signals:
  assumes "\<forall>f v. shSpawnFn cfg = Some f \<longrightarrow> signals (snd (f v)) = signals v" "spawn_replacement cfg w = (r, w')"
  shows "signals w' = signals w"
proof -
  have start: "cmd_Start c v = (x, v') \<Longrightarrow> signals v' = signals v" for c v x v' by (auto simp: cmd_Start_def)
  then have mock: "startMockHealthServer n v = (x, v') \<Longrightarrow> signals v' = signals v" for n v x v'
    by (auto simp: startMockHealthServer_def split: prod.splits sum.splits)
  show ?thesis
  proof (cases "shSpawnFn cfg")
    case None
    then show ?thesis using assms(2) start mock
      by (auto simp: spawn_replacement_def split: if_splits prod.splits sum.splits bool.splits dest!: fileExists_signals)
  next
    case (Some f)
    then have "signals (snd (f w)) = signals w" using assms(1) by blast
    then show ?thesis using assms(2) Some by (auto simp: spawn_replacement_def split: prod.splits sum.splits)
  qed
qed

lemma WriteFile_signals [simp]: "signals (snd (os_WriteFile p bs w)) = signals w"
  by (auto simp: os_WriteFile_def os_OpenTrunc_def file_Write_def sys_def split: option.splits prod.splits)

lemma hang_action_log:
  assumes "\<forall>f v. shSpawnFn cfg = Some f \<longrightarrow> signals (snd (f v)) = signals v" "hang_action pidv cfg ctx w = (r, w')"
  shows "signals w' = signals (escalation_ladder (intVars w pidv) cfg w)"
proof -
  obtain s w1 where s: "spawn_replacement cfg (escalation_ladder (intVars w pidv) cfg w) = (s, w1)" by force
  have "signals w' = signals w1"
    using assms(2) by (auto simp: hang_action_def s set_int_def Let_def split: sum.splits if_splits)
  then show ?thesis using spawn_signals [OF assms(1) s] by simp
qed



end
