(* ===== verification/Runbook_Tls.thy ===== *)
theory Runbook_Tls
  imports Runbook_Proc
begin

text \<open>
  The certificate rotation runbook RBK-TLS-001 of \<open>internal/runbooks/runbooks.go\<close>: the check
  that the staged certificate and key belong together, the backup and swap of the active pair, the
  postcondition on disk and on the wire, and the compensating step. Decoding of X.509 material is the
  parameter \<open>X\<close>.
\<close>

section \<open>Certificates and keys\<close>

text \<open>
  What \<open>VerifyCertAndKeyModulus\<close> reads of a certificate and of a private key. Decoding PEM,
  X.509 and the three private key formats is a parameter of the model (\<open>crypto/x509\<close> and
  \<open>encoding/pem\<close>).
\<close>

datatype public_key = RsaPub int | EcPub int int | EdPub bytes | OtherPub string

datatype private_key = RsaPriv int | EcPriv int int | EdPriv bytes

record certificate =
  certNotAfter :: time
  certSerial :: int
  certPublicKey :: public_key

record x509 =
  pemDecode :: "bytes \<Rightarrow> bytes option"
  parseCertificate :: "bytes \<Rightarrow> goerror + certificate"
  parsePKCS1 :: "bytes \<Rightarrow> private_key option"
  parsePKCS8 :: "bytes \<Rightarrow> private_key option"
  parseEC :: "bytes \<Rightarrow> private_key option"

definition parse_private_key :: "x509 \<Rightarrow> bytes \<Rightarrow> private_key option" where
  "parse_private_key X bs =
     (case parsePKCS1 X bs of
        Some k \<Rightarrow> Some k
      | None \<Rightarrow> (case parsePKCS8 X bs of Some k \<Rightarrow> Some k | None \<Rightarrow> parseEC X bs))"

text \<open>The comparison of the two keys, with the message for each mismatch.\<close>

fun key_mismatch :: "public_key \<Rightarrow> private_key \<Rightarrow> string option" where
  "key_mismatch (RsaPub n) (RsaPriv m) =
     (if n \<noteq> m then Some ''RSA modulus mismatch between certificate and private key'' else None)"
| "key_mismatch (RsaPub n) _ = Some ''public key is RSA but private key is not''"
| "key_mismatch (EcPub x y) (EcPriv x' y') =
     (if x \<noteq> x' \<or> y \<noteq> y' then Some ''ECDSA public key point mismatch'' else None)"
| "key_mismatch (EcPub x y) _ = Some ''public key is ECDSA but private key is not''"
| "key_mismatch (EdPub p) (EdPriv q) = (if p \<noteq> q then Some ''Ed25519 public key mismatch'' else None)"
| "key_mismatch (EdPub p) _ = Some ''public key is Ed25519 but private key is not''"
| "key_mismatch (OtherPub t) _ = Some (''unsupported public key type: '' @ t)"

definition VerifyCertAndKeyModulus :: "x509 \<Rightarrow> bytes \<Rightarrow> bytes \<Rightarrow> goerror + certificate" where
  "VerifyCertAndKeyModulus X certPEM keyPEM =
     (case pemDecode X certPEM of
        None \<Rightarrow> Inl (errorf ''failed to decode certificate PEM'')
      | Some certBlock \<Rightarrow>
          (case parseCertificate X certBlock of
             Inl e \<Rightarrow> Inl (wrapf ''failed to parse X.509 certificate: '' e '''')
           | Inr cert \<Rightarrow>
               (case pemDecode X keyPEM of
                  None \<Rightarrow> Inl (errorf ''failed to decode private key PEM'')
                | Some keyBlock \<Rightarrow>
                    (case parse_private_key X keyBlock of
                       None \<Rightarrow> Inl (errorf ''unsupported private key format'')
                     | Some priv \<Rightarrow>
                         (case key_mismatch (certPublicKey cert) priv of
                            Some m \<Rightarrow> Inl (errorf m)
                          | None \<Rightarrow> Inr cert)))))"

section \<open>Parameters\<close>

record TLSRotationConfig =
  tlServiceName :: string
  tlStagedCertPath :: string
  tlStagedKeyPath :: string
  tlActiveCertPath :: string
  tlActiveKeyPath :: string
  tlBackupDir :: string
  tlTargetAddr :: string
  tlHealthURL :: string
  tlTargetPID :: int
  tlPIDFilePath :: string
  tlReloadFn :: "(world \<Rightarrow> goerror option \<times> world) option"
  tlExecutionTimeout :: duration

definition DefaultTLSRotationConfig :: TLSRotationConfig where
  "DefaultTLSRotationConfig =
     \<lparr>tlServiceName = ''ai-security-guardrail-proxy'', tlStagedCertPath = ''/var/lib/autonomous-remediation/staging/tls.crt'',
      tlStagedKeyPath = ''/var/lib/autonomous-remediation/staging/tls.key'', tlActiveCertPath = ''/etc/ssl/certs/guardrail-proxy.crt'',
      tlActiveKeyPath = ''/etc/ssl/private/guardrail-proxy.key'', tlBackupDir = ''/var/lib/autonomous-remediation/journal/backup'',
      tlTargetAddr = ''127.0.0.1:8443'', tlHealthURL = ''https://127.0.0.1:8443/healthz'', tlTargetPID = 0, tlPIDFilePath = '''',
      tlReloadFn = None, tlExecutionTimeout = 10 * Second\<rparr>"

definition tls_normalize :: "TLSRotationConfig \<Rightarrow> TLSRotationConfig" where
  "tls_normalize cfg =
     cfg\<lparr>tlServiceName := (if tlServiceName cfg = '''' then ''ai-security-guardrail-proxy'' else tlServiceName cfg),
         tlTargetAddr := (if tlTargetAddr cfg = '''' then ''127.0.0.1:8443'' else tlTargetAddr cfg),
         tlExecutionTimeout := (if tlExecutionTimeout cfg \<le> 0 then 10 * Second else tlExecutionTimeout cfg)\<rparr>"

text \<open>
  Which certificate a run works on. Go evaluates \<open>||\<close> and \<open>&&\<close> from the left: the file
  system is asked only when the answer depends on it.
\<close>

definition gateway_crt :: string where "gateway_crt = ''/etc/ssl/certs/ai-gateway.crt''"
definition gateway_key :: string where "gateway_key = ''/etc/ssl/private/ai-gateway.key''"

definition resolveTLSCertPaths :: "ctx \<Rightarrow> TLSRotationConfig \<Rightarrow> world \<Rightarrow> (string \<times> string) \<times> world" where
  "resolveTLSCertPaths ctx cfg w =
     (let target = (case ctxTarget ctx of Some s \<Rightarrow> if s \<noteq> '''' then s else tlServiceName cfg | None \<Rightarrow> tlServiceName cfg);
          active = (tlActiveCertPath cfg, tlActiveKeyPath cfg);
          (gateway, w1) =
            (if target = ''ai-gateway'' then (True, w)
             else if target = '''' then fileExists gateway_crt w
             else (False, w)) in
      if \<not> gateway then (active, w1)
      else case fileExists gateway_crt w1 of
        (True, w2) \<Rightarrow> ((gateway_crt, gateway_key), w2)
      | (False, w2) \<Rightarrow>
          if tlActiveCertPath cfg = ''/etc/ssl/certs/guardrail-proxy.crt'' then ((gateway_crt, gateway_key), w2)
          else (active, w2))"

section \<open>Precondition\<close>

text \<open>
  The captured variables \<open>stagedSerial\<close>, \<open>backupCertPath\<close> and \<open>backupKeyPath\<close> are
  the cells \<open>serial_var v\<close>, \<open>cert_var v\<close> and \<open>key_var v\<close>.
\<close>

definition serial_var :: "string \<Rightarrow> string" where "serial_var v = v @ ''.serial''"
definition cert_var :: "string \<Rightarrow> string" where "cert_var v = v @ ''.cert''"
definition key_var :: "string \<Rightarrow> string" where "key_var v = v @ ''.key''"

definition tls_precheck :: "x509 \<Rightarrow> string \<Rightarrow> TLSRotationConfig \<Rightarrow> ctx \<Rightarrow> world \<Rightarrow> (bool \<times> goerror option) \<times> world" where
  "tls_precheck X v cfg ctx w =
     (case os_ReadFile (tlStagedCertPath cfg) w of
        (Inl e, w1) \<Rightarrow> ((False, Some (wrapf (''staged cert '' @ tlStagedCertPath cfg @ '' unreadable: '') e '''')), w1)
      | (Inr certPEM, w1) \<Rightarrow>
          (case os_ReadFile (tlStagedKeyPath cfg) w1 of
             (Inl e, w2) \<Rightarrow> ((False, Some (wrapf (''staged key '' @ tlStagedKeyPath cfg @ '' unreadable: '') e '''')), w2)
           | (Inr keyPEM, w2) \<Rightarrow>
               (case VerifyCertAndKeyModulus X certPEM keyPEM of
                  Inl e \<Rightarrow> ((False, Some (wrapf ''cryptographic invariant failed: '' e '''')), w2)
                | Inr cert \<Rightarrow>
                    (let (now, w3) = time_Now w2; remaining = time_Sub (certNotAfter cert) now in
                     if remaining \<le> 30 * 24 * Hour
                     then ((False, Some (errorf (''certificate validity ('' @ fmt_duration remaining @ '') not > 30 days''))), w3)
                     else ((True, None), set_str (serial_var v) (Text16 (certSerial cert)) w3)))))"

section \<open>Action\<close>

definition copy_if_readable :: "string \<Rightarrow> string \<Rightarrow> world \<Rightarrow> world" where
  "copy_if_readable src dst w =
     (case os_ReadFile src w of (Inl _, w1) \<Rightarrow> w1 | (Inr bs, w1) \<Rightarrow> snd (os_WriteFile dst bs w1))"

definition backup_active :: "string \<Rightarrow> string \<Rightarrow> string \<Rightarrow> string \<Rightarrow> world \<Rightarrow> world" where
  "backup_active v dir activeCert activeKey w =
     (if dir = '''' then w
      else
        (let w1 = snd (os_MkdirAll dir w);
             bCert = filepath_Join [dir, filepath_Base activeCert @ ''.bak''];
             bKey = filepath_Join [dir, filepath_Base activeKey @ ''.bak''];
             w2 = set_str (key_var v) bKey (set_str (cert_var v) bCert w1) in
         copy_if_readable activeKey bKey (copy_if_readable activeCert bCert w2)))"

text \<open>Write both files beside the active ones, then rename them into place.\<close>

definition swap_pair :: "string \<Rightarrow> bytes \<Rightarrow> string \<Rightarrow> bytes \<Rightarrow> world \<Rightarrow> goerror option \<times> world" where
  "swap_pair cert certBytes key keyBytes w =
     (case os_WriteFile (cert @ ''.tmp'') certBytes w of
        (Some e, w1) \<Rightarrow> (Some (wrapf ''failed to write tmp cert: '' e ''''), w1)
      | (None, w1) \<Rightarrow>
          (case os_WriteFile (key @ ''.tmp'') keyBytes w1 of
             (Some e, w2) \<Rightarrow> (Some (wrapf ''failed to write tmp key: '' e ''''), snd (os_Remove (cert @ ''.tmp'') w2))
           | (None, w2) \<Rightarrow>
               (case os_Rename (cert @ ''.tmp'') cert w2 of
                  (Some e, w3) \<Rightarrow> (Some (wrapf ''atomic rename cert failed: '' e ''''), w3)
                | (None, w3) \<Rightarrow>
                    (case os_Rename (key @ ''.tmp'') key w3 of
                       (Some e, w4) \<Rightarrow> (Some (wrapf ''atomic rename key failed: '' e ''''), w4)
                     | (None, w4) \<Rightarrow> (None, w4)))))"

text \<open>SIGHUP to the configured process or the one named by the PID file; an error of \<open>Atoi\<close> is ignored.\<close>

definition signal_reload :: "int \<Rightarrow> string \<Rightarrow> world \<Rightarrow> world" where
  "signal_reload targetPID pidFile w =
     (let (pid, w1) =
        (if targetPID \<le> 0 \<and> pidFile \<noteq> ''''
         then (case os_ReadFile pidFile w of
                 (Inl _, w') \<Rightarrow> (targetPID, w')
               | (Inr d, w') \<Rightarrow> (fst (Atoi (TrimSpace d)), w'))
         else (targetPID, w)) in
      if pid > 0 then snd (sys_Kill pid SIGHUP w1) else w1)"

definition reload_service ::
    "string \<Rightarrow> (world \<Rightarrow> goerror option \<times> world) option \<Rightarrow> int \<Rightarrow> string \<Rightarrow> world \<Rightarrow> goerror option \<times> world" where
  "reload_service what fn targetPID pidFile w =
     (case fn of
        Some f \<Rightarrow> (case f w of (Some e, w1) \<Rightarrow> (Some (wrapf (what @ '' failed: '') e ''''), w1) | (None, w1) \<Rightarrow> (None, w1))
      | None \<Rightarrow> (None, signal_reload targetPID pidFile w))"

definition tls_action :: "string \<Rightarrow> TLSRotationConfig \<Rightarrow> ctx \<Rightarrow> world \<Rightarrow> (ExecutionResult option \<times> goerror option) \<times> world" where
  "tls_action v cfg ctx w =
     (let ((cert, key), w0) = resolveTLSCertPaths ctx cfg w; w1 = backup_active v (tlBackupDir cfg) cert key w0 in
      case os_ReadFile (tlStagedCertPath cfg) w1 of
        (Inl e, w2) \<Rightarrow> ((None, Some (wrapf ''failed to read staged cert: '' e '''')), w2)
      | (Inr certBytes, w2) \<Rightarrow>
          (case os_ReadFile (tlStagedKeyPath cfg) w2 of
             (Inl e, w3) \<Rightarrow> ((None, Some (wrapf ''failed to read staged key: '' e '''')), w3)
           | (Inr keyBytes, w3) \<Rightarrow>
               (case swap_pair cert certBytes key keyBytes w3 of
                  (Some e, w4) \<Rightarrow> ((None, Some e), w4)
                | (None, w4) \<Rightarrow>
                    (case reload_service ''ReloadFn'' (tlReloadFn cfg) (tlTargetPID cfg) (tlPIDFilePath cfg) w4 of
                       (Some e, w5) \<Rightarrow> ((None, Some e), w5)
                     | (None, w5) \<Rightarrow>
                         ((Some (zero_result\<lparr>erSuccess := True, erBytesMutated := int (length certBytes + length keyBytes),
                             erStdout := ''Atomically deployed staged TLS cert '' @ strVars w5 (serial_var v) @ '' and signaled reload''\<rparr>),
                           None), w5)))))"

section \<open>Postcondition and compensation\<close>

definition presented_serial :: "string \<Rightarrow> TLSRotationConfig \<Rightarrow> world \<Rightarrow> (bool \<times> goerror option) \<times> world" where
  "presented_serial v cfg w =
     (case net_Dial (tlTargetAddr cfg) w of
        (Some _, w1) \<Rightarrow> ((True, None), w1)
      | (None, w1) \<Rightarrow>
          (case tls_Dial (tlTargetAddr cfg) w1 of
             (Inl e, w2) \<Rightarrow> ((False, Some (wrapf (''TLS dial failed to '' @ tlTargetAddr cfg @ '': '') e '''')), w2)
           | (Inr [], w2) \<Rightarrow> ((False, Some (errorf ''zero peer certificates returned during TLS handshake'')), w2)
           | (Inr (serial # _), w2) \<Rightarrow>
               if ascii_lower (Text16 serial) \<noteq> ascii_lower (strVars w2 (serial_var v))
               then ((False, Some (errorf (''peer cert serial mismatch: presented '' @ Text16 serial @ '' != staged ''
                       @ strVars w2 (serial_var v)))), w2)
               else ((True, None), w2)))"

definition tls_postcheck :: "x509 \<Rightarrow> string \<Rightarrow> TLSRotationConfig \<Rightarrow> ctx \<Rightarrow> world \<Rightarrow> (bool \<times> goerror option) \<times> world" where
  "tls_postcheck X v cfg ctx w =
     (let ((certPath, _), w0) = resolveTLSCertPaths ctx cfg w in
      case os_ReadFile certPath w0 of
        (Inl e, w1) \<Rightarrow> ((False, Some (wrapf (''active cert '' @ certPath @ '' missing after rotation: '') e '''')), w1)
      | (Inr bs, w1) \<Rightarrow>
          (case pemDecode X bs of
             None \<Rightarrow> ((False, Some (errorf ''failed decoding PEM of active cert'')), w1)
           | Some block \<Rightarrow>
               (case parseCertificate X block of
                  Inl e \<Rightarrow> ((False, Some (wrapf ''failed parsing active cert: '' e '''')), w1)
                | Inr cert \<Rightarrow>
                    (let activeSerial = Text16 (certSerial cert); staged = strVars w1 (serial_var v) in
                     if ascii_lower activeSerial \<noteq> ascii_lower staged
                     then ((False, Some (errorf (''active cert serial '' @ activeSerial @ '' does not match staged '' @ staged))), w1)
                     else presented_serial v cfg w1))))"

definition tls_compensate :: "string \<Rightarrow> TLSRotationConfig \<Rightarrow> ctx \<Rightarrow> world \<Rightarrow> goerror option \<times> world" where
  "tls_compensate v cfg ctx w =
     (let bCert = strVars w (cert_var v); bKey = strVars w (key_var v) in
      if bCert = '''' \<or> bKey = '''' then (None, w)
      else
        (let w1 = copy_if_readable bCert (tlActiveCertPath cfg) w; w2 = copy_if_readable bKey (tlActiveKeyPath cfg) w1 in
         (None, case tlReloadFn cfg of None \<Rightarrow> w2 | Some f \<Rightarrow> snd (f w2))))"

section \<open>The runbook\<close>

definition IDTLSCertRotation :: string where "IDTLSCertRotation = ''RBK-TLS-001''"

definition NewTLSCertRotationRunbook :: "x509 \<Rightarrow> string \<Rightarrow> TLSRotationConfig \<Rightarrow> Runbook" where
  "NewTLSCertRotationRunbook X v cfg0 =
     (let cfg = tls_normalize cfg0 in
      \<lparr>rbID = IDTLSCertRotation, rbVersion = ''1.0.0'', rbName = ''tls_cert_rotation'',
       rbTargetResourceID = tlServiceName cfg, rbSeverity = SeverityHigh,
       rbPreconditions = [custom_pre ''staged-x509-validity-and-modulus-verification'' (tls_precheck X v cfg)],
       rbActions = [mutation ''atomic-swap-and-sighup-reload'' (tlExecutionTimeout cfg) (tls_action v cfg)],
       rbPostconditions = [custom_post ''tls-handshake-presented-serial-verified'' (tls_postcheck X v cfg)],
       rbRollbackSteps =
         [\<lparr>stepName = ''restore-original-tls-certificate'', stepBinary = '''', stepArgs = [], stepTargetPath = '''',
           stepStagedBackupPath = '''', stepCompensatingFn = Some (tls_compensate v cfg)\<rparr>],
       rbBlastRadius =
         \<lparr>brMaxExecutionTime = tlExecutionTimeout cfg, brMaxBytesMutated = 0, brMaxProcessesSignaled = 0, brMaxFilesModified = 2,
          brAllowedPathPrefixes = []\<rparr>,
       rbMaxDampingPerHour = 0, rbCooldown = 0\<rparr>)"

section \<open>Calls that succeed\<close>

text \<open>Without faults a call has the effect its name says: the files afterwards are \<open>m\<close>, the captured variables stay.\<close>

definition evolves :: "world \<Rightarrow> (string \<rightharpoonup> node) \<Rightarrow> world \<Rightarrow> bool" where
  "evolves w m w' \<longleftrightarrow> no_faults w' \<and> lookup_file w' = m \<and> strVars w' = strVars w"

lemma evolves_facts:
  "evolves w m w' \<Longrightarrow> no_faults w'" "evolves w m w' \<Longrightarrow> lookup_file w' = m" "evolves w m w' \<Longrightarrow> strVars w' = strVars w"
  by (simp_all add: evolves_def)

lemma evolves_trans: "evolves w m w1 \<Longrightarrow> evolves w1 m' w2 \<Longrightarrow> evolves w m' w2"
  by (simp add: evolves_def)

lemma strVars_frame [simp]: "strVars (next_step w) = strVars w" "strVars (put_file p n w) = strVars w" "strVars (delete_file p w) = strVars w"
  by (simp_all add: next_step_def put_file_def delete_file_def)

lemma calm_sys: "no_faults w \<Longrightarrow> sys w = (None, next_step w)"
  by (simp add: sys_def no_faults_def)

lemma calm_ReadFile:
  assumes "no_faults w" "lookup_file w p = Some (FileNode bs)"
  shows "\<exists>w'. os_ReadFile p w = (Inr bs, w') \<and> evolves w (lookup_file w) w'"
  using assms by (simp add: os_ReadFile_def calm_sys evolves_def fun_eq_iff)

lemma calm_WriteFile:
  assumes "no_faults w" "lookup_file w p \<noteq> Some DirNode"
  shows "\<exists>w'. os_WriteFile p bs w = (None, w') \<and> evolves w ((lookup_file w)(p \<mapsto> FileNode bs)) w'"
  using assms by (simp add: os_WriteFile_def os_OpenTrunc_def file_Write_def calm_sys evolves_def fun_eq_iff)

lemma calm_Rename:
  assumes "no_faults w" "lookup_file w p = Some n" "lookup_file w q \<noteq> Some DirNode"
  shows "\<exists>w'. os_Rename p q w = (None, w') \<and> evolves w ((lookup_file w)(p := None, q \<mapsto> n)) w'"
  using assms by (auto simp: os_Rename_def calm_sys evolves_def fun_eq_iff)

lemma calm_Mkdir:
  assumes "no_faults w" "lookup_file w d = Some DirNode"
  shows "\<exists>w'. os_MkdirAll d w = (None, w') \<and> evolves w (lookup_file w) w'"
  using assms by (simp add: os_MkdirAll_def calm_sys evolves_def fun_eq_iff)

lemma fileExists_frame:
  "fileExists p w = (b, w') \<Longrightarrow> no_faults w' = no_faults w \<and> lookup_file w' = lookup_file w \<and> strVars w' = strVars w"
  by (auto simp: fileExists_def os_Stat_def sys_def no_faults_def fun_eq_iff split: option.splits)

lemma calm_copy:
  assumes "no_faults w" "lookup_file w p = Some (FileNode bs)" "lookup_file w q \<noteq> Some DirNode"
  shows "evolves w ((lookup_file w)(q \<mapsto> FileNode bs)) (copy_if_readable p q w)"
proof -
  obtain w1 where 1: "os_ReadFile p w = (Inr bs, w1)" "evolves w (lookup_file w) w1" using calm_ReadFile [OF assms(1,2)] by blast
  obtain w2 where 2: "os_WriteFile q bs w1 = (None, w2)" "evolves w1 ((lookup_file w1)(q \<mapsto> FileNode bs)) w2"
    using calm_WriteFile [of w1 q bs] 1(2) assms(3) by (auto simp: evolves_def)
  show ?thesis using 1 2 by (simp add: copy_if_readable_def evolves_def)
qed

lemma calm_resolve:
  assumes "no_faults w" "resolveTLSCertPaths ctx cfg w = (ps, w')"
  shows "evolves w (lookup_file w) w'"
  using assms unfolding resolveTLSCertPaths_def Let_def
  by (auto simp: evolves_def split: if_splits option.splits prod.splits bool.splits dest!: fileExists_frame)

lemma calm_backup:
  assumes "no_faults w" "dir \<noteq> ''''" "lookup_file w dir = Some DirNode"
    and "lookup_file w cert = Some (FileNode oldC)" "lookup_file w key = Some (FileNode oldK)"
    and "bC = filepath_Join [dir, filepath_Base cert @ ''.bak'']" "bK = filepath_Join [dir, filepath_Base key @ ''.bak'']"
    and "lookup_file w bC \<noteq> Some DirNode" "lookup_file w bK \<noteq> Some DirNode" "distinct [cert, key, bC, bK]"
    and "w' = backup_active v dir cert key w"
  shows "no_faults w'" "lookup_file w' = (lookup_file w)(bC \<mapsto> FileNode oldC, bK \<mapsto> FileNode oldK)"
    "strVars w' = (strVars w)(cert_var v := bC, key_var v := bK)"
proof -
  obtain w1 where 1: "os_MkdirAll dir w = (None, w1)" "evolves w (lookup_file w) w1" using calm_Mkdir [OF assms(1,3)] by blast
  define w2 where "w2 = set_str (key_var v) bK (set_str (cert_var v) bC w1)"
  have 2: "no_faults w2" "lookup_file w2 = lookup_file w" "strVars w2 = (strVars w)(cert_var v := bC, key_var v := bK)"
    using 1(2) by (simp_all add: w2_def evolves_def set_str_def lookup_file_def fun_eq_iff no_faults_def)
  have 3: "evolves w2 ((lookup_file w2)(bC \<mapsto> FileNode oldC)) (copy_if_readable cert bC w2)"
    using 2 assms by (intro calm_copy) auto
  have 4: "evolves (copy_if_readable cert bC w2) ((lookup_file (copy_if_readable cert bC w2))(bK \<mapsto> FileNode oldK))
      (copy_if_readable key bK (copy_if_readable cert bC w2))"
    using 2 3 assms by (intro calm_copy) (auto simp: evolves_def)
  have "w' = copy_if_readable key bK (copy_if_readable cert bC w2)"
    using assms(2,6,7,11) 1(1) by (simp add: backup_active_def w2_def Let_def)
  then show "no_faults w'" "lookup_file w' = (lookup_file w)(bC \<mapsto> FileNode oldC, bK \<mapsto> FileNode oldK)"
    "strVars w' = (strVars w)(cert_var v := bC, key_var v := bK)"
    using 2 3 4 by (simp_all add: evolves_def)
qed

lemma calm_swap:
  assumes "no_faults w" "lookup_file w (cert @ ''.tmp'') \<noteq> Some DirNode" "lookup_file w (key @ ''.tmp'') \<noteq> Some DirNode"
    and "lookup_file w cert \<noteq> Some DirNode" "lookup_file w key \<noteq> Some DirNode"
    and "distinct [cert, key, cert @ ''.tmp'', key @ ''.tmp'']"
  shows "\<exists>w'. swap_pair cert c key k w = (None, w')
    \<and> evolves w ((lookup_file w)(cert @ ''.tmp'' := None, key @ ''.tmp'' := None, cert \<mapsto> FileNode c, key \<mapsto> FileNode k)) w'"
proof -
  let ?ct = "cert @ ''.tmp''" and ?kt = "key @ ''.tmp''"
  obtain w1 where 1: "os_WriteFile ?ct c w = (None, w1)" "evolves w ((lookup_file w)(?ct \<mapsto> FileNode c)) w1"
    using calm_WriteFile [OF assms(1,2)] by blast
  obtain w2 where 2: "os_WriteFile ?kt k w1 = (None, w2)" "evolves w1 ((lookup_file w1)(?kt \<mapsto> FileNode k)) w2"
    using calm_WriteFile [of w1 ?kt k] 1(2) assms by (auto simp: evolves_def)
  obtain w3 where 3: "os_Rename ?ct cert w2 = (None, w3)" "evolves w2 ((lookup_file w2)(?ct := None, cert \<mapsto> FileNode c)) w3"
    using calm_Rename [of w2 ?ct "FileNode c" cert] 1(2) 2(2) assms by (auto simp: evolves_def)
  obtain w4 where 4: "os_Rename ?kt key w3 = (None, w4)" "evolves w3 ((lookup_file w3)(?kt := None, key \<mapsto> FileNode k)) w4"
    using calm_Rename [of w3 ?kt "FileNode k" key] 1(2) 2(2) 3(2) assms by (auto simp: evolves_def)
  have "lookup_file w4 = (lookup_file w)(?ct := None, ?kt := None, cert \<mapsto> FileNode c, key \<mapsto> FileNode k)"
    using 1(2) 2(2) 3(2) 4(2) assms(6) by (auto simp: evolves_def fun_eq_iff)
  then show ?thesis using 1 2 3 4 by (auto simp: swap_pair_def evolves_def)
qed

section \<open>Rotation and its compensation\<close>

lemma signal_reload_frame:
  "no_faults (signal_reload pid f w) = no_faults w" "lookup_file (signal_reload pid f w) = lookup_file w"
  "strVars (signal_reload pid f w) = strVars w"
proof -
  have kill: "no_faults (snd (sys_Kill p s v)) = no_faults v" "lookup_file (snd (sys_Kill p s v)) = lookup_file v"
    "strVars (snd (sys_Kill p s v)) = strVars v" for p s v
    by (auto simp: sys_Kill_def no_faults_def lookup_file_def next_step_def split: option.splits)
  have read: "os_ReadFile q v = (r, v') \<Longrightarrow> no_faults v' = no_faults v \<and> lookup_file v' = lookup_file v \<and> strVars v' = strVars v" for q v r v'
    by (auto simp: os_ReadFile_def sys_def no_faults_def fun_eq_iff split: option.splits node.splits)
  obtain r v where r: "os_ReadFile f w = (r, v)" by force
  show "no_faults (signal_reload pid f w) = no_faults w" "lookup_file (signal_reload pid f w) = lookup_file w"
    "strVars (signal_reload pid f w) = strVars w"
    unfolding signal_reload_def r by (auto simp: Let_def kill read [OF r] split: sum.splits)
qed

text \<open>A rotation that can run: no faults, an existing backup directory, and all the paths involved are different files.\<close>

definition backup_cert :: "TLSRotationConfig \<Rightarrow> string \<Rightarrow> string" where
  "backup_cert cfg cert = filepath_Join [tlBackupDir cfg, filepath_Base cert @ ''.bak'']"

definition rotation_ready :: "TLSRotationConfig \<Rightarrow> string \<Rightarrow> string \<Rightarrow> world \<Rightarrow> bool" where
  "rotation_ready cfg cert key w \<longleftrightarrow>
     no_faults w \<and> tlReloadFn cfg = None \<and> tlBackupDir cfg \<noteq> '''' \<and> lookup_file w (tlBackupDir cfg) = Some DirNode
     \<and> distinct [cert, key, backup_cert cfg cert, backup_cert cfg key, cert @ ''.tmp'', key @ ''.tmp'', tlStagedCertPath cfg, tlStagedKeyPath cfg]
     \<and> backup_cert cfg cert \<noteq> '''' \<and> backup_cert cfg key \<noteq> ''''
     \<and> (\<forall>p \<in> {backup_cert cfg cert, backup_cert cfg key, cert @ ''.tmp'', key @ ''.tmp''}. lookup_file w p \<noteq> Some DirNode)"

lemma tls_action_calm:
  assumes ready: "rotation_ready cfg cert key w" and path: "resolveTLSCertPaths ctx cfg w = ((cert, key), w0)"
    and old: "lookup_file w cert = Some (FileNode oldC)" "lookup_file w key = Some (FileNode oldK)"
    and new: "lookup_file w (tlStagedCertPath cfg) = Some (FileNode newC)" "lookup_file w (tlStagedKeyPath cfg) = Some (FileNode newK)"
  shows "\<exists>r w'. tls_action v cfg ctx w = ((Some r, None), w') \<and> no_faults w'
    \<and> lookup_file w' cert = Some (FileNode newC) \<and> lookup_file w' key = Some (FileNode newK)
    \<and> lookup_file w' (backup_cert cfg cert) = Some (FileNode oldC) \<and> lookup_file w' (backup_cert cfg key) = Some (FileNode oldK)
    \<and> strVars w' (cert_var v) = backup_cert cfg cert \<and> strVars w' (key_var v) = backup_cert cfg key
    \<and> (\<forall>p. p \<notin> {cert, key, backup_cert cfg cert, backup_cert cfg key, cert @ ''.tmp'', key @ ''.tmp''}
         \<longrightarrow> lookup_file w' p = lookup_file w p)"
proof -
  let ?bC = "backup_cert cfg cert" and ?bK = "backup_cert cfg key"
  note R = ready [unfolded rotation_ready_def]
  have 0: "no_faults w0" "lookup_file w0 = lookup_file w" "strVars w0 = strVars w"
    using calm_resolve [OF _ path] R by (auto simp: evolves_def)
  define w1 where "w1 = backup_active v (tlBackupDir cfg) cert key w0"
  have 1: "no_faults w1" "lookup_file w1 = (lookup_file w)(?bC \<mapsto> FileNode oldC, ?bK \<mapsto> FileNode oldK)"
    "strVars w1 = (strVars w)(cert_var v := ?bC, key_var v := ?bK)"
    using calm_backup [of w0 "tlBackupDir cfg" cert oldC key oldK ?bC ?bK w1 v] R 0 old by (auto simp: w1_def backup_cert_def)
  obtain w2 where 2: "os_ReadFile (tlStagedCertPath cfg) w1 = (Inr newC, w2)" "evolves w1 (lookup_file w1) w2"
    using calm_ReadFile [of w1 "tlStagedCertPath cfg" newC] 1 new R by auto
  obtain w3 where 3: "os_ReadFile (tlStagedKeyPath cfg) w2 = (Inr newK, w3)" "evolves w2 (lookup_file w2) w3"
    using calm_ReadFile [of w2 "tlStagedKeyPath cfg" newK] 1 2(2) new R by (auto simp: evolves_def)
  obtain w4 where 4: "swap_pair cert newC key newK w3 = (None, w4)"
    "evolves w3 ((lookup_file w3)(cert @ ''.tmp'' := None, key @ ''.tmp'' := None, cert \<mapsto> FileNode newC, key \<mapsto> FileNode newK)) w4"
    using calm_swap [of w3 cert key newC newK] 1 2(2) 3(2) old R by (auto simp: evolves_def)
  define w5 where "w5 = signal_reload (tlTargetPID cfg) (tlPIDFilePath cfg) w4"
  have 5: "no_faults w5" "lookup_file w5 = lookup_file w4" "strVars w5 = strVars w4"
    using 4(2) by (simp_all add: w5_def signal_reload_frame evolves_def)
  have "\<exists>r. tls_action v cfg ctx w = ((Some r, None), w5)"
    using path 2(1) 3(1) 4(1) R by (simp add: tls_action_def Let_def w1_def [symmetric] reload_service_def w5_def)
  moreover have "lookup_file w5 = (lookup_file w)(?bC \<mapsto> FileNode oldC, ?bK \<mapsto> FileNode oldK,
      cert @ ''.tmp'' := None, key @ ''.tmp'' := None, cert \<mapsto> FileNode newC, key \<mapsto> FileNode newK)"
    using 1(2) 2(2) 3(2) 4(2) 5(2) by (simp add: evolves_def)
  moreover have "strVars w5 = (strVars w)(cert_var v := ?bC, key_var v := ?bK)"
    using 1(3) 2(2) 3(2) 4(2) 5(3) by (simp add: evolves_def)
  moreover have "cert_var v \<noteq> key_var v" by (simp add: cert_var_def key_var_def)
  ultimately show ?thesis using 5(1) R by auto
qed

lemma tls_compensate_calm:
  assumes "no_faults w" "tlReloadFn cfg = None" "strVars w (cert_var v) = bC" "strVars w (key_var v) = bK" "bC \<noteq> ''''" "bK \<noteq> ''''"
    and "lookup_file w bC = Some (FileNode c)" "lookup_file w bK = Some (FileNode k)"
    and "lookup_file w (tlActiveCertPath cfg) \<noteq> Some DirNode" "lookup_file w (tlActiveKeyPath cfg) \<noteq> Some DirNode"
    and "bK \<noteq> tlActiveCertPath cfg"
  shows "\<exists>w'. tls_compensate v cfg ctx w = (None, w')
    \<and> lookup_file w' = (lookup_file w)(tlActiveCertPath cfg \<mapsto> FileNode c, tlActiveKeyPath cfg \<mapsto> FileNode k)"
proof -
  let ?w1 = "copy_if_readable bC (tlActiveCertPath cfg) w"
  have 1: "evolves w ((lookup_file w)(tlActiveCertPath cfg \<mapsto> FileNode c)) ?w1" using assms by (intro calm_copy) auto
  have 2: "evolves ?w1 ((lookup_file ?w1)(tlActiveKeyPath cfg \<mapsto> FileNode k)) (copy_if_readable bK (tlActiveKeyPath cfg) ?w1)"
    using 1 assms by (intro calm_copy) (auto simp: evolves_def)
  show ?thesis using assms(2-6) 1 2 by (simp add: tls_compensate_def evolves_def)
qed

definition demo_tls_cfg :: TLSRotationConfig where
  "demo_tls_cfg = tls_normalize DefaultTLSRotationConfig"

definition demo_tls_world :: world where
  "demo_tls_world = quiet_world\<lparr>files :=
     [(''/var/lib/autonomous-remediation/journal/backup'', DirNode),
      (''/var/lib/autonomous-remediation/staging/tls.crt'', FileNode ''new cert''),
      (''/var/lib/autonomous-remediation/staging/tls.key'', FileNode ''new key''),
      (''/etc/ssl/certs/guardrail-proxy.crt'', FileNode ''proxy cert''), (''/etc/ssl/private/guardrail-proxy.key'', FileNode ''proxy key''),
      (gateway_crt, FileNode ''old cert''), (gateway_key, FileNode ''old key'')]\<rparr>"

lemma demo_tls_paths:
  "tlActiveCertPath demo_tls_cfg = ''/etc/ssl/certs/guardrail-proxy.crt''" "tlActiveKeyPath demo_tls_cfg = ''/etc/ssl/private/guardrail-proxy.key''"
  "tlBackupDir demo_tls_cfg = ''/var/lib/autonomous-remediation/journal/backup''" "tlReloadFn demo_tls_cfg = None"
  "tlStagedCertPath demo_tls_cfg = ''/var/lib/autonomous-remediation/staging/tls.crt''"
  "tlStagedKeyPath demo_tls_cfg = ''/var/lib/autonomous-remediation/staging/tls.key''"
  "tlServiceName demo_tls_cfg = ''ai-security-guardrail-proxy''"
  by (simp_all add: demo_tls_cfg_def tls_normalize_def DefaultTLSRotationConfig_def)

lemma demo_backup:
  "backup_cert demo_tls_cfg ''/etc/ssl/certs/guardrail-proxy.crt'' = ''/var/lib/autonomous-remediation/journal/backup/guardrail-proxy.crt.bak''"
  "backup_cert demo_tls_cfg ''/etc/ssl/private/guardrail-proxy.key'' = ''/var/lib/autonomous-remediation/journal/backup/guardrail-proxy.key.bak''"
  "backup_cert demo_tls_cfg gateway_crt = ''/var/lib/autonomous-remediation/journal/backup/ai-gateway.crt.bak''"
  "backup_cert demo_tls_cfg gateway_key = ''/var/lib/autonomous-remediation/journal/backup/ai-gateway.key.bak''"
  unfolding backup_cert_def demo_tls_paths gateway_crt_def gateway_key_def by code_simp+

lemma demo_tls_ready:
  "rotation_ready demo_tls_cfg ''/etc/ssl/certs/guardrail-proxy.crt'' ''/etc/ssl/private/guardrail-proxy.key'' demo_tls_world"
  "rotation_ready demo_tls_cfg gateway_crt gateway_key demo_tls_world"
  unfolding rotation_ready_def demo_backup demo_tls_paths
  by (simp_all add: no_faults_def demo_tls_world_def quiet_world_def lookup_file_def gateway_crt_def gateway_key_def)

lemma demo_tls_files:
  "lookup_file demo_tls_world (tlActiveCertPath demo_tls_cfg) = Some (FileNode ''proxy cert'')"
  "lookup_file demo_tls_world (tlActiveKeyPath demo_tls_cfg) = Some (FileNode ''proxy key'')"
  "lookup_file demo_tls_world (tlStagedCertPath demo_tls_cfg) = Some (FileNode ''new cert'')"
  "lookup_file demo_tls_world (tlStagedKeyPath demo_tls_cfg) = Some (FileNode ''new key'')"
  "lookup_file demo_tls_world gateway_crt = Some (FileNode ''old cert'')"
  "lookup_file demo_tls_world gateway_key = Some (FileNode ''old key'')"
  by (simp_all add: demo_tls_paths demo_tls_world_def lookup_file_def gateway_crt_def gateway_key_def)

text \<open>
  C31: A certificate rotation can be undone. When the active paths are the configured ones, no system
  call fails and the paths involved are different files, the action puts the staged certificate and
  key in place, and the compensating step afterwards puts the original certificate and key back.
\<close>

theorem tls_rotation_undone:
  assumes "rotation_ready cfg cert key w" "resolveTLSCertPaths ctx cfg w = ((cert, key), w0)"
    and "lookup_file w cert = Some (FileNode oldC)" "lookup_file w key = Some (FileNode oldK)"
    and "lookup_file w (tlStagedCertPath cfg) = Some (FileNode newC)" "lookup_file w (tlStagedKeyPath cfg) = Some (FileNode newK)"
    and "cert = tlActiveCertPath cfg" "key = tlActiveKeyPath cfg"
  shows "\<exists>r w1 w2. tls_action v cfg ctx w = ((Some r, None), w1)
    \<and> lookup_file w1 cert = Some (FileNode newC) \<and> lookup_file w1 key = Some (FileNode newK)
    \<and> tls_compensate v cfg ctx w1 = (None, w2)
    \<and> lookup_file w2 cert = Some (FileNode oldC) \<and> lookup_file w2 key = Some (FileNode oldK)"
proof -
  obtain r w1 where a: "tls_action v cfg ctx w = ((Some r, None), w1)" "no_faults w1"
    "lookup_file w1 cert = Some (FileNode newC)" "lookup_file w1 key = Some (FileNode newK)"
    "lookup_file w1 (backup_cert cfg cert) = Some (FileNode oldC)" "lookup_file w1 (backup_cert cfg key) = Some (FileNode oldK)"
    "strVars w1 (cert_var v) = backup_cert cfg cert" "strVars w1 (key_var v) = backup_cert cfg key"
    using tls_action_calm [OF assms(1-6)] by blast
  obtain w2 where "tls_compensate v cfg ctx w1 = (None, w2)"
    "lookup_file w2 = (lookup_file w1)(cert \<mapsto> FileNode oldC, key \<mapsto> FileNode oldK)"
    using tls_compensate_calm [OF a(2) _ a(7,8) _ _ a(5,6), of cfg ctx] assms(1,7,8) a(3,4) by (auto simp: rotation_ready_def)
  then show ?thesis using a assms(1) by (auto simp: rotation_ready_def)
qed

theorem tls_rotation_undone_witness:
  "\<exists>r w1 w2. tls_action ''tls'' demo_tls_cfg Background demo_tls_world = ((Some r, None), w1)
    \<and> tls_compensate ''tls'' demo_tls_cfg Background w1 = (None, w2)
    \<and> lookup_file w2 (tlActiveCertPath demo_tls_cfg) = Some (FileNode ''proxy cert'')"
proof -
  have "resolveTLSCertPaths Background demo_tls_cfg demo_tls_world
      = ((tlActiveCertPath demo_tls_cfg, tlActiveKeyPath demo_tls_cfg), demo_tls_world)"
    by (simp add: resolveTLSCertPaths_def Background_def demo_tls_paths)
  from tls_rotation_undone [OF _ this demo_tls_files(1-4) refl refl, of "''tls''"] show ?thesis
    using demo_tls_ready(1) unfolding demo_tls_paths by blast
qed

text \<open>
  C36: The compensation of a gateway rotation hits the wrong files. For the resource
  \<open>ai-gateway\<close> the action of the default runbook replaces the gateway's certificate, but the
  compensating step writes the gateway's old certificate and key over those of the guardrail proxy and
  leaves the rotated certificate of the gateway in place.
\<close>

theorem tls_rollback_wrong_target:
  assumes "cfg = tls_normalize DefaultTLSRotationConfig" "rotation_ready cfg gateway_crt gateway_key w" "ctxTarget ctx = Some ''ai-gateway''"
    and "lookup_file w gateway_crt = Some (FileNode oldC)" "lookup_file w gateway_key = Some (FileNode oldK)"
    and "lookup_file w (tlStagedCertPath cfg) = Some (FileNode newC)" "lookup_file w (tlStagedKeyPath cfg) = Some (FileNode newK)"
    and "lookup_file w (tlActiveCertPath cfg) = Some (FileNode proxyC)" "lookup_file w (tlActiveKeyPath cfg) = Some (FileNode proxyK)"
  shows "\<exists>r w1 w2. tls_action v cfg ctx w = ((Some r, None), w1) \<and> tls_compensate v cfg ctx w1 = (None, w2)
    \<and> lookup_file w2 gateway_crt = Some (FileNode newC) \<and> lookup_file w2 gateway_key = Some (FileNode newK)
    \<and> lookup_file w2 (tlActiveCertPath cfg) = Some (FileNode oldC) \<and> lookup_file w2 (tlActiveKeyPath cfg) = Some (FileNode oldK)"
proof -
  have paths: "tlActiveCertPath cfg = ''/etc/ssl/certs/guardrail-proxy.crt''" "tlActiveKeyPath cfg = ''/etc/ssl/private/guardrail-proxy.key''"
    "tlBackupDir cfg = ''/var/lib/autonomous-remediation/journal/backup''" "tlReloadFn cfg = None"
    by (simp_all add: assms(1) tls_normalize_def DefaultTLSRotationConfig_def)
  obtain b w0 where "fileExists gateway_crt w = (b, w0)" by force
  then have p: "resolveTLSCertPaths ctx cfg w = ((gateway_crt, gateway_key), w0)"
    using assms(3) paths(1) by (cases b) (simp_all add: resolveTLSCertPaths_def Let_def)
  obtain r w1 where a: "tls_action v cfg ctx w = ((Some r, None), w1)" "no_faults w1"
    "lookup_file w1 gateway_crt = Some (FileNode newC)" "lookup_file w1 gateway_key = Some (FileNode newK)"
    "lookup_file w1 (backup_cert cfg gateway_crt) = Some (FileNode oldC)" "lookup_file w1 (backup_cert cfg gateway_key) = Some (FileNode oldK)"
    "strVars w1 (cert_var v) = backup_cert cfg gateway_crt" "strVars w1 (key_var v) = backup_cert cfg gateway_key"
    and q: "\<forall>p. p \<notin> {gateway_crt, gateway_key, backup_cert cfg gateway_crt, backup_cert cfg gateway_key, gateway_crt @ ''.tmp'', gateway_key @ ''.tmp''}
         \<longrightarrow> lookup_file w1 p = lookup_file w p"
    using tls_action_calm [OF assms(2) p assms(4-7)] by blast
  have b: "backup_cert cfg gateway_crt = ''/var/lib/autonomous-remediation/journal/backup/ai-gateway.crt.bak''"
    "backup_cert cfg gateway_key = ''/var/lib/autonomous-remediation/journal/backup/ai-gateway.key.bak''"
    unfolding backup_cert_def paths gateway_crt_def gateway_key_def by code_simp+
  have k: "lookup_file w1 (tlActiveCertPath cfg) = Some (FileNode proxyC)" "lookup_file w1 (tlActiveKeyPath cfg) = Some (FileNode proxyK)"
    using q [rule_format, of "tlActiveCertPath cfg"] q [rule_format, of "tlActiveKeyPath cfg"] assms(8,9)
    unfolding b paths unfolding gateway_crt_def gateway_key_def by simp_all
  obtain w2 where "tls_compensate v cfg ctx w1 = (None, w2)"
    "lookup_file w2 = (lookup_file w1)(tlActiveCertPath cfg \<mapsto> FileNode oldC, tlActiveKeyPath cfg \<mapsto> FileNode oldK)"
    using tls_compensate_calm [OF a(2) paths(4) a(7,8) _ _ a(5,6), of ctx] k by (auto simp: b paths)
  then show ?thesis using a(1,3,4) by (auto simp: paths gateway_crt_def gateway_key_def)
qed

theorem tls_rollback_wrong_target_witness:
  "\<exists>r w1 w2. tls_action ''tls'' demo_tls_cfg (WithTarget Background ''ai-gateway'') demo_tls_world = ((Some r, None), w1)
    \<and> tls_compensate ''tls'' demo_tls_cfg (WithTarget Background ''ai-gateway'') w1 = (None, w2)
    \<and> lookup_file w2 gateway_crt = Some (FileNode ''new cert'')
    \<and> lookup_file w2 (tlActiveCertPath demo_tls_cfg) = Some (FileNode ''old cert'')"
proof -
  have "ctxTarget (WithTarget Background ''ai-gateway'') = Some ''ai-gateway''" by (simp add: WithTarget_def)
  from tls_rollback_wrong_target [OF demo_tls_cfg_def demo_tls_ready(2) this demo_tls_files(5,6,3,4,1,2), of "''tls''"]
  show ?thesis by blast
qed

section \<open>What the precondition admits\<close>

fun key_pair :: "public_key \<Rightarrow> private_key \<Rightarrow> bool" where
  "key_pair (RsaPub n) (RsaPriv m) \<longleftrightarrow> n = m"
| "key_pair (EcPub x y) (EcPriv x' y') \<longleftrightarrow> x = x' \<and> y = y'"
| "key_pair (EdPub p) (EdPriv q) \<longleftrightarrow> p = q"
| "key_pair _ _ \<longleftrightarrow> False"

lemma key_mismatch_iff: "key_mismatch pub priv = None \<longleftrightarrow> key_pair pub priv"
  by (induction pub priv rule: key_mismatch.induct) auto

lemma Verify_iff:
  "VerifyCertAndKeyModulus X c k = Inr cert \<longleftrightarrow>
     (\<exists>cb kb priv. pemDecode X c = Some cb \<and> parseCertificate X cb = Inr cert \<and> pemDecode X k = Some kb
        \<and> parse_private_key X kb = Some priv \<and> key_pair (certPublicKey cert) priv)"
  by (auto simp: VerifyCertAndKeyModulus_def key_mismatch_iff [symmetric] split: option.splits sum.splits)

lemma calm_ReadFile_eq:
  assumes "no_faults w"
  shows "os_ReadFile p w =
    (case lookup_file w p of
       None \<Rightarrow> Inl (err_not_exist ''open'' p) | Some DirNode \<Rightarrow> Inl (err_is_dir ''read'' p) | Some (FileNode bs) \<Rightarrow> Inr bs, next_step w)"
  using assms by (simp add: os_ReadFile_def calm_sys split: option.split node.split)

text \<open>The staged files decode to a certificate and the private key that belongs to it.\<close>

definition staged_pair :: "x509 \<Rightarrow> TLSRotationConfig \<Rightarrow> world \<Rightarrow> certificate \<Rightarrow> bool" where
  "staged_pair X cfg w cert \<longleftrightarrow>
     (\<exists>c k cb kb priv. lookup_file w (tlStagedCertPath cfg) = Some (FileNode c) \<and> lookup_file w (tlStagedKeyPath cfg) = Some (FileNode k)
        \<and> pemDecode X c = Some cb \<and> parseCertificate X cb = Inr cert \<and> pemDecode X k = Some kb
        \<and> parse_private_key X kb = Some priv \<and> key_pair (certPublicKey cert) priv)"

lemma staged_pair_iff:
  assumes "lookup_file w (tlStagedCertPath cfg) = Some (FileNode c)" "lookup_file w (tlStagedKeyPath cfg) = Some (FileNode k)"
  shows "staged_pair X cfg w cert \<longleftrightarrow> VerifyCertAndKeyModulus X c k = Inr cert"
  using assms by (simp add: staged_pair_def Verify_iff)

text \<open>
  The rotation precondition admits exactly the right material. Without system faults it answers
  yes if and only if the staged files exist, both decode, the private key belongs to the
  certificate's public key (same RSA modulus, same curve point, same Ed25519 key), and the
  certificate is valid for more than thirty days; then the serial number is recorded. No file is
  touched in any case.
\<close>

theorem tls_precheck_exact:
  assumes "no_faults w" "tls_precheck X v cfg ctx w = ((ok, err), w')"
  shows "(ok \<longleftrightarrow> (\<exists>cert. staged_pair X cfg w cert \<and> certNotAfter cert - oClock w (steps w + 2) > 30 * 24 * Hour))
    \<and> (\<forall>cert. ok \<and> staged_pair X cfg w cert \<longrightarrow> strVars w' (serial_var v) = Text16 (certSerial cert))
    \<and> (ok \<longleftrightarrow> err = None) \<and> files w' = files w"
proof -
  have lt: "time_Sub t u \<le> 720 * Hour \<longleftrightarrow> t - u \<le> 720 * Hour" for t u
    by (simp add: Hour_def min_duration_def max_duration_def)
  have c: "no_faults (next_step w)" using assms(1) by simp
  note r = calm_ReadFile_eq [OF assms(1)] calm_ReadFile_eq [OF c]
  show ?thesis
  proof (cases "\<exists>c k. lookup_file w (tlStagedCertPath cfg) = Some (FileNode c) \<and> lookup_file w (tlStagedKeyPath cfg) = Some (FileNode k)")
    case False
    then show ?thesis using assms(2) by (auto simp: tls_precheck_def staged_pair_def r split: option.splits node.splits)
  next
    case True
    then obtain c k where ck: "lookup_file w (tlStagedCertPath cfg) = Some (FileNode c)" "lookup_file w (tlStagedKeyPath cfg) = Some (FileNode k)"
      by blast
    show ?thesis
      using assms(2) unfolding staged_pair_iff [OF ck] tls_precheck_def
      by (cases "VerifyCertAndKeyModulus X c k") (auto simp: r ck lt time_Now_def set_str_def Let_def split: if_splits)
  qed
qed

definition demo_x509 :: x509 where
  "demo_x509 =
     \<lparr>pemDecode = (\<lambda>bs. Some bs), parseCertificate = (\<lambda>_. Inr \<lparr>certNotAfter = 40 * 24 * Hour, certSerial = 255, certPublicKey = RsaPub 35\<rparr>),
      parsePKCS1 = (\<lambda>_. Some (RsaPriv 35)), parsePKCS8 = (\<lambda>_. None), parseEC = (\<lambda>_. None)\<rparr>"

theorem tls_precheck_exact_witness:
  "fst (fst (tls_precheck demo_x509 ''tls'' demo_tls_cfg Background demo_tls_world))
   \<and> strVars (snd (tls_precheck demo_x509 ''tls'' demo_tls_cfg Background demo_tls_world)) (serial_var ''tls'') = ''ff''"
proof -
  obtain ok err w' where x: "tls_precheck demo_x509 ''tls'' demo_tls_cfg Background demo_tls_world = ((ok, err), w')" by (metis prod.exhaust)
  let ?c = "\<lparr>certNotAfter = 40 * 24 * Hour, certSerial = 255, certPublicKey = RsaPub 35\<rparr>"
  have n: "no_faults demo_tls_world" by (simp add: no_faults_def demo_tls_world_def quiet_world_def)
  have p: "staged_pair demo_x509 demo_tls_cfg demo_tls_world ?c"
    by (simp add: staged_pair_def demo_tls_files demo_x509_def parse_private_key_def)
  have "certNotAfter ?c - oClock demo_tls_world (steps demo_tls_world + 2) > 30 * 24 * Hour"
    by (simp add: demo_tls_world_def quiet_world_def Hour_def)
  then have "ok \<and> strVars w' (serial_var ''tls'') = Text16 (certSerial ?c)" using tls_precheck_exact [OF n x] p by blast
  moreover have "Text16 255 = ''ff''" by code_simp
  ultimately show ?thesis unfolding x by simp
qed

end
