(* ===== verification/Runbook_Cfg.thy ===== *)
theory Runbook_Cfg
  imports Runbook_Tls Sha256
begin

text \<open>
  The configuration rollback runbook of \<open>internal/runbooks/runbooks.go\<close>: the syntax check of a
  configuration, the precondition that the last-known-good file is valid and differs from the active
  one, the quarantine and atomic swap, the reload and the digest and health postcondition.
\<close>

section \<open>Syntax check of a configuration\<close>

text \<open>
  \<open>json.Unmarshal\<close> into an \<open>any\<close> converts every number to a \<open>float64\<close> and fails when
  one rounds to infinity.
\<close>

definition float_in_range :: "string \<Rightarrow> bool" where
  "float_in_range l =
     (let s = trim_prefix l ''-''; i = takeWhile is_digit s; r = dropWhile is_digit s;
          f = (if has_prefix r ''.'' then takeWhile is_digit (tl r) else []);
          r2 = (if has_prefix r ''.'' then dropWhile is_digit (tl r) else r);
          e = (case r2 of [] \<Rightarrow> 0 | _ # t \<Rightarrow>
                 if has_prefix t ''-'' then - int_of_digits (tl t)
                 else int_of_digits (trim_prefix t ''+''));
          ex = e - int (length f); m = int_of_digits (i @ f); bound = 2 ^ 1024 - 2 ^ 970 in
      if ex \<ge> 0 then m * 10 ^ nat ex < bound else m < bound * 10 ^ nat (- ex))"

fun floats_ok :: "json \<Rightarrow> bool" where
  "floats_ok (JNum l) = float_in_range l"
| "floats_ok (JArr xs) = list_all floats_ok xs"
| "floats_ok (JObj ms) = list_all (\<lambda>m. floats_ok (snd m)) ms"
| "floats_ok _ = True"

definition unmarshals_any :: "bytes \<Rightarrow> bool" where
  "unmarshals_any data = (case json_parse data of None \<Rightarrow> False | Some j \<Rightarrow> floats_ok j)"

definition tab_char :: char where "tab_char = char_of (9::nat)"

text \<open>The checks on one line; \<^term>\<open>None\<close> when the line passes.\<close>

definition yaml_line_error :: "int \<Rightarrow> string \<Rightarrow> goerror option" where
  "yaml_line_error lineNum line =
     (let trimmed = TrimSpace line; here = ''syntax error at line '' @ itoa lineNum @ '': '';
          indent = takeWhile (\<lambda>c. c = CHR '' '' \<or> c = tab_char) line;
          sQuotes = int (count_sub trimmed [CHR 0x27]);
          dQuotes = int (count_sub trimmed [dquote]) - int (count_sub trimmed [backslash, dquote]) in
      if trimmed = [] \<or> has_prefix trimmed ''#'' then None
      else if tab_char \<in> set indent then Some (errorf (here @ ''YAML prohibits tabs for indentation''))
      else if (sQuotes mod 2 \<noteq> 0 \<or> dQuotes mod 2 \<noteq> 0) \<and> \<not> has_suffix trimmed ''|'' \<and> \<not> has_suffix trimmed ''>''
      then Some (errorf (here @ ''unbalanced quotes''))
      else if \<not> has_prefix trimmed ''-'' \<and> \<not> contains trimmed '':''
      then Some (errorf (here @ ''invalid YAML construct '' @ fmt_q trimmed))
      else None)"

fun yaml_lines_error :: "int \<Rightarrow> string list \<Rightarrow> goerror option" where
  "yaml_lines_error n [] = None"
| "yaml_lines_error n (l # ls) = (case yaml_line_error n l of Some e \<Rightarrow> Some e | None \<Rightarrow> yaml_lines_error (n + 1) ls)"

definition ValidateConfigSyntax :: "bytes \<Rightarrow> goerror option" where
  "ValidateConfigSyntax data =
     (if TrimSpace data = [] then Some (errorf ''empty configuration data'')
      else if unmarshals_any data then None
      else case scan_lines data of (lines, too_long) \<Rightarrow>
        (case yaml_lines_error 1 lines of
           Some e \<Rightarrow> Some e
         | None \<Rightarrow> if too_long then Some err_too_long else None))"

section \<open>Parameters\<close>

record ConfigRollbackConfig =
  crServiceName :: string
  crActiveConfigPath :: string
  crLKGConfigPath :: string
  crQuarantineDir :: string
  crHealthURL :: string
  crTargetPID :: int
  crPIDFilePath :: string
  crRestartFn :: "(world \<Rightarrow> goerror option \<times> world) option"
  crExecutionTimeout :: duration

definition DefaultConfigRollbackConfig :: ConfigRollbackConfig where
  "DefaultConfigRollbackConfig =
     \<lparr>crServiceName = ''ai-gateway'', crActiveConfigPath = ''/etc/ai-gateway/config.yaml'',
      crLKGConfigPath = ''/var/lib/autonomous-remediation/lkg/ai-gateway.config.yaml'',
      crQuarantineDir = ''/var/lib/autonomous-remediation/quarantine'', crHealthURL = ''http://127.0.0.1:8080/healthz'',
      crTargetPID = 0, crPIDFilePath = '''', crRestartFn = None, crExecutionTimeout = 10 * Second\<rparr>"

definition cfg_normalize :: "ConfigRollbackConfig \<Rightarrow> ConfigRollbackConfig" where
  "cfg_normalize cfg =
     cfg\<lparr>crServiceName := (if crServiceName cfg = '''' then ''ai-gateway'' else crServiceName cfg),
         crExecutionTimeout := (if crExecutionTimeout cfg \<le> 0 then 10 * Second else crExecutionTimeout cfg)\<rparr>"

section \<open>Precondition\<close>

text \<open>\<open>sha\<close> is the address of the captured variable \<open>lkgSHA256\<close>.\<close>

definition cfg_precheck :: "string \<Rightarrow> ConfigRollbackConfig \<Rightarrow> ctx \<Rightarrow> world \<Rightarrow> (bool \<times> goerror option) \<times> world" where
  "cfg_precheck sha cfg ctx w =
     (case os_ReadFile (crLKGConfigPath cfg) w of
        (Inl e, w1) \<Rightarrow>
          ((False, Some (wrapf (''LKG config '' @ crLKGConfigPath cfg @ '' does not exist or is unreadable: '') e '''')), w1)
      | (Inr lkgData, w1) \<Rightarrow>
          (case ValidateConfigSyntax lkgData of
             Some e \<Rightarrow> ((False, Some (wrapf ''LKG config syntax validation failed: '' e '''')), w1)
           | None \<Rightarrow>
               (case os_ReadFile (crActiveConfigPath cfg) (set_str sha (sha256_hex lkgData) w1) of
                  (Inl _, w2) \<Rightarrow> ((True, None), w2)
                | (Inr activeData, w2) \<Rightarrow>
                    if sha256_hex activeData = strVars w2 sha
                    then ((False, Some (errorf ''active config already matches LKG config; rollback not applicable'')), w2)
                    else ((True, None), w2))))"

section \<open>Action\<close>

definition quarantine_active :: "ConfigRollbackConfig \<Rightarrow> world \<Rightarrow> world" where
  "quarantine_active cfg w =
     (if crQuarantineDir cfg = '''' then w
      else
        (let w1 = snd (os_MkdirAll (crQuarantineDir cfg) w); (now, w2) = time_Now w1;
             quarantinePath = filepath_Join [crQuarantineDir cfg, ''config-'' @ itoa (UnixNano now) @ ''.yaml.corrupt''] in
         copy_if_readable (crActiveConfigPath cfg) quarantinePath w2))"

definition swap_in :: "string \<Rightarrow> bytes \<Rightarrow> world \<Rightarrow> goerror option \<times> world" where
  "swap_in active data w =
     (case os_WriteFile (active @ ''.lkg.tmp'') data w of
        (Some e, w1) \<Rightarrow> (Some (wrapf ''failed writing tmp config: '' e ''''), w1)
      | (None, w1) \<Rightarrow>
          (case os_Rename (active @ ''.lkg.tmp'') active w1 of
             (Some e, w2) \<Rightarrow> (Some (wrapf ''failed atomic rename LKG config: '' e ''''), w2)
           | (None, w2) \<Rightarrow> (None, w2)))"

text \<open>
  The message shows the first eight digits of the recorded digest. Slicing an empty digest would
  panic; the engine runs the action only after the precondition, which records 64 digits.
\<close>

definition cfg_action :: "string \<Rightarrow> ConfigRollbackConfig \<Rightarrow> ctx \<Rightarrow> world \<Rightarrow> (ExecutionResult option \<times> goerror option) \<times> world" where
  "cfg_action sha cfg ctx w =
     (case os_ReadFile (crLKGConfigPath cfg) (quarantine_active cfg w) of
        (Inl e, w1) \<Rightarrow> ((None, Some (wrapf ''failed reading LKG config: '' e '''')), w1)
      | (Inr lkgData, w1) \<Rightarrow>
          (case swap_in (crActiveConfigPath cfg) lkgData w1 of
             (Some e, w2) \<Rightarrow> ((None, Some e), w2)
           | (None, w2) \<Rightarrow>
               (case reload_service ''RestartFn'' (crRestartFn cfg) (crTargetPID cfg) (crPIDFilePath cfg) w2 of
                  (Some e, w3) \<Rightarrow> ((None, Some e), w3)
                | (None, w3) \<Rightarrow>
                    ((Some (zero_result\<lparr>erSuccess := True, erBytesMutated := int (length lkgData),
                        erStdout := ''LKG configuration ('' @ take 8 (strVars w3 sha) @ '') restored and service reloaded''\<rparr>), None), w3))))"

section \<open>Postcondition\<close>

definition cfg_health :: "ConfigRollbackConfig \<Rightarrow> world \<Rightarrow> (bool \<times> goerror option) \<times> world" where
  "cfg_health cfg w =
     (case crRestartFn cfg of
        Some _ \<Rightarrow>
          (case probe_health 20 ''health status '' (crHealthURL cfg) None w of
             (None, w1) \<Rightarrow> ((True, None), w1)
           | (Some e, w1) \<Rightarrow> ((False, Some (wrap_opt ''service health check failed after config restore: '' e)), w1))
      | None \<Rightarrow>
          if crHealthURL cfg = '''' then ((True, None), w)
          else case net_Dial ''127.0.0.1:8080'' w of
            (Some _, w1) \<Rightarrow> ((True, None), w1)
          | (None, w1) \<Rightarrow>
              (case http_Get (crHealthURL cfg) (1 * Second) w1 of
                 (Inl e, w2) \<Rightarrow>
                   ((False, Some (errorf (''service health check failed after config restore: '' @ err_msg e))), w2)
               | (Inr status, w2) \<Rightarrow>
                   if status \<noteq> 200
                   then ((False, Some (errorf (''service health check failed after config restore: '' @ fmt_err None))), w2)
                   else ((True, None), w2)))"

definition cfg_postcheck :: "string \<Rightarrow> ConfigRollbackConfig \<Rightarrow> ctx \<Rightarrow> world \<Rightarrow> (bool \<times> goerror option) \<times> world" where
  "cfg_postcheck sha cfg ctx w =
     (case os_ReadFile (crActiveConfigPath cfg) w of
        (Inl e, w1) \<Rightarrow> ((False, Some (wrapf (''active config '' @ crActiveConfigPath cfg @ '' missing after restoration: '') e '''')), w1)
      | (Inr activeData, w1) \<Rightarrow>
          if sha256_hex activeData \<noteq> strVars w1 sha
          then ((False, Some (errorf (''active config SHA-256 mismatch: active '' @ sha256_hex activeData @ '' != LKG '' @ strVars w1 sha))), w1)
          else cfg_health cfg w1)"

section \<open>The runbook\<close>

definition IDConfigRollback :: string where "IDConfigRollback = ''RBK-CFG-001''"

definition NewConfigRollbackRunbook :: "string \<Rightarrow> ConfigRollbackConfig \<Rightarrow> Runbook" where
  "NewConfigRollbackRunbook sha cfg0 =
     (let cfg = cfg_normalize cfg0 in
      \<lparr>rbID = IDConfigRollback, rbVersion = ''1.0.0'', rbName = ''config_rollback'',
       rbTargetResourceID = crServiceName cfg, rbSeverity = SeverityCritical,
       rbPreconditions = [custom_pre ''lkg-valid-and-active-config-diverged'' (cfg_precheck sha cfg)],
       rbActions = [mutation ''quarantine-corrupt-and-atomic-restore-lkg'' (crExecutionTimeout cfg) (cfg_action sha cfg)],
       rbPostconditions = [custom_post ''active-sha256-matches-lkg-and-service-healthy'' (cfg_postcheck sha cfg)],
       rbRollbackSteps = [],
       rbBlastRadius =
         \<lparr>brMaxExecutionTime = crExecutionTimeout cfg, brMaxBytesMutated = 0, brMaxProcessesSignaled = 0, brMaxFilesModified = 1,
          brAllowedPathPrefixes = []\<rparr>,
       rbMaxDampingPerHour = 0, rbCooldown = 0\<rparr>)"

section \<open>What the syntax check accepts\<close>

definition yaml_line_ok :: "string \<Rightarrow> bool" where
  "yaml_line_ok line \<longleftrightarrow> (\<forall>n. yaml_line_error n line = None)"

lemma yaml_line_ok_any: "yaml_line_error n line = None \<longleftrightarrow> yaml_line_ok line"
  by (auto simp: yaml_line_ok_def yaml_line_error_def Let_def split: if_splits)

lemma yaml_lines_error_iff: "yaml_lines_error n ls = None \<longleftrightarrow> (\<forall>l \<in> set ls. yaml_line_ok l)"
proof (induction ls arbitrary: n)
  case (Cons l ls)
  then show ?case using yaml_line_ok_any [of n l] by (cases "yaml_line_error n l") auto
qed simp

lemma first_error:
  "(if a then None else if b then Some x else if c then Some y else if d then Some z else None) = None \<longleftrightarrow> a \<or> \<not> b \<and> \<not> c \<and> \<not> d"
  by simp

lemma yaml_line_ok_iff:
  "yaml_line_ok line \<longleftrightarrow>
     (let t = TrimSpace line in
      t = [] \<or> has_prefix t ''#''
      \<or> tab_char \<notin> set (takeWhile (\<lambda>c. c = CHR '' '' \<or> c = tab_char) line)
        \<and> (even (count_sub t [CHR 0x27]) \<and> even (int (count_sub t [dquote]) - int (count_sub t [backslash, dquote]))
           \<or> has_suffix t ''|'' \<or> has_suffix t ''>'')
        \<and> (has_prefix t ''-'' \<or> contains t '':''))"
proof -
  have odds: "i mod 2 \<noteq> 0 \<longleftrightarrow> \<not> even i" for i :: int by presburger
  show ?thesis
    unfolding yaml_line_ok_any [of 0, symmetric] yaml_line_error_def Let_def first_error odds even_of_nat by blast
qed

text \<open>
  What counts as a well-formed configuration. The check accepts exactly the non-blank data that
  either is JSON or whose lines all fit the scanner's buffer and each are blank, a comment, or a line
  without tabs in its indentation, with balanced quotes (unless it opens a block scalar) and with a
  list dash or a colon.
\<close>

theorem config_syntax_exact:
  "ValidateConfigSyntax data = None \<longleftrightarrow>
     TrimSpace data \<noteq> []
     \<and> (unmarshals_any data
        \<or> (\<forall>l \<in> set (fst (scan_lines data)). let t = TrimSpace l in
              t = [] \<or> has_prefix t ''#''
              \<or> tab_char \<notin> set (takeWhile (\<lambda>c. c = CHR '' '' \<or> c = tab_char) l)
                \<and> (even (count_sub t [CHR 0x27]) \<and> even (int (count_sub t [dquote]) - int (count_sub t [backslash, dquote]))
                   \<or> has_suffix t ''|'' \<or> has_suffix t ''>'')
                \<and> (has_prefix t ''-'' \<or> contains t '':''))
          \<and> \<not> snd (scan_lines data))"
proof -
  obtain ls b where s: "scan_lines data = (ls, b)" by force
  show ?thesis
    unfolding ValidateConfigSyntax_def s prod.case fst_conv snd_conv yaml_line_ok_iff [symmetric]
    using yaml_lines_error_iff [of 1 ls] by (cases "yaml_lines_error 1 ls") auto
qed

theorem config_syntax_exact_witness:
  "ValidateConfigSyntax ''a: 1'' = None \<and> ValidateConfigSyntax ''a 1'' \<noteq> None"
proof -
  have t: "TrimSpace ''a: 1'' = ''a: 1''" "TrimSpace ''a 1'' = ''a 1''"
    by (rule TrimSpace_solid; simp add: solid_def)+
  have l: "scan_lines ''a: 1'' = ([''a: 1''], False)" "scan_lines ''a 1'' = ([''a 1''], False)"
    by (simp_all add: scan_lines_def raw_lines_def drop_cr_def MaxScanTokenSize_def newline_def carriage_return_def)
  have f: "\<not> unmarshals_any ''a 1''" "contains ''a: 1'' '':''" "\<not> has_prefix ''a 1'' ''-''"
    "\<not> contains ''a 1'' '':''" "\<not> has_prefix ''a 1'' ''#''"
    by code_simp+
  have c: "count_sub ''a: 1'' [CHR 0x27] = 0" "count_sub ''a: 1'' [dquote] = 0" "count_sub ''a: 1'' [backslash, dquote] = 0"
    by (rule count_sub_absent; simp add: dquote_def backslash_def)+
  have i: "tab_char \<notin> set (takeWhile (\<lambda>c. c = CHR '' '' \<or> c = tab_char) ''a: 1'')" by code_simp
  show ?thesis unfolding config_syntax_exact Let_def t l fst_conv snd_conv using f c i by (simp add: t)
qed

section \<open>The swap is atomic\<close>

lemma ReadFile_frame:
  assumes "os_ReadFile p w = (r, w')"
  shows "lookup_file w' = lookup_file w" "r = Inr bs \<Longrightarrow> lookup_file w p = Some (FileNode bs)"
  using assms by (auto simp: os_ReadFile_def sys_def fun_eq_iff split: option.splits node.splits)

lemma WriteFile_frame:
  assumes "os_WriteFile p bs w = (err, w')"
  shows "q \<noteq> p \<Longrightarrow> lookup_file w' q = lookup_file w q" "err = None \<Longrightarrow> lookup_file w' p = Some (FileNode bs)"
  using assms by (auto simp: os_WriteFile_def os_OpenTrunc_def file_Write_def sys_def split: option.splits if_splits prod.splits)

lemma Rename_frame:
  assumes "os_Rename p q w = (err, w')"
  shows "err \<noteq> None \<Longrightarrow> lookup_file w' = lookup_file w" "err = None \<Longrightarrow> lookup_file w' q = lookup_file w p"
  using assms by (auto simp: os_Rename_def sys_def fun_eq_iff split: option.splits if_splits)

lemma Mkdir_frame: "q \<noteq> p \<Longrightarrow> lookup_file (snd (os_MkdirAll p w)) q = lookup_file w q"
  by (simp add: os_MkdirAll_def sys_def split: option.split node.split)

lemma copy_frame: "q \<noteq> d \<Longrightarrow> lookup_file (copy_if_readable s d w) q = lookup_file w q"
proof -
  assume q: "q \<noteq> d"
  obtain r w1 where r: "os_ReadFile s w = (r, w1)" by force
  have "lookup_file (snd (os_WriteFile d bs w1)) q = lookup_file w1 q" for bs
    using WriteFile_frame(1) [OF _ q, of bs w1] by (metis prod.collapse)
  then show ?thesis using ReadFile_frame(1) [OF r] by (simp add: copy_if_readable_def r split: sum.split)
qed

text \<open>The files a rollback writes besides the active one are neither the active nor the last-known-good file.\<close>

definition cfg_separate :: "ConfigRollbackConfig \<Rightarrow> bool" where
  "cfg_separate cfg \<longleftrightarrow>
     (\<forall>p \<in> {crActiveConfigPath cfg, crLKGConfigPath cfg}.
        p \<noteq> crQuarantineDir cfg \<and> (\<forall>n. p \<noteq> filepath_Join [crQuarantineDir cfg, ''config-'' @ itoa n @ ''.yaml.corrupt'']))
     \<and> crLKGConfigPath cfg \<noteq> crActiveConfigPath cfg @ ''.lkg.tmp''"

lemma quarantine_frame:
  assumes "cfg_separate cfg" "p \<in> {crActiveConfigPath cfg, crLKGConfigPath cfg}"
  shows "lookup_file (quarantine_active cfg w) p = lookup_file w p"
proof -
  have d: "p \<noteq> crQuarantineDir cfg" "\<And>n. p \<noteq> filepath_Join [crQuarantineDir cfg, ''config-'' @ itoa n @ ''.yaml.corrupt'']"
    using assms unfolding cfg_separate_def by blast+
  show ?thesis
    unfolding quarantine_active_def Let_def time_Now_def prod.case
    by (cases "crQuarantineDir cfg = ''''") (simp_all only: if_True if_False simp_thms copy_frame [OF d(2)] lookup_next_step Mkdir_frame [OF d(1)])
qed

lemma swap_in_frame:
  assumes "swap_in active data w = (err, w')"
  shows "err \<noteq> None \<Longrightarrow> lookup_file w' active = lookup_file w active" "err = None \<Longrightarrow> lookup_file w' active = Some (FileNode data)"
proof -
  obtain e1 w1 where 1: "os_WriteFile (active @ ''.lkg.tmp'') data w = (e1, w1)" by force
  obtain e2 w2 where 2: "os_Rename (active @ ''.lkg.tmp'') active w1 = (e2, w2)" by force
  show "err \<noteq> None \<Longrightarrow> lookup_file w' active = lookup_file w active" "err = None \<Longrightarrow> lookup_file w' active = Some (FileNode data)"
    using assms WriteFile_frame(1) [OF 1, of active] WriteFile_frame(2) [OF 1] Rename_frame [OF 2]
    by (auto simp: swap_in_def 1 2 split: option.splits)
qed

lemma reload_frame:
  assumes "\<forall>f v. fn = Some f \<longrightarrow> lookup_file (snd (f v)) p = lookup_file v p" "reload_service what fn pid file w = (err, w')"
  shows "lookup_file w' p = lookup_file w p"
proof (cases fn)
  case None
  then show ?thesis using assms(2) by (auto simp: reload_service_def signal_reload_frame)
next
  case (Some f)
  then have "lookup_file (snd (f w)) p = lookup_file w p" using assms(1) by blast
  then show ?thesis using assms(2) Some by (auto simp: reload_service_def split: prod.splits option.splits)
qed

text \<open>
  C27: The configuration rollback is atomic. Whatever system calls fail on the way, after the action
  the active configuration is either what it was or, byte for byte, the last-known-good one, never a
  mixture and never missing; a successful action leaves the last-known-good one. The restart function
  is assumed not to write the active configuration.
\<close>

theorem config_rollback_atomic:
  assumes "cfg_separate cfg" "\<forall>f v. crRestartFn cfg = Some f \<longrightarrow> lookup_file (snd (f v)) (crActiveConfigPath cfg) = lookup_file v (crActiveConfigPath cfg)"
    and "cfg_action sha cfg ctx w = ((res, err), w')"
  shows "(lookup_file w' (crActiveConfigPath cfg) = lookup_file w (crActiveConfigPath cfg)
      \<or> (\<exists>lkg. lookup_file w (crLKGConfigPath cfg) = Some (FileNode lkg) \<and> lookup_file w' (crActiveConfigPath cfg) = Some (FileNode lkg)))
    \<and> (err = None \<longrightarrow> (\<exists>lkg. lookup_file w (crLKGConfigPath cfg) = Some (FileNode lkg)
         \<and> lookup_file w' (crActiveConfigPath cfg) = Some (FileNode lkg)))"
proof -
  let ?a = "crActiveConfigPath cfg" and ?l = "crLKGConfigPath cfg" and ?q = "quarantine_active cfg w"
  have q: "lookup_file ?q ?a = lookup_file w ?a" "lookup_file ?q ?l = lookup_file w ?l"
    using quarantine_frame [OF assms(1)] by simp_all
  obtain r w1 where r: "os_ReadFile ?l ?q = (r, w1)" by force
  note f = ReadFile_frame [OF r]
  show ?thesis
  proof (cases r)
    case (Inl e)
    then show ?thesis using assms(3) r f(1) q(1) by (auto simp: cfg_action_def)
  next
    case (Inr lkg)
    obtain e2 w2 where s: "swap_in ?a lkg w1 = (e2, w2)" by force
    obtain e3 w3 where x: "reload_service ''RestartFn'' (crRestartFn cfg) (crTargetPID cfg) (crPIDFilePath cfg) w2 = (e3, w3)" by force
    have "lookup_file w3 ?a = lookup_file w2 ?a" by (rule reload_frame [OF assms(2) x])
    moreover have "w' = (if e2 = None then w3 else w2)" "err = None \<Longrightarrow> e2 = None"
      using assms(3) by (auto simp: cfg_action_def r Inr s x split: option.splits)
    ultimately show ?thesis using swap_in_frame [OF s] f q Inr by (cases e2) auto
  qed
qed

definition demo_rollback_cfg :: ConfigRollbackConfig where
  "demo_rollback_cfg =
     DefaultConfigRollbackConfig\<lparr>crActiveConfigPath := ''/a'', crLKGConfigPath := ''/b'', crQuarantineDir := ''/q''\<rparr>"

lemma demo_separate: "cfg_separate demo_rollback_cfg"
proof -
  have "plain_name (''config-'' @ itoa n @ ''.yaml.corrupt'')" for n
    using slash_itoa [of n] by (auto simp: plain_name_def slash_def)
  moreover have "comps ''/q'' = [''q'']" "filepath_Clean ''/q'' = ''/q''" by code_simp+
  ultimately have "filepath_Join [''/q'', ''config-'' @ itoa n @ ''.yaml.corrupt''] = ''/q'' @ slash # ''config-'' @ itoa n @ ''.yaml.corrupt''" for n
    using Join_child [of "''/q''"] by simp
  then show ?thesis by (simp add: cfg_separate_def demo_rollback_cfg_def)
qed

theorem config_rollback_atomic_witness:
  "\<exists>res err w'. cfg_action ''sha'' demo_rollback_cfg Background (quiet_world\<lparr>files := [(''/a'', FileNode ''bad''), (''/b'', FileNode ''good'')]\<rparr>)
       = ((res, err), w')
     \<and> lookup_file w' ''/a'' \<in> {Some (FileNode ''bad''), Some (FileNode ''good'')}"
proof -
  let ?w = "quiet_world\<lparr>files := [(''/a'', FileNode ''bad''), (''/b'', FileNode ''good'')]\<rparr>"
  obtain res err w' where x: "cfg_action ''sha'' demo_rollback_cfg Background ?w = ((res, err), w')" by (metis prod.exhaust)
  have "\<forall>f v. crRestartFn demo_rollback_cfg = Some f
      \<longrightarrow> lookup_file (snd (f v)) (crActiveConfigPath demo_rollback_cfg) = lookup_file v (crActiveConfigPath demo_rollback_cfg)"
    by (simp add: demo_rollback_cfg_def DefaultConfigRollbackConfig_def)
  from config_rollback_atomic [OF demo_separate this x] show ?thesis
    unfolding x by (auto simp: demo_rollback_cfg_def lookup_file_def)
qed

end
