(* ===== verification/Runbook_Catalog.thy ===== *)
theory Runbook_Catalog
  imports Engine_Trail Runbook_Disk Runbook_Cfg "HOL-Library.Multiset"
begin

text \<open>
  \<open>internal/runbooks/catalog.go\<close>: the four production runbooks and the catalogue that resolves
  them, with the registration of the catalogue by the daemon. The contract of a registry of runbooks
  is the locale \<open>registry\<close>; the engine and the catalogue are its two instances.
\<close>

section \<open>The contract of a registry\<close>

text \<open>
  Both the engine and the catalogue keep runbooks under their identifiers and find them by
  identifier, name or alias. A runbook answers to an identifier that is its own, its name, or an alias
  whose canonical identifier is one of these. Go ranges over a map in an unspecified order, a
  permutation of the entries.
\<close>

definition answers :: "string \<Rightarrow> Runbook \<Rightarrow> bool" where
  "answers ident rb \<longleftrightarrow>
     ident \<in> {rbID rb, rbName rb} \<or> canonical_id ident \<noteq> '''' \<and> canonical_id ident \<in> {rbID rb, rbName rb}"

definition keyed :: "(string \<times> Runbook) list \<Rightarrow> bool" where
  "keyed es \<longleftrightarrow> distinct (map fst es) \<and> (\<forall>(k, rb) \<in> set es. k = rbID rb \<and> k \<noteq> '''')"

definition permutes :: "order \<Rightarrow> bool" where
  "permutes ord \<longleftrightarrow> (\<forall>xs. mset (ord xs) = mset xs)"

lemma permutes_set: "permutes ord \<Longrightarrow> set (ord xs) = set xs"
  unfolding permutes_def by (metis set_mset_mset)

lemma update_mem: "p \<in> set (AList.update k v es) \<Longrightarrow> p = (k, v) \<or> p \<in> set es"
  by (induction es) (auto split: if_splits)

lemma keyed_update: "keyed es \<Longrightarrow> rbID rb \<noteq> '''' \<Longrightarrow> keyed (AList.update (rbID rb) rb es)"
  unfolding keyed_def using distinct_update [of es "rbID rb" rb] by (auto dest!: update_mem)

lemma keyed_map_of: "keyed es \<Longrightarrow> map_of es k = Some rb \<longleftrightarrow> rb \<in> snd ` set es \<and> rbID rb = k"
  unfolding keyed_def by (force simp: map_of_eq_Some_iff)

locale registry =
  fixes entries :: "'s \<Rightarrow> (string \<times> Runbook) list"
    and register :: "Runbook option \<Rightarrow> 's \<Rightarrow> goerror option \<times> 's"
    and get :: "order \<Rightarrow> 's \<Rightarrow> string \<Rightarrow> goerror + Runbook"
  assumes register_stores: "register (Some rb) s = (None, s') \<Longrightarrow> rbID rb \<noteq> '''' \<and> entries s' = AList.update (rbID rb) rb (entries s)"
    and register_rejects: "register r s = (Some err, s') \<Longrightarrow> s' = s"
    and get_key: "map_of (entries s) ident = Some rb \<Longrightarrow> get ord s ident = Inr rb"
    and get_sound: "permutes ord \<Longrightarrow> get ord s ident = Inr rb \<Longrightarrow> keyed (entries s) \<Longrightarrow> rb \<in> snd ` set (entries s) \<and> answers ident rb"
    and get_complete: "permutes ord \<Longrightarrow> get ord s ident = Inl err \<Longrightarrow> rb \<in> snd ` set (entries s) \<Longrightarrow> \<not> answers ident rb"
begin

lemma register_keyed: "register (Some rb) s = (e, s') \<Longrightarrow> keyed (entries s) \<Longrightarrow> keyed (entries s')"
  using register_stores [of rb s s'] register_rejects [of "Some rb" s _ s'] keyed_update by (cases e) auto

lemma register_get: "register (Some rb) s = (None, s') \<Longrightarrow> get ord s' (rbID rb) = Inr rb"
  using register_stores by (auto intro!: get_key simp: update_conv)

lemma register_get_other:
  "register (Some rb) s = (None, s') \<Longrightarrow> map_of (entries s) k = Some rb' \<Longrightarrow> k \<noteq> rbID rb \<Longrightarrow> get ord s' k = Inr rb'"
  using register_stores by (auto intro!: get_key simp: update_conv)

lemma get_unique:
  assumes "permutes ord" "keyed (entries s)" "rb \<in> snd ` set (entries s)" "answers ident rb"
    and "\<forall>rb' \<in> snd ` set (entries s). answers ident rb' \<longrightarrow> rb' = rb"
  shows "get ord s ident = Inr rb"
proof (cases "get ord s ident")
  case (Inl e)
  then show ?thesis using get_complete [OF assms(1) Inl assms(3)] assms(4) by simp
next
  case (Inr x)
  then show ?thesis using get_sound [OF assms(1) Inr assms(2)] assms(5) by auto
qed

lemma get_nobody:
  "permutes ord \<Longrightarrow> keyed (entries s) \<Longrightarrow> \<forall>rb \<in> snd ` set (entries s). \<not> answers ident rb \<Longrightarrow> \<exists>e. get ord s ident = Inl e"
  using get_sound [of ord s ident] by (cases "get ord s ident") auto

end

section \<open>Production instances\<close>

text \<open>
  The closures of a runbook share variables; \<open>cells\<close> holds the addresses of those of one
  catalogue. The order in which \<open>sort.Slice\<close> leaves equal elements and the X.509 library are
  parameters of the runbooks that use them.
\<close>

record cells =
  cellInode :: string
  cellPID :: string
  cellTLS :: string
  cellSHA :: string

definition DefaultDiskCleanupRunbook :: "sorter \<Rightarrow> cells \<Rightarrow> Runbook" where
  "DefaultDiskCleanupRunbook srt c = NewDiskCleanupRunbook srt (cellInode c) DefaultDiskCleanupConfig"

definition DefaultServiceHangRecoveryRunbook :: "cells \<Rightarrow> world \<Rightarrow> Runbook \<times> world" where
  "DefaultServiceHangRecoveryRunbook c w = NewServiceHangRecoveryRunbook (cellPID c) DefaultServiceHangConfig w"

definition DefaultTLSCertRotationRunbook :: "x509 \<Rightarrow> cells \<Rightarrow> Runbook" where
  "DefaultTLSCertRotationRunbook X c = NewTLSCertRotationRunbook X (cellTLS c) DefaultTLSRotationConfig"

definition DefaultConfigRollbackRunbook :: "cells \<Rightarrow> Runbook" where
  "DefaultConfigRollbackRunbook c = NewConfigRollbackRunbook (cellSHA c) DefaultConfigRollbackConfig"

definition DefaultCatalog :: "sorter \<Rightarrow> x509 \<Rightarrow> cells \<Rightarrow> world \<Rightarrow> Runbook list \<times> world" where
  "DefaultCatalog srt X c w =
     (let (proc, w1) = DefaultServiceHangRecoveryRunbook c w in
      ([DefaultDiskCleanupRunbook srt c, proc, DefaultTLSCertRotationRunbook X c, DefaultConfigRollbackRunbook c], w1))"

section \<open>The catalogue\<close>

record Catalog =
  catRunbooks :: "(string \<times> Runbook) list"

definition NewCatalog :: Catalog where
  "NewCatalog = \<lparr>catRunbooks = []\<rparr>"

definition Register :: "Runbook option \<Rightarrow> Catalog \<Rightarrow> goerror option \<times> Catalog" where
  "Register rb c =
     (case rb of
        None \<Rightarrow> (Some (errorf ''cannot register un-identified runbook''), c)
      | Some r \<Rightarrow>
          if rbID r = '''' then (Some (errorf ''cannot register un-identified runbook''), c)
          else (None, c\<lparr>catRunbooks := AList.update (rbID r) r (catRunbooks c)\<rparr>))"

definition NewDefaultCatalog :: "sorter \<Rightarrow> x509 \<Rightarrow> cells \<Rightarrow> world \<Rightarrow> Catalog \<times> world" where
  "NewDefaultCatalog srt X cs w =
     (let (rbs, w1) = DefaultCatalog srt X cs w in (fold (\<lambda>rb c. snd (Register (Some rb) c)) rbs NewCatalog, w1))"

definition Get :: "order \<Rightarrow> Catalog \<Rightarrow> string \<Rightarrow> goerror + Runbook" where
  "Get ord c ident =
     (let look = (\<lambda>k. case map_of (catRunbooks c) k of
                        Some rb \<Rightarrow> Some rb
                      | None \<Rightarrow> List.find (\<lambda>rb. rbName rb = k \<or> rbID rb = k) (ord (map snd (catRunbooks c))));
          canonID =
            (if ident \<in> {''disk_cleanup_var_log'', ''disk_log_drain'', ''RBK-DISK-001''} then ''RBK-DISK-001''
             else if ident \<in> {''service_deadlock_restart'', ''service_hang_recovery'', ''RBK-PROC-001''} then ''RBK-PROC-001''
             else if ident \<in> {''tls_cert_renew_internal'', ''tls_cert_rotation'', ''tls_cert_reload'', ''RBK-TLS-001''} then ''RBK-TLS-001''
             else if ident \<in> {''config_rollback'', ''RBK-CFG-001''} then ''RBK-CFG-001''
             else '''') in
      case look ident of
        Some rb \<Rightarrow> Inr rb
      | None \<Rightarrow>
          (case (if canonID = '''' then None else look canonID) of
             Some rb \<Rightarrow> Inr rb
           | None \<Rightarrow> Inl \<lparr>err_is = [ErrCatalogNotFound], err_msg = ''runbook not found in catalog: '' @ ident\<rparr>))"

definition List_runbooks :: "order \<Rightarrow> Catalog \<Rightarrow> Runbook list" where
  "List_runbooks ord c = ord (map snd (catRunbooks c))"

section \<open>The start of the daemon\<close>

text \<open>\<open>NewDaemon\<close> registers the catalogue with the engine and stops at the first refusal.\<close>

fun register_all :: "Runbook list \<Rightarrow> Engine \<Rightarrow> goerror option \<times> Engine" where
  "register_all [] e = (None, e)"
| "register_all (rb # rbs) e =
     (case RegisterRunbook (Some rb) e of
        (Some err, e1) \<Rightarrow> (Some (wrapf (''failed to register runbook '' @ rbID rb @ '': '') err ''''), e1)
      | (None, e1) \<Rightarrow> register_all rbs e1)"

section \<open>Both registries keep the contract\<close>

lemma find_run:
  assumes "permutes ord"
  shows "List.find P (ord xs) = Some x \<Longrightarrow> x \<in> set xs \<and> P x" "List.find P (ord xs) = None \<Longrightarrow> x \<in> set xs \<Longrightarrow> \<not> P x"
  using permutes_set [OF assms, of xs] nth_mem by (fastforce simp: find_Some_iff find_None_iff)+

definition found :: "order \<Rightarrow> (string \<times> Runbook) list \<Rightarrow> string \<Rightarrow> Runbook option" where
  "found ord es k =
     (case map_of es k of
        Some rb \<Rightarrow> Some rb
      | None \<Rightarrow> List.find (\<lambda>rb. rbName rb = k \<or> rbID rb = k) (ord (map snd es)))"

definition resolve :: "order \<Rightarrow> (string \<times> Runbook) list \<Rightarrow> string \<Rightarrow> Runbook option" where
  "resolve ord es ident =
     (case found ord es ident of
        Some rb \<Rightarrow> Some rb
      | None \<Rightarrow> if canonical_id ident = '''' then None else found ord es (canonical_id ident))"

lemma GetRunbook_resolve:
  "GetRunbook ord e ident =
     (case resolve ord (engRunbooks e) ident of Some rb \<Rightarrow> Inr rb | None \<Rightarrow> Inl (err_runbook_not_found ('': '' @ ident)))"
  unfolding GetRunbook_def lookup_runbook_def resolve_def found_def by (simp split: option.split)

lemma Get_resolve:
  "Get ord c ident =
     (case resolve ord (catRunbooks c) ident of
        Some rb \<Rightarrow> Inr rb
      | None \<Rightarrow> Inl \<lparr>err_is = [ErrCatalogNotFound], err_msg = ''runbook not found in catalog: '' @ ident\<rparr>)"
  unfolding Get_def Let_def canonical_id_def [symmetric] resolve_def found_def by (simp split: option.split)

lemma found_sound:
  "permutes ord \<Longrightarrow> keyed es \<Longrightarrow> found ord es k = Some rb \<Longrightarrow> rb \<in> snd ` set es \<and> k \<in> {rbID rb, rbName rb}"
  using keyed_map_of [of es k rb] find_run(1) [of ord _ "map snd es" rb]
  by (cases "map_of es k") (force simp: found_def)+

lemma found_complete:
  assumes "permutes ord" "found ord es k = None" "rb \<in> snd ` set es"
  shows "k \<notin> {rbID rb, rbName rb}"
proof -
  have "List.find (\<lambda>rb. rbName rb = k \<or> rbID rb = k) (ord (map snd es)) = None"
    using assms(2) by (simp add: found_def split: option.splits)
  from find_run(2) [OF assms(1) this, of rb] show ?thesis using assms(3) by auto
qed

lemma resolve_sound:
  "permutes ord \<Longrightarrow> keyed es \<Longrightarrow> resolve ord es i = Some rb \<Longrightarrow> rb \<in> snd ` set es \<and> answers i rb"
  using found_sound [of ord es] by (auto simp: resolve_def answers_def split: option.splits if_splits)

lemma resolve_complete:
  "permutes ord \<Longrightarrow> resolve ord es i = None \<Longrightarrow> rb \<in> snd ` set es \<Longrightarrow> \<not> answers i rb"
  using found_complete [of ord es _ rb] by (auto simp: resolve_def answers_def split: option.splits if_splits)

lemma resolve_key: "map_of es i = Some rb \<Longrightarrow> resolve ord es i = Some rb"
  by (simp add: resolve_def found_def)

interpretation eng: registry engRunbooks RegisterRunbook GetRunbook
proof
  show "permutes ord \<Longrightarrow> GetRunbook ord s i = Inr rb \<Longrightarrow> keyed (engRunbooks s) \<Longrightarrow> rb \<in> snd ` set (engRunbooks s) \<and> answers i rb" for ord s i rb
    by (rule resolve_sound) (auto simp: GetRunbook_resolve split: option.splits)
  show "permutes ord \<Longrightarrow> GetRunbook ord s i = Inl e \<Longrightarrow> rb \<in> snd ` set (engRunbooks s) \<Longrightarrow> \<not> answers i rb" for ord s i e rb
    by (rule resolve_complete) (auto simp: GetRunbook_resolve split: option.splits)
qed (auto simp: RegisterRunbook_def GetRunbook_resolve resolve_key split: option.splits if_splits)

interpretation cat: registry catRunbooks Register Get
proof
  show "permutes ord \<Longrightarrow> Get ord s i = Inr rb \<Longrightarrow> keyed (catRunbooks s) \<Longrightarrow> rb \<in> snd ` set (catRunbooks s) \<and> answers i rb" for ord s i rb
    by (rule resolve_sound) (auto simp: Get_resolve split: option.splits)
  show "permutes ord \<Longrightarrow> Get ord s i = Inl e \<Longrightarrow> rb \<in> snd ` set (catRunbooks s) \<Longrightarrow> \<not> answers i rb" for ord s i e rb
    by (rule resolve_complete) (auto simp: Get_resolve split: option.splits)
qed (auto simp: Register_def Get_resolve resolve_key split: option.splits if_splits)

section \<open>Registration and lookup\<close>

text \<open>
  What is registered with the engine can be found. After a successful registration the runbook is
  returned for its identifier, every runbook that was found under another identifier is still found
  there, and the table stays well-formed: one entry per identifier, none of them empty.
\<close>

theorem register_then_get:
  assumes "RegisterRunbook (Some rb) e = (None, e')" "keyed (engRunbooks e)"
  shows "GetRunbook ord e' (rbID rb) = Inr rb
    \<and> (\<forall>k rb'. k \<noteq> rbID rb \<and> map_of (engRunbooks e) k = Some rb' \<longrightarrow> GetRunbook ord e' k = Inr rb')
    \<and> keyed (engRunbooks e')"
  using eng.register_get [OF assms(1)] eng.register_get_other [OF assms(1)] eng.register_keyed [OF assms] by blast

theorem register_then_get_witness:
  "\<exists>e'. RegisterRunbook (Some (demo_runbook\<lparr>rbID := ''B''\<rparr>)) demo_engine = (None, e') \<and> GetRunbook (\<lambda>xs. xs) e' ''RB'' = Inr demo_runbook"
proof -
  obtain e' where r: "RegisterRunbook (Some (demo_runbook\<lparr>rbID := ''B''\<rparr>)) demo_engine = (None, e')"
    by (simp add: RegisterRunbook_def)
  have k: "keyed (engRunbooks demo_engine)" "map_of (engRunbooks demo_engine) ''RB'' = Some demo_runbook"
    by (simp_all add: keyed_def demo_engine_def demo_runbook_def)
  show ?thesis using register_then_get [OF r k(1)] k(2) r by simp
qed

lemma register_all_entries:
  "register_all rbs e = (None, e') \<Longrightarrow> engRunbooks e = catRunbooks c
   \<Longrightarrow> engRunbooks e' = catRunbooks (fold (\<lambda>rb c. snd (Register (Some rb) c)) rbs c)"
  by (induction rbs arbitrary: e c) (auto simp: RegisterRunbook_def Register_def split: if_splits)

lemma register_all_ok: "\<forall>rb \<in> set rbs. rbID rb \<noteq> '''' \<Longrightarrow> \<exists>e'. register_all rbs e = (None, e')"
  by (induction rbs arbitrary: e) (auto simp: RegisterRunbook_def)

text \<open>
  The engine and the catalogue resolve alike. Fed the same runbooks, an engine and a catalogue
  that held the same entries return the same runbook for every identifier, name and alias, or both
  refuse it; the errors carry different sentinels.
\<close>

theorem engine_catalog_agree:
  assumes "register_all rbs e = (None, e')" "engRunbooks e = catRunbooks c"
  shows "(GetRunbook ord e' ident = Inr rb \<longleftrightarrow> Get ord (fold (\<lambda>rb c. snd (Register (Some rb) c)) rbs c) ident = Inr rb)
    \<and> ((\<exists>x. GetRunbook ord e' ident = Inl x \<and> errors_Is x ErrRunbookNotFound)
       \<longleftrightarrow> (\<exists>x. Get ord (fold (\<lambda>rb c. snd (Register (Some rb) c)) rbs c) ident = Inl x \<and> errors_Is x ErrCatalogNotFound))"
  unfolding GetRunbook_resolve Get_resolve register_all_entries [OF assms]
  by (auto simp: errors_Is_def err_runbook_not_found_def split: option.split)

section \<open>The production catalogue\<close>

lemma default_fields:
  "rbID (DefaultDiskCleanupRunbook srt cs) = ''RBK-DISK-001''" "rbName (DefaultDiskCleanupRunbook srt cs) = ''disk_cleanup_var_log''"
  "rbTargetResourceID (DefaultDiskCleanupRunbook srt cs) = ''/var/log''"
  "rbID (fst (DefaultServiceHangRecoveryRunbook cs w)) = ''RBK-PROC-001''" "rbName (fst (DefaultServiceHangRecoveryRunbook cs w)) = ''service_hang_recovery''"
  "rbTargetResourceID (fst (DefaultServiceHangRecoveryRunbook cs w)) = ''ai-gateway''" "snd (DefaultServiceHangRecoveryRunbook cs w) = w"
  "rbID (DefaultTLSCertRotationRunbook X cs) = ''RBK-TLS-001''" "rbName (DefaultTLSCertRotationRunbook X cs) = ''tls_cert_rotation''"
  "rbTargetResourceID (DefaultTLSCertRotationRunbook X cs) = ''ai-security-guardrail-proxy''"
  "rbID (DefaultConfigRollbackRunbook cs) = ''RBK-CFG-001''" "rbName (DefaultConfigRollbackRunbook cs) = ''config_rollback''"
  "rbTargetResourceID (DefaultConfigRollbackRunbook cs) = ''ai-gateway''"
  by (simp_all add: DefaultDiskCleanupRunbook_def NewDiskCleanupRunbook_def disk_normalize_def DefaultDiskCleanupConfig_def IDDiskCleanupVarLog_def
      DefaultServiceHangRecoveryRunbook_def NewServiceHangRecoveryRunbook_def hang_normalize_def DefaultServiceHangConfig_def IDServiceHangRecovery_def
      DefaultTLSCertRotationRunbook_def NewTLSCertRotationRunbook_def tls_normalize_def DefaultTLSRotationConfig_def IDTLSCertRotation_def
      DefaultConfigRollbackRunbook_def NewConfigRollbackRunbook_def cfg_normalize_def DefaultConfigRollbackConfig_def IDConfigRollback_def Let_def)

lemma DefaultCatalog_world [simp]: "snd (DefaultCatalog srt X cs w) = w"
  by (simp add: DefaultCatalog_def default_fields split_beta)

lemma default_list:
  obtains d p t c where "fst (DefaultCatalog srt X cs w) = [d, p, t, c]"
    "rbID d = ''RBK-DISK-001''" "rbName d = ''disk_cleanup_var_log''" "rbTargetResourceID d = ''/var/log''"
    "rbID p = ''RBK-PROC-001''" "rbName p = ''service_hang_recovery''" "rbTargetResourceID p = ''ai-gateway''"
    "rbID t = ''RBK-TLS-001''" "rbName t = ''tls_cert_rotation''" "rbTargetResourceID t = ''ai-security-guardrail-proxy''"
    "rbID c = ''RBK-CFG-001''" "rbName c = ''config_rollback''" "rbTargetResourceID c = ''ai-gateway''"
proof
  show "fst (DefaultCatalog srt X cs w)
    = [DefaultDiskCleanupRunbook srt cs, fst (DefaultServiceHangRecoveryRunbook cs w), DefaultTLSCertRotationRunbook X cs, DefaultConfigRollbackRunbook cs]"
    by (simp add: DefaultCatalog_def split_beta)
qed (simp_all only: default_fields)

lemma default_entries:
  assumes "NewDefaultCatalog srt X cs w = (c, w')"
  shows "w' = w" "catRunbooks c = map (\<lambda>rb. (rbID rb, rb)) (fst (DefaultCatalog srt X cs w))" "keyed (catRunbooks c)"
proof -
  obtain d p t c0 where l: "fst (DefaultCatalog srt X cs w) = [d, p, t, c0]"
    "rbID d = ''RBK-DISK-001''" "rbID p = ''RBK-PROC-001''" "rbID t = ''RBK-TLS-001''" "rbID c0 = ''RBK-CFG-001''"
    using default_list by metis
  have c: "c = fold (\<lambda>rb c. snd (Register (Some rb) c)) [d, p, t, c0] NewCatalog" "w' = w"
    using assms by (simp_all add: NewDefaultCatalog_def split_beta l(1))
  show "w' = w" by (rule c(2))
  show e: "catRunbooks c = map (\<lambda>rb. (rbID rb, rb)) (fst (DefaultCatalog srt X cs w))"
    unfolding c(1) l(1) using l(2-) by (simp add: NewCatalog_def Register_def)
  show "keyed (catRunbooks c)" unfolding e l(1) using l(2-) by (simp add: keyed_def)
qed

lemma canonical_range:
  "canonical_id i \<in> {'''', ''RBK-DISK-001'', ''RBK-PROC-001'', ''RBK-TLS-001'', ''RBK-CFG-001''}"
  by (simp add: canonical_id_def)

lemma canonical_own:
  "canonical_id ''RBK-DISK-001'' = ''RBK-DISK-001''" "canonical_id ''disk_cleanup_var_log'' = ''RBK-DISK-001''"
  "canonical_id ''RBK-PROC-001'' = ''RBK-PROC-001''" "canonical_id ''service_hang_recovery'' = ''RBK-PROC-001''"
  "canonical_id ''RBK-TLS-001'' = ''RBK-TLS-001''" "canonical_id ''tls_cert_rotation'' = ''RBK-TLS-001''"
  "canonical_id ''RBK-CFG-001'' = ''RBK-CFG-001''" "canonical_id ''config_rollback'' = ''RBK-CFG-001''"
  by (simp_all add: canonical_id_def)

lemma default_answers:
  assumes "rb \<in> set (fst (DefaultCatalog srt X cs w))"
  shows "answers ident rb \<longleftrightarrow> canonical_id ident = rbID rb"
proof -
  obtain d p t c where l: "fst (DefaultCatalog srt X cs w) = [d, p, t, c]"
    "rbID d = ''RBK-DISK-001''" "rbName d = ''disk_cleanup_var_log''" "rbTargetResourceID d = ''/var/log''"
    "rbID p = ''RBK-PROC-001''" "rbName p = ''service_hang_recovery''" "rbTargetResourceID p = ''ai-gateway''"
    "rbID t = ''RBK-TLS-001''" "rbName t = ''tls_cert_rotation''" "rbTargetResourceID t = ''ai-security-guardrail-proxy''"
    "rbID c = ''RBK-CFG-001''" "rbName c = ''config_rollback''" "rbTargetResourceID c = ''ai-gateway''"
    by (rule default_list)
  have rb: "rb = d \<or> rb = p \<or> rb = t \<or> rb = c" using assms l(1) by simp
  then have "canonical_id (rbID rb) = rbID rb" "canonical_id (rbName rb) = rbID rb" "rbID rb \<noteq> ''''"
    by (elim disjE; simp add: l canonical_own)+
  moreover have "canonical_id ident \<noteq> rbName rb"
    using canonical_range [of ident] rb by (elim disjE) (auto simp: l)
  ultimately show ?thesis by (auto simp: answers_def)
qed

text \<open>
  The production catalogue resolves every identifier exactly. Whatever the order of the map, an
  identifier or alias the code lists is resolved to the runbook with its canonical identifier, one of
  the four the catalogue was built from, and anything else is refused with the catalogue's sentinel.
\<close>

theorem default_catalog_resolves:
  assumes "permutes ord" "NewDefaultCatalog srt X cs w = (c, w')"
  shows "(case Get ord c ident of
       Inr rb \<Rightarrow> rb \<in> set (fst (DefaultCatalog srt X cs w)) \<and> rbID rb = canonical_id ident
     | Inl e \<Rightarrow> canonical_id ident = '''' \<and> errors_Is e ErrCatalogNotFound)"
proof -
  note es = default_entries [OF assms(2)]
  have mem: "snd ` set (catRunbooks c) = set (fst (DefaultCatalog srt X cs w))" unfolding es(2) by force
  show ?thesis
  proof (cases "Get ord c ident")
    case (Inl e)
    then have "\<forall>rb \<in> set (fst (DefaultCatalog srt X cs w)). canonical_id ident \<noteq> rbID rb"
      using cat.get_complete [OF assms(1) Inl] default_answers [of _ srt X cs w ident] mem by blast
    moreover have "errors_Is e ErrCatalogNotFound" using Inl by (auto simp: Get_resolve errors_Is_def split: option.splits)
    ultimately show ?thesis using Inl by (auto simp: DefaultCatalog_def split_beta default_fields canonical_id_def split: if_splits)
  next
    case (Inr rb)
    then show ?thesis using cat.get_sound [OF assms(1) Inr es(3)] default_answers [of rb srt X cs w ident] mem by simp
  qed
qed

theorem default_catalog_resolves_witness:
  "\<exists>rb. Get rev (fst (NewDefaultCatalog (sort_key arModTime) demo_x509 \<lparr>cellInode = ''i'', cellPID = ''p'', cellTLS = ''t'', cellSHA = ''s''\<rparr> quiet_world))
      ''disk_log_drain'' = Inr rb \<and> rbID rb = ''RBK-DISK-001''"
proof -
  let ?cs = "\<lparr>cellInode = ''i'', cellPID = ''p'', cellTLS = ''t'', cellSHA = ''s''\<rparr>"
  obtain c w' where n: "NewDefaultCatalog (sort_key arModTime) demo_x509 ?cs quiet_world = (c, w')" by (metis prod.exhaust)
  have "permutes rev" "canonical_id ''disk_log_drain'' = ''RBK-DISK-001''" by (simp_all add: permutes_def canonical_id_def)
  then show ?thesis using default_catalog_resolves [OF _ n, of rev "''disk_log_drain''"] n by (cases "Get rev c ''disk_log_drain''") auto
qed

theorem engine_catalog_agree_witness:
  "\<exists>e'. register_all [demo_runbook] (demo_engine\<lparr>engRunbooks := []\<rparr>) = (None, e')
     \<and> (GetRunbook rev e' ''restart'' = Inr demo_runbook \<longleftrightarrow> Get rev (snd (Register (Some demo_runbook) NewCatalog)) ''restart'' = Inr demo_runbook)"
proof -
  obtain e' where r: "register_all [demo_runbook] (demo_engine\<lparr>engRunbooks := []\<rparr>) = (None, e')"
    using register_all_ok [of "[demo_runbook]"] by (auto simp: demo_runbook_def)
  show ?thesis using engine_catalog_agree [OF r, of NewCatalog rev "''restart''" demo_runbook] r by (simp add: NewCatalog_def)
qed

text \<open>
  Which runbook an alert without a label selects, when the engine holds the production
  catalogue. The log directory and the proxy select one runbook each, but the service hang recovery
  and the configuration rollback are both registered for the gateway: an alert on it selects one or
  the other depending on the order in which Go ranges over the map. No other resource selects any.
\<close>

theorem gateway_match_ambiguous:
  assumes "register_all (fst (DefaultCatalog srt X cs w)) e = (None, e')" "engRunbooks e = []" "alert_label a ''runbook_id'' = ''''"
  shows "{rbID rb | ord rb. permutes ord \<and> match_runbook ord e' a = Some rb}
    = (if alResourceID a = ''/var/log'' then {''RBK-DISK-001''}
       else if alResourceID a = ''ai-gateway'' then {''RBK-PROC-001'', ''RBK-CFG-001''}
       else if alResourceID a = ''ai-security-guardrail-proxy'' then {''RBK-TLS-001''}
       else {})"
proof -
  obtain d p t c where l: "fst (DefaultCatalog srt X cs w) = [d, p, t, c]"
    "rbID d = ''RBK-DISK-001''" "rbName d = ''disk_cleanup_var_log''" "rbTargetResourceID d = ''/var/log''"
    "rbID p = ''RBK-PROC-001''" "rbName p = ''service_hang_recovery''" "rbTargetResourceID p = ''ai-gateway''"
    "rbID t = ''RBK-TLS-001''" "rbName t = ''tls_cert_rotation''" "rbTargetResourceID t = ''ai-security-guardrail-proxy''"
    "rbID c = ''RBK-CFG-001''" "rbName c = ''config_rollback''" "rbTargetResourceID c = ''ai-gateway''"
    by (rule default_list)
  have es: "map snd (engRunbooks e') = [d, p, t, c]"
    using register_all_entries [OF assms(1), of NewCatalog] assms(2) l by (simp add: NewCatalog_def Register_def)
  have m: "match_runbook ord e' a = List.find (\<lambda>rb. rbTargetResourceID rb = alResourceID a) (ord [d, p, t, c])" for ord
    by (simp add: match_runbook_def assms(3) es)
  have sel: "permutes ord \<Longrightarrow> match_runbook ord e' a = Some rb \<Longrightarrow> rb \<in> {d, p, t, c} \<and> rbTargetResourceID rb = alResourceID a" for ord rb
    using find_run(1) [of ord _ "[d, p, t, c]" rb] unfolding m by fastforce
  let ?S = "{rbID rb | ord rb. permutes ord \<and> match_runbook ord e' a = Some rb}"
  have perm: "permutes (\<lambda>xs. xs)" "permutes rev" by (simp_all add: permutes_def)
  have ge: "match_runbook (\<lambda>xs. xs) e' a = Some rb \<or> match_runbook rev e' a = Some rb \<Longrightarrow> rbID rb \<in> ?S" for rb using perm by blast
  consider (disk) "alResourceID a = ''/var/log''" | (gateway) "alResourceID a = ''ai-gateway''"
    | (proxy) "alResourceID a = ''ai-security-guardrail-proxy''"
    | (other) "alResourceID a \<notin> {''/var/log'', ''ai-gateway'', ''ai-security-guardrail-proxy''}" by blast
  then show ?thesis
  proof cases
    case disk
    have "?S \<subseteq> {rbID d}" using l(4,7,10,13) disk by (auto dest!: sel)
    moreover have "rbID d \<in> ?S" by (rule ge) (simp add: m disk l)
    ultimately show ?thesis using disk l(2) by auto
  next
    case gateway
    have "?S \<subseteq> {rbID p, rbID c}" using l(4,7,10,13) gateway by (auto dest!: sel)
    moreover have "rbID p \<in> ?S" by (rule ge) (simp add: m gateway l)
    moreover have "rbID c \<in> ?S" by (rule ge) (simp add: m gateway l)
    ultimately show ?thesis using gateway l(5,11) by auto
  next
    case proxy
    have "?S \<subseteq> {rbID t}" using l(4,7,10,13) proxy by (auto dest!: sel)
    moreover have "rbID t \<in> ?S" by (rule ge) (simp add: m proxy l)
    ultimately show ?thesis using proxy l(8) by auto
  next
    case other
    then show ?thesis using l(4,7,10,13) by (auto dest!: sel)
  qed
qed

theorem gateway_match_ambiguous_witness:
  "\<exists>e' ord rb. register_all (fst (DefaultCatalog (sort_key arModTime) demo_x509 \<lparr>cellInode = ''i'', cellPID = ''p'', cellTLS = ''t'', cellSHA = ''s''\<rparr> quiet_world))
       (demo_engine\<lparr>engRunbooks := []\<rparr>) = (None, e')
     \<and> permutes ord \<and> match_runbook ord e' (demo_alert\<lparr>alResourceID := ''ai-gateway''\<rparr>) = Some rb \<and> rbID rb = ''RBK-CFG-001''"
proof -
  let ?rbs = "fst (DefaultCatalog (sort_key arModTime) demo_x509 \<lparr>cellInode = ''i'', cellPID = ''p'', cellTLS = ''t'', cellSHA = ''s''\<rparr> quiet_world)"
  let ?a = "demo_alert\<lparr>alResourceID := ''ai-gateway''\<rparr>"
  have "\<forall>rb \<in> set ?rbs. rbID rb \<noteq> ''''" by (simp add: DefaultCatalog_def split_beta default_fields)
  then obtain e' where r: "register_all ?rbs (demo_engine\<lparr>engRunbooks := []\<rparr>) = (None, e')" using register_all_ok by blast
  have "''RBK-CFG-001'' \<in> {rbID rb | ord rb. permutes ord \<and> match_runbook ord e' ?a = Some rb}"
    by (subst gateway_match_ambiguous [OF r]) (simp_all add: demo_alert_def alert_label_def)
  then show ?thesis using r by auto
qed

end
