(* ===== verification/Ai_Proposer.thy ===== *)
theory Ai_Proposer
  imports Runbook_Catalog
begin

text \<open>
  \<open>internal/ai/proposer.go\<close>: the advisory client that asks a language model for a runbook. The
  inference service is a parameter; everything from the bytes of its response to the validated
  proposal is modelled.
\<close>

section \<open>The catalogue identifiers and the prompt\<close>

definition RunbookDiskCleanup :: string where "RunbookDiskCleanup = ''RBK-DISK-001''"
definition RunbookProcessHang :: string where "RunbookProcessHang = ''RBK-PROC-001''"
definition RunbookTLSRotation :: string where "RunbookTLSRotation = ''RBK-TLS-001''"
definition RunbookConfigRollback :: string where "RunbookConfigRollback = ''RBK-CFG-001''"

fun join_lines :: "string list \<Rightarrow> string" where
  "join_lines [] = ''''"
| "join_lines [l] = l"
| "join_lines (l # ls) = l @ newline # join_lines ls"

definition DefaultSystemPrompt :: string where
  "DefaultSystemPrompt = join_lines
     [''You are an expert SRE Incident Triage Agent for an Autonomous Remediation Engine.'',
      ''Your job is to analyze unstructured system incident logs, metrics, alerts, and stack traces, diagnose the root cause, and select the exact matching deterministic runbook from the authorized runbook catalog.'',
      '''',
      ''AUTHORIZED RUNBOOK CATALOG:'',
      ''1. RBK-DISK-001 (disk_cleanup_var_log):'',
      ''   - Description: Safe log partition drain. Prunes rotated archive logs (*.gz, *.log.1) while preserving active log inodes and validating filesystem space.'',
      ''   - Use for: Disk capacity saturation, out of disk space errors, /var/log partition fullness (>85%), filesystem write failures due to ENOSPC.'',
      ''   - Target Resource: The affected directory path (e.g. '' @ [dquote] @ ''/var/log'' @ [dquote] @ '', '' @ [dquote] @ ''/var/log/ai-gateway'' @ [dquote] @ '', '' @ [dquote] @ ''/tmp'' @ [dquote] @ '').'',
      ''   - Severity: HIGH'',
      '''',
      ''2. RBK-PROC-001 (service_deadlock_restart):'',
      ''   - Description: Process hang / deadlock recovery via escalation ladder (SIGTERM -> graceful wait -> SIGKILL -> respawn -> socket binding & health assertion).'',
      ''   - Use for: Deadlocked thread pool, hung process, unresponsive health checks (/healthz timeout), process unresponsiveness, missing heartbeats.'',
      ''   - Target Resource: The affected service or process name (e.g. '' @ [dquote] @ ''ai-gateway'' @ [dquote] @ '').'',
      ''   - Severity: CRITICAL'',
      '''',
      ''3. RBK-TLS-001 (tls_cert_rotation):'',
      ''   - Description: Automated TLS certificate rotation and zero-downtime reload.'',
      ''   - Use for: Expired or expiring TLS/mTLS certificates (< 7 days), TLS handshake failures, certificate verification failures, invalid x509 certs.'',
      ''   - Target Resource: Service name or certificate path (e.g. '' @ [dquote] @ ''ai-gateway'' @ [dquote] @ '', '' @ [dquote] @ ''/etc/ssl/certs/ai-gateway.crt'' @ [dquote] @ '').'',
      ''   - Severity: HIGH'',
      '''',
      ''4. RBK-CFG-001 (config_rollback):'',
      ''   - Description: Rollback of invalid configuration to last known good (LKG) backup with schema validation.'',
      ''   - Use for: Crash loop after config change, invalid JSON/YAML configuration, parse errors, schema validation failures.'',
      ''   - Target Resource: Configuration file path (e.g. '' @ [dquote] @ ''/etc/ai-gateway/config.yaml'' @ [dquote] @ '').'',
      ''   - Severity: HIGH'',
      '''',
      ''RESPONSE INSTRUCTIONS:'',
      ''Analyze the provided incident log carefully. You MUST return ONLY a valid JSON object matching the following schema:'',
      ''{'',
      ''  '' @ [dquote] @ ''runbook_id'' @ [dquote] @ '': '' @ [dquote] @ ''RBK-DISK-001'' @ [dquote] @ '' | '' @ [dquote] @ ''RBK-PROC-001'' @ [dquote] @ '' | '' @ [dquote] @ ''RBK-TLS-001'' @ [dquote] @ '' | '' @ [dquote] @ ''RBK-CFG-001'' @ [dquote] @ '','',
      ''  '' @ [dquote] @ ''target_resource'' @ [dquote] @ '': '' @ [dquote] @ ''<affected resource path or service name>'' @ [dquote] @ '','',
      ''  '' @ [dquote] @ ''severity'' @ [dquote] @ '': '' @ [dquote] @ ''CRITICAL'' @ [dquote] @ '' | '' @ [dquote] @ ''HIGH'' @ [dquote] @ '' | '' @ [dquote] @ ''MEDIUM'' @ [dquote] @ '' | '' @ [dquote] @ ''LOW'' @ [dquote] @ '','',
      ''  '' @ [dquote] @ ''diagnosis'' @ [dquote] @ '': '' @ [dquote] @ ''<concise explanation of root cause and observed failure>'' @ [dquote],
      ''}'',
      ''Do not wrap your output in conversational text. Return the JSON object only.'']"

section \<open>Construction\<close>

text \<open>An HTTP client is known by its timeout.\<close>

record AiConfig =
  aiBaseURL :: string
  aiAPIKey :: string
  aiModel :: string
  aiTimeout :: duration
  aiHTTPClient :: "duration option"

record Proposal =
  prRunbookID :: string
  prTargetResource :: string
  prSeverity :: string
  prDiagnosis :: string
  prReasoningContent :: string

record Proposer =
  ppCfg :: AiConfig
  ppClient :: duration

definition NewProposer :: "AiConfig \<Rightarrow> goerror + Proposer" where
  "NewProposer cfg =
     (if TrimSpace (aiBaseURL cfg) = '''' then Inl (errorf ''ai proposer: BaseURL cannot be empty'')
      else if TrimSpace (aiAPIKey cfg) = '''' then Inl (errorf ''ai proposer: APIKey cannot be empty'')
      else
        (let cfg1 = (if TrimSpace (aiModel cfg) = '''' then cfg\<lparr>aiModel := ''nvidia/nemotron-3-ultra-550b-a55b''\<rparr> else cfg);
             client = (case aiHTTPClient cfg of Some c \<Rightarrow> c | None \<Rightarrow> if aiTimeout cfg \<le> 0 then 60 * Second else aiTimeout cfg) in
         Inr \<lparr>ppCfg = cfg1, ppClient = client\<rparr>))"

section \<open>Requests and responses\<close>

definition message_json :: "string \<Rightarrow> string \<Rightarrow> json" where
  "message_json role content = JObj [(''role'', JStr role), (''content'', JStr content)]"

definition request_json :: "string \<Rightarrow> string \<Rightarrow> json" where
  "request_json model incidentLog =
     JObj [(''model'', JStr model),
           (''messages'', JArr [message_json ''system'' DefaultSystemPrompt,
              message_json ''user'' (''Incident Log / Telemetry:'' @ [newline, newline] @ incidentLog)]),
           (''temperature'', JNum ''0.1''), (''max_tokens'', JNum ''1024'')]"

definition endpoint_of :: "string \<Rightarrow> string" where
  "endpoint_of base =
     (let e = rev (dropWhile (\<lambda>c. c = slash) (rev base)) in
      if has_suffix e ''/chat/completions'' then e else e @ ''/chat/completions'')"

record choice =
  chContent :: string
  chReasoning :: string

record completion =
  coChoices :: "choice list"
  coError :: "string option"

definition decode_int64 :: "string \<Rightarrow> json \<Rightarrow> goerror + int option" where
  "decode_int64 f v =
     (case v of
        JNull \<Rightarrow> Inr None
      | JNum l \<Rightarrow>
          (let n = (if has_prefix l ''-'' then - int_of_digits (tl l) else int_of_digits l) in
           if list_all is_digit (trim_prefix l ''-'') \<and> min_int64 \<le> n \<and> n \<le> max_int64 then Inr (Some n)
           else Inl (type_error (''number '' @ l) f ''int''))
      | _ \<Rightarrow> Inl (type_error (json_kind v) f ''int''))"

definition check_only :: "'r \<Rightarrow> goerror + 'a \<Rightarrow> goerror + 'r" where
  "check_only r d = map_sum id (\<lambda>_. r) d"

definition store_object :: "string \<Rightarrow> string \<Rightarrow> ('r \<Rightarrow> string \<times> json \<Rightarrow> goerror + 'r) \<Rightarrow> 'r \<Rightarrow> json \<Rightarrow> goerror + 'r" where
  "store_object f ty store r v =
     (case v of
        JNull \<Rightarrow> Inr r
      | JObj ms \<Rightarrow> store_members store r ms
      | _ \<Rightarrow> Inl (type_error (json_kind v) f ty))"

definition store_message_field :: "choice \<Rightarrow> string \<times> json \<Rightarrow> goerror + choice" where
  "store_message_field c kv =
     (let k = ascii_lower (fst kv); v = snd kv; f = ''choices.message.'' @ k in
      if k = ''role'' then check_only c (decode_string f v)
      else if k = ''content'' then set_opt chContent_update c (decode_string f v)
      else if k = ''reasoning_content'' then set_opt chReasoning_update c (decode_string f v)
      else Inr c)"

definition store_choice_field :: "choice \<Rightarrow> string \<times> json \<Rightarrow> goerror + choice" where
  "store_choice_field c kv =
     (let k = ascii_lower (fst kv); v = snd kv; f = ''choices.'' @ k in
      if k = ''index'' then check_only c (decode_int64 f v)
      else if k = ''message'' then store_object f ''struct'' store_message_field c v
      else if k = ''finish_reason'' then check_only c (decode_string f v)
      else Inr c)"

definition store_error_field :: "string \<Rightarrow> string \<times> json \<Rightarrow> goerror + string" where
  "store_error_field m kv =
     (let k = ascii_lower (fst kv); v = snd kv; f = ''error.'' @ k in
      if k = ''message'' then map_sum id (\<lambda>s. case s of None \<Rightarrow> m | Some x \<Rightarrow> x) (decode_string f v)
      else if k = ''type'' then check_only m (decode_string f v)
      else if k = ''code'' then (if floats_ok v then Inr m else Inl (type_error ''number'' f ''float64''))
      else Inr m)"

definition store_completion_field :: "completion \<Rightarrow> string \<times> json \<Rightarrow> goerror + completion" where
  "store_completion_field r kv =
     (let k = ascii_lower (fst kv); v = snd kv in
      if k = ''id'' then check_only r (decode_string ''id'' v)
      else if k = ''choices'' then
        (case v of
           JNull \<Rightarrow> Inr (r\<lparr>coChoices := []\<rparr>)
         | JArr xs \<Rightarrow>
             map_sum id (\<lambda>cs. r\<lparr>coChoices := cs\<rparr>)
               (decode_list (store_object ''choices'' ''struct'' store_choice_field \<lparr>chContent = '''', chReasoning = ''''\<rparr>) xs)
         | _ \<Rightarrow> Inl (type_error (json_kind v) ''choices'' ''[]struct''))
      else if k = ''error'' then
        (if v = JNull then Inr (r\<lparr>coError := None\<rparr>)
         else map_sum id (\<lambda>m. r\<lparr>coError := Some m\<rparr>)
           (store_object ''error'' ''struct'' store_error_field (case coError r of None \<Rightarrow> '''' | Some m \<Rightarrow> m) v))
      else Inr r)"

definition unmarshal_completion :: "bytes \<Rightarrow> goerror + completion" where
  "unmarshal_completion = unmarshal_struct ''ai.chatCompletionResponse'' store_completion_field \<lparr>coChoices = [], coError = None\<rparr>"

record intermediateProposal =
  ipRunbookID :: string
  ipRunbookIDAlt :: string
  ipTargetResource :: string
  ipTargetResourceAlt :: string
  ipSeverity :: string
  ipDiagnosis :: string
  ipReasoningContent :: string
  ipReasoningAlt :: string

definition zero_intermediate :: intermediateProposal where
  "zero_intermediate =
     \<lparr>ipRunbookID = '''', ipRunbookIDAlt = '''', ipTargetResource = '''', ipTargetResourceAlt = '''', ipSeverity = '''',
      ipDiagnosis = '''', ipReasoningContent = '''', ipReasoningAlt = ''''\<rparr>"

definition store_intermediate_field :: "intermediateProposal \<Rightarrow> string \<times> json \<Rightarrow> goerror + intermediateProposal" where
  "store_intermediate_field r kv =
     (let k = ascii_lower (fst kv); v = snd kv; f = ''intermediateProposal.'' @ k in
      if k = ''runbook_id'' then set_opt ipRunbookID_update r (decode_string f v)
      else if k = ''runbookid'' then set_opt ipRunbookIDAlt_update r (decode_string f v)
      else if k = ''target_resource'' then set_opt ipTargetResource_update r (decode_string f v)
      else if k = ''targetresource'' then set_opt ipTargetResourceAlt_update r (decode_string f v)
      else if k = ''severity'' then set_opt ipSeverity_update r (decode_string f v)
      else if k = ''diagnosis'' then set_opt ipDiagnosis_update r (decode_string f v)
      else if k = ''reasoning_content'' then set_opt ipReasoningContent_update r (decode_string f v)
      else if k = ''reasoning'' then set_opt ipReasoningAlt_update r (decode_string f v)
      else Inr r)"

definition unmarshal_intermediate :: "bytes \<Rightarrow> goerror + intermediateProposal" where
  "unmarshal_intermediate = unmarshal_struct ''ai.intermediateProposal'' store_intermediate_field zero_intermediate"

section \<open>Extracting the answer\<close>

definition extractThinkTags :: "string \<Rightarrow> string \<times> string" where
  "extractThinkTags content =
     (case (index_of content ''<think>'', index_of content ''</think>'') of
        (Some start, Some stop) \<Rightarrow>
          if stop > start
          then (TrimSpace (drop (start + 7) (take stop content)), TrimSpace (take start content @ drop (stop + 8) content))
          else ('''', content)
      | _ \<Rightarrow> ('''', content))"

definition json_Valid :: "string \<Rightarrow> bool" where
  "json_Valid s \<longleftrightarrow> json_parse s \<noteq> None"

definition valid_part :: "string \<Rightarrow> string option" where
  "valid_part s = (if json_Valid (TrimSpace s) then Some (TrimSpace s) else None)"

definition fence :: string where "fence = [CHR 0x60, CHR 0x60, CHR 0x60]"

text \<open>The text up to the closing fence, when it is JSON.\<close>

definition fenced :: "string \<Rightarrow> string option" where
  "fenced rest = (case index_of rest fence of None \<Rightarrow> None | Some i \<Rightarrow> valid_part (take i rest))"

definition json_fence :: "string \<Rightarrow> string option" where
  "json_fence s = (case index_of s (fence @ ''json'') of None \<Rightarrow> None | Some i \<Rightarrow> fenced (drop (i + 7) s))"

definition any_fence :: "string \<Rightarrow> string option" where
  "any_fence s =
     (case index_of s fence of
        None \<Rightarrow> None
      | Some i \<Rightarrow>
          (let rest = drop (i + 3) s in
           fenced (case index_of rest [newline] of None \<Rightarrow> rest | Some n \<Rightarrow> if n < 10 then drop (n + 1) rest else rest)))"

definition last_index :: "char \<Rightarrow> string \<Rightarrow> nat option" where
  "last_index c s = (case index_of (rev s) [c] of None \<Rightarrow> None | Some i \<Rightarrow> Some (length s - 1 - i))"

definition braces :: "string \<Rightarrow> string option" where
  "braces s =
     (case (index_of s ''{'', last_index CHR ''}'' s) of
        (Some a, Some b) \<Rightarrow> if b > a then valid_part (drop a (take (b + 1) s)) else None
      | _ \<Rightarrow> None)"

definition extractJSON :: "string \<Rightarrow> goerror + string" where
  "extractJSON content =
     (let trimmed = TrimSpace content in
      if trimmed = '''' then Inl (errorf ''response content is empty'')
      else case json_fence trimmed of
        Some c \<Rightarrow> Inr c
      | None \<Rightarrow>
          (case any_fence trimmed of
             Some c \<Rightarrow> Inr c
           | None \<Rightarrow>
               if has_prefix trimmed ''{'' \<and> has_suffix trimmed ''}'' \<and> json_Valid trimmed then Inr trimmed
               else case braces trimmed of
                 Some c \<Rightarrow> Inr c
               | None \<Rightarrow> Inl (errorf (''unable to extract valid JSON proposal from LLM output: '' @ fmt_q trimmed))))"

section \<open>Identifiers\<close>

text \<open>
  \<open>strings.ToUpper\<close> maps the ASCII letters of an ASCII string; on other strings it follows the
  Unicode tables, which are the parameter \<open>up\<close>.
\<close>

definition is_ascii :: "string \<Rightarrow> bool" where
  "is_ascii s \<longleftrightarrow> list_all (\<lambda>c. (of_char c :: int) < 128) s"

definition ascii_upper :: "string \<Rightarrow> string" where
  "ascii_upper = map (\<lambda>c. let n = of_char c :: int in if 97 \<le> n \<and> n \<le> 122 then char_of (n - 32) else c)"

definition ToUpper :: "(string \<Rightarrow> string) \<Rightarrow> string \<Rightarrow> string" where
  "ToUpper up s = (if is_ascii s then ascii_upper s else up s)"

definition runbook_of_upper :: "string \<Rightarrow> string" where
  "runbook_of_upper u =
     (if u \<in> {''RBK-DISK-001'', ''DISK_CLEANUP_VAR_LOG'', ''DISK_LOG_DRAIN''} then RunbookDiskCleanup
      else if u \<in> {''RBK-PROC-001'', ''SERVICE_DEADLOCK_RESTART'', ''SERVICE_HANG_RECOVERY''} then RunbookProcessHang
      else if u \<in> {''RBK-TLS-001'', ''TLS_CERT_RENEW_INTERNAL'', ''TLS_CERT_ROTATION'', ''TLS_CERT_RELOAD''} then RunbookTLSRotation
      else if u \<in> {''RBK-CFG-001'', ''CONFIG_ROLLBACK''} then RunbookConfigRollback
      else u)"

definition normalizeRunbookID :: "(string \<Rightarrow> string) \<Rightarrow> string \<Rightarrow> string" where
  "normalizeRunbookID up ident = runbook_of_upper (ToUpper up (TrimSpace ident))"

definition isValidRunbookID :: "string \<Rightarrow> bool" where
  "isValidRunbookID ident \<longleftrightarrow> ident \<in> {RunbookDiskCleanup, RunbookProcessHang, RunbookTLSRotation, RunbookConfigRollback}"

section \<open>The proposal\<close>

definition first_nonempty :: "string \<Rightarrow> string \<Rightarrow> string" where
  "first_nonempty a b = (if a = '''' then b else a)"

definition proposal_of :: "(string \<Rightarrow> string) \<Rightarrow> string \<Rightarrow> intermediateProposal \<Rightarrow> Proposal" where
  "proposal_of up reasoning i =
     (let reasoning1 =
            (if reasoning \<noteq> '''' then reasoning
             else if ipReasoningContent i \<noteq> '''' then TrimSpace (ipReasoningContent i)
             else if ipReasoningAlt i \<noteq> '''' then TrimSpace (ipReasoningAlt i)
             else reasoning) in
      \<lparr>prRunbookID = normalizeRunbookID up (first_nonempty (ipRunbookID i) (ipRunbookIDAlt i)),
       prTargetResource = TrimSpace (first_nonempty (ipTargetResource i) (ipTargetResourceAlt i)),
       prSeverity = first_nonempty (TrimSpace (ToUpper up (ipSeverity i))) ''HIGH'',
       prDiagnosis = TrimSpace (ipDiagnosis i), prReasoningContent = TrimSpace reasoning1\<rparr>)"

definition check_proposal :: "Proposal \<Rightarrow> goerror + Proposal" where
  "check_proposal p =
     (if prRunbookID p = '''' then Inl (errorf ''ai proposer: proposal missing runbook_id'')
      else if prTargetResource p = '''' then Inl (errorf ''ai proposer: proposal missing target_resource'')
      else if \<not> isValidRunbookID (prRunbookID p)
      then Inl (errorf (''ai proposer: unrecognized or unauthorized runbook '' @ fmt_q (prRunbookID p) @ '' proposed by model''))
      else Inr p)"

definition read_choice :: "(string \<Rightarrow> string) \<Rightarrow> choice \<Rightarrow> goerror + Proposal" where
  "read_choice up c =
     (let (think, cleaned) = extractThinkTags (chContent c);
          reasoning = (if think \<noteq> '''' \<and> chReasoning c = '''' then think else chReasoning c);
          rawContent = (if think \<noteq> '''' then cleaned else chContent c) in
      case extractJSON rawContent of
        Inl e \<Rightarrow> Inl (wrapf ''ai proposer: '' e '''')
      | Inr jsonStr \<Rightarrow>
          (case unmarshal_intermediate jsonStr of
             Inl e \<Rightarrow> Inl (wrapf ''ai proposer: failed to unmarshal proposal schema: '' e ('' (payload: '' @ jsonStr @ '')''))
           | Inr i \<Rightarrow> check_proposal (proposal_of up reasoning i)))"

definition read_completion :: "(string \<Rightarrow> string) \<Rightarrow> bytes \<Rightarrow> goerror + Proposal" where
  "read_completion up respBytes =
     (case unmarshal_completion respBytes of
        Inl e \<Rightarrow> Inl (wrapf ''ai proposer: failed to unmarshal completion response: '' e ('' (raw: '' @ respBytes @ '')''))
      | Inr r \<Rightarrow>
          (case coError r of
             Some m \<Rightarrow> if m \<noteq> '''' then Inl (errorf (''ai proposer: inference API error: '' @ m))
                       else (case coChoices r of
                               [] \<Rightarrow> Inl (errorf ''ai proposer: no completion choices returned by model'')
                             | c # _ \<Rightarrow> read_choice up c)
           | None \<Rightarrow>
               (case coChoices r of
                  [] \<Rightarrow> Inl (errorf ''ai proposer: no completion choices returned by model'')
                | c # _ \<Rightarrow> read_choice up c)))"

text \<open>
  The inference service: whether a request for an endpoint can be built, and what the client answers
  to the body sent there with the key, a status and the body of the response or the error of reading
  it.
\<close>

record inference =
  ifRequest :: "string \<Rightarrow> goerror option"
  ifDo :: "duration \<Rightarrow> string \<Rightarrow> string \<Rightarrow> bytes \<Rightarrow> goerror + int \<times> (goerror + bytes)"

definition Proposer_ProposeRemediation :: "inference \<Rightarrow> (string \<Rightarrow> string) \<Rightarrow> Proposer \<Rightarrow> string \<Rightarrow> goerror + Proposal" where
  "Proposer_ProposeRemediation svc up p incidentLog =
     (if TrimSpace incidentLog = '''' then Inl (errorf ''ai proposer: incidentLog cannot be empty'')
      else
        (let endpoint = endpoint_of (aiBaseURL (ppCfg p)); body = json_print (request_json (aiModel (ppCfg p)) incidentLog) in
         case ifRequest svc endpoint of
           Some e \<Rightarrow> Inl (wrapf ''ai proposer: failed to create http request: '' e '''')
         | None \<Rightarrow>
             (case ifDo svc (ppClient p) endpoint (''Bearer '' @ aiAPIKey (ppCfg p)) body of
                Inl e \<Rightarrow> Inl (wrapf ''ai proposer: http request failed: '' e '''')
              | Inr (status, Inl e) \<Rightarrow> Inl (wrapf ''ai proposer: failed to read response body: '' e '''')
              | Inr (status, Inr respBytes) \<Rightarrow>
                  if status < 200 \<or> status \<ge> 300
                  then Inl (errorf (''ai proposer: inference endpoint returned HTTP '' @ itoa status @ '': '' @ respBytes))
                  else read_completion up respBytes)))"

definition ProposeRemediation :: "inference \<Rightarrow> (string \<Rightarrow> string) \<Rightarrow> AiConfig \<Rightarrow> string \<Rightarrow> goerror + Proposal" where
  "ProposeRemediation svc up cfg incidentLog =
     (case NewProposer cfg of Inl e \<Rightarrow> Inl e | Inr p \<Rightarrow> Proposer_ProposeRemediation svc up p incidentLog)"

section \<open>What a model can propose\<close>

lemma check_proposal_sound: "check_proposal p = Inr q \<Longrightarrow> q = p \<and> isValidRunbookID (prRunbookID p) \<and> prTargetResource p \<noteq> ''''"
  by (auto simp: check_proposal_def split: if_splits)

lemma proposal_severity: "prSeverity (proposal_of up reasoning i) \<noteq> ''''"
  by (simp add: proposal_of_def first_nonempty_def Let_def)

lemma read_choice_sound:
  "read_choice up c = Inr p \<Longrightarrow> isValidRunbookID (prRunbookID p) \<and> prTargetResource p \<noteq> '''' \<and> prSeverity p \<noteq> ''''"
  by (auto simp: read_choice_def Let_def proposal_severity dest!: check_proposal_sound split: prod.splits sum.splits)

lemma read_completion_sound:
  "read_completion up bs = Inr p \<Longrightarrow> isValidRunbookID (prRunbookID p) \<and> prTargetResource p \<noteq> '''' \<and> prSeverity p \<noteq> ''''"
  using read_choice_sound by (auto simp: read_completion_def split: sum.splits option.splits list.splits if_splits)

text \<open>
  A language model cannot propose anything outside the catalogue. Whatever the inference service
  answers, a proposal that is returned names one of the four runbooks of the production catalogue by
  its canonical identifier, and has a target resource and a severity.
\<close>

theorem proposal_authorized:
  "case ProposeRemediation svc up cfg incidentLog of
     Inl _ \<Rightarrow> True
   | Inr p \<Rightarrow> prRunbookID p \<in> {IDDiskCleanupVarLog, IDServiceHangRecovery, IDTLSCertRotation, IDConfigRollback}
       \<and> canonical_id (prRunbookID p) = prRunbookID p \<and> prTargetResource p \<noteq> '''' \<and> prSeverity p \<noteq> ''''"
proof (cases "ProposeRemediation svc up cfg incidentLog")
  case (Inr p)
  then have "isValidRunbookID (prRunbookID p) \<and> prTargetResource p \<noteq> '''' \<and> prSeverity p \<noteq> ''''"
    using read_completion_sound
    by (auto simp: ProposeRemediation_def Proposer_ProposeRemediation_def Let_def split: sum.splits if_splits option.splits prod.splits)
  then show ?thesis
    using Inr canonical_own
    by (auto simp: isValidRunbookID_def RunbookDiskCleanup_def RunbookProcessHang_def RunbookTLSRotation_def RunbookConfigRollback_def
        IDDiskCleanupVarLog_def IDServiceHangRecovery_def IDTLSCertRotation_def IDConfigRollback_def)
qed simp

section \<open>The same aliases as the catalogue\<close>

definition aliases :: "string list" where
  "aliases =
     [''disk_cleanup_var_log'', ''disk_log_drain'', ''RBK-DISK-001'', ''service_deadlock_restart'', ''service_hang_recovery'',
      ''RBK-PROC-001'', ''tls_cert_renew_internal'', ''tls_cert_rotation'', ''tls_cert_reload'', ''RBK-TLS-001'',
      ''config_rollback'', ''RBK-CFG-001'']"

lemma alias_mem: "canonical_id i \<noteq> '''' \<Longrightarrow> i \<in> set aliases"
  by (rule ccontr) (simp add: canonical_id_def aliases_def)

lemma alias_upper:
  "map ascii_upper aliases =
     [''DISK_CLEANUP_VAR_LOG'', ''DISK_LOG_DRAIN'', ''RBK-DISK-001'', ''SERVICE_DEADLOCK_RESTART'', ''SERVICE_HANG_RECOVERY'',
      ''RBK-PROC-001'', ''TLS_CERT_RENEW_INTERNAL'', ''TLS_CERT_ROTATION'', ''TLS_CERT_RELOAD'', ''RBK-TLS-001'',
      ''CONFIG_ROLLBACK'', ''RBK-CFG-001'']"
  by code_simp

lemma alias_runbooks: "map (\<lambda>i. runbook_of_upper (ascii_upper i)) aliases = map canonical_id aliases"
  unfolding comp_def [symmetric] map_map [symmetric] alias_upper
  by (simp add: aliases_def runbook_of_upper_def canonical_id_def RunbookDiskCleanup_def RunbookProcessHang_def
      RunbookTLSRotation_def RunbookConfigRollback_def)

lemma alias_forms: "i \<in> set aliases \<Longrightarrow> i \<noteq> [] \<and> solid (hd i) \<and> solid (last i) \<and> is_ascii i"
  by (auto simp: aliases_def solid_def is_ascii_def)

text \<open>
  The proposer reads identifiers as the catalogue does. Every identifier and alias that the
  catalogue resolves is normalised to the identifier of the runbook it resolves to.
\<close>

theorem normalize_agrees_with_catalog:
  assumes "canonical_id i \<noteq> ''''"
  shows "normalizeRunbookID up i = canonical_id i"
  using alias_mem [OF assms] alias_forms [of i] TrimSpace_solid [of i] alias_runbooks
  by (simp add: normalizeRunbookID_def ToUpper_def)

theorem normalize_agrees_with_catalog_witness:
  "canonical_id ''disk_log_drain'' \<noteq> '''' \<and> normalizeRunbookID (\<lambda>s. s) ''disk_log_drain'' = ''RBK-DISK-001''"
  using normalize_agrees_with_catalog [of "''disk_log_drain''" "\<lambda>s. s"] by (simp add: canonical_id_def)

section \<open>The extracted JSON\<close>

lemma part_trans: "\<exists>a b. s = a @ t @ b \<Longrightarrow> \<exists>a b. t = a @ u @ b \<Longrightarrow> \<exists>a b. s = a @ u @ b"
  by (metis append.assoc)

lemma part_take: "\<exists>a b. s = a @ take n s @ b" and part_drop: "\<exists>a b. s = a @ drop n s @ b"
  by (metis append_Nil append_take_drop_id, metis append_Nil2 append_take_drop_id)

lemma valid_part_sound: "valid_part s = Some c \<Longrightarrow> json_Valid c \<and> (\<exists>a b. s = a @ c @ b)"
  using TrimSpace_part by (auto simp: valid_part_def split: if_splits)

lemma fenced_sound: "fenced s = Some c \<Longrightarrow> json_Valid c \<and> (\<exists>a b. s = a @ c @ b)"
  using valid_part_sound part_trans [OF part_take] by (auto simp: fenced_def split: option.splits) blast

text \<open>
  The answer is taken from the text. What is extracted from the output of a model is well-formed
  JSON and a contiguous part of that output; nothing is made up or repaired.
\<close>

theorem extractJSON_sound:
  "case extractJSON content of Inl _ \<Rightarrow> True | Inr s \<Rightarrow> json_parse s \<noteq> None \<and> (\<exists>a b. content = a @ s @ b)"
proof (cases "extractJSON content")
  case (Inr s)
  let ?t = "TrimSpace content"
  have f: "json_fence ?t = Some c \<Longrightarrow> json_Valid c \<and> (\<exists>a b. ?t = a @ c @ b)" for c
    using fenced_sound part_trans [OF part_drop] by (auto simp: json_fence_def split: option.splits) blast
  have d: "any_fence ?t = Some c \<Longrightarrow> json_Valid c \<and> (\<exists>a b. ?t = a @ c @ b)" for c
    using fenced_sound part_trans [OF part_drop] part_trans [OF part_drop, OF part_trans [OF part_drop]]
    by (auto simp: any_fence_def Let_def split: option.splits if_splits) blast+
  have b: "braces ?t = Some c \<Longrightarrow> json_Valid c \<and> (\<exists>a b. ?t = a @ c @ b)" for c
    using valid_part_sound part_trans [OF part_take, OF part_trans [OF part_drop]]
    by (auto simp: braces_def split: option.splits if_splits) blast
  have "json_Valid s \<and> (\<exists>a b. ?t = a @ s @ b)"
    using Inr f d b by (auto simp: extractJSON_def Let_def split: if_splits option.splits) (metis append_Nil append_Nil2)
  then show ?thesis using part_trans [OF TrimSpace_part] Inr by (auto simp: json_Valid_def) 
qed simp

end
