(* ===== verification/Process_Env.thy ===== *)
theory Process_Env
  imports Runbook_Catalog Ai_Proposer
begin

text \<open>
  What both programs share: the environment a process finds, and opening the engine with its four
  files and the production catalogue in it.
\<close>

section \<open>The world of a process\<close>

text \<open>
  What a process gets from outside: environment variables, the outcome of opening the ledger, the
  damping files, the orders of map iteration, the oracles of the catalogue, standard input
  (\<^term>\<open>None\<close> for a terminal) and the inference service.
\<close>

record env =
  enGetenv :: "string \<Rightarrow> string"
  enOpenIo :: open_io
  enDamping :: "string \<Rightarrow> state_doc option"
  enReadable :: "string \<Rightarrow> bool"
  enOrder :: order
  enKeys :: "(string \<rightharpoonup> ResourceState) \<Rightarrow> string list"
  enSorter :: sorter
  enX509 :: x509
  enCells :: cells
  enStdin :: "(goerror + bytes) option"
  enService :: inference
  enUpper :: "string \<Rightarrow> string"

definition file_content :: "world \<Rightarrow> string \<Rightarrow> bytes" where
  "file_content w p = (case lookup_file w p of Some (FileNode bs) \<Rightarrow> bs | _ \<Rightarrow> '''')"

definition new_engine :: "env \<Rightarrow> EngineConfig \<Rightarrow> world \<Rightarrow> (goerror + Engine) \<times> world" where
  "new_engine E cfg w =
     NewEngine (enOpenIo E) (file_content w (cfgAuditLogPath cfg)) (enDamping E (cfgDampingStatePath cfg))
       (enReadable E (cfgDampingStatePath cfg)) cfg w"

definition default_catalog :: "env \<Rightarrow> world \<Rightarrow> Runbook list \<times> world" where
  "default_catalog E w = DefaultCatalog (enSorter E) (enX509 E) (enCells E) w"


text \<open>A process without network access, with one execution in its damping file.\<close>

definition demo_env :: env where
  "demo_env =
     \<lparr>enGetenv = (\<lambda>_. ''''), enOpenIo = OpenOk,
      enDamping = (\<lambda>_. Some (Doc [''api'' \<mapsto> \<lparr>rsResource = ''api'', rsExecutions = [0], rsTripped = False,
                                          rsQuarantineUntil = zero_time, rsTripReason = ''''\<rparr>])),
      enReadable = (\<lambda>_. True), enOrder = (\<lambda>xs. xs), enKeys = (\<lambda>_. [''api'']), enSorter = sort_key arModTime,
      enX509 = demo_x509, enCells = \<lparr>cellInode = ''i'', cellPID = ''p'', cellTLS = ''t'', cellSHA = ''s''\<rparr>,
      enStdin = None, enService = \<lparr>ifRequest = (\<lambda>_. None), ifDo = (\<lambda>_ _ _ _. Inl (errorf ''offline''))\<rparr>, enUpper = (\<lambda>s. s)\<rparr>"

end
