(* ===== verification/Go_Flags.thy ===== *)
theory Go_Flags
  imports Go_Strings Go_Os
begin

text \<open>
  The package \<open>flag\<close> as the two programs use it: a flag set of string and boolean flags, parsed with
  \<open>ExitOnError\<close>, and its usage message. Arguments of the form \<open>--name=value\<close> set what they name.
\<close>

section \<open>Flags\<close>

text \<open>
  A flag of a flag set: its name, the text of its use, and its default. The value of a boolean flag
  is \<open>true\<close> or \<open>false\<close>.
\<close>

record gflag =
  fgName :: string
  fgUsage :: string
  fgDefault :: string
  fgBool :: bool

definition string_flag :: "string \<Rightarrow> string \<Rightarrow> string \<Rightarrow> gflag" where
  "string_flag name value usage = \<lparr>fgName = name, fgUsage = usage, fgDefault = value, fgBool = False\<rparr>"

definition bool_flag :: "string \<Rightarrow> string \<Rightarrow> gflag" where
  "bool_flag name usage = \<lparr>fgName = name, fgUsage = usage, fgDefault = ''false'', fgBool = True\<rparr>"

type_synonym flag_values = "(string \<times> string) list"

definition flag_defaults :: "gflag list \<Rightarrow> flag_values" where
  "flag_defaults fs = map (\<lambda>f. (fgName f, fgDefault f)) fs"

definition flag_value :: "flag_values \<Rightarrow> string \<Rightarrow> string" where
  "flag_value vs n = (case map_of vs n of Some v \<Rightarrow> v | None \<Rightarrow> '''')"

definition find_flag :: "gflag list \<Rightarrow> string \<Rightarrow> gflag option" where
  "find_flag fs n = List.find (\<lambda>f. fgName f = n) fs"

text \<open>\<open>strconv.ParseBool\<close>\<close>

definition ParseBool :: "string \<Rightarrow> bool option" where
  "ParseBool s =
     (if s \<in> {''1'', ''t'', ''T'', ''true'', ''TRUE'', ''True''} then Some True
      else if s \<in> {''0'', ''f'', ''F'', ''false'', ''FALSE'', ''False''} then Some False
      else None)"

definition fmt_bool :: "bool \<Rightarrow> string" where
  "fmt_bool b = (if b then ''true'' else ''false'')"

section \<open>Parsing\<close>

text \<open>
  What parsing ends with: the values, the help flag, or a failure with its message. Arguments after
  the flags are dropped, as the commands never read them.
\<close>

datatype flag_result = FlagsOk flag_values | FlagsHelp | FlagsFail string

text \<open>The name and the value after the first equals sign that is not the first character.\<close>

definition split_flag :: "string \<Rightarrow> string \<times> string option" where
  "split_flag s =
     (let rest = tl s; n = takeWhile (\<lambda>c. c \<noteq> CHR ''='') rest; r = dropWhile (\<lambda>c. c \<noteq> CHR ''='') rest in
      (hd s # n, if r = [] then None else Some (tl r)))"

fun parse_flags :: "gflag list \<Rightarrow> flag_values \<Rightarrow> string list \<Rightarrow> flag_result" where
  "parse_flags fs vs [] = FlagsOk vs"
| "parse_flags fs vs (s # args) =
     (if length s < 2 \<or> hd s \<noteq> CHR ''-'' then FlagsOk vs
      else if s = ''--'' then FlagsOk vs
      else
        (let name0 = (if s ! 1 = CHR ''-'' then drop 2 s else drop 1 s) in
         if name0 = [] \<or> hd name0 = CHR ''-'' \<or> hd name0 = CHR ''='' then FlagsFail (''bad flag syntax: '' @ s)
         else case split_flag name0 of (name, value) \<Rightarrow>
           (case find_flag fs name of
              None \<Rightarrow>
                if name = ''help'' \<or> name = ''h'' then FlagsHelp
                else FlagsFail (''flag provided but not defined: -'' @ name)
            | Some f \<Rightarrow>
                if fgBool f
                then (case value of
                        None \<Rightarrow> parse_flags fs (AList.update name ''true'' vs) args
                      | Some v \<Rightarrow>
                          (case ParseBool v of
                             Some b \<Rightarrow> parse_flags fs (AList.update name (fmt_bool b) vs) args
                           | None \<Rightarrow> FlagsFail (''invalid boolean value '' @ fmt_q v @ '' for -'' @ name @ '': parse error'')))
                else (case value of
                        Some v \<Rightarrow> parse_flags fs (AList.update name v vs) args
                      | None \<Rightarrow>
                          (case args of
                             [] \<Rightarrow> FlagsFail (''flag needs an argument: -'' @ name)
                           | v # rest \<Rightarrow> parse_flags fs (AList.update name v vs) rest)))))"

section \<open>The usage message\<close>

definition println :: "string \<Rightarrow> string" where
  "println s = s @ [newline]"

definition flag_usage :: "gflag \<Rightarrow> string" where
  "flag_usage f =
     ''  -'' @ fgName f @ (if fgBool f then '''' else '' string'') @ newline # ''    '' @ [char_of (9::nat)] @ fgUsage f
     @ (if fgDefault f = '''' \<or> fgBool f then '''' else '' (default '' @ fmt_q (fgDefault f) @ '')'') @ [newline]"

definition flags_usage :: "string \<Rightarrow> gflag list \<Rightarrow> string" where
  "flags_usage name fs = println (''Usage of '' @ name @ '':'') @ concat (map flag_usage (sort_key fgName fs))"

section \<open>Parsing what was meant\<close>

text \<open>The arguments that set a list of flags, in the form \<open>--name=value\<close>.\<close>

definition flag_arg :: "string \<times> string \<Rightarrow> string" where
  "flag_arg kv = ''--'' @ fst kv @ ''='' @ snd kv"

definition flag_name_ok :: "string \<Rightarrow> bool" where
  "flag_name_ok n \<longleftrightarrow> n \<noteq> [] \<and> hd n \<noteq> CHR ''-'' \<and> CHR ''='' \<notin> set n"

lemma split_flag_arg: "flag_name_ok n \<Longrightarrow> split_flag (n @ ''='' @ v) = (n, Some v)"
proof -
  assume ok: "flag_name_ok n"
  then obtain c cs where n: "n = c # cs" "CHR ''='' \<notin> set cs" by (cases n) (auto simp: flag_name_ok_def)
  have "takeWhile (\<lambda>c. c \<noteq> CHR ''='') (cs @ ''='' @ v) = cs" "dropWhile (\<lambda>c. c \<noteq> CHR ''='') (cs @ ''='' @ v) = ''='' @ v"
    using n(2) by (induction cs) auto
  then show ?thesis by (simp add: split_flag_def n(1) Let_def)
qed

lemma parse_flag_arg:
  assumes "find_flag fs n = Some f" "\<not> fgBool f" "flag_name_ok n"
  shows "parse_flags fs vs (flag_arg (n, v) # args) = parse_flags fs (AList.update n v vs) args"
proof -
  obtain c cs where n: "n = c # cs" "c \<noteq> CHR ''-''" "c \<noteq> CHR ''=''" using assms(3) by (cases n) (auto simp: flag_name_ok_def)
  show ?thesis using split_flag_arg [OF assms(3), of v] assms(1,2) n by (simp add: flag_arg_def)
qed

lemma parse_flag_args:
  assumes "\<forall>kv \<in> set kvs. flag_name_ok (fst kv) \<and> (\<exists>f. find_flag fs (fst kv) = Some f \<and> \<not> fgBool f)"
  shows "parse_flags fs vs (map flag_arg kvs) = FlagsOk (foldl (\<lambda>vs kv. AList.update (fst kv) (snd kv) vs) vs kvs)"
  using assms
proof (induction kvs arbitrary: vs)
  case (Cons kv kvs)
  then obtain f where "find_flag fs (fst kv) = Some f" "\<not> fgBool f" "flag_name_ok (fst kv)" by auto
  from parse_flag_arg [OF this, of vs "snd kv"] Cons show ?case by simp
qed simp

lemma string_flag_simps [simp]:
  "\<not> fgBool (string_flag n d u)" "fgName (string_flag n d u) = n" "fgDefault (string_flag n d u) = d"
  by (simp_all add: string_flag_def)

text \<open>One string flag, for a name that the set knows.\<close>

lemma parse_single_flag:
  assumes "find_flag fs n = Some (string_flag n d u)" "flag_name_ok n"
  shows "parse_flags fs (flag_defaults fs) [''--'' @ n @ ''='' @ v] = FlagsOk (AList.update n v (flag_defaults fs))"
  using parse_flag_arg [OF assms(1) string_flag_simps(1) assms(2), of "flag_defaults fs" v "[]"] by (simp add: flag_arg_def)

lemma flag_value_update: "flag_value (AList.update n v vs) m = (if m = n then v else flag_value vs m)"
  by (simp add: flag_value_def update_conv)

declare parse_flags.simps [simp del]

end
