(* ===== verification/Ingress_Metrics.thy ===== *)
theory Ingress_Metrics
  imports Engine Go_Strings
begin

text \<open>
  \<open>internal/ingress/metrics.go\<close>: the counters and duration histograms of the daemon and their
  rendering in the Prometheus text format. A Go map is an association list with distinct keys.
\<close>

section \<open>Histograms\<close>

text \<open>Seconds are exact rationals; counters are 64-bit words.\<close>

definition duration_Seconds :: "duration \<Rightarrow> rat" where
  "duration_Seconds d = of_int d / 1000000000"

definition defaultDurationBuckets :: "rat list" where
  "defaultDurationBuckets = [5 / 100, 1 / 10, 25 / 100, 5 / 10, 1, 25 / 10, 5, 10, 15, 30]"

record histogram =
  hiBuckets :: "rat list"
  hiCounts :: "64 word list"
  hiSum :: rat
  hiTotal :: "64 word"

definition newHistogram :: "rat list \<Rightarrow> histogram" where
  "newHistogram bs = \<lparr>hiBuckets = bs, hiCounts = replicate (length bs) 0, hiSum = 0, hiTotal = 0\<rparr>"

definition observe :: "rat \<Rightarrow> histogram \<Rightarrow> histogram" where
  "observe v h =
     h\<lparr>hiSum := hiSum h + v, hiTotal := hiTotal h + 1,
       hiCounts := map2 (\<lambda>b n. if v \<le> b then n + 1 else n) (hiBuckets h) (hiCounts h)\<rparr>"

section \<open>The registry\<close>

type_synonym counters = "(string \<times> 64 word) list"

record Metrics =
  mtStartTime :: time
  mtActionsTotal :: counters
  mtDurationHistograms :: "(string \<times> histogram) list"
  mtPrecheckFailuresTotal :: counters
  mtRollbacksTotal :: counters
  mtDampingTrippedTotal :: counters

definition NewMetrics :: "world \<Rightarrow> Metrics \<times> world" where
  "NewMetrics w =
     (let (now, w1) = time_Now w in
      (\<lparr>mtStartTime = now, mtActionsTotal = [], mtDurationHistograms = [], mtPrecheckFailuresTotal = [], mtRollbacksTotal = [],
        mtDampingTrippedTotal = []\<rparr>, w1))"

text \<open>\<open>m[key]++\<close> on a map of counters\<close>

definition count_of :: "counters \<Rightarrow> string \<Rightarrow> 64 word" where
  "count_of m k = (case map_of m k of None \<Rightarrow> 0 | Some n \<Rightarrow> n)"

definition bump :: "string \<Rightarrow> counters \<Rightarrow> counters" where
  "bump k m = AList.update k (count_of m k + 1) m"

definition nul :: char where "nul = char_of (0::nat)"

definition or_else :: "string \<Rightarrow> string \<Rightarrow> string" where
  "or_else s d = (if s = '''' then d else s)"

definition RecordAction :: "string \<Rightarrow> string \<Rightarrow> duration \<Rightarrow> Metrics \<Rightarrow> Metrics" where
  "RecordAction runbookID0 state0 duration m =
     (let runbookID = or_else runbookID0 ''unknown''; state = or_else state0 ''UNKNOWN'';
          h = (case map_of (mtDurationHistograms m) runbookID of None \<Rightarrow> newHistogram defaultDurationBuckets | Some h \<Rightarrow> h) in
      m\<lparr>mtActionsTotal := bump (runbookID @ nul # state) (mtActionsTotal m),
        mtDurationHistograms := AList.update runbookID (observe (duration_Seconds duration) h) (mtDurationHistograms m)\<rparr>)"

definition RecordPrecheckFailure :: "string \<Rightarrow> Metrics \<Rightarrow> Metrics" where
  "RecordPrecheckFailure resourceID m =
     m\<lparr>mtPrecheckFailuresTotal := bump (or_else resourceID ''unknown'') (mtPrecheckFailuresTotal m)\<rparr>"

definition RecordRollback :: "string \<Rightarrow> Metrics \<Rightarrow> Metrics" where
  "RecordRollback resourceID m = m\<lparr>mtRollbacksTotal := bump (or_else resourceID ''unknown'') (mtRollbacksTotal m)\<rparr>"

definition RecordDampingTripped :: "string \<Rightarrow> Metrics \<Rightarrow> Metrics" where
  "RecordDampingTripped resourceID m =
     m\<lparr>mtDampingTrippedTotal := bump (or_else resourceID ''unknown'') (mtDampingTrippedTotal m)\<rparr>"

definition RecordRemediationResult :: "RemediationResult option \<Rightarrow> Metrics \<Rightarrow> Metrics" where
  "RecordRemediationResult res m =
     (case res of
        None \<Rightarrow> m
      | Some r \<Rightarrow>
          (let m1 = RecordAction (rrRunbookID r) (state_string (rrFinalState r)) (rrDuration r) m;
               m2 = (if rrFinalState r = StatePrecheckFailed then RecordPrecheckFailure (rrResourceID r) m1 else m1);
               m3 = (if rrRolledBack r \<or> rrFinalState r = StateRolledBack \<or> rrFinalState r = StateRollingBack
                     then RecordRollback (rrResourceID r) m2 else m2) in
           if contains (rrError r) ''FLAP_DAMPING'' \<or> contains (rrError r) ''damping''
           then RecordDampingTripped (rrResourceID r) m3 else m3))"

section \<open>The exposition format\<close>

definition sortedKeys :: "(string \<times> 'v) list \<Rightarrow> string list" where
  "sortedKeys m = sort (map fst m)"

definition fmt_6f :: "rat \<Rightarrow> string" where
  "fmt_6f x =
     (let a = \<bar>x\<bar> * 1000000; n = \<lfloor>a\<rfloor>; d = a - of_int n;
          k = (if d > 1 / 2 \<or> d = 1 / 2 \<and> odd n then n + 1 else n)
      in (if x < 0 then ''-'' else '''') @ digits (k div 1000000) @ ''.'' @ pad_zero 6 (digits (k mod 1000000)))"

definition line :: "string \<Rightarrow> string" where
  "line s = s @ [newline]"

text \<open>The two comment lines of a metric.\<close>

definition preamble :: "string \<Rightarrow> string \<Rightarrow> string \<Rightarrow> string" where
  "preamble name help ty = line (''# HELP '' @ name @ '' '' @ help) @ line (''# TYPE '' @ name @ '' '' @ ty)"

definition action_line :: "Metrics \<Rightarrow> string \<Rightarrow> string" where
  "action_line m k =
     (let runbook = takeWhile (\<lambda>c. c \<noteq> nul) k; state = takeWhile (\<lambda>c. c \<noteq> nul) (tl (dropWhile (\<lambda>c. c \<noteq> nul) k)) in
      line (''remediation_actions_total{runbook='' @ fmt_q runbook @ '',state='' @ fmt_q state @ ''} ''
        @ itoa (uint (count_of (mtActionsTotal m) k))))"

definition histogram_lines :: "string \<Rightarrow> histogram \<Rightarrow> string" where
  "histogram_lines r h =
     concat (map2 (\<lambda>b n. line (''remediation_duration_seconds_bucket{runbook='' @ fmt_q r @ '',le='' @ [dquote] @ fmt_2f b @ [dquote] @ ''} ''
        @ itoa (uint n))) (hiBuckets h) (hiCounts h))
     @ line (''remediation_duration_seconds_bucket{runbook='' @ fmt_q r @ '',le='' @ [dquote] @ ''+Inf'' @ [dquote] @ ''} '' @ itoa (uint (hiTotal h)))
     @ line (''remediation_duration_seconds_sum{runbook='' @ fmt_q r @ ''} '' @ fmt_6f (hiSum h))
     @ line (''remediation_duration_seconds_count{runbook='' @ fmt_q r @ ''} '' @ itoa (uint (hiTotal h)))"

definition counter_lines :: "string \<Rightarrow> string \<Rightarrow> counters \<Rightarrow> string" where
  "counter_lines name help m =
     preamble name help ''counter''
     @ (if m = [] then line (name @ ''{resource='' @ fmt_q ''none'' @ ''} 0'')
        else concat (map (\<lambda>k. line (name @ ''{resource='' @ fmt_q k @ ''} '' @ itoa (uint (count_of m k)))) (sortedKeys m)))"

definition RenderPrometheus :: "Metrics \<Rightarrow> world \<Rightarrow> string \<times> world" where
  "RenderPrometheus m w =
     (let (now, w1) = time_Now w;
          actions =
            (if mtActionsTotal m = []
             then line (''remediation_actions_total{runbook='' @ fmt_q ''none'' @ '',state='' @ fmt_q ''NONE'' @ ''} 0'')
             else concat (map (action_line m) (sortedKeys (mtActionsTotal m))));
          durations =
            (if mtDurationHistograms m = []
             then line (''remediation_duration_seconds_bucket{runbook='' @ fmt_q ''none'' @ '',le='' @ fmt_q ''+Inf'' @ ''} 0'')
               @ line (''remediation_duration_seconds_sum{runbook='' @ fmt_q ''none'' @ ''} 0.000000'')
               @ line (''remediation_duration_seconds_count{runbook='' @ fmt_q ''none'' @ ''} 0'')
             else concat (map (\<lambda>r. histogram_lines r (the (map_of (mtDurationHistograms m) r))) (sortedKeys (mtDurationHistograms m)))) in
      (preamble ''remediation_actions_total'' ''Total number of remediation actions executed by runbook and state.'' ''counter''
       @ actions
       @ preamble ''remediation_duration_seconds'' ''Duration of remediation actions in seconds.'' ''histogram''
       @ durations
       @ counter_lines ''remediation_precheck_failures_total'' ''Total count of precheck invariant failures.'' (mtPrecheckFailuresTotal m)
       @ counter_lines ''remediation_rollbacks_total'' ''Total count of triggered rollback transactions.'' (mtRollbacksTotal m)
       @ counter_lines ''remediation_damping_tripped_total'' ''Total count of flap damping circuit breaker trips.'' (mtDampingTrippedTotal m)
       @ preamble ''remediation_daemon_uptime_seconds'' ''Uptime of the autonomous remediation daemon in seconds.'' ''gauge''
       @ line (''remediation_daemon_uptime_seconds '' @ fmt_2f (duration_Seconds (time_Sub now (mtStartTime m)))), w1))"

section \<open>Processing an alert\<close>

text \<open>
  The ingress paths work on the engine they feed, the metrics (absent when nil) and the operating system.
  \<open>ord\<close> is the order in which the engine ranges over its runbooks.
\<close>

record host =
  hoEngine :: Engine
  hoMetrics :: "Metrics option"
  hoWorld :: world

definition process :: "order \<Rightarrow> Alert \<Rightarrow> host \<Rightarrow> RemediationResult option \<times> host" where
  "process ord a h =
     (let ((res, _), e, w) = ProcessAlert ord (Some a) (hoEngine h) (hoWorld h) in
      (res, \<lparr>hoEngine = e, hoMetrics = map_option (RecordRemediationResult res) (hoMetrics h), hoWorld = w\<rparr>))"

section \<open>The registry counts what it was given\<close>

lemma count_of_bump: "count_of (bump k m) k' = count_of m k' + (if k = k' then 1 else 0)"
  by (simp add: count_of_def bump_def update_conv split: option.split)

definition action_key :: "RemediationResult \<Rightarrow> string" where
  "action_key r = or_else (rrRunbookID r) ''unknown'' @ nul # or_else (state_string (rrFinalState r)) ''UNKNOWN''"

definition counts_rollback :: "RemediationResult \<Rightarrow> bool" where
  "counts_rollback r \<longleftrightarrow> rrRolledBack r \<or> rrFinalState r \<in> {StateRolledBack, StateRollingBack}"

definition counts_damping :: "RemediationResult \<Rightarrow> bool" where
  "counts_damping r \<longleftrightarrow> contains (rrError r) ''FLAP_DAMPING'' \<or> contains (rrError r) ''damping''"

definition tally :: "('r \<Rightarrow> bool) \<Rightarrow> 'r list \<Rightarrow> 64 word" where
  "tally P rs = of_nat (length (filter P rs))"

lemma tally_simps [simp]: "tally P [] = 0" "tally P (rs @ [r]) = tally P rs + (if P r then 1 else 0)"
  by (simp_all add: tally_def)

definition histogram_of :: "rat list \<Rightarrow> histogram" where
  "histogram_of ds =
     \<lparr>hiBuckets = defaultDurationBuckets, hiCounts = map (\<lambda>b. tally (\<lambda>d. d \<le> b) ds) defaultDurationBuckets,
      hiSum = sum_list ds, hiTotal = of_nat (length ds)\<rparr>"

lemma histogram_of_new: "newHistogram defaultDurationBuckets = histogram_of []"
  by (simp add: newHistogram_def histogram_of_def map_replicate_const)

lemma map2_map_snd: "map2 f xs (map g xs) = map (\<lambda>x. f x (g x)) xs"
  by (induction xs) auto

lemma observe_histogram_of: "observe v (histogram_of ds) = histogram_of (ds @ [v])"
  by (simp add: observe_def histogram_of_def map2_map_snd)

lemma RecordRemediationResult_counts:
  fixes r :: RemediationResult and m :: Metrics
  defines "m' \<equiv> RecordRemediationResult (Some r) m"
  shows "count_of (mtActionsTotal m') k = count_of (mtActionsTotal m) k + (if action_key r = k then 1 else 0)"
    "count_of (mtPrecheckFailuresTotal m') k
       = count_of (mtPrecheckFailuresTotal m) k + (if rrFinalState r = StatePrecheckFailed \<and> or_else (rrResourceID r) ''unknown'' = k then 1 else 0)"
    "count_of (mtRollbacksTotal m') k
       = count_of (mtRollbacksTotal m) k + (if counts_rollback r \<and> or_else (rrResourceID r) ''unknown'' = k then 1 else 0)"
    "count_of (mtDampingTrippedTotal m') k
       = count_of (mtDampingTrippedTotal m) k + (if counts_damping r \<and> or_else (rrResourceID r) ''unknown'' = k then 1 else 0)"
    "map_of (mtDurationHistograms m') k
       = (if or_else (rrRunbookID r) ''unknown'' = k
          then Some (observe (duration_Seconds (rrDuration r))
            (case map_of (mtDurationHistograms m) k of None \<Rightarrow> newHistogram defaultDurationBuckets | Some h \<Rightarrow> h))
          else map_of (mtDurationHistograms m) k)"
  by (auto simp: m'_def RecordRemediationResult_def RecordAction_def RecordPrecheckFailure_def RecordRollback_def
      RecordDampingTripped_def Let_def count_of_bump action_key_def counts_rollback_def counts_damping_def update_conv)

lemma NewMetrics_counts:
  "count_of (mtActionsTotal (fst (NewMetrics w))) k = 0" "count_of (mtPrecheckFailuresTotal (fst (NewMetrics w))) k = 0"
  "count_of (mtRollbacksTotal (fst (NewMetrics w))) k = 0" "count_of (mtDampingTrippedTotal (fst (NewMetrics w))) k = 0"
  "map_of (mtDurationHistograms (fst (NewMetrics w))) k = None"
  by (simp_all add: NewMetrics_def count_of_def Let_def split_beta)

lemma recorded_histograms:
  "map_of (mtDurationHistograms (fold (\<lambda>r. RecordRemediationResult (Some r)) rs (fst (NewMetrics w)))) rb
   = (let ds = map (\<lambda>r. duration_Seconds (rrDuration r)) (filter (\<lambda>r. or_else (rrRunbookID r) ''unknown'' = rb) rs) in
      if ds = [] then None else Some (histogram_of ds))"
proof (induction rs rule: rev_induct)
  case Nil
  then show ?case by (simp add: NewMetrics_counts)
next
  case (snoc r rs)
  then show ?case
    by (auto simp: RecordRemediationResult_counts observe_histogram_of histogram_of_new Let_def)
qed


end
