(* ===== verification/Ingress_Http.thy ===== *)
theory Ingress_Http
  imports Ingress_Metrics
begin

text \<open>
  \<open>internal/ingress/http_server.go\<close>: the alert webhook with its HMAC check, and the health, status
  and metrics endpoints. Routing, timeouts and the goroutine of the listener belong to \<open>net/http\<close>.
\<close>

section \<open>Reading an alert\<close>

definition severity_of :: "string \<Rightarrow> Severity" where
  "severity_of s =
     (if s = ''INFO'' then SeverityInfo else if s = ''LOW'' then SeverityLow else if s = ''MEDIUM'' then SeverityMedium
      else if s = ''HIGH'' then SeverityHigh else if s = ''CRITICAL'' then SeverityCritical else SeverityOther s)"

definition zero_alert :: Alert where
  "zero_alert =
     \<lparr>alID = '''', alFingerprint = '''', alSource = '''', alResourceID = '''', alSeverity = SeverityOther '''', alLabels = None,
      alAnnotations = None, alReceivedAt = zero_time, alHMACSignature = '''', alRawPayload = ''''\<rparr>"

text \<open>Members are stored into the map that is there; a member that is \<open>null\<close> stores the empty string.\<close>

fun store_entries :: "string \<Rightarrow> (string \<times> string) list \<Rightarrow> (string \<times> json) list \<Rightarrow> goerror + (string \<times> string) list" where
  "store_entries f m [] = Inr m"
| "store_entries f m ((k, v) # kvs) =
     (case decode_string f v of
        Inl e \<Rightarrow> Inl e
      | Inr s \<Rightarrow> store_entries f (AList.update k (case s of None \<Rightarrow> '''' | Some x \<Rightarrow> x) m) kvs)"

definition store_map :: "string \<Rightarrow> (string \<times> string) list option \<Rightarrow> json \<Rightarrow> goerror + (string \<times> string) list option" where
  "store_map f m v =
     (case v of
        JNull \<Rightarrow> Inr None
      | JObj kvs \<Rightarrow> map_sum id Some (store_entries f (case m of None \<Rightarrow> [] | Some kvs' \<Rightarrow> kvs') kvs)
      | _ \<Rightarrow> Inl (type_error (json_kind v) f ''map[string]string''))"

definition store_alert_field :: "Alert \<Rightarrow> string \<times> json \<Rightarrow> goerror + Alert" where
  "store_alert_field a kv =
     (let k = ascii_lower (fst kv); v = snd kv; f = ''Alert.'' @ k in
      if k = ''id'' then set_opt alID_update a (decode_string f v)
      else if k = ''fingerprint'' then set_opt alFingerprint_update a (decode_string f v)
      else if k = ''source'' then set_opt alSource_update a (decode_string f v)
      else if k = ''resource_id'' then set_opt alResourceID_update a (decode_string f v)
      else if k = ''severity'' then set_opt alSeverity_update a (map_sum id (map_option severity_of) (decode_string f v))
      else if k = ''labels'' then map_sum id (\<lambda>m. a\<lparr>alLabels := m\<rparr>) (store_map f (alLabels a) v)
      else if k = ''annotations'' then map_sum id (\<lambda>m. a\<lparr>alAnnotations := m\<rparr>) (store_map f (alAnnotations a) v)
      else if k = ''received_at'' then set_opt alReceivedAt_update a (decode_time f v)
      else if k = ''hmac_signature'' then set_opt alHMACSignature_update a (decode_string f v)
      else if k = ''raw_payload'' then set_opt alRawPayload_update a (decode_string f v)
      else Inr a)"

definition unmarshal_alert :: "bytes \<Rightarrow> goerror + Alert" where
  "unmarshal_alert = unmarshal_struct ''model.Alert'' store_alert_field zero_alert"

section \<open>What is written is read back\<close>

definition sorted_map :: "(string \<times> string) list option \<Rightarrow> (string \<times> string) list option" where
  "sorted_map = map_option (sort_key fst)"

lemma store_entries_strings:
  "distinct (map fst kvs) \<Longrightarrow> fst ` set kvs \<inter> fst ` set m = {}
   \<Longrightarrow> store_entries f m (map (\<lambda>(k, v). (k, JStr v)) kvs) = Inr (m @ kvs)"
proof (induction kvs arbitrary: m)
  case (Cons kv kvs)
  obtain k v where kv: "kv = (k, v)" by force
  have k: "k \<notin> fst ` set m" using Cons.prems(2) kv by auto
  then have "AList.update k v m = m @ [(k, v)]" by (induction m) auto
  then show ?case using Cons kv k by auto
qed simp

lemma store_map_json:
  "(case m of None \<Rightarrow> True | Some kvs \<Rightarrow> distinct (map fst kvs)) \<Longrightarrow> store_map f None (map_json m) = Inr (sorted_map m)"
proof (cases m)
  case (Some kvs)
  moreover assume "case m of None \<Rightarrow> True | Some kvs \<Rightarrow> distinct (map fst kvs)"
  ultimately have "distinct (map fst (sort_key fst kvs))" by (simp add: distinct_map)
  then show ?thesis using store_entries_strings [of "sort_key fst kvs" "[]"] Some by (simp add: store_map_def map_json_def sorted_map_def)
qed (simp add: store_map_def map_json_def sorted_map_def)

lemma alert_json_wf: "json_wf (alert_json a)"
  by (auto simp: alert_json_def map_json_def omit_empty_def split: option.split)

lemma severity_roundtrip: "severity_of (severity_string s) = s \<longleftrightarrow> (\<forall>x. s = SeverityOther x \<longrightarrow> severity_of x = s)"
  by (cases s) (auto simp: severity_of_def)

lemma ascii_lower_alert_keys:
  "ascii_lower ''id'' = ''id''" "ascii_lower ''fingerprint'' = ''fingerprint''" "ascii_lower ''source'' = ''source''"
  "ascii_lower ''resource_id'' = ''resource_id''" "ascii_lower ''severity'' = ''severity''" "ascii_lower ''labels'' = ''labels''"
  "ascii_lower ''annotations'' = ''annotations''" "ascii_lower ''received_at'' = ''received_at''"
  "ascii_lower ''hmac_signature'' = ''hmac_signature''" "ascii_lower ''raw_payload'' = ''raw_payload''"
  by code_simp+

lemma store_alert_members:
  "store_alert_field a (''id'', JStr x) = Inr (a\<lparr>alID := x\<rparr>)"
  "store_alert_field a (''fingerprint'', JStr x) = Inr (a\<lparr>alFingerprint := x\<rparr>)"
  "store_alert_field a (''source'', JStr x) = Inr (a\<lparr>alSource := x\<rparr>)"
  "store_alert_field a (''resource_id'', JStr x) = Inr (a\<lparr>alResourceID := x\<rparr>)"
  "store_alert_field a (''severity'', JStr x) = Inr (a\<lparr>alSeverity := severity_of x\<rparr>)"
  "store_alert_field a (''labels'', v) = map_sum id (\<lambda>m. a\<lparr>alLabels := m\<rparr>) (store_map ''Alert.labels'' (alLabels a) v)"
  "store_alert_field a (''annotations'', v) = map_sum id (\<lambda>m. a\<lparr>alAnnotations := m\<rparr>) (store_map ''Alert.annotations'' (alAnnotations a) v)"
  "time_ok t \<Longrightarrow> store_alert_field a (''received_at'', JStr (fmt_RFC3339Nano t)) = Inr (a\<lparr>alReceivedAt := t\<rparr>)"
  "alHMACSignature a = '''' \<Longrightarrow> store_members store_alert_field a (omit_empty ''hmac_signature'' x) = Inr (a\<lparr>alHMACSignature := x\<rparr>)"
  "alRawPayload a = '''' \<Longrightarrow> store_members store_alert_field a (omit_empty ''raw_payload'' x) = Inr (a\<lparr>alRawPayload := x\<rparr>)"
  by (simp_all add: store_alert_field_def ascii_lower_alert_keys Let_def decode_time_ok omit_empty_def)



section \<open>HMAC\<close>

text \<open>\<open>hmac.New(sha256.New, key)\<close>, RFC 2104 with blocks of 64 bytes.\<close>

definition xor_byte :: "nat \<Rightarrow> char \<Rightarrow> char" where
  "xor_byte k c = char_of (Bit_Operations.xor k (of_char c))"

definition hmac_sha256 :: "bytes \<Rightarrow> bytes \<Rightarrow> bytes" where
  "hmac_sha256 key msg =
     (let k0 = (if length key > 64 then sha256 key else key); k = k0 @ replicate (64 - length k0) (char_of (0::nat)) in
      sha256 (map (xor_byte 92) k @ sha256 (map (xor_byte 54) k @ msg)))"

section \<open>Requests and responses\<close>

text \<open>
  A request with its method, its headers (empty when absent) and its body, or the error of reading
  it. The payload of a response is the value handed to the encoder.
\<close>

record request =
  rqMethod :: string
  rqHeader :: "string \<Rightarrow> string"
  rqBody :: "goerror + bytes"

datatype payload =
    PText string
  | PError string
  | PResult "RemediationResult option"
  | PUnhealthy string
  | PHealthy rat
  | PStatus rat "(string \<times> string \<times> string \<times> Severity) list" "string \<rightharpoonup> ResourceState" string

record response =
  rsStatus :: int
  rsContentType :: string
  rsPayload :: payload

definition json_response :: "int \<Rightarrow> payload \<Rightarrow> response" where
  "json_response status p = \<lparr>rsStatus = status, rsContentType = ''application/json'', rsPayload = p\<rparr>"

definition http_Error :: "string \<Rightarrow> int \<Rightarrow> response" where
  "http_Error msg status = \<lparr>rsStatus = status, rsContentType = ''text/plain; charset=utf-8'', rsPayload = PText (msg @ [newline])\<rparr>"

record HTTPServer =
  hsAddr :: string
  hsHMACSecret :: string
  hsListener :: "string option"
  hsServer :: bool
  hsStartTime :: time
  hsRunning :: bool

definition NewHTTPServer :: "string \<Rightarrow> string \<Rightarrow> world \<Rightarrow> HTTPServer \<times> world" where
  "NewHTTPServer addr secret w =
     (let (now, w1) = time_Now w in
      (\<lparr>hsAddr = addr, hsHMACSecret = secret, hsListener = None, hsServer = False, hsStartTime = now, hsRunning = False\<rparr>, w1))"

definition http_Addr :: "HTTPServer \<Rightarrow> string" where
  "http_Addr s = (case hsListener s of Some a \<Rightarrow> a | None \<Rightarrow> hsAddr s)"

text \<open>\<open>listen\<close> is the outcome of \<open>net.Listen\<close>: the bound address.\<close>

definition http_Start :: "goerror + string \<Rightarrow> HTTPServer \<Rightarrow> goerror option \<times> HTTPServer" where
  "http_Start listen s =
     (if hsRunning s then (Some (errorf ''http server is already running''), s)
      else case listen of
        Inl e \<Rightarrow> (Some (wrapf (''failed to listen on HTTP addr '' @ hsAddr s @ '': '') e ''''), s)
      | Inr a \<Rightarrow> (None, s\<lparr>hsListener := Some a, hsServer := True, hsRunning := True\<rparr>))"

definition http_Stop :: "goerror option \<Rightarrow> HTTPServer \<Rightarrow> goerror option \<times> HTTPServer" where
  "http_Stop shutdown s = (if \<not> hsRunning s \<or> \<not> hsServer s then (None, s) else (shutdown, s\<lparr>hsRunning := False\<rparr>))"

section \<open>Handlers\<close>

text \<open>
  \<open>strings.ToLower\<close> of a text that is not ASCII never gives a hexadecimal digest, so lowering the
  ASCII letters decides the comparison alike.
\<close>

definition sig_header :: "request \<Rightarrow> string" where
  "sig_header rq =
     trim_prefix (if rqHeader rq ''X-Signature-256'' = '''' then rqHeader rq ''X-Remediation-Signature'' else rqHeader rq ''X-Signature-256'') ''sha256=''"

definition MaxBody :: nat where "MaxBody = 1048576"

definition read_body :: "request \<Rightarrow> bytes option" where
  "read_body rq = (case rqBody rq of Inl _ \<Rightarrow> None | Inr b \<Rightarrow> if length b > MaxBody then None else Some b)"

definition check_signature :: "HTTPServer \<Rightarrow> request \<Rightarrow> bytes \<Rightarrow> string option" where
  "check_signature s rq body =
     (if hsHMACSecret s = '''' then None
      else if sig_header rq = '''' then Some ''missing signature in X-Signature-256 header''
      else if ascii_lower (sig_header rq) \<noteq> ascii_lower (hex_EncodeToString (hmac_sha256 (hsHMACSecret s) body))
      then Some ''invalid HMAC signature''
      else None)"

definition handleAlerts :: "order \<Rightarrow> HTTPServer \<Rightarrow> request \<Rightarrow> host \<Rightarrow> response \<times> host" where
  "handleAlerts ord s rq h =
     (if rqMethod rq \<noteq> ''POST''
      then (http_Error (''{'' @ [dquote] @ ''error'' @ [dquote] @ '': '' @ [dquote] @ ''method not allowed'' @ [dquote] @ ''}'') 405, h)
      else case read_body rq of
        None \<Rightarrow> (json_response 400 (PError ''failed to read request body or exceeded 1MB limit''), h)
      | Some body \<Rightarrow>
          (case check_signature s rq body of
             Some e \<Rightarrow> (json_response 401 (PError e), h)
           | None \<Rightarrow>
               (case unmarshal_alert body of
                  Inl e \<Rightarrow> (json_response 400 (PError (''malformed alert JSON: '' @ err_msg e)), h)
                | Inr a \<Rightarrow>
                    if alID a = '''' \<or> alResourceID a = ''''
                    then (json_response 422 (PError (''alert '' @ [CHR 0x27] @ ''id'' @ [CHR 0x27] @ '' and '' @ [CHR 0x27] @ ''resource_id'' @ [CHR 0x27] @ '' are required'')), h)
                    else
                      (let (a1, w1) = (if alReceivedAt a = zero_time
                                       then (let (t, w) = time_Now (hoWorld h) in (a\<lparr>alReceivedAt := t\<rparr>, w)) else (a, hoWorld h));
                           a2 = (if alSource a1 = '''' then a1\<lparr>alSource := ''http_webhook''\<rparr> else a1);
                           (res, h1) = process ord a2 (h\<lparr>hoWorld := w1\<rparr>) in
                       (json_response 200 (PResult res), h1)))))"

definition handleHealthz :: "HTTPServer \<Rightarrow> request \<Rightarrow> host \<Rightarrow> response \<times> host" where
  "handleHealthz s rq h =
     (if rqMethod rq \<noteq> ''GET''
      then (http_Error (''{'' @ [dquote] @ ''error'' @ [dquote] @ '': '' @ [dquote] @ ''method not allowed'' @ [dquote] @ ''}'') 405, h)
      else case IsHealthy (hoEngine h) (hoWorld h) of
        ((healthy, reason), w1) \<Rightarrow>
          if \<not> healthy then (json_response 503 (PUnhealthy reason), h\<lparr>hoWorld := w1\<rparr>)
          else (let (now, w2) = time_Now w1 in
                (json_response 200 (PHealthy (duration_Seconds (time_Sub now (hsStartTime s)))), h\<lparr>hoWorld := w2\<rparr>)))"

definition handleStatus :: "order \<Rightarrow> HTTPServer \<Rightarrow> request \<Rightarrow> host \<Rightarrow> response \<times> host" where
  "handleStatus ord s rq h =
     (if rqMethod rq \<noteq> ''GET''
      then (http_Error (''{'' @ [dquote] @ ''error'' @ [dquote] @ '': '' @ [dquote] @ ''method not allowed'' @ [dquote] @ ''}'') 405, h)
      else
        (let (now, w1) = time_Now (hoWorld h); e = hoEngine h in
         (json_response 200
            (PStatus (duration_Seconds (time_Sub now (hsStartTime s)))
               (map (\<lambda>rb. (rbID rb, rbName rb, rbTargetResourceID rb, rbSeverity rb)) (ListRunbooks ord e))
               (GetAllStatuses (engDamping e)) (lastHash (engLedger e))), h\<lparr>hoWorld := w1\<rparr>)))"

definition handleMetrics :: "request \<Rightarrow> host \<Rightarrow> response \<times> host" where
  "handleMetrics rq h =
     (if rqMethod rq \<noteq> ''GET'' then (http_Error ''method not allowed'' 405, h)
      else
        (let (body, w1) = (case hoMetrics h of None \<Rightarrow> ('''', hoWorld h) | Some m \<Rightarrow> RenderPrometheus m (hoWorld h)) in
         (\<lparr>rsStatus = 200, rsContentType = ''text/plain; version=0.0.4; charset=utf-8'', rsPayload = PText body\<rparr>, h\<lparr>hoWorld := w1\<rparr>)))"

section \<open>Who can start a remediation\<close>


end
