(* ===== verification/Ctl.thy ===== *)
theory Ctl
  imports Process_Env Go_Flags Ingress_Http
begin

text \<open>
  \<open>cmd/remediation-ctl/main.go\<close>: the command line client. A handler maps the arguments and the world
  to an exit code, the two outputs and what it left behind. The lemmas give the exit codes, which
  commands can touch the system, and what a status query does to the breaker.
\<close>

text \<open>
  How a command ends: exit code, output, and the engine or damping controller it opened, if any, as
  it left it. A return from the handler is exit code 0.
\<close>

record ending =
  edExit :: int
  edOut :: string
  edErr :: string
  edEngine :: "Engine option"
  edDamping :: "Controller option"
  edWorld :: world

definition ends :: "int \<Rightarrow> string \<Rightarrow> string \<Rightarrow> world \<Rightarrow> ending" where
  "ends code out err w = \<lparr>edExit = code, edOut = out, edErr = err, edEngine = None, edDamping = None, edWorld = w\<rparr>"

text \<open>\<open>fs.Parse\<close> with \<open>flag.ExitOnError\<close>\<close>

definition with_flags :: "string \<Rightarrow> gflag list \<Rightarrow> string list \<Rightarrow> world \<Rightarrow> (flag_values \<Rightarrow> ending) \<Rightarrow> ending" where
  "with_flags name fs args w body =
     (case parse_flags fs (flag_defaults fs) args of
        FlagsOk vs \<Rightarrow> body vs
      | FlagsHelp \<Rightarrow> ends 0 '''' (flags_usage name fs) w
      | FlagsFail msg \<Rightarrow> ends 2 '''' (println msg @ flags_usage name fs) w)"

definition banner :: string where
  "banner = println ''==================================================================''"

definition dashes :: string where
  "dashes = println ''------------------------------------------------------------------''"

definition pad_right :: "nat \<Rightarrow> string \<Rightarrow> string" where
  "pad_right n s = s @ replicate (n - length s) CHR '' ''"

definition single_quoted :: "string \<Rightarrow> string" where
  "single_quoted s = CHR 0x27 # s @ [CHR 0x27]"

text \<open>\<open>for i, x := range xs\<close> with \<open>i+1\<close> printed\<close>

definition numbered :: "(int \<Rightarrow> 'a \<Rightarrow> string) \<Rightarrow> 'a list \<Rightarrow> string" where
  "numbered f xs = concat (map2 (\<lambda>i x. f (int i + 1) x) [0..<length xs] xs)"

definition printUsage :: string where
  "printUsage =
     println ''Autonomous Remediation Engine Controller (remediation-ctl)'' @ println '''' @ println ''Usage:''
     @ println ''  remediation-ctl run --runbook=<id> --resource=<res> [--audit-log=<path>] [--lock-dir=<dir>] [--journal-dir=<dir>] [--damping-file=<path>]''
     @ println ''  remediation-ctl triage --incident=<text|file> [--execute] [--api-key=<key>] [--base-url=<url>] [--model=<model>]''
     @ println ''  remediation-ctl verify-audit --file=<path>''
     @ println ''  remediation-ctl status [--journal-dir=<dir>]''
     @ println ''  remediation-ctl list-runbooks''
     @ println ''  remediation-ctl damping-status [--damping-file=<path>] [--resource=<res>]''"

section \<open>Opening the engine\<close>

definition engine_flags :: "gflag list" where
  "engine_flags =
     [string_flag ''audit-log'' ''/tmp/remediation-audit.log'' ''Path to audit ledger log file'',
      string_flag ''lock-dir'' ''/tmp/remediation-locks'' ''Directory for lock coordination'',
      string_flag ''journal-dir'' ''/tmp/remediation-journal'' ''Directory for WAL journal'',
      string_flag ''damping-file'' ''/tmp/remediation-damping.json'' ''Path to damping state file'']"

definition dampFile :: "env \<Rightarrow> string \<Rightarrow> string" where
  "dampFile E dampingFile =
     (let envDamp = enGetenv E ''REMEDIATION_DAMPING_FILE'' in
      if envDamp \<noteq> '''' \<and> dampingFile = ''/tmp/remediation-damping.json'' then envDamp else dampingFile)"

definition engine_config :: "env \<Rightarrow> flag_values \<Rightarrow> EngineConfig" where
  "engine_config E vs =
     \<lparr>cfgLockDir = flag_value vs ''lock-dir'', cfgAuditLogPath = flag_value vs ''audit-log'',
      cfgJournalDir = flag_value vs ''journal-dir'', cfgHostUUID = ''remediation-ctl-node'',
      cfgDampingStatePath = dampFile E (flag_value vs ''damping-file'')\<rparr>"

text \<open>\<open>_ = eng.RegisterRunbook(rb)\<close> for the catalogue\<close>

definition register_defaults :: "Runbook list \<Rightarrow> Engine \<Rightarrow> Engine" where
  "register_defaults rbs e = fold (\<lambda>rb e. snd (RegisterRunbook (Some rb) e)) rbs e"

definition telemetry :: "RemediationResult option \<Rightarrow> string" where
  "telemetry result =
     newline # println ''--- Execution Telemetry ---''
     @ (case result of
          None \<Rightarrow> ''''
        | Some r \<Rightarrow>
            println (''Transaction ID : '' @ rrTxID r) @ println (''Final State    : '' @ state_string (rrFinalState r))
            @ println (''Duration       : '' @ fmt_duration (rrDuration r)) @ println ''FSM Lifecycle Transitions:''
            @ numbered (\<lambda>i t. println (''  ['' @ itoa i @ ''] '' @ pad_right 16 (state_string (trFrom t)) @ '' -> ''
                  @ pad_right 16 (state_string (trTo t)) @ '' ('' @ trReason t @ '')'')) (rrTransitions r))"

section \<open>\<open>run\<close>\<close>

definition run_flags :: "gflag list" where
  "run_flags =
     [string_flag ''runbook'' '''' ''Runbook identifier (e.g. RBK-DISK-001 or disk_cleanup_var_log)'',
      string_flag ''resource'' '''' ''Target resource path or service name (e.g. /var/log)'',
      string_flag ''target'' '''' ''Target resource path or service name (alias for --resource)''] @ engine_flags"

definition effectiveTarget :: "flag_values \<Rightarrow> string" where
  "effectiveTarget vs = (if flag_value vs ''resource'' = '''' then flag_value vs ''target'' else flag_value vs ''resource'')"

text \<open>The part of \<open>handleRun\<close> and of \<open>handleTriage\<close> from \<open>engine.NewEngine\<close> on: open, register, remediate, report.\<close>

definition run_engine ::
    "env \<Rightarrow> flag_values \<Rightarrow> string \<Rightarrow> string \<Rightarrow> string \<Rightarrow> string \<Rightarrow> (Engine \<Rightarrow> world \<Rightarrow> outcome) \<Rightarrow> world \<Rightarrow> ending" where
  "run_engine E vs shown starting failed success remediate w =
     (case new_engine E (engine_config E vs) w of
        (Inl e, w1) \<Rightarrow> ends 1 shown (println (''Error initializing remediation engine: '' @ err_msg e)) w1
      | (Inr e0, w1) \<Rightarrow>
          (let (rbs, w2) = default_catalog E w1; ((result, err), e, w3) = remediate (register_defaults rbs e0) w2;
               out = shown @ starting @ telemetry result in
           case err of
             Some x \<Rightarrow> (ends 1 out (newline # println (failed @ err_msg x)) w3)\<lparr>edEngine := Some e\<rparr>
           | None \<Rightarrow> (ends 0 (out @ success) '''' w3)\<lparr>edEngine := Some (engine_Close e)\<rparr>))"

definition handleRun :: "env \<Rightarrow> string list \<Rightarrow> world \<Rightarrow> ending" where
  "handleRun E args w =
     with_flags ''run'' run_flags args w (\<lambda>vs.
       let runbookID = flag_value vs ''runbook''; target = effectiveTarget vs in
       if runbookID = '''' \<or> target = ''''
       then ends 1 '''' (println (''Error: --runbook and --target (or --resource) flags are required for '' @ single_quoted ''run'') @ flags_usage ''run'' run_flags) w
       else run_engine E vs ''''
              (println (''==> Starting remediation for Runbook ['' @ runbookID @ ''] on Resource ['' @ target @ '']...''))
              ''[ERROR] Remediation Failed: ''
              (newline # println ''[SUCCESS] Remediation verified, committed, and chained to audit ledger.'')
              (RunDirect (enOrder E) Background runbookID target) w)"

section \<open>\<open>verify-audit\<close>\<close>

definition verify_flags :: "gflag list" where
  "verify_flags = [string_flag ''file'' '''' ''Path to audit ledger log file'']"

definition handleVerifyAudit :: "string list \<Rightarrow> world \<Rightarrow> ending" where
  "handleVerifyAudit args w =
     with_flags ''verify-audit'' verify_flags args w (\<lambda>vs.
       let filePath = flag_value vs ''file'' in
       if filePath = ''''
       then ends 1 '''' (println (''Error: --file flag is required for '' @ single_quoted ''verify-audit'') @ flags_usage ''verify-audit'' verify_flags) w
       else
         (let (content, w1) = os_ReadFile filePath w; (now, w2) = time_Now w1 in
          case VerifyLedgerFile now (\<lambda>_. content) filePath of
            Inl e \<Rightarrow> ends 1 '''' (newline # println (''[INTEGRITY FAILURE] '' @ err_msg e)) w2
          | Inr report \<Rightarrow>
              ends 0
                (banner @ println ''  CRYPTOGRAPHIC AUDIT LEDGER INTEGRITY VERIFIED                   '' @ banner
                 @ println (''  Ledger Path     : '' @ filePath)
                 @ println ''  Status          : VALID (100% Monotonic Hash Chain Continuity)''
                 @ println (''  Total Records   : '' @ itoa (uint (vrTotalRecords report)))
                 @ println (''  Genesis Hash H0 : '' @ vrGenesisHash report)
                 @ println (''  Latest Tail Hash: '' @ vrTailHash report)
                 @ println (''  Verification At : '' @ fmt_RFC3339 (vrVerifiedAt report)) @ banner) '''' w2))"

section \<open>\<open>status\<close> and \<open>list-runbooks\<close>\<close>

definition status_flags :: "gflag list" where
  "status_flags = [string_flag ''journal-dir'' ''/tmp/remediation-journal'' ''Directory for WAL journal'']"

definition pending_lines :: "WALRecord list \<Rightarrow> string" where
  "pending_lines pending =
     println (''Pending Recovery  : '' @ itoa (int (length pending)) @ '' uncommitted WAL transactions'')
     @ concat (map (\<lambda>rec. println (''  - TX: '' @ walTxID rec @ '' | State: '' @ walState rec @ '' | Runbook: '' @ walRunbookID rec
                   @ '' | Target: '' @ walResourceID rec)) pending)"

definition handleStatusCmd :: "env \<Rightarrow> string list \<Rightarrow> world \<Rightarrow> ending" where
  "handleStatusCmd E args w =
     with_flags ''status'' status_flags args w (\<lambda>vs.
       let (journal, w2) =
             (case NewJournal (flag_value vs ''journal-dir'') w of
                (Inl e, w1) \<Rightarrow> (println (''Journal Status    : Error opening ('' @ err_msg e @ '')''), w1)
              | (Inr j, w1) \<Rightarrow>
                  (case ListPending j w1 of
                     (Inl e, w2) \<Rightarrow> (println (''Pending Recovery  : Error reading ('' @ err_msg e @ '')''), w2)
                   | (Inr pending, w2) \<Rightarrow> (pending_lines pending, w2)));
           (catalog, w3) = default_catalog E w2 in
       ends 0
         (banner @ println ''  AUTONOMOUS REMEDIATION ENGINE STATUS                            '' @ banner @ journal
          @ println (''Available Runbooks: '' @ itoa (int (length catalog)) @ '' registered'')
          @ concat (map (\<lambda>rb. println (''  - ['' @ rbID rb @ ''] '' @ rbName rb @ '' (Target: '' @ rbTargetResourceID rb @ '', Severity: ''
                        @ severity_string (rbSeverity rb) @ '')'')) catalog)
          @ banner) '''' w3)"

definition max_lines :: "string \<Rightarrow> string \<Rightarrow> BlastRadius \<Rightarrow> string" where
  "max_lines bytesLabel filesLabel br =
     (if brMaxBytesMutated br > 0 then println (bytesLabel @ itoa (brMaxBytesMutated br) @ '' bytes'') else '''')
     @ (if brMaxFilesModified br > 0 then println (filesLabel @ itoa (brMaxFilesModified br) @ '' files'') else '''')"

definition runbook_lines :: "int \<Rightarrow> Runbook \<Rightarrow> string" where
  "runbook_lines i rb =
     println (''['' @ itoa i @ ''] ID: '' @ rbID rb)
     @ println (''    Name             : '' @ rbName rb)
     @ println (''    Target Resource  : '' @ rbTargetResourceID rb)
     @ println (''    Severity         : '' @ severity_string (rbSeverity rb))
     @ println (''    Max Execution    : '' @ fmt_duration (brMaxExecutionTime (rbBlastRadius rb)))
     @ max_lines ''    Max Bytes Mutated: '' ''    Max Files Mod    : '' (rbBlastRadius rb)
     @ println (''    Preconditions    : '' @ itoa (int (length (rbPreconditions rb))) @ '' checks'')
     @ concat (map (\<lambda>p. println (''      - '' @ preName p @ '' ('' @ cond_string (preType p) @ '')'')) (rbPreconditions rb))
     @ println (''    Actions          : '' @ itoa (int (length (rbActions rb))) @ '' steps'')
     @ concat (map (\<lambda>a. println (''      - '' @ actName a)) (rbActions rb))
     @ println (''    Postconditions   : '' @ itoa (int (length (rbPostconditions rb))) @ '' checks'')
     @ concat (map (\<lambda>p. println (''      - '' @ postName p @ '' ('' @ cond_string (postType p) @ '')'')) (rbPostconditions rb))
     @ dashes"

definition handleListRunbooks :: "env \<Rightarrow> world \<Rightarrow> ending" where
  "handleListRunbooks E w =
     (let (catalog, w1) = default_catalog E w in
      ends 0
        (banner @ println ''  AVAILABLE PRODUCTION RUNBOOKS                                   '' @ banner
         @ println (''Total Runbooks: '' @ itoa (int (length catalog)) @ '' registered'') @ println '''' @ numbered runbook_lines catalog) '''' w1)"

section \<open>\<open>damping-status\<close>\<close>

definition damping_flags :: "gflag list" where
  "damping_flags =
     [string_flag ''damping-file'' ''/tmp/remediation-damping.json'' ''Path to damping state file'',
      string_flag ''resource'' '''' ''Target resource (optional, checks specific resource)'']"

text \<open>\<open>ctrl.CanExecute\<close> with the clock and the saves of the world\<close>

definition can_execute_now :: "string \<Rightarrow> Controller \<Rightarrow> world \<Rightarrow> (bool \<times> string) \<times> Controller \<times> world" where
  "can_execute_now resource c w =
     (let (now, w1) = time_Now w; (tnow, w2) = time_Now w1; (io1, w3) = next_save_io w2; (io2, w4) = next_save_io w3;
          (ans, c') = CanExecute now tnow io1 io2 c resource in
      (ans, c', w4))"

definition answer_lines :: "bool \<times> string \<Rightarrow> string" where
  "answer_lines ans =
     println (''  Executable Now : '' @ fmt_bool (fst ans)) @ (if \<not> fst ans then println (''  Block Reason   : '' @ snd ans) else '''')"

fun execution_lines :: "time list \<Rightarrow> world \<Rightarrow> string \<times> world" where
  "execution_lines [] w = ('''', w)"
| "execution_lines (t # ts) w =
     (let (now, w1) = time_Now w; (rest, w2) = execution_lines ts w1 in
      (println (''    - '' @ fmt_RFC3339 t @ '' ('' @ fmt_duration (duration_Round (time_Sub now t) Second) @ '' ago)'') @ rest, w2))"

definition state_lines :: "ResourceState \<Rightarrow> world \<Rightarrow> string \<times> world" where
  "state_lines st w =
     (let (lines, w1) = execution_lines (rsExecutions st) w in
      (println (''  Tripped        : '' @ fmt_bool (rsTripped st))
       @ (if rsTripped st
          then println (''  Quarantine Thru: '' @ fmt_RFC3339 (rsQuarantineUntil st)) @ println (''  Trip Reason    : '' @ rsTripReason st)
          else '''')
       @ println (''  Executions ('' @ itoa (int (length (rsExecutions st))) @ '') :'') @ lines, w1))"

definition resource_status :: "string \<Rightarrow> Controller \<Rightarrow> world \<Rightarrow> string \<times> Controller \<times> world" where
  "resource_status resource c w =
     (let (ans, c1, w1) = can_execute_now resource c w; head = newline # println (''Resource: '' @ resource) @ answer_lines ans in
      case GetStatus c1 resource of
        Some st \<Rightarrow> (let (lines, w2) = state_lines st w1 in (head @ lines, c1, w2))
      | None \<Rightarrow> (head @ println ''  No execution history recorded for this resource.'', c1, w1))"

text \<open>The states in the loop are the copies that \<open>GetAllStatuses\<close> took before it.\<close>

fun all_status :: "(string \<rightharpoonup> ResourceState) \<Rightarrow> string list \<Rightarrow> Controller \<Rightarrow> world \<Rightarrow> string \<times> Controller \<times> world" where
  "all_status sts [] c w = ('''', c, w)"
| "all_status sts (k # ks) c w =
     (case sts k of
        None \<Rightarrow> all_status sts ks c w
      | Some st \<Rightarrow>
          (let (ans, c1, w1) = can_execute_now k c w; (lines, w2) = state_lines st w1; (rest, c2, w3) = all_status sts ks c1 w2 in
           (newline # println (''* Resource: '' @ k) @ answer_lines ans @ lines @ rest, c2, w3)))"

definition handleDampingStatus :: "env \<Rightarrow> string list \<Rightarrow> world \<Rightarrow> ending" where
  "handleDampingStatus E args w =
     with_flags ''damping-status'' damping_flags args w (\<lambda>vs.
       let dampingFile = flag_value vs ''damping-file''; resource = flag_value vs ''resource'';
           head = banner @ println ''  FLAPPING DAMPING & CIRCUIT BREAKER STATUS                       '' @ banner
                  @ println (''Damping State File: '' @ dampingFile) in
       case NewController dampingFile (enDamping E dampingFile) (enReadable E dampingFile) of
         Inl e \<Rightarrow> ends 1 head (println (''Error loading damping controller: '' @ err_msg e)) w
       | Inr ctrl \<Rightarrow>
           (let (body, c, w1) =
                  (if resource \<noteq> '''' then resource_status resource ctrl w
                   else
                     (let statuses = GetAllStatuses ctrl; ks = enKeys E statuses in
                      if ks = [] then (newline # println ''No resource flapping records tracked (all circuits nominal).'', ctrl, w)
                      else
                        (let (lines, c, w1) = all_status statuses ks ctrl w in
                         (newline # println (''Tracked Resources: '' @ itoa (int (length ks))) @ lines, c, w1)))) in
            (ends 0 (head @ body @ banner) '''' w1)\<lparr>edDamping := Some c\<rparr>))"

section \<open>\<open>triage\<close>\<close>

definition triage_flags :: "gflag list" where
  "triage_flags =
     [string_flag ''incident'' '''' ''Incident log text or file path'',
      string_flag ''api-key'' '''' ''API key (defaults to $NVIDIA_API_KEY or $OPENAI_API_KEY)'',
      string_flag ''base-url'' '''' ''Base URL (defaults to https://integrate.api.nvidia.com/v1 if NVIDIA key is used, or https://api.openai.com/v1)'',
      string_flag ''model'' '''' ''Model name (defaults to nvidia/nemotron-3-ultra-550b-a55b or gpt-4o)'',
      bool_flag ''execute'' ''Execute proposed remediation through deterministic engine (default: false dry-run)''] @ engine_flags"

text \<open>The incident: the file that \<open>--incident\<close> names, else its text, else standard input that is not a terminal.\<close>

definition incident_log :: "env \<Rightarrow> string \<Rightarrow> world \<Rightarrow> (string + string) \<times> world" where
  "incident_log E incidentFlag w =
     (let incidentInput = TrimSpace incidentFlag in
      if incidentInput \<noteq> ''''
      then (case os_Stat incidentInput w of
              (Inr (FileNode _), w1) \<Rightarrow>
                (case os_ReadFile incidentInput w1 of
                   (Inl e, w2) \<Rightarrow> (Inl (println (''Error reading incident file '' @ incidentInput @ '': '' @ err_msg e)), w2)
                 | (Inr bs, w2) \<Rightarrow> (Inr (TrimSpace bs), w2))
            | (_, w1) \<Rightarrow> (Inr incidentInput, w1))
      else (case enStdin E of Some (Inr bs) \<Rightarrow> (Inr (TrimSpace bs), w) | _ \<Rightarrow> (Inr '''', w)))"

definition resolve_api_key :: "env \<Rightarrow> string \<Rightarrow> string" where
  "resolve_api_key E apiKeyFlag =
     first_nonempty (TrimSpace apiKeyFlag)
       (first_nonempty (TrimSpace (enGetenv E ''NVIDIA_API_KEY'')) (TrimSpace (enGetenv E ''OPENAI_API_KEY'')))"

definition resolve_url :: "env \<Rightarrow> string \<Rightarrow> string \<Rightarrow> string" where
  "resolve_url E apiKey baseURLFlag =
     first_nonempty (TrimSpace baseURLFlag)
       (if has_prefix apiKey ''nvapi-'' \<or> enGetenv E ''NVIDIA_API_KEY'' \<noteq> '''' then ''https://integrate.api.nvidia.com/v1''
        else ''https://api.openai.com/v1'')"

definition resolve_model :: "string \<Rightarrow> string \<Rightarrow> string \<Rightarrow> string" where
  "resolve_model apiKey baseURL modelFlag =
     first_nonempty (TrimSpace modelFlag)
       (if contains baseURL ''nvidia'' \<or> has_prefix apiKey ''nvapi-'' then ''nvidia/nemotron-3-ultra-550b-a55b'' else ''gpt-4o'')"

definition proposal_lines :: "Proposal \<Rightarrow> string" where
  "proposal_lines p =
     newline # banner @ println ''  AI PROPOSAL & REASONING TRACE                                   '' @ banner
     @ (if prReasoningContent p \<noteq> '''' then println ''[Reasoning Trace]:'' @ println (prReasoningContent p) @ dashes else '''')
     @ println (''Diagnosis       : '' @ prDiagnosis p) @ println (''Proposed Runbook: '' @ prRunbookID p)
     @ println (''Target Resource : '' @ prTargetResource p) @ println (''Severity        : '' @ prSeverity p) @ banner"

text \<open>\<open>%v\<close> of a list of strings\<close>

definition prefix_list :: "string list \<Rightarrow> string" where
  "prefix_list xs = ''['' @ (case xs of [] \<Rightarrow> [] | y # ys \<Rightarrow> y @ concat (map (\<lambda>z. CHR '' '' # z) ys)) @ '']''"

definition dry_run_lines :: "Proposal \<Rightarrow> Runbook \<Rightarrow> string" where
  "dry_run_lines p rb =
     newline # println ''[DETERMINISTIC PRECHECKS (DRY-RUN)]''
     @ println (''Runbook Name     : '' @ rbName rb) @ println (''Runbook ID       : '' @ rbID rb)
     @ println (''Target Resource  : '' @ prTargetResource p)
     @ println (''Max Execution    : '' @ fmt_duration (brMaxExecutionTime (rbBlastRadius rb)))
     @ max_lines ''Max Bytes Mutated: '' ''Max Files Mod    : '' (rbBlastRadius rb)
     @ (if brAllowedPathPrefixes (rbBlastRadius rb) \<noteq> [] then println (''Allowed Prefixes : '' @ prefix_list (brAllowedPathPrefixes (rbBlastRadius rb))) else '''')
     @ newline # println (''Precondition Gates ('' @ itoa (int (length (rbPreconditions rb))) @ ''):'')
     @ numbered (\<lambda>i c. println (''  ['' @ itoa i @ ''] '' @ preName c @ '' ('' @ cond_string (preType c) @ '')'')) (rbPreconditions rb)
     @ newline # println (''Actions to be Executed ('' @ itoa (int (length (rbActions rb))) @ ''):'')
     @ numbered (\<lambda>i a. println (''  ['' @ itoa i @ ''] '' @ actName a)) (rbActions rb)
     @ newline # println (''Postcondition Assertions ('' @ itoa (int (length (rbPostconditions rb))) @ ''):'')
     @ numbered (\<lambda>i c. println (''  ['' @ itoa i @ ''] '' @ postName c @ '' ('' @ cond_string (postType c) @ '')'')) (rbPostconditions rb)
     @ newline # dashes @ println ''[DRY-RUN COMPLETE] Remediation was NOT executed.''
     @ println (''Architectural Principle: '' @ single_quoted ''AI proposes. Deterministic systems enforce.'')
     @ println ''To execute through the deterministic engine, run with --execute.'' @ banner"

text \<open>\<open>model.Severity(s)\<close>: the named severities are the strings the source declares for them.\<close>

definition triage_alert :: "Proposal \<Rightarrow> string \<Rightarrow> time \<Rightarrow> time \<Rightarrow> Alert" where
  "triage_alert p modelName t1 t2 =
     \<lparr>alID = ''ai-triage-'' @ itoa (UnixNano t1), alFingerprint = ''fp-'' @ prRunbookID p @ ''-'' @ prTargetResource p,
      alSource = ''ai-triage'', alResourceID = prTargetResource p, alSeverity = severity_of (prSeverity p),
      alLabels = Some [(''runbook_id'', prRunbookID p), (''ai_diagnosis'', prDiagnosis p), (''ai_model'', modelName)],
      alAnnotations = None, alReceivedAt = t2, alHMACSignature = '''', alRawPayload = ''''\<rparr>"

definition live_run :: "env \<Rightarrow> flag_values \<Rightarrow> string \<Rightarrow> string \<Rightarrow> Proposal \<Rightarrow> world \<Rightarrow> ending" where
  "live_run E vs shown modelName p w =
     run_engine E vs (shown @ newline # println ''[LIVE EXECUTION] Enforcing remediation through deterministic engine...'')
       (println (''==> Starting deterministic remediation for Runbook ['' @ prRunbookID p @ ''] on Resource ['' @ prTargetResource p @ '']...''))
       ''[ERROR] Deterministic Enforcement Failed: ''
       (newline # println ''[SUCCESS] AI proposal verified and enforced by deterministic engine.''
        @ println ''Remediation verified, committed, and chained to cryptographic audit ledger.'')
       (\<lambda>e w. let (t1, w1) = time_Now w; (t2, w2) = time_Now w1 in
              Remediate (enOrder E) Background (Some (triage_alert p modelName t1 t2)) e w2) w"

definition enforce :: "env \<Rightarrow> flag_values \<Rightarrow> string \<Rightarrow> string \<Rightarrow> Proposal \<Rightarrow> world \<Rightarrow> ending" where
  "enforce E vs shown modelName p w =
     (let (cat, w1) = NewDefaultCatalog (enSorter E) (enX509 E) (enCells E) w; out = shown @ proposal_lines p in
      case Get (enOrder E) cat (prRunbookID p) of
        Inl e \<Rightarrow>
          ends 1 out (newline # println (''[REJECTED] Proposed runbook '' @ prRunbookID p @ '' is not in deterministic catalog: '' @ err_msg e)) w1
      | Inr rb \<Rightarrow>
          if flag_value vs ''execute'' \<noteq> ''true'' then ends 0 (out @ dry_run_lines p rb) '''' w1
          else live_run E vs out modelName p w1)"

definition triage_head :: "string \<Rightarrow> string \<Rightarrow> bool \<Rightarrow> string" where
  "triage_head modelName baseURL execute =
     banner @ println ''  AI INCIDENT TRIAGE PROPOSER                                     '' @ banner
     @ println (''Model           : '' @ modelName) @ println (''Base URL        : '' @ baseURL)
     @ println (''Mode            : '' @ (if execute then ''LIVE EXECUTION (AI Proposal -> Deterministic Enforcement)''
                                    else ''DRY-RUN (AI Proposal -> Inspection Only)''))
     @ dashes @ println ''Consulting AI model for incident triage and runbook selection...''"

definition handleTriage :: "env \<Rightarrow> string list \<Rightarrow> world \<Rightarrow> ending" where
  "handleTriage E args w =
     with_flags ''triage'' triage_flags args w (\<lambda>vs.
       case incident_log E (flag_value vs ''incident'') w of
         (Inl msg, w1) \<Rightarrow> ends 1 '''' msg w1
       | (Inr incidentLog, w1) \<Rightarrow>
           (let apiKey = resolve_api_key E (flag_value vs ''api-key'');
                baseURL = resolve_url E apiKey (flag_value vs ''base-url'');
                modelName = resolve_model apiKey baseURL (flag_value vs ''model'');
                shown = triage_head modelName baseURL (flag_value vs ''execute'' = ''true'') in
            if incidentLog = ''''
            then ends 1 '''' (println ''Error: --incident flag or piped stdin containing incident log is required'' @ flags_usage ''triage'' triage_flags) w1
            else if apiKey = ''''
            then ends 1 '''' (println ''Error: API key required. Provide via --api-key flag or set $NVIDIA_API_KEY / $OPENAI_API_KEY'') w1
            else case ProposeRemediation (enService E) (enUpper E)
                   \<lparr>aiBaseURL = baseURL, aiAPIKey = apiKey, aiModel = modelName, aiTimeout = 60 * Second, aiHTTPClient = None\<rparr> incidentLog of
              Inl e \<Rightarrow> ends 1 shown (newline # println (''[ERROR] AI Triage failed: '' @ err_msg e)) w1
            | Inr p \<Rightarrow> enforce E vs shown modelName p w1))"

section \<open>\<open>main\<close>\<close>

definition ctl_main :: "env \<Rightarrow> string list \<Rightarrow> world \<Rightarrow> ending" where
  "ctl_main E args w =
     (case args of
        [] \<Rightarrow> ends 1 printUsage '''' w
      | subcommand # rest \<Rightarrow>
          if subcommand = ''run'' then handleRun E rest w
          else if subcommand = ''triage'' then handleTriage E rest w
          else if subcommand = ''verify-audit'' then handleVerifyAudit rest w
          else if subcommand = ''status'' then handleStatusCmd E rest w
          else if subcommand = ''list-runbooks'' then handleListRunbooks E w
          else if subcommand = ''damping-status'' then handleDampingStatus E rest w
          else if subcommand \<in> {''help'', ''--help'', ''-h''} then ends 0 printUsage '''' w
          else ends 1 printUsage (println (''Unknown subcommand: '' @ fmt_q subcommand) @ println '''') w)"

section \<open>Exit codes\<close>

lemma ends_simps [simp]:
  "edExit (ends c out err w) = c" "edOut (ends c out err w) = out" "edErr (ends c out err w) = err" "edEngine (ends c out err w) = None"
  "edDamping (ends c out err w) = None" "edWorld (ends c out err w) = w"
  by (simp_all add: ends_def)

text \<open>A remediation that returns without an error is a committed one.\<close>

lemma Remediate_success:
  assumes "Remediate ord ctx alert e w = ((result, None), e', w')"
  shows "\<exists>res. result = Some res \<and> rrSuccess res \<and> rrFinalState res = StateCommitted"
proof -
  obtain res where "result = Some res"
      "returns (map trTo (rrTransitions res)) (rrFinalState res) (rrSuccess res) (rrRolledBack res) None"
    using Remediate_returns [of ord ctx alert e w] assms by (auto simp: returns_of_def)
  then show ?thesis using returns_facts by blast
qed

lemma RunDirect_success:
  assumes "RunDirect ord ctx rb target e w = ((result, None), e', w')"
  shows "\<exists>res. result = Some res \<and> rrSuccess res \<and> rrFinalState res = StateCommitted"
  using assms by (auto simp: RunDirect_def Let_def split: sum.splits prod.splits intro: Remediate_success)

lemma run_engine_exit:
  "edExit (run_engine E vs shown starting failed success remediate w) = 0 \<longleftrightarrow>
     (\<exists>e0 w1 result e w3. new_engine E (engine_config E vs) w = (Inr e0, w1)
        \<and> remediate (register_defaults (fst (default_catalog E w1)) e0) (snd (default_catalog E w1)) = ((result, None), e, w3))"
  by (auto simp: run_engine_def Let_def split: prod.splits sum.splits option.splits)

lemma run_engine_codes: "edExit (run_engine E vs shown starting failed success remediate w) \<in> {0, 1}"
  by (auto simp: run_engine_def Let_def split: prod.splits sum.splits option.splits)

text \<open>
  C22: The exit code of \<open>run\<close> says whether the remediation committed. With flags that parse, the
  command exits with 0 exactly when a runbook and a target are given, the engine opens, and the
  run of that runbook on that target returns a successful result in state COMMITTED without an
  error; in every other case the code is 1. Wrong flags give 2, the help flag 0.
\<close>

theorem run_exit_code:
  "case parse_flags run_flags (flag_defaults run_flags) args of
     FlagsHelp \<Rightarrow> edExit (handleRun E args w) = 0
   | FlagsFail _ \<Rightarrow> edExit (handleRun E args w) = 2
   | FlagsOk vs \<Rightarrow>
       edExit (handleRun E args w) =
         (if flag_value vs ''runbook'' \<noteq> '''' \<and> effectiveTarget vs \<noteq> ''''
             \<and> (\<exists>e0 w1 res e w3. new_engine E (engine_config E vs) w = (Inr e0, w1)
                 \<and> RunDirect (enOrder E) Background (flag_value vs ''runbook'') (effectiveTarget vs)
                      (register_defaults (fst (default_catalog E w1)) e0) (snd (default_catalog E w1)) = ((Some res, None), e, w3)
                 \<and> rrSuccess res \<and> rrFinalState res = StateCommitted)
          then 0 else 1)"
proof (cases "parse_flags run_flags (flag_defaults run_flags) args")
  case (FlagsOk vs)
  show ?thesis
  proof (cases "flag_value vs ''runbook'' = '''' \<or> effectiveTarget vs = ''''")
    case False
    define run where "run = run_engine E vs ''''
              (println (''==> Starting remediation for Runbook ['' @ flag_value vs ''runbook'' @ ''] on Resource ['' @ effectiveTarget vs @ '']...''))
              ''[ERROR] Remediation Failed: ''
              (newline # println ''[SUCCESS] Remediation verified, committed, and chained to audit ledger.'')
              (RunDirect (enOrder E) Background (flag_value vs ''runbook'') (effectiveTarget vs)) w"
    have "handleRun E args w = run" using FlagsOk False by (simp add: handleRun_def with_flags_def run_def Let_def)
    moreover have "edExit run \<in> {0, 1}" unfolding run_def by (rule run_engine_codes)
    moreover have "edExit run = 0 \<longleftrightarrow> (\<exists>e0 w1 res e w3. new_engine E (engine_config E vs) w = (Inr e0, w1)
        \<and> RunDirect (enOrder E) Background (flag_value vs ''runbook'') (effectiveTarget vs)
            (register_defaults (fst (default_catalog E w1)) e0) (snd (default_catalog E w1)) = ((Some res, None), e, w3)
        \<and> rrSuccess res \<and> rrFinalState res = StateCommitted)"
      unfolding run_def run_engine_exit using RunDirect_success by (metis option.exhaust)
    ultimately show ?thesis using FlagsOk False by auto
  qed (use FlagsOk in \<open>auto simp: handleRun_def with_flags_def Let_def\<close>)
qed (simp_all add: handleRun_def with_flags_def)

text \<open>
  The exit code of \<open>verify-audit\<close> is the verdict of the verifier. With \<open>--file=path\<close> the command
  exits with 0 exactly when the file can be read and its content is accepted, with 1 otherwise; it
  opens no engine and leaves files, processes and signals as they are.
\<close>

theorem verify_audit_exit_code:
  "edExit (handleVerifyAudit [''--file='' @ path] w) =
     (if path \<noteq> '''' \<and> (\<exists>content report. fst (os_ReadFile path w) = Inr content
          \<and> VerifyLedgerReader (oClock w (Suc (steps w))) content = Inr report)
      then 0 else 1)
   \<and> edEngine (handleVerifyAudit [''--file='' @ path] w) = None
   \<and> same_fs w (edWorld (handleVerifyAudit [''--file='' @ path] w))"
proof -
  define args where "args = [''--file='' @ path]"
  have "find_flag verify_flags ''file'' = Some (string_flag ''file'' []  ''Path to audit ledger log file'')" "flag_name_ok ''file''"
    by (simp_all add: verify_flags_def find_flag_def flag_name_ok_def)
  from parse_single_flag [OF this, of path]
  have flags: "parse_flags verify_flags (flag_defaults verify_flags) args = FlagsOk [(''file'', path)]"
    by (simp add: verify_flags_def flag_defaults_def args_def)
  obtain r w1 where r: "os_ReadFile path w = (r, w1)" by force
  then have w1: "w1 = next_step w" by (auto simp: os_ReadFile_def sys_def split: option.splits node.splits)
  show ?thesis unfolding args_def [symmetric]
    by (cases r) (auto simp: handleVerifyAudit_def with_flags_def flags flag_value_def r w1 time_Now_def next_step_def
        VerifyLedgerFile_def same_fs_def Let_def split: sum.splits)
qed

section \<open>What a command can touch\<close>

text \<open>
  Only \<open>run\<close> and \<open>triage\<close> remediate. Any other command line opens no engine, whatever its
  arguments are.
\<close>

theorem read_only_commands:
  "case args of
     [] \<Rightarrow> edEngine (ctl_main E args w) = None
   | sub # rest \<Rightarrow> sub = ''run'' \<or> sub = ''triage'' \<or> edEngine (ctl_main E args w) = None"
proof -
  have "edEngine (handleVerifyAudit rest w) = None" "edEngine (handleStatusCmd E rest w) = None"
    "edEngine (handleDampingStatus E rest w) = None" for rest
    by (auto simp: handleVerifyAudit_def handleStatusCmd_def handleDampingStatus_def with_flags_def Let_def
        split: flag_result.splits sum.splits prod.splits)
  moreover have "edEngine (handleListRunbooks E w) = None"
    by (simp add: handleListRunbooks_def split: prod.splits)
  ultimately show ?thesis by (auto simp: ctl_main_def split: list.split)
qed

lemma same_fs_trans: "same_fs w w1 \<Longrightarrow> same_fs w1 w2 \<Longrightarrow> same_fs w w2"
  by (simp add: same_fs_def)

lemma same_fs_ReadFile: "same_fs w (snd (os_ReadFile p w))"
  by (auto simp: os_ReadFile_def sys_def next_step_def same_fs_def split: option.splits node.splits)

lemma same_fs_Stat: "same_fs w (snd (os_Stat p w))"
  by (auto simp: os_Stat_def sys_def next_step_def same_fs_def split: option.splits node.splits)

lemma incident_same_fs: "same_fs w (snd (incident_log E x w))"
proof -
  obtain s w1 where s: "os_Stat (TrimSpace x) w = (s, w1)" by force
  obtain r w2 where r: "os_ReadFile (TrimSpace x) w1 = (r, w2)" by force
  have "same_fs w w1" "same_fs w1 w2" using same_fs_Stat [of w "TrimSpace x"] same_fs_ReadFile [of w1 "TrimSpace x"] s r by auto
  then have "same_fs w w1" "same_fs w w2" by (auto intro: same_fs_trans)
  then show ?thesis
    by (auto simp: incident_log_def Let_def s r split: sum.splits node.splits option.splits)
qed

lemma NewDefaultCatalog_world [simp]: "snd (NewDefaultCatalog srt X cs w) = w"
proof -
  obtain rbs where "DefaultCatalog srt X cs w = (rbs, w)" by (metis DefaultCatalog_world prod.collapse)
  then show ?thesis by (simp add: NewDefaultCatalog_def)
qed

lemma enforce_dry:
  assumes "flag_value vs ''execute'' \<noteq> ''true''"
  shows "edEngine (enforce E vs shown m p w) = None \<and> edWorld (enforce E vs shown m p w) = w"
proof -
  obtain cat where "NewDefaultCatalog (enSorter E) (enX509 E) (enCells E) w = (cat, w)" by (metis NewDefaultCatalog_world prod.collapse)
  then show ?thesis using assms by (simp add: enforce_def Let_def split: sum.split)
qed

text \<open>
  C16: Without \<open>--execute\<close> a triage inspects only. Whatever the incident and the model's answer are,
  when the flags do not set \<open>execute\<close> the command opens no engine and changes no file, sends no
  signal and starts no process.
\<close>

theorem triage_dry_run:
  "case parse_flags triage_flags (flag_defaults triage_flags) args of
     FlagsOk vs \<Rightarrow> flag_value vs ''execute'' = ''true''
       \<or> edEngine (handleTriage E args w) = None \<and> same_fs w (edWorld (handleTriage E args w))
   | _ \<Rightarrow> edEngine (handleTriage E args w) = None \<and> edWorld (handleTriage E args w) = w"
proof (cases "parse_flags triage_flags (flag_defaults triage_flags) args")
  case (FlagsOk vs)
  obtain r w1 where r: "incident_log E (flag_value vs ''incident'') w = (r, w1)" by force
  then have "same_fs w w1" using incident_same_fs [of w E "flag_value vs ''incident''"] by simp
  then show ?thesis
    using FlagsOk enforce_dry [of vs E] by (auto simp: handleTriage_def with_flags_def r Let_def split: sum.splits)
qed (simp_all add: handleTriage_def with_flags_def)

lemma ProposeRemediation_valid:
  "ProposeRemediation svc up cfg incident = Inr p \<Longrightarrow> isValidRunbookID (prRunbookID p) \<and> prTargetResource p \<noteq> ''''"
  using read_completion_sound
  by (auto simp: ProposeRemediation_def Proposer_ProposeRemediation_def Let_def split: sum.splits if_splits option.splits)

text \<open>
  C15: What a live triage hands to the engine. When the command opened an engine, \<open>--execute\<close> was
  given and the answer of the service to the incident, asked with the resolved key, URL and model, was
  accepted as a proposal: it names one of the four runbooks of the catalogue and a target. The engine,
  opened with the flags and holding the catalogue, processed the alert made of it; the exit code is 0
  when that remediation committed and 1 when it returned an error.
\<close>

theorem triage_live_run:
  "case edEngine (handleTriage E args w) of
     None \<Rightarrow> True
   | Some e \<Rightarrow>
       (\<exists>vs incident key url p m eng wa wb w1 t1 t2 result err e1 w2.
          parse_flags triage_flags (flag_defaults triage_flags) args = FlagsOk vs \<and> flag_value vs ''execute'' = ''true''
          \<and> incident_log E (flag_value vs ''incident'') w = (Inr incident, wa)
          \<and> key = resolve_api_key E (flag_value vs ''api-key'') \<and> url = resolve_url E key (flag_value vs ''base-url'')
          \<and> m = resolve_model key url (flag_value vs ''model'')
          \<and> ProposeRemediation (enService E) (enUpper E)
              \<lparr>aiBaseURL = url, aiAPIKey = key, aiModel = m, aiTimeout = 60 * Second, aiHTTPClient = None\<rparr> incident = Inr p
          \<and> new_engine E (engine_config E vs) wa = (Inr eng, wb)
          \<and> isValidRunbookID (prRunbookID p) \<and> prTargetResource p \<noteq> ''''
          \<and> Remediate (enOrder E) Background (Some (triage_alert p m t1 t2))
              (register_defaults (fst (default_catalog E wb)) eng) w1 = ((result, err), e1, w2)
          \<and> e = (if err = None then engine_Close e1 else e1)
          \<and> (case err of
                Some _ \<Rightarrow> edExit (handleTriage E args w) = 1
              | None \<Rightarrow> edExit (handleTriage E args w) = 0 \<and> (\<exists>res. result = Some res \<and> rrFinalState res = StateCommitted)))"
proof (cases "edEngine (handleTriage E args w)")
  case (Some e)
  obtain vs where vs: "parse_flags triage_flags (flag_defaults triage_flags) args = FlagsOk vs"
    using Some by (auto simp: handleTriage_def with_flags_def split: flag_result.splits)
  obtain incident w1 where read: "incident_log E (flag_value vs ''incident'') w = (Inr incident, w1)"
    using Some by (auto simp: handleTriage_def with_flags_def vs split: sum.splits prod.splits)
  define key where "key = resolve_api_key E (flag_value vs ''api-key'')"
  define url where "url = resolve_url E key (flag_value vs ''base-url'')"
  define m where "m = resolve_model key url (flag_value vs ''model'')"
  define shown where "shown = triage_head m url (flag_value vs ''execute'' = ''true'')"
  obtain p where p: "ProposeRemediation (enService E) (enUpper E)
      \<lparr>aiBaseURL = url, aiAPIKey = key, aiModel = m, aiTimeout = 60 * Second, aiHTTPClient = None\<rparr> incident = Inr p"
    and run: "handleTriage E args w = enforce E vs shown m p w1"
    using Some by (auto simp: handleTriage_def with_flags_def vs read Let_def key_def url_def m_def shown_def split: if_splits sum.splits)
  have ex: "flag_value vs ''execute'' = ''true''" using Some run enforce_dry [of vs E shown m p w1] by auto
  obtain out where live: "handleTriage E args w = live_run E vs out m p w1"
  proof -
    obtain cat where "NewDefaultCatalog (enSorter E) (enX509 E) (enCells E) w1 = (cat, w1)" by (metis NewDefaultCatalog_world prod.collapse)
    then show thesis using Some that unfolding run by (auto simp: enforce_def ex Let_def split: sum.splits)
  qed
  obtain e0 w2 where open_ok: "new_engine E (engine_config E vs) w1 = (Inr e0, w2)"
    using Some unfolding live by (auto simp: live_run_def run_engine_def split: sum.splits prod.splits)
  define t1 where "t1 = fst (time_Now (snd (default_catalog E w2)))"
  define w3 where "w3 = snd (time_Now (snd (default_catalog E w2)))"
  obtain result err e1 w4 where rem: "Remediate (enOrder E) Background (Some (triage_alert p m t1 (fst (time_Now w3))))
      (register_defaults (fst (default_catalog E w2)) e0) (snd (time_Now w3)) = ((result, err), e1, w4)"
    by (metis prod.exhaust)
  have e: "e = (if err = None then engine_Close e1 else e1)" and ex0: "edExit (handleTriage E args w) = (if err = None then 0 else 1)"
    using Some rem unfolding live live_run_def run_engine_def open_ok t1_def w3_def
    by (auto simp: Let_def split_def split: option.splits)
  then have c: "case err of
      Some _ \<Rightarrow> edExit (handleTriage E args w) = 1
    | None \<Rightarrow> edExit (handleTriage E args w) = 0 \<and> (\<exists>res. result = Some res \<and> rrFinalState res = StateCommitted)"
  proof (cases err)
    case None
    then show ?thesis using Remediate_success [OF rem [unfolded None]] ex0 by auto
  qed simp
  have v: "isValidRunbookID (prRunbookID p)" "prTargetResource p \<noteq> []" using ProposeRemediation_valid [OF p] by simp_all
  show ?thesis unfolding Some option.case by (intro exI conjI) (rule vs ex read key_def url_def m_def p open_ok v rem e c)+
qed simp

section \<open>Looking at the breaker trips it\<close>

lemma damping_status_run:
  assumes "parse_flags damping_flags (flag_defaults damping_flags) args = FlagsOk vs" "flag_value vs ''resource'' \<noteq> ''''"
    "NewController (flag_value vs ''damping-file'') (enDamping E (flag_value vs ''damping-file'')) (enReadable E (flag_value vs ''damping-file'')) = Inr c"
  shows "edDamping (handleDampingStatus E args w) = Some (fst (snd (can_execute_now (flag_value vs ''resource'') c w)))"
  using assms by (auto simp: handleDampingStatus_def with_flags_def resource_status_def Let_def split: prod.splits option.splits)



end
