(* ===== verification/Config.thy ===== *)
theory Config
  imports Go_Os
begin

text \<open>\<open>internal/config/config.go\<close>: the configuration of the daemon and its defaults.\<close>

section \<open>Types\<close>

record ServiceConfig =
  svName :: string
  svHealthURL :: string
  svPIDFile :: string
  svPort :: int

record PathConfig =
  pcPath :: string
  pcMinFreePct :: rat

record Config =
  cfUnixSocketPath :: string
  cfHTTPAddr :: string
  cfHMACSecret :: string
  cfAuditLogPath :: string
  cfLockDir :: string
  cfJournalDir :: string
  cfDampingStateFile :: string
  cfHostUUID :: string
  cfPollInterval :: duration
  cfMonitoredServices :: "ServiceConfig list"
  cfMonitoredPaths :: "PathConfig list"

text \<open>\<open>hostname\<close> is the name \<open>os.Hostname\<close> gives, empty when it fails.\<close>

definition DefaultConfig :: "string \<Rightarrow> world \<Rightarrow> Config" where
  "DefaultConfig hostname w =
     (let isRoot = (oUid w = 0) in
      \<lparr>cfUnixSocketPath = (if isRoot then ''/run/remediation.sock'' else ''/tmp/remediation.sock''),
       cfHTTPAddr = ''127.0.0.1:9443'', cfHMACSecret = '''',
       cfAuditLogPath = (if isRoot then ''/var/lib/autonomous-remediation/audit/audit.wal'' else ''/tmp/remediation-audit.wal''),
       cfLockDir = (if isRoot then ''/var/run/remediation/'' else ''/tmp/remediation-locks/''),
       cfJournalDir = (if isRoot then ''/var/lib/autonomous-remediation/journal/'' else ''/tmp/remediation-journal/''),
       cfDampingStateFile = (if isRoot then ''/var/lib/autonomous-remediation/damping.json'' else ''/tmp/remediation-damping.json''),
       cfHostUUID = (if hostname = '''' then ''remediation-daemon-node'' else hostname),
       cfPollInterval = 2 * Second,
       cfMonitoredServices =
         [\<lparr>svName = ''ai-gateway'', svHealthURL = ''http://127.0.0.1:8080/healthz'', svPIDFile = ''/var/run/ai-gateway.pid'', svPort = 8080\<rparr>,
          \<lparr>svName = ''guardrail-proxy'', svHealthURL = ''http://127.0.0.1:8081/healthz'', svPIDFile = ''/var/run/guardrail-proxy.pid'', svPort = 8081\<rparr>],
       cfMonitoredPaths = [\<lparr>pcPath = ''/var/log'', pcMinFreePct = 15\<rparr>]\<rparr>)"

end
