(* ===== verification/Config_Yaml.thy ===== *)
theory Config_Yaml
  imports Config Ai_Proposer
begin

text \<open>
  The YAML reader of \<open>internal/config/config.go\<close> (\<open>ParseBasicYAML\<close>, \<open>parseYAMLBlock\<close>,
  \<open>parseYAMLValue\<close>, \<open>stripYAMLComment\<close>): lines with their indentation, scalars, and the recursive
  block parser. It always returns, and a flat mapping of quoted values is read back.
\<close>

section \<open>Values\<close>

text \<open>
  \<open>float64\<close> parsing and printing are parameters: a literal is parsed to a finite number, an
  infinity or not-a-number, and a finite number is printed as the shortest literal that is read back
  as the same number. Finite numbers are rationals.
\<close>

datatype gofloat = Fin rat | PosInf | NegInf | NaN

record floats =
  flParse :: "string \<Rightarrow> gofloat option"
  flPrint :: "rat \<Rightarrow> string"

datatype yaml =
    YNull
  | YBool bool
  | YInt int
  | YFloat gofloat
  | YStr string
  | YList "yaml list"
  | YMap "(string \<times> yaml) list"

section \<open>Lines\<close>

record lineInfo =
  liIndent :: nat
  liText :: string

text \<open>
  A quote opens a quoted part that ends at the next quote of the same kind; a hash outside quotes
  starts the comment. The bytes of other runes are neither quotes nor hashes.
\<close>

fun strip_comment :: "char option \<Rightarrow> string \<Rightarrow> string" where
  "strip_comment q [] = []"
| "strip_comment q (c # cs) =
     (if c = dquote \<or> c = CHR 0x27
      then c # strip_comment (case q of None \<Rightarrow> Some c | Some q' \<Rightarrow> if q' = c then None else q) cs
      else if c = CHR ''#'' \<and> q = None then []
      else c # strip_comment q cs)"

definition stripYAMLComment :: "string \<Rightarrow> string" where
  "stripYAMLComment s = strip_comment None s"

text \<open>The line of the source as indentation and text, unless nothing is left of it.\<close>

definition yaml_line :: "string \<Rightarrow> lineInfo option" where
  "yaml_line s =
     (let raw = stripYAMLComment s; trimmed = TrimSpace raw in
      if trimmed = '''' then None else Some \<lparr>liIndent = length (takeWhile (\<lambda>c. c = CHR '' '') raw), liText = trimmed\<rparr>)"

section \<open>Scalars\<close>

definition quoted :: "string \<Rightarrow> bool" where
  "quoted s \<longleftrightarrow> has_prefix s [dquote] \<and> has_suffix s [dquote] \<or> has_prefix s [CHR 0x27] \<and> has_suffix s [CHR 0x27]"

definition parseYAMLValue :: "floats \<Rightarrow> string \<Rightarrow> yaml" where
  "parseYAMLValue fl s0 =
     (let s = TrimSpace s0; low = ascii_lower s in
      if quoted s then YStr (if length s \<ge> 2 then butlast (tl s) else '''')
      else if low \<in> {''true'', ''yes'', ''on''} then YBool True
      else if low \<in> {''false'', ''no'', ''off''} then YBool False
      else case parse_int ''ParseInt'' s of
        (i, None) \<Rightarrow> YInt i
      | (_, Some _) \<Rightarrow> (case flParse fl s of Some f \<Rightarrow> YFloat f | None \<Rightarrow> YStr s))"

section \<open>Blocks\<close>

definition is_item :: "lineInfo \<Rightarrow> bool" where
  "is_item l \<longleftrightarrow> has_prefix (liText l) ''- '' \<or> liText l = ''-''"

definition item_text :: "lineInfo \<Rightarrow> string" where
  "item_text l = TrimSpace (trim_prefix (trim_prefix (liText l) ''-'') '' '')"

text \<open>\<open>strings.SplitN(s, ":", 2)\<close> with both parts trimmed\<close>

definition key_value :: "string \<Rightarrow> string \<times> string" where
  "key_value s = (case split_at CHR '':'' s of (k, v) \<Rightarrow> (TrimSpace k, TrimSpace v))"

definition deeper :: "lineInfo list \<Rightarrow> nat \<Rightarrow> bool" where
  "deeper ls n \<longleftrightarrow> (case ls of [] \<Rightarrow> False | l # _ \<Rightarrow> liIndent l > n)"

text \<open>
  \<open>parseYAMLBlock\<close>: the index into the lines is the list of the lines that are left, which the code
  only ever shortens. The three loops (items of a list, further keys of an item, keys of a mapping)
  and the nested blocks call each other; the fuel bounds their number and \<open>yaml_block_total\<close> below
  shows how much is enough.
\<close>

type_synonym 'a step = "lineInfo list \<Rightarrow> nat \<Rightarrow> ('a \<times> lineInfo list) option"

definition items_step :: "floats \<Rightarrow> yaml step \<Rightarrow> (yaml list \<Rightarrow> yaml step) \<Rightarrow> ((string \<times> yaml) list \<Rightarrow> (string \<times> yaml) list step) \<Rightarrow> yaml list \<Rightarrow> yaml step" where
  "items_step fl block items flds acc ls0 b =
     (case ls0 of
        [] \<Rightarrow> Some (YList acc, [])
      | l # ls \<Rightarrow>
          if liIndent l \<noteq> b \<or> \<not> is_item l then Some (YList acc, l # ls)
          else if item_text l = ''''
          then (if deeper ls b
                then do {(child, rest) \<leftarrow> block ls (liIndent (hd ls)); items (acc @ [child]) rest b}
                else items (acc @ [YNull]) ls b)
          else if contains (item_text l) '':''
          then (case key_value (item_text l) of (k, v) \<Rightarrow>
                  do {(m, rest) \<leftarrow>
                        (if v \<noteq> '''' then Some ([(k, parseYAMLValue fl v)], ls)
                         else if deeper ls b
                         then do {(sub, rest) \<leftarrow> block ls (liIndent (hd ls)); Some ([(k, sub)], rest)}
                         else Some ([], ls));
                      (m', rest') \<leftarrow> flds m rest b;
                      items (acc @ [YMap m']) rest' b})
          else items (acc @ [parseYAMLValue fl (item_text l)]) ls b)"

definition fields_step :: "floats \<Rightarrow> yaml step \<Rightarrow> ((string \<times> yaml) list \<Rightarrow> (string \<times> yaml) list step) \<Rightarrow> (string \<times> yaml) list \<Rightarrow> (string \<times> yaml) list step" where
  "fields_step fl block flds m ls0 b =
     (case ls0 of
        [] \<Rightarrow> Some (m, [])
      | l # ls \<Rightarrow>
          if liIndent l \<le> b \<or> has_prefix (liText l) ''- '' then Some (m, l # ls)
          else if contains (liText l) '':''
          then (case key_value (liText l) of (k, v) \<Rightarrow>
                  if v \<noteq> '''' then flds (AList.update k (parseYAMLValue fl v) m) ls b
                  else if deeper ls (liIndent l)
                  then do {(sub, rest) \<leftarrow> block ls (liIndent (hd ls)); flds (AList.update k sub m) rest b}
                  else flds m ls b)
          else flds m ls b)"

definition entries_step :: "floats \<Rightarrow> yaml step \<Rightarrow> ((string \<times> yaml) list \<Rightarrow> yaml step) \<Rightarrow> (string \<times> yaml) list \<Rightarrow> yaml step" where
  "entries_step fl block entries m ls0 b =
     (case ls0 of
        [] \<Rightarrow> Some (YMap m, [])
      | l # ls \<Rightarrow>
          if liIndent l \<noteq> b then Some (YMap m, l # ls)
          else if \<not> contains (liText l) '':'' then entries m ls b
          else case key_value (liText l) of (k, v) \<Rightarrow>
            if v \<noteq> '''' then entries (AList.update k (parseYAMLValue fl v) m) ls b
            else if deeper ls b
            then do {(sub, rest) \<leftarrow> block ls (liIndent (hd ls)); entries (AList.update k sub m) rest b}
            else entries (AList.update k YNull m) ls b)"

definition block_step :: "(yaml list \<Rightarrow> yaml step) \<Rightarrow> ((string \<times> yaml) list \<Rightarrow> yaml step) \<Rightarrow> yaml step" where
  "block_step items entries ls b =
     (case ls of [] \<Rightarrow> Some (YNull, []) | l # _ \<Rightarrow> if is_item l then items [] ls b else entries [] ls b)"

fun yaml_block :: "floats \<Rightarrow> nat \<Rightarrow> yaml step"
  and yaml_items :: "floats \<Rightarrow> nat \<Rightarrow> yaml list \<Rightarrow> yaml step"
  and yaml_fields :: "floats \<Rightarrow> nat \<Rightarrow> (string \<times> yaml) list \<Rightarrow> (string \<times> yaml) list step"
  and yaml_entries :: "floats \<Rightarrow> nat \<Rightarrow> (string \<times> yaml) list \<Rightarrow> yaml step" where
  "yaml_block fl 0 = (\<lambda>_ _. None)"
| "yaml_block fl (Suc n) = block_step (yaml_items fl n) (yaml_entries fl n)"
| "yaml_items fl 0 = (\<lambda>_ _ _. None)"
| "yaml_items fl (Suc n) = items_step fl (yaml_block fl n) (yaml_items fl n) (yaml_fields fl n)"
| "yaml_fields fl 0 = (\<lambda>_ _ _. None)"
| "yaml_fields fl (Suc n) = fields_step fl (yaml_block fl n) (yaml_fields fl n)"
| "yaml_entries fl 0 = (\<lambda>_ _ _. None)"
| "yaml_entries fl (Suc n) = entries_step fl (yaml_block fl n) (yaml_entries fl n)"

definition block_fuel :: "lineInfo list \<Rightarrow> nat" where
  "block_fuel ls = 2 * length ls + 2"

definition parseYAMLBlock :: "floats \<Rightarrow> lineInfo list \<Rightarrow> nat \<Rightarrow> yaml \<times> lineInfo list" where
  "parseYAMLBlock fl ls b = (case yaml_block fl (block_fuel ls) ls b of None \<Rightarrow> (YNull, ls) | Some r \<Rightarrow> r)"

definition ParseBasicYAML :: "floats \<Rightarrow> string \<Rightarrow> goerror + (string \<times> yaml) list" where
  "ParseBasicYAML fl yamlStr =
     (case scan_lines yamlStr of (raw, too_long) \<Rightarrow>
        let ls = List.map_filter yaml_line raw in
        if too_long then Inl err_too_long
        else case ls of
          [] \<Rightarrow> Inr []
        | l # _ \<Rightarrow>
            (case fst (parseYAMLBlock fl ls (liIndent l)) of
               YMap m \<Rightarrow> Inr m
             | _ \<Rightarrow> Inl (errorf ''root YAML block must be a mapping'')))"

section \<open>The parser always returns\<close>

lemmas step_defs = block_step_def items_step_def fields_step_def entries_step_def

text \<open>A result whose rest is a tail of the lines.\<close>

definition consumes :: "('a \<times> lineInfo list) option \<Rightarrow> lineInfo list \<Rightarrow> bool" where
  "consumes r ls \<longleftrightarrow> (\<exists>v used rest. r = Some (v, rest) \<and> ls = used @ rest)"

lemma consumes_Some [simp]: "consumes (Some (v, ls)) ls"
  by (simp add: consumes_def)

lemma consumes_Cons: "consumes r ls \<Longrightarrow> consumes r (l # ls)"
  by (auto simp: consumes_def)

lemma consumes_bind:
  assumes "consumes r ls" "\<And>v rest. r = Some (v, rest) \<Longrightarrow> length rest \<le> length ls \<Longrightarrow> consumes (f (v, rest)) rest"
  shows "consumes (Option.bind r f) ls"
proof -
  obtain v used rest where r: "r = Some (v, rest)" "ls = used @ rest" using assms(1) by (auto simp: consumes_def)
  then have "consumes (f (v, rest)) rest" using assms(2) by simp
  then obtain v' used' rest' where "f (v, rest) = Some (v', rest')" "rest = used' @ rest'" by (auto simp: consumes_def)
  then show ?thesis using r by (auto simp: consumes_def)
qed

lemma items_step_consumes:
  assumes "\<And>b. consumes (block ls b) ls" "\<And>acc rest. length rest \<le> length ls \<Longrightarrow> consumes (items acc rest b) rest"
    "\<And>m rest. length rest \<le> length ls \<Longrightarrow> consumes (flds m rest b) rest"
  shows "consumes (items_step fl block items flds acc (l # ls) b) (l # ls)"
proof -
  obtain k v where kv: "key_value (item_text l) = (k, v)" by force
  have first: "consumes (if v \<noteq> '''' then Some ([(k, parseYAMLValue fl v)], ls)
      else if deeper ls b then Option.bind (block ls (liIndent (hd ls))) (\<lambda>(sub, rest). Some ([(k, sub)], rest))
      else Some ([], ls)) ls"
    using assms(1) by (auto intro!: consumes_bind)
  have rest: "consumes (Option.bind (flds m rest b) (\<lambda>(m', rest'). items (acc' @ [YMap m']) rest' b)) rest"
    if "length rest \<le> length ls" for m acc' rest
    using that assms(2,3) by (auto intro!: consumes_bind)
  show ?thesis
    using assms by (auto simp: items_step_def kv intro!: consumes_Cons consumes_bind first rest)
qed

lemma fields_step_consumes:
  assumes "\<And>b. consumes (block ls b) ls" "\<And>m rest. length rest \<le> length ls \<Longrightarrow> consumes (flds m rest b) rest"
  shows "consumes (fields_step fl block flds m (l # ls) b) (l # ls)"
  using assms by (auto simp: fields_step_def intro!: consumes_Cons consumes_bind split: prod.split)

lemma entries_step_consumes:
  assumes "\<And>b. consumes (block ls b) ls" "\<And>m rest. length rest \<le> length ls \<Longrightarrow> consumes (entries m rest b) rest"
  shows "consumes (entries_step fl block entries m (l # ls) b) (l # ls)"
  using assms by (auto simp: entries_step_def intro!: consumes_Cons consumes_bind split: prod.split)

lemma yaml_total:
  "2 * length ls + 2 \<le> n \<Longrightarrow> consumes (yaml_block fl n ls b) ls"
  "2 * length ls + 1 \<le> n \<Longrightarrow> consumes (yaml_items fl n acc ls b) ls"
  "2 * length ls + 1 \<le> n \<Longrightarrow> consumes (yaml_fields fl n m ls b) ls"
  "2 * length ls + 1 \<le> n \<Longrightarrow> consumes (yaml_entries fl n m ls b) ls"
proof (induction n arbitrary: ls b acc m)
  case (Suc n)
  { case 1
    then show ?case using Suc.IH(2,4) by (cases ls) (auto simp: block_step_def) }
  { case 2
    then show ?case
      by (cases ls) (auto simp: items_step_def [of _ _ _ _ _ "[]"] intro!: items_step_consumes Suc.IH(1-3)) }
  { case 3
    then show ?case
      by (cases ls) (auto simp: fields_step_def [of _ _ _ _ "[]"] intro!: fields_step_consumes Suc.IH(1,3)) }
  { case 4
    then show ?case
      by (cases ls) (auto simp: entries_step_def [of _ _ _ _ "[]"] intro!: entries_step_consumes Suc.IH(1,4)) }
qed simp_all

text \<open>More fuel does not change a result: every step is monotone in the calls it makes.\<close>

lemma bind_SomeE: "Option.bind r f = Some y \<Longrightarrow> (\<And>x. r = Some x \<Longrightarrow> f x = Some y \<Longrightarrow> thesis) \<Longrightarrow> thesis"
  by (cases r) auto

lemma yaml_more_fuel:
  "yaml_block fl n ls b = Some r \<Longrightarrow> yaml_block fl (Suc n) ls b = Some r"
  "yaml_items fl n acc ls b = Some r \<Longrightarrow> yaml_items fl (Suc n) acc ls b = Some r"
  "yaml_fields fl n m ls b = Some s \<Longrightarrow> yaml_fields fl (Suc n) m ls b = Some s"
  "yaml_entries fl n m ls b = Some r \<Longrightarrow> yaml_entries fl (Suc n) m ls b = Some r"
proof (induction n arbitrary: ls b acc m r s)
  case (Suc n)
  have items: "items_step fl bl it fi acc ls b = Some r \<Longrightarrow> (\<And>ls b r. bl ls b = Some r \<Longrightarrow> bl' ls b = Some r)
      \<Longrightarrow> (\<And>acc ls b r. it acc ls b = Some r \<Longrightarrow> it' acc ls b = Some r) \<Longrightarrow> (\<And>m ls b r. fi m ls b = Some r \<Longrightarrow> fi' m ls b = Some r)
      \<Longrightarrow> items_step fl bl' it' fi' acc ls b = Some r" for bl bl' it it' fi fi' acc ls b r
    by (cases ls; cases r) (auto simp: items_step_def split: if_splits prod.splits elim!: bind_SomeE)
  have fields: "fields_step fl bl fi m ls b = Some r \<Longrightarrow> (\<And>ls b r. bl ls b = Some r \<Longrightarrow> bl' ls b = Some r)
      \<Longrightarrow> (\<And>m ls b r. fi m ls b = Some r \<Longrightarrow> fi' m ls b = Some r) \<Longrightarrow> fields_step fl bl' fi' m ls b = Some r" for bl bl' fi fi' m ls b r
    by (cases ls; cases r) (auto simp: fields_step_def split: if_splits prod.splits elim!: bind_SomeE)
  have entries: "entries_step fl bl en m ls b = Some r \<Longrightarrow> (\<And>ls b r. bl ls b = Some r \<Longrightarrow> bl' ls b = Some r)
      \<Longrightarrow> (\<And>m ls b r. en m ls b = Some r \<Longrightarrow> en' m ls b = Some r) \<Longrightarrow> entries_step fl bl' en' m ls b = Some r" for bl bl' en en' m ls b r
    by (cases ls; cases r) (auto simp: entries_step_def split: if_splits prod.splits elim!: bind_SomeE)
  { case 1
    then show ?case using Suc.IH(2,4)
      by (cases ls) (auto simp: block_step_def simp del: yaml_items.simps yaml_entries.simps split: if_splits) }
  { case 2
    then have "items_step fl (yaml_block fl n) (yaml_items fl n) (yaml_fields fl n) acc ls b = Some r" by simp
    from items [OF this Suc.IH(1-3)] show ?case by (simp only: yaml_items.simps(2)) }
  { case 3
    then have "fields_step fl (yaml_block fl n) (yaml_fields fl n) m ls b = Some s" by simp
    from fields [OF this Suc.IH(1) Suc.IH(3)] show ?case by (simp only: yaml_fields.simps(2)) }
  { case 4
    then have "entries_step fl (yaml_block fl n) (yaml_entries fl n) m ls b = Some r" by simp
    from entries [OF this Suc.IH(1) Suc.IH(4)] show ?case by (simp only: yaml_entries.simps(2)) }
qed simp_all

text \<open>
  C20: The YAML parser always returns. On any lines and at any indentation, with fuel for twice the
  lines the block parser gives a value and leaves a tail of the lines, and no larger fuel changes the
  outcome: the loops and nested blocks of the code end, and they only move forward.
\<close>

theorem yaml_block_total:
  "\<exists>v used rest. parseYAMLBlock fl ls b = (v, rest) \<and> ls = used @ rest
     \<and> (\<forall>k. yaml_block fl (block_fuel ls + k) ls b = Some (v, rest))"
proof -
  obtain v used rest where r: "yaml_block fl (block_fuel ls) ls b = Some (v, rest)" "ls = used @ rest"
    using yaml_total(1) [of ls "block_fuel ls"] unfolding consumes_def block_fuel_def by blast
  have "yaml_block fl (block_fuel ls + k) ls b = Some (v, rest)" for k
    by (induction k) (use r yaml_more_fuel(1) in \<open>simp_all del: yaml_block.simps\<close>)
  then show ?thesis using r by (simp add: parseYAMLBlock_def)
qed

lemma trim_runes_space: "trim_runes space_runes (CHR '' '' # s) = trim_runes space_runes s"
proof -
  have find: "List.find (\<lambda>r. r \<noteq> [] \<and> has_prefix (CHR '' '' # s) r) rs = Some '' ''"
    if "list_all (\<lambda>r. r \<noteq> [] \<and> (hd r = CHR '' '' \<longrightarrow> r = '' '')) rs" "'' '' \<in> set rs" for rs
    using that
  proof (induction rs)
    case (Cons r rs)
    show ?case
    proof (cases "r = '' ''")
      case False
      then have "\<not> has_prefix (CHR '' '' # s) r" using Cons.prems by (cases r) (auto simp: has_prefix_iff)
      then show ?thesis using Cons False by simp
    qed (simp add: has_prefix_iff)
  qed simp
  have "list_all (\<lambda>r. r \<noteq> [] \<and> (hd r = CHR '' '' \<longrightarrow> r = '' '')) space_runes" by (simp add: space_runes_def) (simp add: char_of_def)
  moreover have "'' '' \<in> set space_runes" by code_simp
  ultimately show ?thesis by (subst trim_runes.simps) (simp add: find)
qed

lemma TrimSpace_space: "TrimSpace (CHR '' '' # s) = TrimSpace s"
  by (simp add: TrimSpace_def trim_runes_space)

lemma TrimSpace_Nil: "TrimSpace '''' = ''''"
  by (rule TrimSpace_id) (simp_all add: space_runes_def has_prefix_def)

section \<open>What a mapping keeps\<close>

text \<open>
  A line of a mapping that needs no block below it, and what reading it does to the mapping.
\<close>

definition scalar_line :: "nat \<Rightarrow> lineInfo \<Rightarrow> bool" where
  "scalar_line b l \<longleftrightarrow> liIndent l = b \<and> (contains (liText l) '':'' \<longrightarrow> snd (key_value (liText l)) \<noteq> '''')"

definition store_line :: "floats \<Rightarrow> (string \<times> yaml) list \<Rightarrow> lineInfo \<Rightarrow> (string \<times> yaml) list" where
  "store_line fl m l =
     (if contains (liText l) '':''
      then (case key_value (liText l) of (k, v) \<Rightarrow> AList.update k (parseYAMLValue fl v) m)
      else m)"

lemma entries_scalars:
  "list_all (scalar_line b) pre \<Longrightarrow>
     yaml_entries fl (length pre + n) m (pre @ ls) b = yaml_entries fl n (foldl (store_line fl) m pre) ls b"
proof (induction pre arbitrary: m)
  case (Cons l pre)
  obtain k v where kv: "key_value (liText l) = (k, v)" by force
  have "yaml_entries fl (Suc (length pre + n)) m (l # pre @ ls) b
      = yaml_entries fl (length pre + n) (store_line fl m l) (pre @ ls) b"
    using Cons.prems kv by (auto simp: entries_step_def scalar_line_def store_line_def)
  then show ?case using Cons by simp
qed simp

lemma entries_end:
  "n > 0 \<Longrightarrow> ls = [] \<or> liIndent (hd ls) \<noteq> b \<Longrightarrow> yaml_entries fl n m ls b = Some (YMap m, ls)"
  by (cases n; cases ls) (auto simp: entries_step_def)

lemma block_scalars:
  assumes "list_all (scalar_line b) pre" "pre \<noteq> []" "\<not> is_item (hd pre)" "ls = [] \<or> liIndent (hd ls) \<noteq> b"
  shows "parseYAMLBlock fl (pre @ ls) b = (YMap (foldl (store_line fl) [] pre), ls)"
proof -
  define n where "n = length pre + 2 * length ls + 1"
  have fuel: "block_fuel (pre @ ls) = Suc (length pre + n)" by (simp add: block_fuel_def n_def)
  have "yaml_entries fl (length pre + n) [] (pre @ ls) b = Some (YMap (foldl (store_line fl) [] pre), ls)"
    unfolding entries_scalars [OF assms(1)] by (rule entries_end) (use assms(4) in \<open>simp_all add: n_def\<close>)
  then show ?thesis
    using assms(2,3) unfolding parseYAMLBlock_def fuel by (cases pre) (auto simp: block_step_def)
qed

section \<open>A flat mapping is read back\<close>

definition flat_line :: "string \<times> string \<Rightarrow> string" where
  "flat_line kv = fst kv @ '': '' @ dquote # snd kv @ [dquote]"

definition flat_ok :: "string \<times> string \<Rightarrow> bool" where
  "flat_ok kv \<longleftrightarrow>
     fst kv \<noteq> [] \<and> solid (hd (fst kv)) \<and> solid (last (fst kv)) \<and> hd (fst kv) \<noteq> CHR ''-''
     \<and> set (fst kv) \<inter> {newline, CHR '':'', CHR ''#'', dquote, CHR 0x27} = {}
     \<and> set (snd kv) \<inter> {newline, dquote} = {} \<and> length (fst kv) + length (snd kv) + 4 < MaxScanTokenSize"

lemma raw_lines_join: "\<forall>l \<in> set ls. l \<noteq> [] \<and> newline \<notin> set l \<Longrightarrow> raw_lines (join_lines ls) = ls"
proof (induction ls rule: join_lines.induct)
  case (2 l)
  have "raw_lines_acc acc l = [rev acc @ l]" if "newline \<notin> set l" "acc \<noteq> [] \<or> l \<noteq> []" for acc
    using that by (induction l arbitrary: acc) auto
  from this [of "[]"] 2 show ?case by (simp add: raw_lines_def)
qed (auto simp: raw_lines_def raw_lines_acc_line)

lemma strip_comment_plain:
  "set s \<inter> {CHR ''#'', dquote, CHR 0x27} = {} \<Longrightarrow> strip_comment None (s @ t) = s @ strip_comment None t"
  by (induction s) auto

lemma strip_comment_quoted:
  "dquote \<notin> set s \<Longrightarrow> strip_comment (Some dquote) (s @ dquote # t) = s @ dquote # strip_comment None t"
  by (induction s) (auto simp: dquote_def)

lemma solid_dquote: "solid dquote"
  by (simp add: solid_def dquote_def)

lemma flat_line_lines: "flat_ok kv \<Longrightarrow> newline \<notin> set (flat_line kv)"
  by (auto simp: flat_ok_def flat_line_def) (auto simp: newline_def dquote_def)

lemma flat_line_read:
  assumes "flat_ok kv"
  shows "yaml_line (flat_line kv) = Some \<lparr>liIndent = 0, liText = flat_line kv\<rparr>"
proof -
  obtain k v where kv: "kv = (k, v)" by force
  have k: "k \<noteq> []" "solid (hd k)" "set k \<inter> {CHR ''#'', dquote, CHR 0x27} = {}" and v: "dquote \<notin> set v"
    using assms kv by (auto simp: flat_ok_def)
  have "set (k @ '': '') \<inter> {CHR ''#'', dquote, CHR 0x27} = {}" using k(3) by (auto simp: dquote_def)
  from strip_comment_plain [OF this] strip_comment_quoted [OF v, of "[]"]
  have strip: "stripYAMLComment (flat_line kv) = flat_line kv"
    by (simp add: stripYAMLComment_def flat_line_def kv)
  have trim: "TrimSpace (flat_line kv) = flat_line kv"
    using k by (intro TrimSpace_solid) (auto simp: flat_line_def kv solid_dquote)
  obtain c k' where c: "k = c # k'" using k(1) by (cases k) auto
  then have "c \<noteq> CHR '' ''" using k(2) by (auto simp: solid_def)
  then show ?thesis using strip trim by (simp add: yaml_line_def Let_def flat_line_def kv c)
qed

lemma flat_line_key_value:
  assumes "flat_ok kv"
  shows "key_value (flat_line kv) = (fst kv, dquote # snd kv @ [dquote])"
proof -
  obtain k v where kv: "kv = (k, v)" by force
  have k: "k \<noteq> []" "solid (hd k)" "solid (last k)" "CHR '':'' \<notin> set k" using assms kv by (auto simp: flat_ok_def)
  have split: "split_at CHR '':'' (k @ '':'' @ t) = (k, t)" for t
    using k(4) by (induction k) (auto simp: split_at_def)
  have "TrimSpace (CHR '' '' # dquote # v @ [dquote]) = TrimSpace (dquote # v @ [dquote])"
    by (rule TrimSpace_space)
  also have "\<dots> = dquote # v @ [dquote]" by (rule TrimSpace_solid) (auto simp: solid_dquote)
  finally show ?thesis
    using split [of "CHR '' '' # dquote # v @ [dquote]"] TrimSpace_solid [OF k(1-3)]
    by (simp add: key_value_def flat_line_def kv)
qed

lemma parse_quoted: "parseYAMLValue fl (dquote # v @ [dquote]) = YStr v"
proof -
  have "TrimSpace (dquote # v @ [dquote]) = dquote # v @ [dquote]" by (rule TrimSpace_solid) (auto simp: solid_dquote)
  moreover have "quoted (dquote # v @ [dquote])" by (simp add: quoted_def has_prefix_def has_suffix_def)
  ultimately show ?thesis by (simp add: parseYAMLValue_def butlast_append)
qed

lemma flat_line_scalar:
  assumes "flat_ok kv"
  defines "l \<equiv> \<lparr>liIndent = 0, liText = flat_line kv\<rparr>"
  shows "scalar_line 0 l" "\<not> is_item l" "store_line fl m l = AList.update (fst kv) (YStr (snd kv)) m"
proof -
  have c: "contains (flat_line kv) '':''" unfolding contains_iff by (auto simp: flat_line_def)
  show "scalar_line 0 l" "store_line fl m l = AList.update (fst kv) (YStr (snd kv)) m"
    using flat_line_key_value [OF assms(1)] c by (simp_all add: scalar_line_def store_line_def l_def parse_quoted)
  show "\<not> is_item l"
    using assms(1) by (cases kv; cases "fst kv") (auto simp: is_item_def l_def flat_line_def flat_ok_def has_prefix_iff)
qed

lemma update_fresh: "k \<notin> fst ` set m \<Longrightarrow> AList.update k v m = m @ [(k, v)]"
  by (induction m) auto

lemma foldl_update_flat:
  "distinct (map fst kvs) \<Longrightarrow> fst ` set kvs \<inter> fst ` set m = {} \<Longrightarrow>
     foldl (\<lambda>m kv. AList.update (fst kv) (f (snd kv)) m) m kvs = m @ map (\<lambda>kv. (fst kv, f (snd kv))) kvs"
  by (induction kvs arbitrary: m) (auto simp: update_fresh)

lemma flat_yaml:
  assumes ok: "list_all flat_ok kvs" and dist: "distinct (map fst kvs)"
  shows "ParseBasicYAML fl (join_lines (map flat_line kvs)) = Inr (map (\<lambda>kv. (fst kv, YStr (snd kv))) kvs)"
proof -
  define info where "info = (\<lambda>kv. \<lparr>liIndent = 0, liText = flat_line kv\<rparr>)"
  have "raw_lines (join_lines (map flat_line kvs)) = map flat_line kvs"
    using ok by (intro raw_lines_join) (auto simp: list_all_iff flat_line_lines, simp add: flat_line_def)
  moreover have "scan_raw (map flat_line kvs) = (map flat_line kvs, False)"
    using ok by (intro scan_raw_short)
      (auto simp: list_all_iff flat_ok_def drop_cr_def, auto simp: flat_line_def dquote_def carriage_return_def)
  ultimately have scan: "scan_lines (join_lines (map flat_line kvs)) = (map flat_line kvs, False)"
    by (simp add: scan_lines_def)
  have lines: "List.map_filter yaml_line (map flat_line kvs) = map info kvs"
    using ok by (induction kvs) (auto simp: map_filter_simps flat_line_read info_def)
  have fold: "foldl (store_line fl) m (map info kvs) = foldl (\<lambda>m kv. AList.update (fst kv) (YStr (snd kv)) m) m kvs" for m
    using ok by (induction kvs arbitrary: m) (auto simp: flat_line_scalar(3) info_def)
  show ?thesis
  proof (cases kvs)
    case (Cons kv rest)
    have "parseYAMLBlock fl (map info kvs @ []) 0 = (YMap (foldl (store_line fl) [] (map info kvs)), [])"
      using ok Cons by (intro block_scalars) (auto simp: list_all_iff info_def flat_line_scalar)
    moreover have "liIndent (info kv) = 0" by (simp add: info_def)
    ultimately show ?thesis
      using foldl_update_flat [OF dist, of "[]" YStr] by (simp add: ParseBasicYAML_def scan lines fold) (simp add: Cons)
  qed (use scan lines in \<open>simp add: ParseBasicYAML_def\<close>)
qed

text \<open>
  C23: A flat mapping is read back. A text of lines \<open>key: "value"\<close> with distinct plain keys and any
  values without quotes and line breaks, as short as the scanner allows, parses to exactly these
  keys and values in their order; a hash, a colon or a number inside the quotes stays part of the
  value.
\<close>

theorem yaml_flat_roundtrip:
  assumes "list_all flat_ok kvs" "distinct (map fst kvs)"
  shows "ParseBasicYAML fl (join_lines (map flat_line kvs)) = Inr (map (\<lambda>kv. (fst kv, YStr (snd kv))) kvs)"
  by (rule flat_yaml) fact+

theorem yaml_flat_roundtrip_witness:
  "ParseBasicYAML \<lparr>flParse = \<lambda>_. None, flPrint = \<lambda>_. ''0''\<rparr>
     (join_lines (map flat_line [(''hmac_secret'', ''a#b: c''), (''lock_dir'', ''/run/locks'')]))
   = Inr [(''hmac_secret'', YStr ''a#b: c''), (''lock_dir'', YStr ''/run/locks'')]"
proof -
  have "list_all flat_ok [(''hmac_secret'', ''a#b: c''), (''lock_dir'', ''/run/locks'')]"
    by (simp add: flat_ok_def solid_def newline_def dquote_def MaxScanTokenSize_def)
  from yaml_flat_roundtrip [OF this] show ?thesis by simp
qed

end
