(* ===== verification/Go_Duration.thy ===== *)
theory Go_Duration
  imports Runbook_Cfg
begin

text \<open>
  What \<open>internal/config/config.go\<close> uses of \<open>float64\<close> arithmetic and of \<open>time.ParseDuration\<close>: rounding
  to a float, the value of a JSON number, the conversion to an integer, and the reader of durations,
  whose loop ends because every number with its unit shortens the text.
\<close>

section \<open>Floating point\<close>

text \<open>
  A finite \<open>float64\<close> is a rational; \<open>float64\<close> rounds a rational to the nearest one, ties to
  even, with 53 significant bits and the smallest exponent of the subnormal numbers. Overflow is
  checked where a number is read.
\<close>

definition pow2 :: "int \<Rightarrow> rat" where
  "pow2 e = (if e \<ge> 0 then 2 ^ nat e else 1 / 2 ^ nat (- e))"

definition round_even :: "rat \<Rightarrow> int" where
  "round_even x =
     (let f = \<lfloor>x\<rfloor>; d = x - of_int f in
      if d < 1 / 2 \<or> d = 1 / 2 \<and> even f then f else f + 1)"

function bits :: "int \<Rightarrow> int" where
  "bits n = (if n \<le> 0 then 0 else 1 + bits (n div 2))"
  by pat_completeness auto
termination
  by (relation "measure nat") auto

declare bits.simps [simp del]

text \<open>The exponent of the leading binary digit of a positive rational.\<close>

definition exponent :: "rat \<Rightarrow> int" where
  "exponent x =
     (case quotient_of x of (p, q) \<Rightarrow>
        let e = bits p - bits q in if pow2 e \<le> x then e else e - 1)"

definition float64 :: "rat \<Rightarrow> rat" where
  "float64 x =
     (if x = 0 then 0
      else let u = pow2 (max (exponent \<bar>x\<bar>) (- 1022) - 52) in of_int (round_even (x / u)) * u)"

text \<open>A number literal of JSON as \<open>json.Unmarshal\<close> stores it in a \<open>float64\<close>.\<close>

definition literal_value :: "string \<Rightarrow> rat" where
  "literal_value l =
     (let s = trim_prefix l ''-''; i = takeWhile is_digit s; r1 = dropWhile is_digit s;
          f = (if has_prefix r1 ''.'' then takeWhile is_digit (tl r1) else '''');
          r2 = (if has_prefix r1 ''.'' then dropWhile is_digit (tl r1) else r1);
          e = (case r2 of [] \<Rightarrow> 0 | _ # t \<Rightarrow>
                 if has_prefix t ''-'' then - int_of_digits (tl t) else int_of_digits (trim_prefix t ''+''));
          ex = e - int (length f); m = of_int (int_of_digits (i @ f)) :: rat;
          v = (if ex \<ge> 0 then m * 10 ^ nat ex else m / 10 ^ nat (- ex)) in
      if has_prefix l ''-'' then - v else v)"

definition decode_float64 :: "string \<Rightarrow> json \<Rightarrow> goerror + rat option" where
  "decode_float64 field v =
     (case v of
        JNull \<Rightarrow> Inr None
      | JNum l \<Rightarrow>
          if float_in_range l then Inr (Some (float64 (literal_value l)))
          else Inl (type_error (''number '' @ l) field ''float64'')
      | _ \<Rightarrow> Inl (type_error (json_kind v) field ''float64''))"

text \<open>
  The conversion of a \<open>float64\<close> to a 64-bit integer truncates; out of range the instruction of the
  amd64 processor gives the least integer.
\<close>

definition int64_of_float :: "rat \<Rightarrow> int" where
  "int64_of_float x =
     (let t = (if x < 0 then - \<lfloor>- x\<rfloor> else \<lfloor>x\<rfloor>) in if min_int64 \<le> t \<and> t \<le> max_int64 then t else min_int64)"

section \<open>Durations\<close>

text \<open>The quotation of the package \<open>time\<close>: every control byte and byte of a longer rune in hex.\<close>

definition time_quote :: "string \<Rightarrow> string" where
  "time_quote s =
     [dquote] @ concat (map (\<lambda>c. if c = dquote \<or> c = backslash then [backslash, c]
                                 else let n = of_char c :: int in
                                      if n < 32 \<or> 128 \<le> n then backslash # ''x'' @ hex_byte c else [c]) s) @ [dquote]"

definition invalid_duration :: "string \<Rightarrow> goerror" where
  "invalid_duration orig = errorf (''time: invalid duration '' @ time_quote orig)"

text \<open>
  The fraction of a number: its digits as an integer with the power of ten, a float, they are over.
  Digits that no longer fit are dropped.
\<close>

fun leadingFraction :: "bool \<Rightarrow> int \<Rightarrow> rat \<Rightarrow> string \<Rightarrow> int \<times> rat" where
  "leadingFraction over x scale [] = (x, scale)"
| "leadingFraction over x scale (c # cs) =
     (let y = x * 10 + (of_char c - 48) in
      if over \<or> x > (2 ^ 63 - 1) div 10 \<or> y > 2 ^ 63 then leadingFraction True x scale cs
      else leadingFraction False y (float64 (scale * 10)) cs)"

definition unitMap :: "(string \<times> int) list" where
  "unitMap =
     [(''ns'', 1), (''us'', 1000), (CHR 0xC2 # CHR 0xB5 # ''s'', 1000), (CHR 0xCE # CHR 0xBC # ''s'', 1000),
      (''ms'', Millisecond), (''s'', Second), (''m'', Minute), (''h'', Hour)]"

definition in_number :: "char \<Rightarrow> bool" where
  "in_number c \<longleftrightarrow> c = CHR ''.'' \<or> is_digit c"

text \<open>One number with its unit, in nanoseconds, and the rest of the text.\<close>

definition duration_part :: "string \<Rightarrow> string \<Rightarrow> goerror + (int \<times> string)" where
  "duration_part orig s =
     (let ds = takeWhile is_digit s; s1 = dropWhile is_digit s; v = int_of_digits ds;
          dot = has_prefix s1 ''.'';
          fs = (if dot then takeWhile is_digit (tl s1) else '''');
          s2 = (if dot then dropWhile is_digit (tl s1) else s1);
          u = takeWhile (\<lambda>c. \<not> in_number c) s2; rest = dropWhile (\<lambda>c. \<not> in_number c) s2 in
      if v > 2 ^ 63 \<or> ds = [] \<and> fs = [] then Inl (invalid_duration orig)
      else if u = [] then Inl (errorf (''time: missing unit in duration '' @ time_quote orig))
      else case map_of unitMap u of
        None \<Rightarrow> Inl (errorf (''time: unknown unit '' @ time_quote u @ '' in duration '' @ time_quote orig))
      | Some unit \<Rightarrow>
          if v > 2 ^ 63 div unit then Inl (invalid_duration orig)
          else (case leadingFraction False 0 1 fs of (f, scale) \<Rightarrow>
                  let v' = (if f > 0 then v * unit + \<lfloor>float64 (float64 (of_int f) * float64 (of_int unit / scale))\<rfloor> else v * unit) in
                  if v' > 2 ^ 63 then Inl (invalid_duration orig) else Inr (v', rest)))"

lemma duration_part_shorter:
  assumes "duration_part orig s = Inr (v, rest)"
  shows "length rest < length s"
proof -
  define s1 where "s1 = dropWhile is_digit s"
  define s2 where "s2 = (if has_prefix s1 ''.'' then dropWhile is_digit (tl s1) else s1)"
  have l1: "length s1 \<le> length s" unfolding s1_def by (rule length_dropWhile_le)
  have l2: "length s2 \<le> length s1"
    using length_dropWhile_le [of is_digit "tl s1"] by (auto simp: s2_def)
  have u: "takeWhile (\<lambda>c. \<not> in_number c) s2 \<noteq> []" and rest: "rest = dropWhile (\<lambda>c. \<not> in_number c) s2"
    using assms by (auto simp: duration_part_def Let_def s1_def s2_def split: if_splits option.splits prod.splits)
  have "length s2 = length (takeWhile (\<lambda>c. \<not> in_number c) s2) + length rest"
    unfolding rest by (metis length_append takeWhile_dropWhile_id)
  then show ?thesis using u l1 l2 by (cases "takeWhile (\<lambda>c. \<not> in_number c) s2") auto
qed

function duration_loop :: "string \<Rightarrow> string \<Rightarrow> int \<Rightarrow> goerror + int" where
  "duration_loop orig s d =
     (if s = [] then Inr d
      else case duration_part orig s of
        Inl e \<Rightarrow> Inl e
      | Inr (v, rest) \<Rightarrow>
          let d' = (d + v) mod 2 ^ 64 in
          if d' > 2 ^ 63 then Inl (invalid_duration orig) else duration_loop orig rest d')"
  by pat_completeness auto
termination
  by (relation "measure (\<lambda>(_, s, _). length s)") (auto dest: duration_part_shorter)

declare duration_loop.simps [simp del]

definition ParseDuration :: "string \<Rightarrow> goerror + duration" where
  "ParseDuration orig =
     (let neg = has_prefix orig ''-''; s = (if neg \<or> has_prefix orig ''+'' then tl orig else orig) in
      if s = ''0'' then Inr 0
      else if s = '''' then Inl (invalid_duration orig)
      else case duration_loop orig s 0 of
        Inl e \<Rightarrow> Inl e
      | Inr d \<Rightarrow>
          if neg then Inr (int64 (- d)) else if d > 2 ^ 63 - 1 then Inl (invalid_duration orig) else Inr d)"

end
