(* ===== verification/Ingress_Poller.thy ===== *)
theory Ingress_Poller
  imports Config Runbook_Catalog Ingress_Metrics
begin

text \<open>
  \<open>internal/ingress/poller.go\<close>: the background monitor that checks disk space and services and
  raises alerts of its own.
\<close>

section \<open>The poller\<close>

record Poller =
  poInterval :: duration
  poPaths :: "PathConfig list"
  poServices :: "ServiceConfig list"
  poRunning :: bool
  poQuit :: bool

definition NewPoller :: "duration \<Rightarrow> PathConfig list \<Rightarrow> ServiceConfig list \<Rightarrow> Poller" where
  "NewPoller interval paths services =
     \<lparr>poInterval = (if interval \<le> 0 then 2 * Second else interval), poPaths = paths, poServices = services,
      poRunning = False, poQuit = False\<rparr>"

definition trim_dashes :: "string \<Rightarrow> string" where
  "trim_dashes s = rev (dropWhile (\<lambda>c. c = CHR ''-'') (rev (dropWhile (\<lambda>c. c = CHR ''-'') s)))"

definition sanitizeTag :: "string \<Rightarrow> string" where
  "sanitizeTag s0 =
     (let s = trim_dashes (replace_char CHR '':'' CHR ''-'' (replace_char CHR ''/'' CHR ''-'' s0)) in if s = '''' then ''root'' else s)"

definition disk_alert :: "PathConfig \<Rightarrow> rat \<Rightarrow> goerror option \<Rightarrow> time \<Rightarrow> time \<Rightarrow> Alert" where
  "disk_alert pc freePct err t1 t2 =
     \<lparr>alID = ''poller-disk-'' @ sanitizeTag (pcPath pc) @ ''-'' @ itoa (UnixNano t1),
      alFingerprint = ''disk-pressure-'' @ pcPath pc, alSource = ''autonomous-poller'', alResourceID = pcPath pc,
      alSeverity = SeverityHigh,
      alLabels = Some [(''alertname'', ''DiskVolumeSaturation''), (''runbook_id'', ''RBK-DISK-001''), (''resource'', pcPath pc)],
      alAnnotations = Some [(''min_free_pct'', fmt_2f (pcMinFreePct pc)), (''current_free_pct'', fmt_2f freePct), (''error'', fmt_err err)],
      alReceivedAt = t2, alHMACSignature = '''', alRawPayload = ''''\<rparr>"

definition poll_disk_path :: "order \<Rightarrow> PathConfig \<Rightarrow> host \<Rightarrow> host" where
  "poll_disk_path ord pc h =
     (if pcPath pc = '''' then h
      else case CheckDiskFree (pcPath pc) (pcMinFreePct pc) (hoWorld h) of
        ((passed, freePct, err), w1) \<Rightarrow>
          if err \<noteq> None \<or> \<not> passed
          then (let (t1, w2) = time_Now w1; (t2, w3) = time_Now w2 in snd (process ord (disk_alert pc freePct err t1 t2) (h\<lparr>hoWorld := w3\<rparr>)))
          else h\<lparr>hoWorld := w1\<rparr>)"

definition pollDiskPaths :: "order \<Rightarrow> Poller \<Rightarrow> host \<Rightarrow> host" where
  "pollDiskPaths ord p h = fold (poll_disk_path ord) (poPaths p) h"

text \<open>The probe of a service: the reason it is unhealthy, if it is.\<close>

definition probe_service :: "ServiceConfig \<Rightarrow> world \<Rightarrow> string option \<times> world" where
  "probe_service sc w =
     (if svHealthURL sc \<noteq> ''''
      then (case CheckHTTPHealth (svHealthURL sc) (1500 * Millisecond) 200 w of
              ((ok, hErr), w1) \<Rightarrow>
                if \<not> ok \<or> hErr \<noteq> None
                then (Some (''health check failed for '' @ svHealthURL sc @ '': '' @ fmt_err hErr), w1)
                else (None, w1))
      else if svPIDFile sc \<noteq> ''''
      then (case os_ReadFile (svPIDFile sc) w of
              (Inl rErr, w1) \<Rightarrow> (Some (''failed to read PID file '' @ svPIDFile sc @ '': '' @ err_msg rErr), w1)
            | (Inr pidData, w1) \<Rightarrow>
                (let (pid, pErr) = Atoi (TrimSpace pidData);
                     (alive, w2) = (if pErr \<noteq> None then (False, w1) else CheckProcessAlive pid w1) in
                 if pErr \<noteq> None \<or> \<not> alive then (Some (''process with PID '' @ itoa pid @ '' not alive''), w2) else (None, w2)))
      else (None, w))"

definition service_alert :: "ServiceConfig \<Rightarrow> string \<Rightarrow> time \<Rightarrow> time \<Rightarrow> Alert" where
  "service_alert sc reason t1 t2 =
     \<lparr>alID = ''poller-svc-'' @ sanitizeTag (svName sc) @ ''-'' @ itoa (UnixNano t1),
      alFingerprint = ''service-unhealthy-'' @ svName sc, alSource = ''autonomous-poller'', alResourceID = svName sc,
      alSeverity = SeverityCritical,
      alLabels = Some [(''alertname'', ''ServiceUnhealthyDeadlock''), (''runbook_id'', ''RBK-PROC-001''), (''service'', svName sc)],
      alAnnotations = Some [(''health_url'', svHealthURL sc), (''pid_file'', svPIDFile sc), (''reason'', reason)],
      alReceivedAt = t2, alHMACSignature = '''', alRawPayload = ''''\<rparr>"

definition poll_service :: "order \<Rightarrow> ServiceConfig \<Rightarrow> host \<Rightarrow> host" where
  "poll_service ord sc h =
     (if svName sc = '''' then h
      else case probe_service sc (hoWorld h) of
        (None, w1) \<Rightarrow> h\<lparr>hoWorld := w1\<rparr>
      | (Some reason, w1) \<Rightarrow>
          (let (t1, w2) = time_Now w1; (t2, w3) = time_Now w2 in snd (process ord (service_alert sc reason t1 t2) (h\<lparr>hoWorld := w3\<rparr>))))"

definition pollServices :: "order \<Rightarrow> Poller \<Rightarrow> host \<Rightarrow> host" where
  "pollServices ord p h = fold (poll_service ord) (poServices p) h"

definition PollOnce :: "order \<Rightarrow> Poller \<Rightarrow> host \<Rightarrow> host" where
  "PollOnce ord p h = pollServices ord p (pollDiskPaths ord p h)"

text \<open>
  The loop of the background goroutine on the events its \<open>select\<close> sees: a first poll, one poll
  per tick, and an end at the first cancellation or quit.
\<close>

datatype poll_event = Tick | CtxDone | QuitClosed

fun poll_events :: "order \<Rightarrow> Poller \<Rightarrow> poll_event list \<Rightarrow> host \<Rightarrow> host" where
  "poll_events ord p (Tick # evs) h = poll_events ord p evs (PollOnce ord p h)"
| "poll_events ord p _ h = h"

definition poller_loop :: "order \<Rightarrow> Poller \<Rightarrow> poll_event list \<Rightarrow> host \<Rightarrow> host" where
  "poller_loop ord p evs h = poll_events ord p evs (PollOnce ord p h)"

definition poller_Start :: "Poller \<Rightarrow> Poller" where
  "poller_Start p = (if poRunning p then p else p\<lparr>poRunning := True\<rparr>)"

text \<open>Closing the quit channel a second time would panic: \<^term>\<open>None\<close>.\<close>

definition poller_Stop :: "Poller \<Rightarrow> Poller option" where
  "poller_Stop p =
     (if \<not> poRunning p then Some p
      else if poQuit p then None
      else Some (p\<lparr>poRunning := False, poQuit := True\<rparr>))"

section \<open>Healthy systems are left alone\<close>

definition path_fine :: "world \<Rightarrow> PathConfig \<Rightarrow> bool" where
  "path_fine w pc \<longleftrightarrow> pcPath pc = '''' \<or> (\<forall>n. \<exists>bavail blocks. oStatfs w n (pcPath pc) = Inr (bavail, blocks) \<and> blocks \<noteq> 0
     \<and> of_int bavail / of_int blocks * 100 \<ge> pcMinFreePct pc)"

definition service_fine :: "world \<Rightarrow> ServiceConfig \<Rightarrow> bool" where
  "service_fine w sc \<longleftrightarrow> svName sc = '''' \<or> svHealthURL sc \<noteq> '''' \<and> (\<forall>n. oHttp w n (svHealthURL sc) (1500 * Millisecond) = Inr 200)
     \<or> svHealthURL sc = '''' \<and> svPIDFile sc = ''''"

text \<open>A poll that finds nothing only lets time pass.\<close>

definition idled :: "host \<Rightarrow> host \<Rightarrow> bool" where
  "idled h h' \<longleftrightarrow> (\<exists>n. h' = h\<lparr>hoWorld := (hoWorld h)\<lparr>steps := n\<rparr>\<rparr>)"

lemma idled_refl: "idled h h"
  unfolding idled_def by (rule exI [of _ "steps (hoWorld h)"]) simp

lemma idled_trans: "idled a b \<Longrightarrow> idled b c \<Longrightarrow> idled a c"
  unfolding idled_def by auto

lemma idled_step: "idled h (h\<lparr>hoWorld := next_step (hoWorld h)\<rparr>)"
  unfolding idled_def next_step_def by blast

lemma idled_fine: "idled h h' \<Longrightarrow> path_fine (hoWorld h') = path_fine (hoWorld h)" "idled h h' \<Longrightarrow> service_fine (hoWorld h') = service_fine (hoWorld h)"
  by (auto simp: idled_def path_fine_def service_fine_def fun_eq_iff)

lemma poll_disk_path_fine: "path_fine (hoWorld h) pc \<Longrightarrow> idled h (poll_disk_path ord pc h)"
proof (cases "pcPath pc = ''''")
  case False
  assume "path_fine (hoWorld h) pc"
  with False obtain a b where "oStatfs (hoWorld h) (steps (hoWorld h)) (pcPath pc) = Inr (a, b)" "b \<noteq> 0"
    "of_int a / of_int b * 100 \<ge> pcMinFreePct pc"
    unfolding path_fine_def by metis
  then show ?thesis using False idled_step [of h] by (simp add: poll_disk_path_def CheckDiskFree_def sys_Statfs_def)
qed (simp add: poll_disk_path_def idled_refl)

lemma poll_service_fine: "service_fine (hoWorld h) sc \<Longrightarrow> idled h (poll_service ord sc h)"
proof (cases "svName sc = '''' \<or> svHealthURL sc = ''''")
  case True
  assume "service_fine (hoWorld h) sc"
  with True show ?thesis by (auto simp: poll_service_def probe_service_def service_fine_def idled_refl)
next
  case False
  assume "service_fine (hoWorld h) sc"
  with False have "oHttp (hoWorld h) (steps (hoWorld h)) (svHealthURL sc) (1500 * Millisecond) = Inr 200"
    by (auto simp: service_fine_def)
  then show ?thesis
    using False idled_step [of h] by (simp add: poll_service_def probe_service_def CheckHTTPHealth_def http_Get_def Millisecond_def)
qed

lemma idled_fold:
  assumes "\<And>x h'. x \<in> set xs \<Longrightarrow> idled h h' \<Longrightarrow> idled h' (f x h')"
  shows "idled h (fold f xs h)"
  using assms
proof (induction xs arbitrary: h)
  case (Cons x xs)
  have "idled h (f x h)" using Cons.prems [of x h] idled_refl by simp
  moreover have "idled (f x h) (fold f xs (f x h))"
    by (rule Cons.IH) (use Cons.prems calculation idled_trans in auto)
  ultimately show ?case using idled_trans by simp
qed (simp add: idled_refl)

lemma PollOnce_fine:
  assumes "\<forall>pc \<in> set (poPaths p). path_fine (hoWorld h) pc" "\<forall>sc \<in> set (poServices p). service_fine (hoWorld h) sc"
  shows "idled h (PollOnce ord p h)"
proof -
  have 1: "idled h (pollDiskPaths ord p h)"
    unfolding pollDiskPaths_def
    by (rule idled_fold, rule poll_disk_path_fine) (use assms(1) idled_fine(1) in auto)
  have "idled (pollDiskPaths ord p h) (PollOnce ord p h)"
    unfolding PollOnce_def pollServices_def
    by (rule idled_fold, rule poll_service_fine) (use assms(2) idled_fine(2) [OF 1] idled_fine(2) in auto)
  with 1 show ?thesis by (rule idled_trans)
qed



section \<open>Which service the poller restarts\<close>

lemma hang_runbook_parts:
  "rbPreconditions (fst (DefaultServiceHangRecoveryRunbook cs w))
     = [custom_pre ''target-service-hang-asserted'' (hang_precheck (cellPID cs) (hang_normalize DefaultServiceHangConfig))]"
  "rbActions (fst (DefaultServiceHangRecoveryRunbook cs w))
     = [mutation ''escalation-ladder-termination-and-respawn'' (15 * Second) (hang_action (cellPID cs) (hang_normalize DefaultServiceHangConfig))]"
  by (simp_all add: DefaultServiceHangRecoveryRunbook_def NewServiceHangRecoveryRunbook_def Let_def)
    (simp add: hang_normalize_def DefaultServiceHangConfig_def Second_def Let_def)

lemma service_alert_match:
  assumes "register_all (fst (DefaultCatalog srt X cs w0)) e0 = (None, e)" "engRunbooks e0 = []"
  shows "match_runbook ord e (service_alert sc reason t1 t2) = Some (fst (DefaultServiceHangRecoveryRunbook cs w0))"
proof -
  have "map_of (engRunbooks e) ''RBK-PROC-001'' = Some (fst (DefaultServiceHangRecoveryRunbook cs w0))"
    using register_all_entries [OF assms(1), of NewCatalog] assms(2)
    by (simp add: DefaultCatalog_def split_beta NewCatalog_def Register_def default_fields)
  then have "GetRunbook ord e ''RBK-PROC-001'' = Inr (fst (DefaultServiceHangRecoveryRunbook cs w0))" by (rule eng.get_key)
  then show ?thesis by (simp add: match_runbook_def service_alert_def alert_label_def)
qed

lemma hang_precheck_passes:
  assumes "no_faults w" "lookup_file w ''/var/run/ai-gateway.pid'' = Some (FileNode d)"
    and "Atoi (TrimSpace d) = (pid, None)" "0 < pid" "pid \<noteq> oPid w" "\<forall>n sig. oKill w n pid sig = None"
  obtains w1 where "hang_precheck v (hang_normalize DefaultServiceHangConfig) ctx w = ((True, None), w1)"
    "intVars w1 v = pid" "oPid w1 = oPid w" "oKill w1 = oKill w" "signals w1 = signals w"
proof -
  let ?c = "hang_normalize DefaultServiceHangConfig"
  have c: "shPIDFilePath ?c = ''/var/run/ai-gateway.pid''" by (simp add: hang_normalize_def DefaultServiceHangConfig_def Let_def)
  define W where "W = set_int v pid (next_step w)"
  have W: "intVars W v = pid" "oPid W = oPid w" "oKill W = oKill w" "signals W = signals w" "intVars (next_step W) v = pid"
    by (simp_all add: W_def set_int_def next_step_def)
  have r: "read_pid_file v ?c w = W"
    using assms(1-4) by (simp add: read_pid_file_def c os_ReadFile_def W_def)
  have k: "sys_Kill pid 0 W = (None, next_step W)"
    using assms(6) by (simp add: sys_Kill_def W next_step_def)
  have "hang_precheck v ?c ctx w = ((True, None), next_step (next_step W))"
    using assms(4,5) by (simp add: hang_precheck_def r W k gone_def http_Get_def Let_def split: sum.split)
  then show thesis by (rule that) (simp_all add: W next_step_def)
qed

lemma hang_action_signals:
  assumes "intVars w v = pid" "0 < pid" "pid \<noteq> oPid w" "\<forall>n sig. oKill w n pid sig = None"
  shows "(pid, SIGTERM) \<in> set (signals (snd (hang_action v (hang_normalize DefaultServiceHangConfig) ctx w)))"
proof -
  let ?c = "hang_normalize DefaultServiceHangConfig"
  obtain r w' where a: "hang_action v ?c ctx w = (r, w')" by (metis prod.exhaust)
  have c: "shSpawnFn ?c = None" by (simp add: hang_normalize_def DefaultServiceHangConfig_def Let_def)
  define w1 where "w1 = next_step w"
  define w2 where "w2 = (next_step w1)\<lparr>signals := signals w1 @ [(pid, SIGTERM)]\<rparr>"
  have 1: "sys_Kill pid 0 w = (None, w1)" using assms(4) by (simp add: sys_Kill_def w1_def next_step_def)
  have 2: "sys_Kill pid SIGTERM w1 = (None, w2)" using assms(4) by (simp add: sys_Kill_def w1_def w2_def next_step_def SIGTERM_def)
  obtain t3 w3 where 3: "poll_gone pid (shTermTimeout ?c) w2 = (t3, w3)" by force
  obtain e4 w4 where 4: "sys_Kill pid SIGKILL w3 = (e4, w4)" by force
  obtain t5 w5 where 5: "poll_gone pid (shKillTimeout ?c) w4 = (t5, w5)" by force
  have "escalation_ladder pid ?c w = (if t3 then w3 else w5)"
    using assms(2,3) by (simp add: escalation_ladder_def 1 2 3 4 5)
  moreover have "(pid, SIGTERM) \<in> set (signals w3)" using poll_gone_signals [OF 3] by (simp add: w2_def)
  moreover have "set (signals w3) \<subseteq> set (signals w5)" using sys_Kill_log [OF 4] poll_gone_signals [OF 5] by (auto split: if_splits)
  ultimately have "(pid, SIGTERM) \<in> set (signals (escalation_ladder pid ?c w))" by auto
  then show ?thesis using hang_action_log [OF _ a] assms(1) c a by simp
qed

text \<open>
  C28: The poller restarts the gateway for every service. With the production catalogue, the alert the
  poller raises for any unhealthy service, whatever its name, selects the recovery runbook, which is
  bound to the gateway. If the process recorded in the gateway's PID file is alive, the precondition
  passes whatever the health check of the gateway says, and the action sends SIGTERM to that process.
\<close>

theorem poller_restarts_gateway:
  assumes "register_all (fst (DefaultCatalog srt X cs w0)) e0 = (None, e)" "engRunbooks e0 = []"
    and "no_faults w" "lookup_file w ''/var/run/ai-gateway.pid'' = Some (FileNode d)"
    and "Atoi (TrimSpace d) = (pid, None)" "0 < pid" "pid \<noteq> oPid w" "\<forall>n sig. oKill w n pid sig = None"
  shows "\<exists>rb pre act check mutate w1. match_runbook ord e (service_alert sc reason t1 t2) = Some rb
    \<and> rbPreconditions rb = [pre] \<and> preCheckFn pre = Some check \<and> check ctx w = ((True, None), w1)
    \<and> rbActions rb = [act] \<and> actMutateFn act = Some mutate
    \<and> (pid, SIGTERM) \<in> set (signals (snd (mutate ctx w1)))"
proof -
  obtain w1 where p: "hang_precheck (cellPID cs) (hang_normalize DefaultServiceHangConfig) ctx w = ((True, None), w1)"
    "intVars w1 (cellPID cs) = pid" "oPid w1 = oPid w" "oKill w1 = oKill w"
    using hang_precheck_passes [OF assms(3-8)] by metis
  have "(pid, SIGTERM) \<in> set (signals (snd (hang_action (cellPID cs) (hang_normalize DefaultServiceHangConfig) ctx w1)))"
    using hang_action_signals [OF p(2) assms(6)] p(3,4) assms(7,8) by simp
  then show ?thesis
    using p(1) unfolding service_alert_match [OF assms(1,2)]
    by (auto simp: hang_runbook_parts custom_pre_def mutation_def)
qed

theorem poller_restarts_gateway_witness:
  "\<exists>e rb. register_all (fst (DefaultCatalog (sort_key arModTime) demo_x509 \<lparr>cellInode = ''i'', cellPID = ''p'', cellTLS = ''t'', cellSHA = ''s''\<rparr> quiet_world))
       (demo_engine\<lparr>engRunbooks := []\<rparr>) = (None, e)
     \<and> match_runbook rev e (service_alert \<lparr>svName = ''guardrail-proxy'', svHealthURL = '''', svPIDFile = '''', svPort = 0\<rparr> ''down'' 0 0) = Some rb
     \<and> rbActions rb \<noteq> []"
proof -
  let ?cs = "\<lparr>cellInode = ''i'', cellPID = ''p'', cellTLS = ''t'', cellSHA = ''s''\<rparr>"
  let ?rbs = "fst (DefaultCatalog (sort_key arModTime) demo_x509 ?cs quiet_world)"
  let ?w = "quiet_world\<lparr>files := [(''/var/run/ai-gateway.pid'', FileNode ''7'')]\<rparr>"
  have "\<forall>rb \<in> set ?rbs. rbID rb \<noteq> ''''" by (simp add: DefaultCatalog_def split_beta default_fields)
  then obtain e where r: "register_all ?rbs (demo_engine\<lparr>engRunbooks := []\<rparr>) = (None, e)" using register_all_ok by blast
  have "TrimSpace ''7'' = ''7''" by (rule TrimSpace_solid) (simp_all add: solid_def)
  then have d: "Atoi (TrimSpace ''7'') = (7, None)" by (simp add: parse_int_def has_prefix_def is_digit_def int_of_digits_def max_int64_def min_int64_def)
  have "no_faults ?w" "lookup_file ?w ''/var/run/ai-gateway.pid'' = Some (FileNode ''7'')" "7 \<noteq> oPid ?w" "\<forall>n sig. oKill ?w n 7 sig = None"
    by (simp_all add: no_faults_def lookup_file_def quiet_world_def)
  then show ?thesis
    using poller_restarts_gateway [OF r _ _ _ d, of ?w rev "\<lparr>svName = ''guardrail-proxy'', svHealthURL = '''', svPIDFile = '''', svPort = 0\<rparr>" "''down''" 0 0 Background] r
    by auto
qed

end
