(* ===== verification/Config_Load.thy ===== *)
theory Config_Load
  imports Config_Yaml Go_Duration Ingress_Poller
begin

text \<open>
  Reading a configuration (\<open>internal/config/config.go\<close>: \<open>UnmarshalJSON\<close>, \<open>ParseConfig\<close>,
  \<open>LoadConfig\<close>): the parsed YAML as JSON, decoding into the defaults, and what of a file reaches the
  configuration.
\<close>

text \<open>The results of a list of computations, or the first error among them.\<close>

fun sum_list_all :: "('e + 'a) list \<Rightarrow> 'e + 'a list" where
  "sum_list_all [] = Inr []"
| "sum_list_all (Inl e # xs) = Inl e"
| "sum_list_all (Inr x # xs) = map_sum id (\<lambda>ys. x # ys) (sum_list_all xs)"

section \<open>The parsed text as JSON\<close>

text \<open>
  \<open>json.Marshal\<close> on the parsed map: the keys of a map in order, an error for a number that has no
  literal.
\<close>

definition unsupported_value :: "string \<Rightarrow> goerror" where
  "unsupported_value s = errorf (''json: unsupported value: '' @ s)"

fun yaml_json :: "floats \<Rightarrow> yaml \<Rightarrow> goerror + json" where
  "yaml_json fl YNull = Inr JNull"
| "yaml_json fl (YBool b) = Inr (JBool b)"
| "yaml_json fl (YInt i) = Inr (JNum (itoa i))"
| "yaml_json fl (YFloat f) =
     (case f of
        Fin r \<Rightarrow> Inr (JNum (flPrint fl r))
      | PosInf \<Rightarrow> Inl (unsupported_value ''+Inf'')
      | NegInf \<Rightarrow> Inl (unsupported_value ''-Inf'')
      | NaN \<Rightarrow> Inl (unsupported_value ''NaN''))"
| "yaml_json fl (YStr s) = Inr (JStr s)"
| "yaml_json fl (YList xs) = map_sum id JArr (sum_list_all (map (yaml_json fl) xs))"
| "yaml_json fl (YMap m) =
     (let ms = sort_key fst (map (\<lambda>kv. (fst kv, yaml_json fl (snd kv))) m) in
      map_sum id (\<lambda>vs. JObj (zip (map fst ms) vs)) (sum_list_all (map snd ms)))"

section \<open>Decoding into the configuration (\<open>UnmarshalJSON\<close>)\<close>

definition zero_service :: ServiceConfig where
  "zero_service = \<lparr>svName = '''', svHealthURL = '''', svPIDFile = '''', svPort = 0\<rparr>"

definition zero_path :: PathConfig where
  "zero_path = \<lparr>pcPath = '''', pcMinFreePct = 0\<rparr>"

definition store_service_field :: "ServiceConfig \<Rightarrow> string \<times> json \<Rightarrow> goerror + ServiceConfig" where
  "store_service_field s kv =
     (let k = ascii_lower (fst kv); v = snd kv; f = ''ServiceConfig.monitored_services.'' @ k in
      if k = ''name'' then set_opt svName_update s (decode_string f v)
      else if k = ''health_url'' then set_opt svHealthURL_update s (decode_string f v)
      else if k = ''pid_file'' then set_opt svPIDFile_update s (decode_string f v)
      else if k = ''port'' then set_opt svPort_update s (decode_int64 f v)
      else Inr s)"

definition store_path_field :: "PathConfig \<Rightarrow> string \<times> json \<Rightarrow> goerror + PathConfig" where
  "store_path_field p kv =
     (let k = ascii_lower (fst kv); v = snd kv; f = ''PathConfig.monitored_paths.'' @ k in
      if k = ''path'' then set_opt pcPath_update p (decode_string f v)
      else if k = ''min_free_pct'' then set_opt pcMinFreePct_update p (decode_float64 f v)
      else Inr p)"

text \<open>
  A slice is decoded element by element into its backing array: the element that is already at the
  index is the one the members are stored into, and only an index past the end starts from the zero
  value. A shorter list leaves the elements behind it in the array.
\<close>

fun decode_slice :: "('a \<Rightarrow> json \<Rightarrow> goerror + 'a) \<Rightarrow> 'a \<Rightarrow> 'a list \<Rightarrow> json list \<Rightarrow> goerror + 'a list" where
  "decode_slice dec z arr [] = Inr []"
| "decode_slice dec z arr (v # vs) =
     (case dec (case arr of [] \<Rightarrow> z | x # _ \<Rightarrow> x) v of
        Inl e \<Rightarrow> Inl e
      | Inr x \<Rightarrow> map_sum id (\<lambda>xs. x # xs) (decode_slice dec z (tl arr) vs))"

definition slice_into :: "string \<Rightarrow> string \<Rightarrow> ('a \<Rightarrow> json \<Rightarrow> goerror + 'a) \<Rightarrow> 'a \<Rightarrow> 'a list \<Rightarrow> json \<Rightarrow> goerror + ('a list \<times> 'a list)" where
  "slice_into f ty dec z arr v =
     (case v of
        JNull \<Rightarrow> Inr ([], [])
      | JArr vs \<Rightarrow>
          map_sum id (\<lambda>xs. (xs, if xs = [] then [] else xs @ drop (length xs) arr)) (decode_slice dec z arr vs)
      | _ \<Rightarrow> Inl (type_error (json_kind v) f ty))"

text \<open>
  \<open>aux\<close>: the configuration under its alias, the two raw intervals (\<^term>\<open>JNull\<close> for \<open>nil\<close>), and the
  backing arrays of the two slices.
\<close>

record config_aux =
  auAlias :: Config
  auRawPollInterval :: json
  auRawPollIntervalSeconds :: json
  auServiceArray :: "ServiceConfig list"
  auPathArray :: "PathConfig list"

definition set_alias :: "config_aux \<Rightarrow> (('a \<Rightarrow> 'a) \<Rightarrow> Config \<Rightarrow> Config) \<Rightarrow> goerror + 'a option \<Rightarrow> goerror + config_aux" where
  "set_alias a upd d = map_sum id (\<lambda>c. a\<lparr>auAlias := c\<rparr>) (set_opt upd (auAlias a) d)"

definition store_config_field :: "config_aux \<Rightarrow> string \<times> json \<Rightarrow> goerror + config_aux" where
  "store_config_field a kv =
     (let k = ascii_lower (fst kv); v = snd kv; f = ''.'' @ k in
      if k = ''unix_socket_path'' then set_alias a cfUnixSocketPath_update (decode_string f v)
      else if k = ''http_addr'' then set_alias a cfHTTPAddr_update (decode_string f v)
      else if k = ''hmac_secret'' then set_alias a cfHMACSecret_update (decode_string f v)
      else if k = ''audit_log_path'' then set_alias a cfAuditLogPath_update (decode_string f v)
      else if k = ''lock_dir'' then set_alias a cfLockDir_update (decode_string f v)
      else if k = ''journal_dir'' then set_alias a cfJournalDir_update (decode_string f v)
      else if k = ''damping_state_file'' then set_alias a cfDampingStateFile_update (decode_string f v)
      else if k = ''host_uuid'' then set_alias a cfHostUUID_update (decode_string f v)
      else if k = ''monitored_services'' then
        map_sum id (\<lambda>(xs, arr). a\<lparr>auAlias := (auAlias a)\<lparr>cfMonitoredServices := xs\<rparr>, auServiceArray := arr\<rparr>)
          (slice_into f ''[]config.ServiceConfig'' (store_object f ''config.ServiceConfig'' store_service_field) zero_service (auServiceArray a) v)
      else if k = ''monitored_paths'' then
        map_sum id (\<lambda>(xs, arr). a\<lparr>auAlias := (auAlias a)\<lparr>cfMonitoredPaths := xs\<rparr>, auPathArray := arr\<rparr>)
          (slice_into f ''[]config.PathConfig'' (store_object f ''config.PathConfig'' store_path_field) zero_path (auPathArray a) v)
      else if k = ''poll_interval'' then
        (if floats_ok v then Inr (a\<lparr>auRawPollInterval := v\<rparr>) else Inl (type_error ''number'' f ''float64''))
      else if k = ''poll_interval_seconds'' then
        (if floats_ok v then Inr (a\<lparr>auRawPollIntervalSeconds := v\<rparr>) else Inl (type_error ''number'' f ''float64''))
      else Inr a)"

text \<open>\<open>time.Duration(x) * time.Second\<close> at 64 bits\<close>

definition seconds :: "int \<Rightarrow> duration" where
  "seconds n = int64 (n * Second)"

definition poll_interval_of :: "json \<Rightarrow> json \<Rightarrow> duration \<Rightarrow> goerror + duration" where
  "poll_interval_of raw rawSeconds d =
     (if raw \<noteq> JNull
      then (case raw of
              JStr v \<Rightarrow>
                (case ParseDuration v of
                   Inr p \<Rightarrow> Inr p
                 | Inl e \<Rightarrow>
                     (case Atoi v of
                        (sec, None) \<Rightarrow> Inr (seconds sec)
                      | (_, Some _) \<Rightarrow> Inl (wrapf (''invalid poll_interval '' @ fmt_q v @ '': '') e '''')))
            | JNum l \<Rightarrow> Inr (seconds (int64_of_float (float64 (literal_value l))))
            | _ \<Rightarrow> Inr d)
      else (case rawSeconds of
              JNum l \<Rightarrow> Inr (seconds (int64_of_float (float64 (literal_value l))))
            | JStr v \<Rightarrow> (case Atoi v of (sec, None) \<Rightarrow> Inr (seconds sec) | (_, Some _) \<Rightarrow> Inr d)
            | _ \<Rightarrow> Inr d))"

definition config_aux_of :: "Config \<Rightarrow> config_aux" where
  "config_aux_of c =
     \<lparr>auAlias = c, auRawPollInterval = JNull, auRawPollIntervalSeconds = JNull,
      auServiceArray = cfMonitoredServices c, auPathArray = cfMonitoredPaths c\<rparr>"

definition finish_config :: "config_aux \<Rightarrow> goerror + Config" where
  "finish_config a =
     map_sum id (\<lambda>d. (auAlias a)\<lparr>cfPollInterval := d\<rparr>)
       (poll_interval_of (auRawPollInterval a) (auRawPollIntervalSeconds a) (cfPollInterval (auAlias a)))"

definition UnmarshalJSON :: "Config \<Rightarrow> bytes \<Rightarrow> goerror + Config" where
  "UnmarshalJSON c text =
     (case unmarshal_struct ''struct'' store_config_field (config_aux_of c) text of
        Inl e \<Rightarrow> Inl e
      | Inr a \<Rightarrow> finish_config a)"

section \<open>Reading a configuration\<close>

definition ParseConfig :: "floats \<Rightarrow> string \<Rightarrow> bytes \<Rightarrow> world \<Rightarrow> goerror + Config" where
  "ParseConfig fl hostname text w =
     (let cfg = DefaultConfig hostname w; trimmed = TrimSpace text in
      if trimmed = '''' then Inr cfg
      else if has_prefix trimmed ''{''
      then map_sum (\<lambda>e. wrapf ''failed to parse JSON config: '' e '''') id (UnmarshalJSON cfg trimmed)
      else case ParseBasicYAML fl trimmed of
        Inl e \<Rightarrow> Inl (wrapf ''failed to parse YAML config: '' e '''')
      | Inr yamlMap \<Rightarrow>
          (case yaml_json fl (YMap yamlMap) of
             Inl e \<Rightarrow> Inl (wrapf ''failed to marshal intermediate YAML map: '' e '''')
           | Inr j \<Rightarrow>
               (case UnmarshalJSON cfg (json_print j) of
                  Inl e \<Rightarrow> Inl (wrapf ''failed to apply parsed YAML to config struct: '' e '''')
                | Inr c \<Rightarrow> Inr (if cfPollInterval c \<le> 0 then c\<lparr>cfPollInterval := 2 * Second\<rparr> else c))))"

definition LoadConfig :: "floats \<Rightarrow> string \<Rightarrow> string \<Rightarrow> world \<Rightarrow> (goerror + Config) \<times> world" where
  "LoadConfig fl hostname path w =
     (if path = '''' then (Inr (DefaultConfig hostname w), w)
      else case os_ReadFile path w of
        (Inl e, w1) \<Rightarrow> (Inl (wrapf (''failed to read config file '' @ path @ '': '') e ''''), w1)
      | (Inr text, w1) \<Rightarrow> (ParseConfig fl hostname text w1, w1))"

section \<open>What reaches the configuration\<close>

lemma UnmarshalJSON_print:
  "json_wf (JObj ms) \<Longrightarrow> UnmarshalJSON c (json_print (JObj ms)) =
     (case store_members store_config_field (config_aux_of c) ms of Inl e \<Rightarrow> Inl e | Inr a \<Rightarrow> finish_config a)"
  using json_roundtrip [of "JObj ms"] by (simp add: UnmarshalJSON_def unmarshal_struct_def del: json_print.simps)

lemma ascii_lower_fields:
  "ascii_lower ''hmac_secret'' = ''hmac_secret''"
  "ascii_lower ''monitored_services'' = ''monitored_services''"
  "ascii_lower ''monitored_paths'' = ''monitored_paths''"
  "ascii_lower ''name'' = ''name''"
  "ascii_lower ''path'' = ''path''"
  "ascii_lower ''- name'' = ''- name''"
  by code_simp+

lemmas store_defs = store_config_field_def store_service_field_def store_path_field_def set_alias_def set_opt_def
  slice_into_def store_object_def Let_def ascii_lower_fields

lemma finish_no_interval:
  "auRawPollInterval a = JNull \<Longrightarrow> auRawPollIntervalSeconds a = JNull \<Longrightarrow> finish_config a = Inr (auAlias a)"
  by (cases "auAlias a") (simp add: finish_config_def poll_interval_of_def)

lemma default_interval: "cfPollInterval (DefaultConfig h w) = 2 * Second"
  by (simp add: DefaultConfig_def Let_def)

lemma default_secret: "cfHMACSecret (DefaultConfig h w) = []"
  by (simp add: DefaultConfig_def Let_def)

text \<open>
  A quoted secret is the secret. For every text without quotes and line breaks that the
  scanner accepts, a file with the one line \<open>hmac_secret: "..."\<close> gives the default configuration
  with exactly this secret, whatever characters it has.
\<close>

theorem config_secret_applied:
  assumes "newline \<notin> set v" "dquote \<notin> set v" "length v < 65521"
  shows "ParseConfig fl h (''hmac_secret: '' @ dquote # v @ [dquote]) w = Inr ((DefaultConfig h w)\<lparr>cfHMACSecret := v\<rparr>)"
proof -
  define src where "src = ''hmac_secret: '' @ dquote # v @ [dquote]"
  have ok: "flat_ok (''hmac_secret'', v)"
    using assms by (simp add: flat_ok_def solid_def newline_def dquote_def MaxScanTokenSize_def)
  have flat: "src = join_lines (map flat_line [(''hmac_secret'', v)])" by (simp add: src_def flat_line_def)
  have "ParseBasicYAML fl (join_lines (map flat_line [(''hmac_secret'', v)])) = Inr [(''hmac_secret'', YStr v)]"
    using ok flat_yaml [of "[(''hmac_secret'', v)]" fl] by simp
  then have yaml: "ParseBasicYAML fl src = Inr [(''hmac_secret'', YStr v)]" unfolding flat .
  have trim: "TrimSpace src = src"
    by (rule TrimSpace_solid) (auto simp: src_def solid_def dquote_def)
  have brace: "src \<noteq> []" "\<not> has_prefix src ''{''" by (auto simp: src_def has_prefix_iff)
  have json: "yaml_json fl (YMap [(''hmac_secret'', YStr v)]) = Inr (JObj [(''hmac_secret'', JStr v)])" by simp
  have "UnmarshalJSON (DefaultConfig h w) (json_print (JObj [(''hmac_secret'', JStr v)])) = Inr ((DefaultConfig h w)\<lparr>cfHMACSecret := v\<rparr>)"
    by (subst UnmarshalJSON_print) (simp_all add: store_defs config_aux_of_def finish_no_interval)
  then show ?thesis
    using trim brace yaml json default_interval [of h w] unfolding src_def [symmetric]
    by (simp add: ParseConfig_def Let_def Second_def del: yaml_json.simps json_print.simps)
qed

theorem config_secret_applied_witness:
  "ParseConfig \<lparr>flParse = \<lambda>_. None, flPrint = \<lambda>_. ''0''\<rparr> ''host'' (''hmac_secret: '' @ dquote # ''s3#cret'' @ [dquote]) quiet_world
     = Inr ((DefaultConfig ''host'' quiet_world)\<lparr>cfHMACSecret := ''s3#cret''\<rparr>)"
  by (rule config_secret_applied) (simp_all add: newline_def dquote_def)


section \<open>A list that is not indented\<close>

definition unindented_config :: "string \<Rightarrow> string" where
  "unindented_config secret =
     join_lines [''monitored_services:'', ''- name: '' @ dquote # ''api'' @ [dquote], ''  port: 9000'', flat_line (''hmac_secret'', secret)]"

lemma unindented_lines:
  "yaml_line ''monitored_services:'' = Some \<lparr>liIndent = 0, liText = ''monitored_services:''\<rparr>"
  "yaml_line (''- name: '' @ dquote # ''api'' @ [dquote]) = Some \<lparr>liIndent = 0, liText = ''- name: '' @ dquote # ''api'' @ [dquote]\<rparr>"
  "yaml_line ''  port: 9000'' = Some \<lparr>liIndent = 2, liText = ''port: 9000''\<rparr>"
  by (simp_all add: yaml_line_def stripYAMLComment_def dquote_def TrimSpace_space TrimSpace_solid solid_def Let_def)

lemma unindented_key_values:
  "key_value ''monitored_services:'' = (''monitored_services'', '''')"
  "key_value (''- name: '' @ dquote # ''api'' @ [dquote]) = (''- name'', dquote # ''api'' @ [dquote])"
  by (simp_all add: key_value_def split_at_def dquote_def TrimSpace_space TrimSpace_Nil TrimSpace_solid solid_def)

lemma unindented_block:
  "fst (parseYAMLBlock fl [\<lparr>liIndent = 0, liText = ''monitored_services:''\<rparr>,
       \<lparr>liIndent = 0, liText = ''- name: '' @ dquote # ''api'' @ [dquote]\<rparr>, \<lparr>liIndent = 2, liText = ''port: 9000''\<rparr>, l] 0)
     = YMap [(''monitored_services'', YNull), (''- name'', YStr ''api'')]"
proof -
  have colon: "contains (a @ '':'' @ b) '':''" for a b unfolding contains_iff by blast
  have c: "contains ''monitored_services:'' '':''" "contains (''- name: '' @ dquote # ''api'' @ [dquote]) '':''"
    using colon [of "''monitored_services''" "''''"] colon [of "''- name''" "'' '' @ dquote # ''api'' @ [dquote]"] by simp_all
  have i: "\<not> is_item \<lparr>liIndent = 0, liText = ''monitored_services:''\<rparr>" by (simp add: is_item_def has_prefix_def)
  show ?thesis
    using c i parse_quoted [of fl "''api''"] unindented_key_values
    by (simp add: parseYAMLBlock_def block_fuel_def block_step_def entries_step_def deeper_def numeral_eq_Suc)
qed

text \<open>
  A list that is not indented turns authentication off. YAML allows the items of a list at the
  indentation of their key. On such a file, with one service and then \<open>hmac_secret: "..."\<close>, reading
  succeeds; the list of services comes out empty, and the secret, whatever it is, is not read: the
  configuration has the empty one, with which the HTTP ingress accepts unsigned alerts.
\<close>

theorem config_unindented_list:
  assumes "newline \<notin> set v" "dquote \<notin> set v" "length v < 65521"
  shows "ParseConfig fl h (unindented_config v) w = Inr ((DefaultConfig h w)\<lparr>cfMonitoredServices := []\<rparr>)
    \<and> cfHMACSecret ((DefaultConfig h w)\<lparr>cfMonitoredServices := []\<rparr>) = ''''"
proof -
  define ls where "ls = [''monitored_services:'', ''- name: '' @ dquote # ''api'' @ [dquote], ''  port: 9000'', flat_line (''hmac_secret'', v)]"
  define m where "m = [(''monitored_services'', YNull), (''- name'', YStr ''api'')]"
  have ok: "flat_ok (''hmac_secret'', v)"
    using assms by (simp add: flat_ok_def solid_def newline_def dquote_def MaxScanTokenSize_def)
  have src: "unindented_config v = join_lines ls" by (simp add: unindented_config_def ls_def)
  have "raw_lines (join_lines ls) = ls"
    using flat_line_lines [OF ok] by (intro raw_lines_join) (simp add: ls_def newline_def dquote_def flat_line_def)
  moreover have "scan_raw ls = (ls, False)"
    using assms(3) by (intro scan_raw_short)
      (simp add: ls_def drop_cr_def MaxScanTokenSize_def flat_line_def dquote_def carriage_return_def)
  ultimately have scan: "scan_lines (join_lines ls) = (ls, False)" by (simp add: scan_lines_def)
  have "fst (parseYAMLBlock fl (List.map_filter yaml_line ls) 0) = YMap m"
    unfolding ls_def using flat_line_read [OF ok] by (simp add: map_filter_simps unindented_lines unindented_block m_def del: append.simps)
  moreover obtain l rest where "List.map_filter yaml_line ls = l # rest" "liIndent l = 0"
    unfolding ls_def by (simp add: map_filter_simps unindented_lines(1))
  ultimately have yaml: "ParseBasicYAML fl (join_lines ls) = Inr m" by (simp add: ParseBasicYAML_def scan Let_def)
  have trim: "TrimSpace (join_lines ls) = join_lines ls"
    by (rule TrimSpace_solid) (simp_all add: ls_def solid_def flat_line_def dquote_def)
  have brace: "join_lines ls \<noteq> []" "\<not> has_prefix (join_lines ls) ''{''" by (simp_all add: ls_def has_prefix_def)
  have json: "yaml_json fl (YMap m) = Inr (JObj [(''- name'', JStr ''api''), (''monitored_services'', JNull)])"
    by (simp add: m_def sort_key_def)
  have "UnmarshalJSON (DefaultConfig h w) (json_print (JObj [(''- name'', JStr ''api''), (''monitored_services'', JNull)]))
      = Inr ((DefaultConfig h w)\<lparr>cfMonitoredServices := []\<rparr>)"
    by (subst UnmarshalJSON_print) (simp_all add: store_defs config_aux_of_def finish_no_interval)
  then show ?thesis
    using trim brace yaml json default_interval [of h w] unfolding src
    by (simp add: ParseConfig_def Let_def Second_def default_secret del: yaml_json.simps json_print.simps)
qed

theorem config_unindented_list_witness:
  "ParseConfig \<lparr>flParse = \<lambda>_. None, flPrint = \<lambda>_. ''0''\<rparr> ''host'' (unindented_config ''s3cret'') quiet_world
     = Inr ((DefaultConfig ''host'' quiet_world)\<lparr>cfMonitoredServices := []\<rparr>)"
proof -
  have "newline \<notin> set ''s3cret''" "dquote \<notin> set ''s3cret''" "length ''s3cret'' < 65521" by (simp_all add: newline_def dquote_def)
  from config_unindented_list [OF this] show ?thesis by blast
qed

section \<open>Every number fits\<close>

definition fits :: "int \<Rightarrow> bool" where
  "fits x \<longleftrightarrow> min_int64 \<le> x \<and> x \<le> max_int64"

definition config_wf :: "Config \<Rightarrow> bool" where
  "config_wf c \<longleftrightarrow> fits (cfPollInterval c) \<and> (\<forall>s \<in> set (cfMonitoredServices c). fits (svPort s))"

lemma int64_fits [simp]: "fits (int64 x)"
proof -
  have "0 \<le> (x + 2 ^ 63) mod 2 ^ 64" "(x + 2 ^ 63) mod 2 ^ 64 < 2 ^ 64" by simp_all
  then show ?thesis by (simp add: fits_def int64_def min_int64_def max_int64_def)
qed

lemma duration_loop_bounds: "duration_loop orig s d = Inr r \<Longrightarrow> 0 \<le> d \<Longrightarrow> 0 \<le> r"
proof (induction orig s d rule: duration_loop.induct)
  case (1 orig s d)
  show ?case
  proof (cases "s = []")
    case False
    then obtain v rest where p: "duration_part orig s = Inr (v, rest)"
      using 1(2) by (subst (asm) duration_loop.simps) (auto split: sum.splits)
    then have "\<not> 2 ^ 63 < (d + v) mod 2 ^ 64" "duration_loop orig rest ((d + v) mod 2 ^ 64) = Inr r"
      using 1(2) False by (subst (asm) duration_loop.simps, simp add: Let_def split: if_splits)+
    then show ?thesis using 1(1) [OF False p refl refl] by simp
  next
    case True
    then show ?thesis using 1(2,3) by (subst (asm) duration_loop.simps) simp
  qed
qed

lemma ParseDuration_fits: "ParseDuration s = Inr d \<Longrightarrow> fits d"
  using duration_loop_bounds [of s "tl s" 0] duration_loop_bounds [of s s 0]
  by (auto simp: ParseDuration_def Let_def split: if_splits sum.splits)
    (auto simp: fits_def min_int64_def max_int64_def)

lemma poll_interval_fits: "fits d \<Longrightarrow> poll_interval_of raw secs d = Inr d' \<Longrightarrow> fits d'"
  by (auto simp: poll_interval_of_def seconds_def dest: ParseDuration_fits split: if_splits json.splits sum.splits prod.splits option.splits)

text \<open>
  The contract of a field decoder: storing a member keeps what holds of the struct. Then decoding an
  object, a struct and, with a zero value that has the property, a slice keeps it too.
\<close>

locale field_store =
  fixes store :: "'r \<Rightarrow> string \<times> json \<Rightarrow> goerror + 'r" and P :: "'r \<Rightarrow> bool"
  assumes store_keeps: "store r m = Inr r' \<Longrightarrow> P r \<Longrightarrow> P r'"
begin

lemma members_keep: "store_members store r ms = Inr r' \<Longrightarrow> P r \<Longrightarrow> P r'"
  by (induction ms arbitrary: r) (auto dest: store_keeps split: sum.splits)

lemma object_keeps: "store_object f ty store r v = Inr r' \<Longrightarrow> P r \<Longrightarrow> P r'"
  by (auto simp: store_object_def dest: members_keep split: json.splits)

lemma struct_keeps: "unmarshal_struct ty store r src = Inr r' \<Longrightarrow> P r \<Longrightarrow> P r'"
  by (auto simp: unmarshal_struct_def dest: members_keep split: option.splits json.splits)

end

locale slice_store = field_store +
  fixes z :: 'a
  assumes zero_holds: "P z"
begin

lemma elements_keep:
  "decode_slice (store_object f ty store) z arr vs = Inr xs \<Longrightarrow> \<forall>x \<in> set arr. P x \<Longrightarrow> \<forall>x \<in> set xs. P x"
proof (induction vs arbitrary: arr xs)
  case (Cons v vs)
  obtain x xs' where x: "store_object f ty store (case arr of [] \<Rightarrow> z | x # _ \<Rightarrow> x) v = Inr x"
      "decode_slice (store_object f ty store) z (tl arr) vs = Inr xs'" "xs = x # xs'"
    using Cons.prems(1) by (auto simp: map_sum_def split: sum.splits)
  have "P x" using object_keeps [OF x(1)] Cons.prems(2) zero_holds by (cases arr) auto
  moreover have "\<forall>x \<in> set xs'. P x" using Cons.IH [OF x(2)] Cons.prems(2) by (cases arr) auto
  ultimately show ?case using x(3) by simp
qed simp

lemma slice_keeps:
  assumes "slice_into f ty (store_object f ty' store) z arr v = Inr (xs, arr')" "\<forall>x \<in> set arr. P x"
  shows "(\<forall>x \<in> set xs. P x) \<and> (\<forall>x \<in> set arr'. P x)"
proof (cases v)
  case (JArr vs)
  then have xs: "decode_slice (store_object f ty' store) z arr vs = Inr xs" "arr' = (if xs = [] then [] else xs @ drop (length xs) arr)"
    using assms(1) by (auto simp: slice_into_def map_sum_def split: sum.splits)
  then show ?thesis using elements_keep [OF xs(1) assms(2)] assms(2) set_drop_subset [of "length xs" arr] by auto
qed (use assms(1) in \<open>auto simp: slice_into_def\<close>)

end

lemma set_opt_inv:
  "set_opt upd r d = Inr r' \<Longrightarrow> r' = r \<or> (\<exists>x. d = Inr (Some x) \<and> r' = upd (\<lambda>_. x) r)"
  by (cases d) (auto simp: set_opt_def split: option.splits)

lemma decode_int64_fits: "decode_int64 f v = Inr (Some n) \<Longrightarrow> fits n"
  by (auto simp: decode_int64_def fits_def Let_def split: json.splits if_splits)

interpretation service_fields: slice_store store_service_field "\<lambda>s. fits (svPort s)" zero_service
proof unfold_locales
  show "store_service_field s m = Inr s' \<Longrightarrow> fits (svPort s) \<Longrightarrow> fits (svPort s')" for s m s'
    by (auto simp: store_service_field_def Let_def dest!: set_opt_inv dest: decode_int64_fits split: if_splits)
qed (simp add: zero_service_def fits_def min_int64_def max_int64_def)

definition aux_wf :: "config_aux \<Rightarrow> bool" where
  "aux_wf a \<longleftrightarrow> config_wf (auAlias a) \<and> (\<forall>s \<in> set (auServiceArray a). fits (svPort s))"

lemma set_alias_wf:
  assumes "set_alias a upd d = Inr a'" "aux_wf a" "\<And>x c. config_wf c \<Longrightarrow> config_wf (upd (\<lambda>_. x) c)"
  shows "aux_wf a'"
  using assms by (auto simp: set_alias_def map_sum_def aux_wf_def dest!: set_opt_inv split: sum.splits)

lemma config_wf_fields:
  "config_wf (cfUnixSocketPath_update g c) = config_wf c" "config_wf (cfHTTPAddr_update g c) = config_wf c"
  "config_wf (cfHMACSecret_update g c) = config_wf c" "config_wf (cfAuditLogPath_update g c) = config_wf c"
  "config_wf (cfLockDir_update g c) = config_wf c" "config_wf (cfJournalDir_update g c) = config_wf c"
  "config_wf (cfDampingStateFile_update g c) = config_wf c" "config_wf (cfHostUUID_update g c) = config_wf c"
  "config_wf (cfMonitoredPaths_update q c) = config_wf c"
  by (simp_all add: config_wf_def)

lemma aux_wf_raw:
  "aux_wf (a\<lparr>auRawPollInterval := v\<rparr>) = aux_wf a" "aux_wf (a\<lparr>auRawPollIntervalSeconds := v\<rparr>) = aux_wf a"
  by (simp_all add: aux_wf_def)

lemma store_config_wf:
  assumes "store_config_field a m = Inr a'" "aux_wf a"
  shows "aux_wf a'"
proof -
  define k where "k = ascii_lower (fst m)"
  define f where "f = ''.'' @ k"
  consider (services) "k = ''monitored_services''" | (paths) "k = ''monitored_paths''"
    | (other) "k \<noteq> ''monitored_services''" "k \<noteq> ''monitored_paths''" by blast
  then show ?thesis
  proof cases
    case services
    define r where "r = slice_into f ''[]config.ServiceConfig'' (store_object f ''config.ServiceConfig'' store_service_field)
        zero_service (auServiceArray a) (snd m)"
    have "store_config_field a m = map_sum id (\<lambda>(xs, arr). a\<lparr>auAlias := (auAlias a)\<lparr>cfMonitoredServices := xs\<rparr>, auServiceArray := arr\<rparr>) r"
      using services by (simp add: store_config_field_def Let_def k_def f_def r_def)
    then obtain xs arr where s: "r = Inr (xs, arr)" "a' = a\<lparr>auAlias := (auAlias a)\<lparr>cfMonitoredServices := xs\<rparr>, auServiceArray := arr\<rparr>"
      using assms(1) by (cases r) auto
    have "\<forall>x \<in> set (auServiceArray a). fits (svPort x)" "config_wf (auAlias a)" using assms(2) by (simp_all add: aux_wf_def)
    with service_fields.slice_keeps [OF s(1) [unfolded r_def]]
    have "\<forall>x \<in> set xs. fits (svPort x)" "\<forall>x \<in> set arr. fits (svPort x)" "fits (cfPollInterval (auAlias a))"
      by (auto simp: config_wf_def)
    then show ?thesis unfolding s(2) aux_wf_def config_wf_def by simp
  next
    case paths
    then show ?thesis
      using assms by (auto simp: store_config_field_def Let_def k_def map_sum_def aux_wf_def config_wf_fields split: sum.splits)
  next
    case other
    then show ?thesis
      using assms unfolding store_config_field_def Let_def k_def [symmetric]
      by (simp add: config_wf_fields set_alias_wf [OF _ assms(2)] split: if_splits) (auto simp: aux_wf_raw)
  qed
qed

interpretation config_fields: field_store store_config_field aux_wf
  by unfold_locales (rule store_config_wf)

lemma UnmarshalJSON_wf:
  assumes "UnmarshalJSON c src = Inr c'" "config_wf c"
  shows "config_wf c'"
proof -
  have start: "aux_wf (config_aux_of c)" using assms(2) by (simp add: aux_wf_def config_aux_of_def config_wf_def)
  obtain a where a: "unmarshal_struct ''struct'' store_config_field (config_aux_of c) src = Inr a" "finish_config a = Inr c'"
    using assms(1) by (auto simp: UnmarshalJSON_def split: sum.splits)
  have wf: "aux_wf a" by (rule config_fields.struct_keeps [OF a(1) start])
  then obtain d where d: "poll_interval_of (auRawPollInterval a) (auRawPollIntervalSeconds a) (cfPollInterval (auAlias a)) = Inr d"
    "c' = (auAlias a)\<lparr>cfPollInterval := d\<rparr>"
    using a(2) by (auto simp: finish_config_def map_sum_def split: sum.splits)
  have "fits d" using poll_interval_fits [OF _ d(1)] wf by (simp add: aux_wf_def config_wf_def)
  then show ?thesis using wf by (simp add: d(2) aux_wf_def config_wf_def)
qed

lemma default_wf: "config_wf (DefaultConfig h w)"
  by (simp add: DefaultConfig_def config_wf_def fits_def Let_def Second_def min_int64_def max_int64_def)

text \<open>
  C21: Every configuration is well formed. Whatever bytes a file holds, a configuration that
  \<open>ParseConfig\<close> accepts has a polling interval and ports that are 64-bit integers, and after the
  YAML reader the interval is positive; the interval the poller runs with is positive in any case.
\<close>

theorem parse_config_wf:
  "case ParseConfig fl h src w of
     Inl _ \<Rightarrow> True
   | Inr c \<Rightarrow> config_wf c \<and> (has_prefix (TrimSpace src) ''{'' \<or> 0 < cfPollInterval c)
       \<and> 0 < poInterval (NewPoller (cfPollInterval c) (cfMonitoredPaths c) (cfMonitoredServices c))"
proof (cases "ParseConfig fl h src w")
  case (Inr c)
  have pos: "0 < 2 * Second" "fits (2 * Second)" by (simp_all add: Second_def fits_def min_int64_def max_int64_def)
  have "config_wf c \<and> (has_prefix (TrimSpace src) ''{'' \<or> 0 < cfPollInterval c)"
    using Inr default_wf [of h w] pos
    by (auto simp: ParseConfig_def Let_def map_sum_def default_interval dest!: UnmarshalJSON_wf split: if_splits sum.splits)
      (auto simp: config_wf_def)
  then show ?thesis using pos(1) Inr by (simp add: NewPoller_def)
qed simp

end
