(* ===== verification/Ingress_Socket.thy ===== *)
theory Ingress_Socket
  imports Ingress_Http
begin

text \<open>
  \<open>internal/ingress/unix_socket.go\<close>: the Unix domain socket that accepts one alert per connection
  and stamps it with the credentials of the peer.
\<close>

section \<open>The server\<close>

record UnixSocketServer =
  usSocketPath :: string
  usListener :: bool
  usClosed :: bool

definition NewUnixSocketServer :: "string \<Rightarrow> UnixSocketServer" where
  "NewUnixSocketServer path = \<lparr>usSocketPath = path, usListener = False, usClosed = False\<rparr>"

text \<open>
  The listening socket is a node of the file system. Binding fails when the path exists; closing the
  listener removes it.
\<close>

definition listen_unix :: "string \<Rightarrow> world \<Rightarrow> goerror option \<times> world" where
  "listen_unix p w =
     (case sys w of
        (Some e, w1) \<Rightarrow> (Some e, w1)
      | (None, w1) \<Rightarrow>
          if lookup_file w1 p \<noteq> None then (Some (errorf (''listen unix '' @ p @ '': bind: address already in use'')), w1)
          else (None, put_file p (FileNode '''') w1))"

definition close_listener :: "string \<Rightarrow> world \<Rightarrow> goerror option \<times> world" where
  "close_listener p w = (case sys w of (err, w1) \<Rightarrow> (err, delete_file p w1))"

text \<open>A stale socket file is removed; one that answers is not.\<close>

definition clear_stale :: "string \<Rightarrow> world \<Rightarrow> goerror option \<times> world" where
  "clear_stale p w =
     (case os_Stat p w of
        (Inl _, w1) \<Rightarrow> (None, w1)
      | (Inr _, w1) \<Rightarrow>
          (case net_Dial p w1 of
             (None, w2) \<Rightarrow> (Some (errorf (''unix socket '' @ p @ '' already in active use by another process'')), w2)
           | (Some _, w2) \<Rightarrow> (None, snd (os_Remove p w2))))"

definition unix_Start :: "UnixSocketServer \<Rightarrow> world \<Rightarrow> (goerror option \<times> UnixSocketServer) \<times> world" where
  "unix_Start s w =
     (let p = usSocketPath s in
      if usListener s then ((Some (errorf ''unix socket server already started''), s), w)
      else case os_MkdirAll (filepath_Dir p) w of
        (Some e, w1) \<Rightarrow> ((Some (wrapf (''failed to create directory for socket '' @ p @ '': '') e ''''), s), w1)
      | (None, w1) \<Rightarrow>
          (case clear_stale p w1 of
             (Some e, w2) \<Rightarrow> ((Some e, s), w2)
           | (None, w2) \<Rightarrow>
               (case listen_unix p w2 of
                  (Some e, w3) \<Rightarrow> ((Some (wrapf (''failed to listen on unix socket '' @ p @ '': '') e ''''), s), w3)
                | (None, w3) \<Rightarrow>
                    (case sys w3 of
                       (Some e, w4) \<Rightarrow>
                         ((Some (wrapf (''failed to chmod 0660 unix socket '' @ p @ '': '') e ''''), s),
                          snd (os_Remove p (snd (close_listener p w4))))
                     | (None, w4) \<Rightarrow> ((None, s\<lparr>usListener := True\<rparr>), w4)))))"

definition unix_Stop :: "UnixSocketServer \<Rightarrow> world \<Rightarrow> (goerror option \<times> UnixSocketServer) \<times> world" where
  "unix_Stop s w =
     (if usClosed s then ((None, s), w)
      else
        (let (err, w1) = (if usListener s then close_listener (usSocketPath s) w else (None, w)) in
         ((err, s\<lparr>usClosed := True\<rparr>), snd (os_Remove (usSocketPath s) w1))))"

section \<open>A connection\<close>

text \<open>
  \<open>Decoder.Decode\<close> reads the first JSON value of the stream, here of its first 1 MB, and ignores
  what follows.
\<close>

definition decode_alert :: "bytes \<Rightarrow> goerror + Alert" where
  "decode_alert stream =
     (let s = take MaxBody stream in
      case p_value (length s + 1) s of
        None \<Rightarrow> Inl (errorf (if skip_ws s = [] then ''EOF'' else ''invalid character in JSON input''))
      | Some (JNull, _) \<Rightarrow> Inr zero_alert
      | Some (JObj ms, _) \<Rightarrow> store_members store_alert_field zero_alert ms
      | Some (v, _) \<Rightarrow> Inl (errorf (''json: cannot unmarshal '' @ json_kind v @ '' into Go value of type model.Alert'')))"

record ucred =
  ucPid :: int
  ucUid :: int
  ucGid :: int

definition annotate_peer :: "ucred option \<Rightarrow> Alert \<Rightarrow> Alert" where
  "annotate_peer peer a =
     (let m = (case alAnnotations a of None \<Rightarrow> [] | Some m \<Rightarrow> m) in
      case peer of
        None \<Rightarrow> a\<lparr>alAnnotations := Some m\<rparr>
      | Some c \<Rightarrow>
          if ucUid c = - 1 then a\<lparr>alAnnotations := Some m\<rparr>
          else a\<lparr>alAnnotations := Some (AList.update ''peer_pid'' (itoa (ucPid c))
                 (AList.update ''peer_gid'' (itoa (ucGid c)) (AList.update ''peer_uid'' (itoa (ucUid c)) m)))\<rparr>)"

definition complete_alert :: "ucred option \<Rightarrow> Alert \<Rightarrow> world \<Rightarrow> Alert \<times> world" where
  "complete_alert peer a w =
     (let (a1, w1) = (if alID a = '''' then (let (t, w') = time_Now w in (a\<lparr>alID := ''sock-'' @ itoa (UnixNano t)\<rparr>, w')) else (a, w));
          a2 = (if alSource a1 = '''' then a1\<lparr>alSource := ''unix_socket''\<rparr> else a1);
          (a3, w2) = (if alReceivedAt a2 = zero_time then (let (t, w') = time_Now w1 in (a2\<lparr>alReceivedAt := t\<rparr>, w')) else (a2, w1)) in
      (annotate_peer peer a3, w2))"

definition handleConn :: "order \<Rightarrow> ucred option \<Rightarrow> bytes \<Rightarrow> host \<Rightarrow> RemediationResult option \<times> host" where
  "handleConn ord peer stream h =
     (case decode_alert stream of
        Inl e \<Rightarrow> (Some (zero_rr\<lparr>rrFinalState := StateEscalated, rrError := ''malformed alert JSON: '' @ err_msg e\<rparr>), h)
      | Inr a \<Rightarrow> (let (a1, w1) = complete_alert peer a (hoWorld h) in process ord a1 (h\<lparr>hoWorld := w1\<rparr>)))"

text \<open>
  The accept loop: every accepted connection is served (here one after the other), and the loop ends
  at the first error of \<open>Accept\<close>, whatever it is.
\<close>

datatype accept_event = Conn "ucred option" bytes | AcceptError goerror

fun acceptLoop :: "order \<Rightarrow> accept_event list \<Rightarrow> host \<Rightarrow> host" where
  "acceptLoop ord [] h = h"
| "acceptLoop ord (AcceptError e # evs) h = h"
| "acceptLoop ord (Conn peer stream # evs) h = acceptLoop ord evs (snd (handleConn ord peer stream h))"

section \<open>Identity of the peer\<close>

text \<open>
  C40: A client of the socket cannot lie about who it is. Whatever a connection sends, the alert that
  reaches the engine carries the credentials the kernel reports for the peer in its annotations, in
  place of any the client wrote there, and has an id and a source.
\<close>

theorem socket_peer_identity:
  assumes "complete_alert (Some c) a w = (a', w')" "ucUid c \<noteq> - 1" "alAnnotations a' = Some m"
  shows "map_of m ''peer_uid'' = Some (itoa (ucUid c)) \<and> map_of m ''peer_gid'' = Some (itoa (ucGid c))
    \<and> map_of m ''peer_pid'' = Some (itoa (ucPid c)) \<and> alID a' \<noteq> '''' \<and> alSource a' \<noteq> ''''
    \<and> alResourceID a' = alResourceID a \<and> alLabels a' = alLabels a"
  using assms by (auto simp: complete_alert_def annotate_peer_def Let_def time_Now_def update_conv split: if_splits option.splits)

theorem socket_peer_identity_witness:
  "\<exists>a' w' m. complete_alert (Some \<lparr>ucPid = 7, ucUid = 1000, ucGid = 100\<rparr>) (demo_alert\<lparr>alAnnotations := Some [(''peer_uid'', ''0'')]\<rparr>) quiet_world = (a', w')
     \<and> alAnnotations a' = Some m \<and> map_of m ''peer_uid'' = Some (itoa 1000)"
proof -
  let ?c = "\<lparr>ucPid = 7, ucUid = 1000, ucGid = 100\<rparr> :: ucred" and ?a = "demo_alert\<lparr>alAnnotations := Some [(''peer_uid'', ''0'')]\<rparr>"
  obtain a' w' where x: "complete_alert (Some ?c) ?a quiet_world = (a', w')" by (metis prod.exhaust)
  obtain m where m: "alAnnotations a' = Some m"
    using x by (auto simp: complete_alert_def annotate_peer_def Let_def demo_alert_def zero_time_def split: if_splits)
  show ?thesis using socket_peer_identity [OF x _ m] x m by simp
qed

section \<open>A socket in use is not taken over\<close>

lemma MkdirAll_other:
  assumes "os_MkdirAll d w = (err, w')" "p \<noteq> d"
  shows "lookup_file w' p = lookup_file w p" "oDial w' = oDial w"
  using assms by (auto simp: os_MkdirAll_def sys_def put_file_def lookup_file_def next_step_def update_conv split: option.splits node.splits)

lemma clear_stale_in_use:
  assumes "\<forall>n. oDial w n p = None" "clear_stale p w = (err, w')"
  shows "lookup_file w' p = lookup_file w p"
  using assms by (auto simp: clear_stale_def os_Stat_def sys_def net_Dial_def next_step_def lookup_file_def split: option.splits)

text \<open>
  Starting never takes over a socket in use. While another process answers on the socket path,
  \<open>Start\<close> fails, the server stays as it was and the socket of the other process stays where it is,
  whichever system calls fail on the way.
\<close>

theorem socket_not_stolen:
  assumes "unix_Start s w = ((err, s'), w')" "lookup_file w (usSocketPath s) = Some (FileNode bs)"
    and "\<forall>n. oDial w n (usSocketPath s) = None" "filepath_Dir (usSocketPath s) \<noteq> usSocketPath s"
  shows "err \<noteq> None \<and> s' = s \<and> lookup_file w' (usSocketPath s) = Some (FileNode bs)"
proof -
  let ?p = "usSocketPath s"
  obtain e1 w1 where 1: "os_MkdirAll (filepath_Dir ?p) w = (e1, w1)" by force
  obtain e2 w2 where 2: "clear_stale ?p w1 = (e2, w2)" by force
  obtain e3 w3 where 3: "listen_unix ?p w2 = (e3, w3)" by force
  have w1: "lookup_file w1 ?p = Some (FileNode bs)" using MkdirAll_other(1) [OF 1] assms(2,4) by auto
  have w2: "lookup_file w2 ?p = Some (FileNode bs)"
    using clear_stale_in_use [OF _ 2] MkdirAll_other(2) [OF 1, of ?p] assms(3,4) w1 by simp
  then have "e3 \<noteq> None \<and> lookup_file w3 ?p = Some (FileNode bs)"
    using 3 by (cases "oFault w2 (steps w2)") (auto simp: listen_unix_def sys_def, metis)
  then show ?thesis
    using assms(1,2) w1 w2 by (auto simp: unix_Start_def 1 2 3 Let_def split: if_splits option.splits)
qed

theorem socket_not_stolen_witness:
  "fst (fst (unix_Start (NewUnixSocketServer ''/run/r.sock'') (quiet_world\<lparr>files := [(''/run/r.sock'', FileNode '''')]\<rparr>))) \<noteq> None"
proof -
  let ?s = "NewUnixSocketServer ''/run/r.sock''" and ?w = "quiet_world\<lparr>files := [(''/run/r.sock'', FileNode '''')]\<rparr>"
  obtain err s' w' where x: "unix_Start ?s ?w = ((err, s'), w')" by (metis prod.exhaust)
  have "filepath_Dir ''/run/r.sock'' \<noteq> ''/run/r.sock''" by code_simp
  then show ?thesis
    using socket_not_stolen [OF x] x by (simp add: NewUnixSocketServer_def lookup_file_def quiet_world_def)
qed

end
