(* ===== verification/Daemon.thy ===== *)
theory Daemon
  imports Process_Env Go_Flags Config_Load Ingress_Socket
begin

text \<open>
  \<open>cmd/remediation-daemon/main.go\<close>: the daemon, put together from the configuration, the engine, the
  listeners and the poller; its start, its shutdown and the order of its log lines. Time stamps of the
  log and the goroutines of the listeners are left out: what they do is the argument \<open>work\<close> of
  \<open>daemon_main\<close>.
\<close>

section \<open>The daemon\<close>

record Daemon =
  dmCfg :: Config
  dmEngine :: Engine
  dmMetrics :: Metrics
  dmUnix :: UnixSocketServer
  dmHttp :: HTTPServer
  dmPoller :: Poller
  dmLog :: "string list"

definition log_line :: "string \<Rightarrow> Daemon \<Rightarrow> Daemon" where
  "log_line s d = d\<lparr>dmLog := dmLog d @ [s]\<rparr>"

definition NewDaemon :: "env \<Rightarrow> string \<Rightarrow> Config option \<Rightarrow> world \<Rightarrow> (goerror + Daemon) \<times> world" where
  "NewDaemon E hostname cfg0 w =
     (let cfg = (case cfg0 of None \<Rightarrow> DefaultConfig hostname w | Some c \<Rightarrow> c);
          engineCfg = \<lparr>cfgLockDir = cfLockDir cfg, cfgAuditLogPath = cfAuditLogPath cfg, cfgJournalDir = cfJournalDir cfg,
                       cfgHostUUID = cfHostUUID cfg, cfgDampingStatePath = cfDampingStateFile cfg\<rparr> in
      case new_engine E engineCfg w of
        (Inl e, w1) \<Rightarrow> (Inl (wrapf ''failed to initialize engine: '' e ''''), w1)
      | (Inr eng, w1) \<Rightarrow>
          (let (rbs, w2) = default_catalog E w1 in
           case register_all rbs eng of
             (Some err, _) \<Rightarrow> (Inl err, w2)
           | (None, eng') \<Rightarrow>
               (let (metrics, w3) = NewMetrics w2; (http, w4) = NewHTTPServer (cfHTTPAddr cfg) (cfHMACSecret cfg) w3 in
                (Inr \<lparr>dmCfg = cfg, dmEngine = eng', dmMetrics = metrics, dmUnix = NewUnixSocketServer (cfUnixSocketPath cfg), dmHttp = http,
                      dmPoller = NewPoller (cfPollInterval cfg) (cfMonitoredPaths cfg) (cfMonitoredServices cfg), dmLog = []\<rparr>, w4))))"

text \<open>
  \<open>listen\<close> is the outcome of binding the HTTP address. \<open>Poller.Start\<close> never returns an error, so the
  branch that handles one is not reached.
\<close>

definition daemon_Start :: "goerror + string \<Rightarrow> Daemon \<Rightarrow> world \<Rightarrow> (goerror option \<times> Daemon) \<times> world" where
  "daemon_Start listen d0 w =
     (let d = log_line (''Starting Autonomous Remediation Daemon on host: '' @ cfHostUUID (dmCfg d0)) d0 in
      case unix_Start (dmUnix d) w of
        ((Some e, u), w1) \<Rightarrow> ((Some (wrapf ''unix socket startup failed: '' e ''''), d\<lparr>dmUnix := u\<rparr>), w1)
      | ((None, u), w1) \<Rightarrow>
          (let d1 = log_line (''Unix domain socket listening on: '' @ cfUnixSocketPath (dmCfg d)) (d\<lparr>dmUnix := u\<rparr>) in
           case http_Start listen (dmHttp d1) of
             (Some e, h) \<Rightarrow>
               (let ((_, u'), w2) = unix_Stop u w1 in
                ((Some (wrapf ''HTTP webhook server startup failed: '' e ''''), d1\<lparr>dmHttp := h, dmUnix := u'\<rparr>), w2))
           | (None, h) \<Rightarrow>
               ((None, log_line (''Autonomous background poller active (interval: '' @ fmt_duration (cfPollInterval (dmCfg d)) @ '')'')
                   ((log_line (''HTTP server listening on: '' @ http_Addr h) (d1\<lparr>dmHttp := h\<rparr>))\<lparr>dmPoller := poller_Start (dmPoller d1)\<rparr>)), w1)))"

text \<open>
  \<open>shutdown\<close> is what \<open>http.Server.Shutdown\<close> returns within its five seconds, \<open>closeErr\<close> what closing the
  ledger file returns. \<^term>\<open>None\<close> is a panic.
\<close>

definition daemon_Stop :: "goerror option \<Rightarrow> goerror option \<Rightarrow> Daemon \<Rightarrow> world \<Rightarrow> ((goerror option \<times> Daemon) \<times> world) option" where
  "daemon_Stop shutdown closeErr d0 w =
     (case poller_Stop (dmPoller d0) of
        None \<Rightarrow> None
      | Some p \<Rightarrow>
          (let d1 = log_line ''Background poller stopped.'' ((log_line ''Initiating graceful daemon shutdown...'' d0)\<lparr>dmPoller := p\<rparr>);
               (herr, h) = http_Stop shutdown (dmHttp d1);
               d2 = log_line (case herr of Some e \<Rightarrow> ''HTTP server shutdown warning: '' @ err_msg e | None \<Rightarrow> ''HTTP webhook server stopped.'') (d1\<lparr>dmHttp := h\<rparr>);
               ((uerr, u), w1) = unix_Stop (dmUnix d2) w;
               d3 = log_line (case uerr of Some e \<Rightarrow> ''Unix socket shutdown warning: '' @ err_msg e
                                         | None \<Rightarrow> ''Unix socket listener stopped and socket unlinked.'') (d2\<lparr>dmUnix := u\<rparr>);
               cerr = (if ledgerOpen (engLedger (dmEngine d3)) then closeErr else None);
               d4 = d3\<lparr>dmEngine := engine_Close (dmEngine d3)\<rparr> in
           Some (case cerr of
             Some e \<Rightarrow> ((Some e, log_line (''Audit ledger flush warning: '' @ err_msg e) d4), w1)
           | None \<Rightarrow>
               ((None, log_line ''Autonomous Remediation Daemon shutdown complete.'' (log_line ''Audit ledger flushed and synchronized to disk.'' d4)), w1))))"

text \<open>
  \<open>main\<close>: \<open>work\<close> is what the listeners and the poller do with the daemon until the signal \<open>sig\<close>
  arrives. \<open>logger.Fatalf\<close> ends the process with code 1.
\<close>

definition daemon_flags :: "gflag list" where
  "daemon_flags = [string_flag ''config'' '''' ''Path to daemon configuration file (JSON/YAML)'']"

record daemon_end =
  deExit :: int
  deLog :: "string list"
  deDaemon :: "Daemon option"
  deWorld :: world

definition daemon_main ::
    "env \<Rightarrow> floats \<Rightarrow> string \<Rightarrow> string list \<Rightarrow> goerror + string \<Rightarrow> (Daemon \<Rightarrow> world \<Rightarrow> Daemon \<times> world) \<Rightarrow> string
     \<Rightarrow> goerror option \<Rightarrow> goerror option \<Rightarrow> world \<Rightarrow> daemon_end option" where
  "daemon_main E fl hostname args listen work sig shutdown closeErr w =
     (case parse_flags daemon_flags (flag_defaults daemon_flags) args of
        FlagsHelp \<Rightarrow> Some \<lparr>deExit = 0, deLog = [], deDaemon = None, deWorld = w\<rparr>
      | FlagsFail _ \<Rightarrow> Some \<lparr>deExit = 2, deLog = [], deDaemon = None, deWorld = w\<rparr>
      | FlagsOk vs \<Rightarrow>
          (case LoadConfig fl hostname (flag_value vs ''config'') w of
             (Inl e, w1) \<Rightarrow> Some \<lparr>deExit = 1, deLog = [''Failed to load configuration: '' @ err_msg e], deDaemon = None, deWorld = w1\<rparr>
           | (Inr cfg, w1) \<Rightarrow>
               (case NewDaemon E hostname (Some cfg) w1 of
                  (Inl e, w2) \<Rightarrow> Some \<lparr>deExit = 1, deLog = [''Failed to initialize daemon: '' @ err_msg e], deDaemon = None, deWorld = w2\<rparr>
                | (Inr d, w2) \<Rightarrow>
                    (case daemon_Start listen d w2 of
                       ((Some e, d1), w3) \<Rightarrow>
                         Some \<lparr>deExit = 1, deLog = dmLog d1 @ [''Daemon failed to start: '' @ err_msg e], deDaemon = Some d1, deWorld = w3\<rparr>
                     | ((None, d1), w3) \<Rightarrow>
                         (let (d2, w4) = work d1 w3;
                              d3 = log_line (''Received termination signal '' @ sig @ '', beginning shutdown...'') d2 in
                          case daemon_Stop shutdown closeErr d3 w4 of
                            None \<Rightarrow> None
                          | Some ((Some e, d4), w5) \<Rightarrow>
                              Some \<lparr>deExit = 1, deLog = dmLog d4 @ [''Daemon shutdown encountered error: '' @ err_msg e], deDaemon = Some d4, deWorld = w5\<rparr>
                          | Some ((None, d4), w5) \<Rightarrow> Some \<lparr>deExit = 0, deLog = dmLog d4, deDaemon = Some d4, deWorld = w5\<rparr>)))))"

section \<open>Starting and stopping\<close>

lemma log_line_simps [simp]:
  "dmCfg (log_line s d) = dmCfg d" "dmEngine (log_line s d) = dmEngine d" "dmUnix (log_line s d) = dmUnix d"
  "dmHttp (log_line s d) = dmHttp d" "dmPoller (log_line s d) = dmPoller d"
  by (simp_all add: log_line_def)

text \<open>What \<open>NewDaemon\<close> builds: nothing listens yet.\<close>

definition fresh :: "Daemon \<Rightarrow> bool" where
  "fresh d \<longleftrightarrow> \<not> usListener (dmUnix d) \<and> \<not> usClosed (dmUnix d) \<and> \<not> hsRunning (dmHttp d) \<and> \<not> poRunning (dmPoller d)
     \<and> \<not> poQuit (dmPoller d)"

lemma NewDaemon_fresh: "NewDaemon E hostname cfg w = (Inr d, w') \<Longrightarrow> fresh d"
  by (auto simp: NewDaemon_def fresh_def NewUnixSocketServer_def NewHTTPServer_def NewPoller_def Let_def
      split: sum.splits prod.splits option.splits)

lemma unix_Start_fields:
  "unix_Start s w = ((err, u), w') \<Longrightarrow> usClosed u = usClosed s \<and> usSocketPath u = usSocketPath s
     \<and> (usListener u \<longleftrightarrow> usListener s \<or> err = None)"
  by (auto simp: unix_Start_def Let_def split: if_splits prod.splits option.splits)

lemma lookup_Remove: "lookup_file w p = None \<Longrightarrow> lookup_file (snd (os_Remove p w)) p = None"
  by (auto simp: os_Remove_def sys_def next_step_def lookup_file_def delete_file_def delete_conv split: option.splits)

lemma unix_Stop_closes:
  assumes "unix_Stop u w = ((err, u'), w')" "usListener u" "\<not> usClosed u"
  shows "usClosed u' \<and> lookup_file w' (usSocketPath u) = None"
proof -
  obtain e w1 where c: "close_listener (usSocketPath u) w = (e, w1)" by force
  then have "lookup_file w1 (usSocketPath u) = None" by (auto simp: close_listener_def split: prod.splits)
  from lookup_Remove [OF this] show ?thesis using assms c by (auto simp: unix_Stop_def)
qed

lemma daemon_Start_cases:
  assumes "fresh d" "daemon_Start listen d w = ((err, d'), w')"
  shows "if err = None
         then usListener (dmUnix d') \<and> \<not> usClosed (dmUnix d') \<and> hsRunning (dmHttp d') \<and> hsServer (dmHttp d')
           \<and> poRunning (dmPoller d') \<and> \<not> poQuit (dmPoller d')
         else \<not> hsRunning (dmHttp d') \<and> \<not> poRunning (dmPoller d')
           \<and> (if usListener (dmUnix d') then usClosed (dmUnix d') \<and> lookup_file w' (usSocketPath (dmUnix d')) = None else True)"
proof -
  obtain uerr u w1 where u: "unix_Start (dmUnix d) w = ((uerr, u), w1)" by (metis prod.exhaust)
  note uf = unix_Start_fields [OF u]
  obtain herr h where h: "http_Start listen (dmHttp d) = (herr, h)" by force
  obtain serr u' w2 where s: "unix_Stop u w1 = ((serr, u'), w2)" by (metis prod.exhaust)
  have same: "usSocketPath u' = usSocketPath u" "usListener u' = usListener u"
    using s by (auto simp: unix_Stop_def Let_def split: if_splits prod.splits)
  show ?thesis
  proof (cases "uerr")
    case None
    then have "usClosed u' \<and> lookup_file w2 (usSocketPath u) = None"
      using unix_Stop_closes [OF s] uf assms(1) by (simp add: fresh_def)
    then show ?thesis
      using assms u h s None uf same
      by (cases herr) (auto simp: daemon_Start_def Let_def fresh_def http_Start_def poller_Start_def split: if_splits sum.splits)
  next
    case (Some e)
    then show ?thesis using assms u uf by (auto simp: daemon_Start_def Let_def fresh_def)
  qed
qed



text \<open>
  What a new daemon is. \<open>NewDaemon\<close> fails only with the error of the engine; otherwise the engine
  holds the four production runbooks, the HTTP server has the secret of the configuration, and the
  poller a positive interval.
\<close>

theorem new_daemon_ready:
  "case new_engine E \<lparr>cfgLockDir = cfLockDir cfg, cfgAuditLogPath = cfAuditLogPath cfg, cfgJournalDir = cfJournalDir cfg,
                     cfgHostUUID = cfHostUUID cfg, cfgDampingStatePath = cfDampingStateFile cfg\<rparr> w of
     (Inl e, w1) \<Rightarrow> NewDaemon E hostname (Some cfg) w = (Inl (wrapf ''failed to initialize engine: '' e ''''), w1)
   | (Inr eng, w1) \<Rightarrow>
       (\<exists>d w2. NewDaemon E hostname (Some cfg) w = (Inr d, w2)
          \<and> map fst (engRunbooks (dmEngine d)) = [''RBK-DISK-001'', ''RBK-PROC-001'', ''RBK-TLS-001'', ''RBK-CFG-001'']
          \<and> hsHMACSecret (dmHttp d) = cfHMACSecret cfg \<and> 0 < poInterval (dmPoller d))"
proof -
  define ec where "ec = \<lparr>cfgLockDir = cfLockDir cfg, cfgAuditLogPath = cfAuditLogPath cfg, cfgJournalDir = cfJournalDir cfg,
                     cfgHostUUID = cfHostUUID cfg, cfgDampingStatePath = cfDampingStateFile cfg\<rparr>"
  obtain r w1 where n: "new_engine E ec w = (r, w1)" by force
  show ?thesis
  proof (cases r)
    case (Inl e)
    then show ?thesis using n by (simp add: NewDaemon_def ec_def)
  next
    case (Inr eng)
    have fresh_eng: "engRunbooks eng = []"
      using n Inr by (auto simp: new_engine_def NewEngine_def split: prod.splits sum.splits)
    obtain a b c f where rbs: "default_catalog E w1 = ([a, b, c, f], w1)"
      and ids: "rbID a = ''RBK-DISK-001''" "rbID b = ''RBK-PROC-001''" "rbID c = ''RBK-TLS-001''" "rbID f = ''RBK-CFG-001''"
    proof -
      obtain p q where q: "DefaultServiceHangRecoveryRunbook (enCells E) w1 = (p, q)" by force
      then show thesis
        using that [of "DefaultDiskCleanupRunbook (enSorter E) (enCells E)" p "DefaultTLSCertRotationRunbook (enX509 E) (enCells E)" "DefaultConfigRollbackRunbook (enCells E)"]
          DefaultCatalog_world [of "enSorter E" "enX509 E" "enCells E" w1] default_fields(4) [of "enCells E" w1]
        by (simp add: default_catalog_def DefaultCatalog_def default_fields del: DefaultCatalog_world)
    qed
    have "0 < poInterval (NewPoller i ps ss)" for i ps ss by (simp add: NewPoller_def Second_def)
    then show ?thesis
      using n Inr rbs ids fresh_eng unfolding ec_def [symmetric]
      by (simp add: NewDaemon_def ec_def [symmetric] RegisterRunbook_def NewMetrics_def NewHTTPServer_def Let_def split_beta)
  qed
qed

section \<open>A start without failures\<close>

lemma unix_start_clean:
  assumes "no_faults w" "lookup_file w p = None" "lookup_file w (filepath_Dir p) = None" "filepath_Dir p \<noteq> p"
  shows "\<exists>u w1. unix_Start (NewUnixSocketServer p) w = ((None, u), w1)"
proof -
  have "sys w' = (None, next_step w')" if "oFault w' = oFault w" for w'
    using assms(1) that by (simp add: no_faults_def sys_def)
  then show ?thesis
    using assms(2-4) by (simp add: unix_Start_def NewUnixSocketServer_def os_MkdirAll_def clear_stale_def os_Stat_def listen_unix_def
        next_step_def lookup_file_def put_file_def update_conv Let_def)
qed

text \<open>With an engine that opens and a free socket path, the daemon starts.\<close>

definition engine_config_of :: "Config \<Rightarrow> EngineConfig" where
  "engine_config_of cfg =
     \<lparr>cfgLockDir = cfLockDir cfg, cfgAuditLogPath = cfAuditLogPath cfg, cfgJournalDir = cfJournalDir cfg,
      cfgHostUUID = cfHostUUID cfg, cfgDampingStatePath = cfDampingStateFile cfg\<rparr>"

lemma clean_start:
  assumes e: "new_engine E (engine_config_of cfg) w = (Inr e, w1)" "no_faults w1"
    and p: "lookup_file w1 (cfUnixSocketPath cfg) = None" "lookup_file w1 (filepath_Dir (cfUnixSocketPath cfg)) = None"
      "filepath_Dir (cfUnixSocketPath cfg) \<noteq> cfUnixSocketPath cfg"
  shows "\<exists>d w2 d1 w3. NewDaemon E hostname (Some cfg) w = (Inr d, w2) \<and> daemon_Start (Inr addr) d w2 = ((None, d1), w3)"
proof -
  have "\<forall>rb \<in> set (fst (default_catalog E w1)). rbID rb \<noteq> []"
    by (simp add: default_catalog_def DefaultCatalog_def split_beta default_fields)
  then obtain eng where eng: "register_all (fst (default_catalog E w1)) e = (None, eng)" using register_all_ok by blast
  have cat: "snd (default_catalog E w1) = w1" by (simp add: default_catalog_def)
  define W where "W = next_step (next_step w1)"
  have "\<exists>d. NewDaemon E hostname (Some cfg) w = (Inr d, W) \<and> dmUnix d = NewUnixSocketServer (cfUnixSocketPath cfg) \<and> \<not> hsRunning (dmHttp d)"
    using e(1) eng cat
    by (simp add: NewDaemon_def engine_config_of_def NewMetrics_def NewHTTPServer_def time_Now_def W_def Let_def split_beta)
  then obtain d where d: "NewDaemon E hostname (Some cfg) w = (Inr d, W)" "dmUnix d = NewUnixSocketServer (cfUnixSocketPath cfg)"
    "\<not> hsRunning (dmHttp d)" by blast
  have "no_faults W" "lookup_file W q = lookup_file w1 q" for q
    using e(2) by (simp_all add: no_faults_def next_step_def lookup_file_def W_def)
  then obtain u w3 where "unix_Start (NewUnixSocketServer (cfUnixSocketPath cfg)) W = ((None, u), w3)"
    using unix_start_clean [of W] p by metis
  then have "\<exists>d1. daemon_Start (Inr addr) d W = ((None, d1), w3)"
    using d(2,3) by (simp add: daemon_Start_def http_Start_def Let_def)
  then show ?thesis using d(1) by blast
qed

definition demo_config :: Config where
  "demo_config =
     \<lparr>cfUnixSocketPath = ''/s'', cfHTTPAddr = ''127.0.0.1:9443'', cfHMACSecret = ''k'', cfAuditLogPath = ''/a'', cfLockDir = ''/l'',
      cfJournalDir = ''/j'', cfDampingStateFile = ''/d'', cfHostUUID = ''h'', cfPollInterval = 2 * Second, cfMonitoredServices = [],
      cfMonitoredPaths = []\<rparr>"

lemmas open_defs = new_engine_def NewEngine_def demo_env_def NewCoordinator_def NewJournal_def NewController_def load_def NewLedger_def
  file_content_def os_MkdirAll_def sys_def next_step_def quiet_world_def no_faults_def lookup_file_def put_file_def

lemma demo_opens:
  "\<exists>e w1. new_engine demo_env (engine_config_of demo_config) quiet_world = (Inr e, w1) \<and> no_faults w1
     \<and> lookup_file w1 ''/s'' = None \<and> lookup_file w1 ''/'' = None"
  by (simp add: engine_config_of_def demo_config_def open_defs Let_def)


end
