(* ===== verification/Spec2Isabelle.thy ===== *)
theory Spec2Isabelle
  imports Ctl Daemon Ingress_Poller
begin

text \<open>
  \<^bold>\<open>Autonomous Remediation Engine\<close>

  The engine receives alerts over HTTP, a Unix socket, from its own poller of the operating system,
  or from an operator, selects a deterministic runbook for the resource, and runs it in a
  closed loop: lock the resource, ask the flap damping controller, check preconditions, stage a
  write-ahead log, execute the actions inside a blast radius, verify postconditions, and commit or
  roll back. Every state change is appended to a hash-chained audit ledger. All file names below are
  relative to \<open>src/\<close>.

  \<^bold>\<open>Layers and theories\<close>

  The Go runtime and standard library, as far as the code uses them:
    \<^item> \<open>Go_Prelude\<close>: time, durations, formatting, errors with their chains of sentinels.
    \<^item> \<open>Go_Path\<close>, \<open>Go_Strings\<close>: \<open>path/filepath\<close>, \<open>strings\<close>, \<open>strconv\<close> and \<open>bufio.Scanner\<close>
      with its token limit.
    \<^item> \<open>Json\<close>: \<open>encoding/json\<close>, printer and parser, compact and indented, with the round trip.
    \<^item> \<open>Go_Time\<close>: the calendar; every instant of the years 1 to 9999 survives its RFC 3339 text.
    \<^item> \<open>Sha256\<close>: SHA-256 on words of 32 bits.
    \<^item> \<open>Go_Duration\<close>: rounding to \<open>float64\<close>, conversions, \<open>time.ParseDuration\<close>; \<open>Go_Flags\<close>: the package
      \<open>flag\<close>.
    \<^item> \<open>Go_Os\<close>: the operating system as a record \<open>world\<close>. It holds the files, the advisory locks,
      the signals sent, the commands run and the variables that closures share; everything the
      program cannot control (clock, failures, processes, ports, disk usage) is an oracle indexed by
      a step counter, so that every system call can fail at every point. The locale \<open>world_inv\<close>
      states what it takes for a property of the world to survive every system call.

  The program:
    \<^item> \<open>Model\<close>: \<open>internal/model/model.go\<close>, the data of alerts and runbooks and the JSON of an alert.
    \<^item> \<open>Fsm\<close>: \<open>internal/model/state.go\<close>, the eleven states, the transition table and the machine
      with its history.
    \<^item> \<open>Damping\<close>: \<open>internal/damping/damping.go\<close>, cooldown, rate windows, quarantine and the state
      file.
    \<^item> \<open>Audit_Ledger\<close>: \<open>internal/audit/ledger.go\<close> and \<open>verify.go\<close>, appending to and verifying
      the ledger.
    \<^item> \<open>Lock\<close>: \<open>internal/lock/lock.go\<close>, advisory locks per resource.
    \<^item> \<open>Rollback\<close>: \<open>internal/rollback/journal.go\<close> and \<open>rollback.go\<close>, the write-ahead log and the
      replay of compensations.
    \<^item> \<open>Executor\<close>: \<open>internal/executor/executor.go\<close>; \<open>Verifier\<close>: \<open>internal/verifier/verifier.go\<close>.
    \<^item> \<open>Engine\<close>: \<open>internal/engine/engine.go\<close>. \<open>Remediate\<close> is one long function in Go; here each of
      its numbered steps is a definition (\<open>remediate_alert\<close>, \<open>remediate_matched\<close>,
      \<open>remediate_locked\<close>, \<open>stage_plan\<close>, \<open>execute_plan\<close>, \<open>commit\<close>, \<open>roll_back\<close>) that ends with a
      return or with the next step. A remediation works on a \<open>run\<close>: the engine, the world and its
      state machine. \<open>Engine_Trail\<close> relates the ledger to the machine.
    \<^item> \<open>Runbook_Disk\<close>, \<open>Runbook_Proc\<close>, \<open>Runbook_Tls\<close>, \<open>Runbook_Cfg\<close>: the four runbooks of
      \<open>internal/runbooks/runbooks.go\<close>; \<open>Runbook_Catalog\<close>: \<open>internal/runbooks/catalog.go\<close>, with the
      contract of a registry of runbooks as the locale \<open>registry\<close>, of which engine and catalogue are
      the instances.
    \<^item> \<open>Config\<close>, \<open>Config_Yaml\<close>, \<open>Config_Load\<close>: \<open>internal/config/config.go\<close>, its types and defaults, the
      YAML reader (\<open>ParseBasicYAML\<close>, \<open>parseYAMLBlock\<close>), and decoding into the defaults
      (\<open>UnmarshalJSON\<close>, \<open>ParseConfig\<close>, \<open>LoadConfig\<close>), where a slice is decoded into the elements it
      already has. The locale \<open>field_store\<close> is the contract of a decoder of struct fields.
    \<^item> \<open>Ingress_Metrics\<close>, \<open>Ingress_Http\<close>, \<open>Ingress_Socket\<close>, \<open>Ingress_Poller\<close>: the four files of
      \<open>internal/ingress\<close>. A \<open>host\<close> is the engine, the metrics and the world; every way in ends in
      \<open>process\<close>, which hands one alert to the engine and records the result.
    \<^item> \<open>Ai_Proposer\<close>: \<open>internal/ai/proposer.go\<close>, with the inference service as an argument.
    \<^item> \<open>Process_Env\<close>: what both programs find in their environment. \<open>Ctl\<close>:
      \<open>cmd/remediation-ctl/main.go\<close>, where a handler maps arguments and world to an \<open>ending\<close>: exit
      code, outputs, and the engine or damping controller it leaves. \<open>Daemon\<close>:
      \<open>cmd/remediation-daemon/main.go\<close>, construction, start, shutdown and \<open>main\<close>.
    \<^item> This theory: what connects the configuration file with the HTTP ingress of the daemon.

  \<^bold>\<open>Conventions\<close>

  Errors are values: a Go error is a \<open>goerror\<close> with its sentinels and text, \<^term>\<open>None\<close> when nil.
  A function value of a runbook takes the context and the world. \<open>int64\<close> arithmetic that can wrap
  wraps; sequence numbers of the ledger are words of 64 bits. A Go map is an association list with
  distinct keys; the unspecified order of a range over a map is an argument. Times are nanoseconds
  since the epoch, strings are byte strings. \<open>float64\<close> percentages are exact rationals except where
  the configuration is read, which rounds. Mutexes are not modelled: every operation is one critical
  section. The ledger and the damping file are components with their own disk state; the programs
  read their content when they open the engine.

  \<^bold>\<open>What is shown\<close>

    \<^item> State machine: histories are duplicate-free paths of the table; COMMITTED is reached only
      through precheck, execution and postcheck.
    \<^item> Damping: the exact condition of \<open>CanExecute\<close>; the rate limits over every sequence of gated
      executions; a refusal locks the resource for the quarantine; the state file is replaced as a
      whole.
    \<^item> Ledger: appended records verify and are restored on reopening; an accepted file cannot be
      changed at any record without a SHA-256 collision when its tail hash is known; what a failed
      fsync, an oversized record and unseparated fields do to it.
    \<^item> Locks: mutual exclusion, release, confinement of the lock files.
    \<^item> Write-ahead log and rollback: round trips, reverse order, torn updates, the compensations
      that a reloaded record has lost.
    \<^item> Executor and verifier: exact verdicts, the clamps that hold and those that are ignored.
    \<^item> Engine: success is sound; gates fail closed; the possible outcomes; no lock is leaked;
      damping counts exactly the committed runs; the ledger tells the history of the machine.
    \<^item> Runbooks: what the cleanup can delete, whom the recovery can signal, that its loops end, that
      a TLS rotation is undone (and when its compensation writes to the wrong files), that a
      configuration is swapped atomically, what the syntax check accepts; how the catalogue resolves
      identifiers and which alerts it leaves ambiguous.
    \<^item> Configuration: the YAML parser always returns; flat files are read back; every accepted
      configuration is well typed and gives the poller a positive interval; a service inherits the
      fields of a default one, and a list that is not indented hides the rest of the file. Here: the
      secret of the file guards the ingress, and the unindented list opens it.
    \<^item> Ingress: only authenticated complete alerts reach the engine over HTTP; alerts are read back
      from their JSON; the peer of a socket connection cannot be forged; the poller leaves a healthy
      system alone, and what its alerts select; the metrics are exact.
    \<^item> Proposer and client: a proposal names a catalogue runbook; a triage without \<open>--execute\<close>
      touches nothing, a live one runs what was proposed; exit codes tell whether the run committed;
      no other command remediates, but a status query can trip a breaker.
    \<^item> Daemon: the start is all or nothing, and a started daemon can always be stopped.

  \<^bold>\<open>Bounds and fuel\<close>

  The parser of JSON carries fuel, the length of its input, which the round trip shows to suffice.
  The polling loops of the service recovery carry \<open>poll_fuel\<close>, the number of sleeps that fit the
  timeout plus one; \<open>poll_loop_ends\<close> shows that no larger bound changes the result when sleeping
  takes the time it is asked to take. The YAML block parser carries
  \<open>block_fuel\<close>, twice the number of lines plus two: every nested call consumes a line or starts a
  block at one (\<open>yaml_block_total\<close>, which also shows that more fuel changes nothing). The loop of
  \<open>ParseDuration\<close> ends because each number with its unit shortens the text. All other loops are
  structural.

  \<^bold>\<open>Not modelled\<close>

  Goroutines and their interleaving below the granularity of one alert: the accept loops, the ticker
  of the poller and the daemon between start and signal are sequences of operations or the argument
  \<open>work\<close> of \<open>daemon_main\<close>. Sockets, HTTP framing, TLS and X.509 decoding, inference, \<open>sort.Slice\<close>,
  \<open>ParseFloat\<close> on YAML scalars and the shortest printing of a float are arguments. The escaping of
  invalid UTF-8, time stamps of log lines and the accessors that copy a field are left out.
\<close>

section \<open>From the configuration file to the ingress\<close>

text \<open>A request whose signature header is the HMAC of its body under a secret.\<close>

definition signed_with :: "string \<Rightarrow> request \<Rightarrow> bool" where
  "signed_with secret rq \<longleftrightarrow>
     (case rqBody rq of
        Inl _ \<Rightarrow> False
      | Inr body \<Rightarrow> ascii_lower (sig_header rq) = ascii_lower (hex_EncodeToString (hmac_sha256 secret body)))"

text \<open>A request that carries an alert with an id and a resource, signed or not.\<close>

definition carries_alert :: "request \<Rightarrow> bool" where
  "carries_alert rq \<longleftrightarrow> rqMethod rq = ''POST''
     \<and> (case rqBody rq of
          Inl _ \<Rightarrow> False
        | Inr body \<Rightarrow> length body \<le> MaxBody
            \<and> (case unmarshal_alert body of Inl _ \<Rightarrow> False | Inr a \<Rightarrow> alID a \<noteq> '''' \<and> alResourceID a \<noteq> ''''))"

lemma unsigned_refused:
  "hsHMACSecret s \<noteq> '''' \<Longrightarrow> \<not> signed_with (hsHMACSecret s) rq \<Longrightarrow>
     snd (handleAlerts ord s rq h) = h \<and> rsStatus (fst (handleAlerts ord s rq h)) \<noteq> 200"
proof -
  assume secret: "hsHMACSecret s \<noteq> []" "\<not> signed_with (hsHMACSecret s) rq"
  have "check_signature s rq body \<noteq> None" if "read_body rq = Some body" for body
  proof -
    have "rqBody rq = Inr body" using that by (simp add: read_body_def split: sum.splits if_splits)
    then show ?thesis using secret by (simp add: check_signature_def signed_with_def)
  qed
  then show ?thesis
    by (cases "read_body rq") (auto simp: handleAlerts_def http_Error_def json_response_def)
qed

lemma open_ingress_accepts:
  "hsHMACSecret s = '''' \<Longrightarrow> carries_alert rq \<Longrightarrow> rsStatus (fst (handleAlerts ord s rq h)) = 200"
  by (auto simp: handleAlerts_def read_body_def check_signature_def carries_alert_def json_response_def Let_def split_beta
      split: sum.splits)

lemma LoadConfig_file:
  assumes "path \<noteq> ''''" "lookup_file w path = Some (FileNode content)" "oFault w (steps w) = None"
  shows "LoadConfig fl hostname path w = (ParseConfig fl hostname content (next_step w), next_step w)"
proof -
  have "lookup_file (next_step w) path = Some (FileNode content)" using assms(2) by (simp add: lookup_file_def next_step_def)
  then show ?thesis using assms by (simp add: LoadConfig_def os_ReadFile_def sys_def)
qed

lemma NewDaemon_secret: "NewDaemon E hostname (Some cfg) w = (Inr d, w') \<Longrightarrow> hsHMACSecret (dmHttp d) = cfHMACSecret cfg"
  by (auto simp: NewDaemon_def NewHTTPServer_def Let_def split: sum.splits prod.splits option.splits)

lemma daemon_Start_secret: "daemon_Start listen d w = ((err, d'), w') \<Longrightarrow> hsHMACSecret (dmHttp d') = hsHMACSecret (dmHttp d)"
  by (auto simp: daemon_Start_def http_Start_def Let_def split: prod.splits option.splits sum.splits if_splits)

text \<open>The HTTP server of a daemon that was started from a configuration file.\<close>

definition started_http ::
    "env \<Rightarrow> floats \<Rightarrow> string \<Rightarrow> string \<Rightarrow> goerror + string \<Rightarrow> world \<Rightarrow> (goerror + HTTPServer) \<times> world" where
  "started_http E fl hostname path listen w =
     (case LoadConfig fl hostname path w of
        (Inl e, w1) \<Rightarrow> (Inl e, w1)
      | (Inr cfg, w1) \<Rightarrow>
          (case NewDaemon E hostname (Some cfg) w1 of
             (Inl e, w2) \<Rightarrow> (Inl e, w2)
           | (Inr d, w2) \<Rightarrow>
               (case daemon_Start listen d w2 of
                  ((Some e, _), w3) \<Rightarrow> (Inl e, w3)
                | ((None, d1), w3) \<Rightarrow> (Inr (dmHttp d1), w3))))"

lemma started_http_secret:
  assumes "LoadConfig fl hostname path w = (Inr cfg, w1)" "started_http E fl hostname path listen w = (Inr s, w')"
  shows "hsHMACSecret s = cfHMACSecret cfg"
proof -
  obtain d w2 where d: "NewDaemon E hostname (Some cfg) w1 = (Inr d, w2)"
    using assms by (auto simp: started_http_def split: sum.splits prod.splits)
  then obtain d1 where "daemon_Start listen d w2 = ((None, d1), w')" "s = dmHttp d1"
    using assms by (auto simp: started_http_def split: prod.splits option.splits)
  then show ?thesis using NewDaemon_secret [OF d] daemon_Start_secret by metis
qed

section \<open>A concrete start\<close>

definition file_world :: "bytes \<Rightarrow> world" where
  "file_world content = quiet_world\<lparr>files := [(''/c'', FileNode content)]\<rparr>"

lemma file_world_facts:
  "lookup_file (file_world content) ''/c'' = Some (FileNode content)" "oFault (file_world content) n = None"
  by (simp_all add: file_world_def quiet_world_def lookup_file_def)

lemma file_world_opens:
  "\<exists>e w1. new_engine demo_env \<lparr>cfgLockDir = ''/tmp/remediation-locks/'', cfgAuditLogPath = ''/tmp/remediation-audit.wal'',
       cfgJournalDir = ''/tmp/remediation-journal/'', cfgHostUUID = ''h'', cfgDampingStatePath = ''/tmp/remediation-damping.json''\<rparr>
       (next_step (file_world content))
     = (Inr e, w1) \<and> no_faults w1 \<and> lookup_file w1 ''/tmp/remediation.sock'' = None \<and> lookup_file w1 ''/tmp'' = None"
  by (simp add: file_world_def open_defs Let_def)

lemma file_world_socket: "cfUnixSocketPath (DefaultConfig h (next_step (file_world content))) = ''/tmp/remediation.sock''"
  by (simp add: DefaultConfig_def file_world_def quiet_world_def next_step_def)

text \<open>A daemon that starts from a file which leaves the paths at their defaults.\<close>

lemma file_world_starts:
  assumes load: "LoadConfig fl ''h'' ''/c'' (file_world content) = (Inr cfg, next_step (file_world content))"
    and cfg: "engine_config_of cfg = engine_config_of (DefaultConfig ''h'' (next_step (file_world content)))"
      "cfUnixSocketPath cfg = ''/tmp/remediation.sock''"
  shows "\<exists>s w'. started_http demo_env fl ''h'' ''/c'' (Inr addr) (file_world content) = (Inr s, w')"
proof -
  have ec: "engine_config_of cfg = \<lparr>cfgLockDir = ''/tmp/remediation-locks/'', cfgAuditLogPath = ''/tmp/remediation-audit.wal'',
       cfgJournalDir = ''/tmp/remediation-journal/'', cfgHostUUID = ''h'', cfgDampingStatePath = ''/tmp/remediation-damping.json''\<rparr>"
    unfolding cfg(1) by (simp add: engine_config_of_def DefaultConfig_def file_world_def quiet_world_def next_step_def)
  have dir: "filepath_Dir ''/tmp/remediation.sock'' = ''/tmp''" by code_simp
  obtain e w1 where "new_engine demo_env (engine_config_of cfg) (next_step (file_world content)) = (Inr e, w1)" "no_faults w1"
    "lookup_file w1 ''/tmp/remediation.sock'' = None" "lookup_file w1 ''/tmp'' = None"
    unfolding ec using file_world_opens by blast
  then obtain d w2 d1 w3 where "NewDaemon demo_env ''h'' (Some cfg) (next_step (file_world content)) = (Inr d, w2)"
    "daemon_Start (Inr addr) d w2 = ((None, d1), w3)"
    using clean_start [of demo_env cfg "next_step (file_world content)" e w1 "''h''" addr] by (auto simp: cfg(2) dir)
  then show ?thesis by (simp add: started_http_def load)
qed

section \<open>Whom the ingress lets in\<close>



text \<open>
  C19: An unindented list opens the ingress. When the configuration file has the items of its
  services at the indentation of their key, as YAML allows, and then sets \<open>hmac_secret\<close>, the daemon
  that starts from it accepts every complete alert without a signature, whatever the secret in the
  file is.
\<close>

theorem unindented_list_opens_ingress:
  assumes "newline \<notin> set v" "dquote \<notin> set v" "length v < 65521"
    and "path \<noteq> ''''" "lookup_file w path = Some (FileNode (unindented_config v))" "oFault w (steps w) = None"
  shows "case started_http E fl hostname path listen w of
     (Inl _, _) \<Rightarrow> True
   | (Inr s, _) \<Rightarrow> \<forall>rq h. if carries_alert rq then rsStatus (fst (handleAlerts ord s rq h)) = 200 else True"
proof -
  have load: "LoadConfig fl hostname path w = (Inr ((DefaultConfig hostname (next_step w))\<lparr>cfMonitoredServices := []\<rparr>), next_step w)"
    using LoadConfig_file [OF assms(4-6)] config_unindented_list [OF assms(1-3)] by simp
  have "hsHMACSecret s = ''''" if "started_http E fl hostname path listen w = (Inr s, w')" for s w'
    using started_http_secret [OF load that] by (simp add: default_secret)
  then show ?thesis using open_ingress_accepts by (auto split: prod.split sum.split)
qed

theorem unindented_list_opens_ingress_witness:
  "\<exists>s w'. started_http demo_env \<lparr>flParse = \<lambda>_. None, flPrint = \<lambda>_. ''0''\<rparr> ''h'' ''/c'' (Inr ''a'')
       (file_world (unindented_config ''s3cret'')) = (Inr s, w')
     \<and> (\<forall>rq h. if carries_alert rq then rsStatus (fst (handleAlerts rev s rq h)) = 200 else True)"
proof -
  define fl where "fl = \<lparr>flParse = \<lambda>_::string. None :: gofloat option, flPrint = \<lambda>_::rat. ''0''\<rparr>"
  define w where "w = file_world (unindented_config ''s3cret'')"
  have v: "newline \<notin> set ''s3cret''" "dquote \<notin> set ''s3cret''" "length ''s3cret'' < 65521" "''/c'' \<noteq> ''''"
    by (simp_all add: newline_def dquote_def)
  note facts = file_world_facts [of "unindented_config ''s3cret''", folded w_def]
  have "LoadConfig fl ''h'' ''/c'' w = (Inr ((DefaultConfig ''h'' (next_step w))\<lparr>cfMonitoredServices := []\<rparr>), next_step w)"
    using LoadConfig_file [OF v(4) facts] config_unindented_list [OF v(1-3), of fl "''h''" "next_step w"] by simp
  from file_world_starts [OF this [unfolded w_def], of "''a''"] obtain s w' where s: "started_http demo_env fl ''h'' ''/c'' (Inr ''a'') w = (Inr s, w')"
    unfolding w_def by (auto simp: engine_config_of_def file_world_socket)
  have "\<forall>rq h. if carries_alert rq then rsStatus (fst (handleAlerts rev s rq h)) = 200 else True"
    using unindented_list_opens_ingress [where E = demo_env and fl = fl and hostname = "''h''" and listen = "Inr ''a''" and ord = rev, OF v facts] s by simp
  then show ?thesis using s unfolding w_def fl_def by blast
qed

end
